(* ===== verification/Relio_Prelude.thy ===== *)
theory Relio_Prelude
  imports Main "HOL-Library.Sublist" "HOL-Library.Char_ord" "HOL-Library.List_Lexorder"
begin

text \<open>
  Shared vocabulary of the Relio development: the part of Go's \<open>strings\<close> package the services
  use, instants and durations, Go's integer division, and the list and table lemmas that the
  component theories lean on.

  A Go \<open>string\<close> is its UTF-8 bytes, one \<open>char\<close> each. White space is trimmed exactly as
  \<open>strings.TrimSpace\<close> does it, for every Unicode space. Case mapping covers ASCII and the code
  points whose image is ASCII (U+0131 and U+017F upwards, U+0130 and U+212A downwards); the other
  letters are left alone, because the services only compare a mapped string with ASCII constants.
\<close>

named_theorems table_simps "rewriting with rows, keys and updates of tables"
named_theorems go_string_simps "rewriting with the strings package"

section \<open>Strings\<close>

subsection \<open>Trimming\<close>

function strip_prefixes :: "string list \<Rightarrow> string \<Rightarrow> string" where
  "strip_prefixes ps s =
     (case List.find (\<lambda>p. p \<noteq> [] \<and> prefix p s) ps of
        None \<Rightarrow> s
      | Some p \<Rightarrow> strip_prefixes ps (drop (length p) s))"
  by pat_completeness auto
termination
proof (relation "measure (\<lambda>(ps, s). length s)")
  fix ps s p
  assume "List.find (\<lambda>p. p \<noteq> [] \<and> prefix p s) ps = Some p"
  then have "p \<noteq> []" and "prefix p s" by (auto simp: find_Some_iff)
  then show "((ps, drop (length p) s), ps, s) \<in> measure (\<lambda>(ps, s). length s)"
    by (cases p; cases s) auto
qed simp

declare strip_prefixes.simps [simp del]

text \<open>The UTF-8 encodings of the code points for which \<open>unicode.IsSpace\<close> holds.\<close>

definition go_spaces :: "string list" where
  "go_spaces =
     [[CHR 0x09], [CHR 0x0A], [CHR 0x0B], [CHR 0x0C], [CHR 0x0D], [CHR 0x20],
      [CHR 0xC2, CHR 0x85], [CHR 0xC2, CHR 0xA0], [CHR 0xE1, CHR 0x9A, CHR 0x80],
      [CHR 0xE2, CHR 0x80, CHR 0x80], [CHR 0xE2, CHR 0x80, CHR 0x81], [CHR 0xE2, CHR 0x80, CHR 0x82],
      [CHR 0xE2, CHR 0x80, CHR 0x83], [CHR 0xE2, CHR 0x80, CHR 0x84], [CHR 0xE2, CHR 0x80, CHR 0x85],
      [CHR 0xE2, CHR 0x80, CHR 0x86], [CHR 0xE2, CHR 0x80, CHR 0x87], [CHR 0xE2, CHR 0x80, CHR 0x88],
      [CHR 0xE2, CHR 0x80, CHR 0x89], [CHR 0xE2, CHR 0x80, CHR 0x8A], [CHR 0xE2, CHR 0x80, CHR 0xA8],
      [CHR 0xE2, CHR 0x80, CHR 0xA9], [CHR 0xE2, CHR 0x80, CHR 0xAF], [CHR 0xE2, CHR 0x81, CHR 0x9F],
      [CHR 0xE3, CHR 0x80, CHR 0x80]]"

definition trim_space :: "string \<Rightarrow> string" where
  "trim_space s = rev (strip_prefixes (map rev go_spaces) (rev (strip_prefixes go_spaces s)))"

text \<open>A blank string: nothing is left after trimming.\<close>

definition blank :: "string \<Rightarrow> bool" where
  "blank s \<longleftrightarrow> trim_space s = []"

lemma strip_prefixes_id:
  assumes "\<And>p. p \<in> set ps \<Longrightarrow> p \<noteq> [] \<Longrightarrow> \<not> prefix p s"
  shows "strip_prefixes ps s = s"
proof -
  have "List.find (\<lambda>p. p \<noteq> [] \<and> prefix p s) ps = None"
    using assms by (auto simp: find_None_iff)
  then show ?thesis by (simp add: strip_prefixes.simps [of ps s])
qed

lemma strip_prefixes_no_prefix:
  "p \<in> set ps \<Longrightarrow> p \<noteq> [] \<Longrightarrow> \<not> prefix p (strip_prefixes ps s)"
proof (induction ps s rule: strip_prefixes.induct)
  case (1 ps s)
  show ?case
  proof (cases "List.find (\<lambda>p. p \<noteq> [] \<and> prefix p s) ps")
    case None
    then have "\<not> prefix p s" using "1.prems" by (auto simp: find_None_iff)
    with None show ?thesis by (simp add: strip_prefixes.simps [of ps s])
  next
    case (Some q)
    then show ?thesis using "1.IH" [OF Some] "1.prems"
      by (simp add: strip_prefixes.simps [of ps s])
  qed
qed

lemma strip_prefixes_suffix: "suffix (strip_prefixes ps s) s"
proof (induction ps s rule: strip_prefixes.induct)
  case (1 ps s)
  show ?case
  proof (cases "List.find (\<lambda>p. p \<noteq> [] \<and> prefix p s) ps")
    case None
    then show ?thesis by (simp add: strip_prefixes.simps [of ps s])
  next
    case (Some q)
    have "suffix (strip_prefixes ps (drop (length q) s)) (drop (length q) s)"
      by (rule "1.IH" [OF Some])
    also have "suffix (drop (length q) s) s" by (rule suffix_drop)
    finally show ?thesis using Some by (simp add: strip_prefixes.simps [of ps s])
  qed
qed

lemma prefix_trim_left: "prefix (trim_space s) (strip_prefixes go_spaces s)"
  unfolding trim_space_def
  by (metis rev_rev_ident strip_prefixes_suffix suffix_to_prefix)

lemma trim_space_idem [simp, go_string_simps]: "trim_space (trim_space s) = trim_space s"
proof -
  have left: "strip_prefixes go_spaces (trim_space s) = trim_space s"
  proof (rule strip_prefixes_id)
    fix p assume "p \<in> set go_spaces" and "p \<noteq> []"
    then have "\<not> prefix p (strip_prefixes go_spaces s)" by (rule strip_prefixes_no_prefix)
    then show "\<not> prefix p (trim_space s)"
      using prefix_trim_left prefix_order.trans by blast
  qed
  have right: "strip_prefixes (map rev go_spaces) (rev (trim_space s)) = rev (trim_space s)"
  proof (rule strip_prefixes_id)
    fix p assume "p \<in> set (map rev go_spaces)" and "p \<noteq> []"
    then show "\<not> prefix p (rev (trim_space s))"
      unfolding trim_space_def by (simp add: strip_prefixes_no_prefix del: set_map)
  qed
  show ?thesis by (subst trim_space_def) (simp add: left right)
qed

lemma trim_space_Nil [simp, go_string_simps]: "trim_space [] = []"
  by (simp add: trim_space_def strip_prefixes_id)

lemma blank_Nil [simp]: "blank []"
  by (simp add: blank_def)

lemma blank_trim [simp]: "blank (trim_space s) = blank s"
  by (simp add: blank_def)

lemma not_blank_trim: "\<not> blank s \<Longrightarrow> trim_space s \<noteq> []"
  by (simp add: blank_def)

subsection \<open>Case mapping\<close>

definition up_char :: "char \<Rightarrow> char" where
  "up_char c = (if CHR ''a'' \<le> c \<and> c \<le> CHR ''z'' then char_of (of_char c - 32 :: nat) else c)"

definition low_char :: "char \<Rightarrow> char" where
  "low_char c = (if CHR ''A'' \<le> c \<and> c \<le> CHR ''Z'' then char_of (of_char c + 32 :: nat) else c)"

fun to_upper :: "string \<Rightarrow> string" where
  "to_upper [] = []"
| "to_upper [c] = [up_char c]"
| "to_upper (c # d # cs) =
     (if c = CHR 0xC4 \<and> d = CHR 0xB1 then CHR ''I'' # to_upper cs
      else if c = CHR 0xC5 \<and> d = CHR 0xBF then CHR ''S'' # to_upper cs
      else up_char c # to_upper (d # cs))"

fun to_lower :: "string \<Rightarrow> string" where
  "to_lower [] = []"
| "to_lower [c] = [low_char c]"
| "to_lower [c, d] =
     (if c = CHR 0xC4 \<and> d = CHR 0xB0 then [CHR ''i''] else [low_char c, low_char d])"
| "to_lower (c # d # e # cs) =
     (if c = CHR 0xC4 \<and> d = CHR 0xB0 then CHR ''i'' # to_lower (e # cs)
      else if c = CHR 0xE2 \<and> d = CHR 0x84 \<and> e = CHR 0xAA then CHR ''k'' # to_lower cs
      else low_char c # to_lower (d # e # cs))"

text \<open>
  \<open>strings.EqualFold\<close> identifies K with U+212A and S with U+017F, and unlike \<open>ToLower\<close> it keeps
  U+0130 apart from i.
\<close>

fun fold_key :: "string \<Rightarrow> string" where
  "fold_key [] = []"
| "fold_key [c] = [low_char c]"
| "fold_key [c, d] =
     (if c = CHR 0xC5 \<and> d = CHR 0xBF then [CHR ''s''] else [low_char c, low_char d])"
| "fold_key (c # d # e # cs) =
     (if c = CHR 0xC5 \<and> d = CHR 0xBF then CHR ''s'' # fold_key (e # cs)
      else if c = CHR 0xE2 \<and> d = CHR 0x84 \<and> e = CHR 0xAA then CHR ''k'' # fold_key cs
      else low_char c # fold_key (d # e # cs))"

declare to_upper.simps [simp del] to_lower.simps [simp del] fold_key.simps [simp del]

definition equal_fold :: "string \<Rightarrow> string \<Rightarrow> bool" where
  "equal_fold a b \<longleftrightarrow> fold_key a = fold_key b"

lemma equal_fold_refl [simp]: "equal_fold a a"
  by (simp add: equal_fold_def)

lemma equal_fold_sym: "equal_fold a b = equal_fold b a"
  by (auto simp: equal_fold_def)

subsection \<open>Splitting and searching\<close>

fun split_on :: "char \<Rightarrow> string \<Rightarrow> string list" where
  "split_on sep [] = [[]]"
| "split_on sep (c # cs) =
     (if c = sep then [] # split_on sep cs
      else case split_on sep cs of [] \<Rightarrow> [[c]] | w # ws \<Rightarrow> (c # w) # ws)"

text \<open>\<open>strings.Cut\<close> at a one-character separator: before, after, found.\<close>

definition cut_at :: "char \<Rightarrow> string \<Rightarrow> string \<times> string \<times> bool" where
  "cut_at sep s =
     (if sep \<in> set s then (takeWhile (\<lambda>c. c \<noteq> sep) s, tl (dropWhile (\<lambda>c. c \<noteq> sep) s), True)
      else (s, [], False))"

definition contains_sub :: "string \<Rightarrow> string \<Rightarrow> bool" where
  "contains_sub s t \<longleftrightarrow> sublist t s"

fun join_with :: "string \<Rightarrow> string list \<Rightarrow> string" where
  "join_with sep [] = []"
| "join_with sep [w] = w"
| "join_with sep (w # v # ws) = w @ sep @ join_with sep (v # ws)"

lemma split_on_not_Nil [simp]: "split_on sep s \<noteq> []"
  by (induction s) (auto split: list.splits)

lemma split_on_no_sep: "sep \<notin> set s \<Longrightarrow> split_on sep s = [s]"
  by (induction s) auto

lemma split_on_append_sep:
  "sep \<notin> set a \<Longrightarrow> split_on sep (a @ sep # b) = a # split_on sep b"
  by (induction a) auto

lemma cut_at_append:
  assumes "sep \<notin> set a"
  shows "cut_at sep (a @ sep # b) = (a, b, True)"
proof -
  have "takeWhile (\<lambda>c. c \<noteq> sep) (a @ sep # b) = a"
    using assms by (subst takeWhile_append2) auto
  moreover have "dropWhile (\<lambda>c. c \<noteq> sep) (a @ sep # b) = sep # b"
    using assms by (subst dropWhile_append2) auto
  ultimately show ?thesis by (simp add: cut_at_def)
qed

section \<open>Numbers and time\<close>

text \<open>
  An instant is a number of nanoseconds since the Unix epoch; a duration is Go's
  \<open>time.Duration\<close>, an \<open>int64\<close> number of nanoseconds, so its products wrap around.
\<close>

type_synonym instant = int
type_synonym duration = int

definition wrap64 :: "int \<Rightarrow> int" where
  "wrap64 n = signed_take_bit 63 n"

definition second_ns :: duration where "second_ns = 1000000000"
definition minute_ns :: duration where "minute_ns = 60000000000"
definition hour_ns :: duration where "hour_ns = 3600000000000"
definition day_ns :: duration where "day_ns = 86400000000000"

text \<open>\<open>time.Duration(n) * time.Hour\<close> and its companions.\<close>

definition hours :: "int \<Rightarrow> duration" where
  "hours n = wrap64 (n * hour_ns)"

definition minutes :: "int \<Rightarrow> duration" where
  "minutes n = wrap64 (n * minute_ns)"

lemma wrap64_id: "- (2 ^ 63) \<le> n \<Longrightarrow> n < 2 ^ 63 \<Longrightarrow> wrap64 n = n"
  by (simp add: wrap64_def signed_take_bit_int_eq_self)

lemma hours_exact: "0 \<le> n \<Longrightarrow> n \<le> 2562047 \<Longrightarrow> hours n = n * hour_ns"
  by (simp add: hours_def hour_ns_def wrap64_id)

lemma minutes_exact: "0 \<le> n \<Longrightarrow> n \<le> 153722867 \<Longrightarrow> minutes n = n * minute_ns"
  by (simp add: minutes_def minute_ns_def wrap64_id)

text \<open>Go's integer division and remainder truncate towards zero.\<close>

definition quot :: "int \<Rightarrow> int \<Rightarrow> int" where
  "quot a b = sgn a * sgn b * (\<bar>a\<bar> div \<bar>b\<bar>)"

definition rem_t :: "int \<Rightarrow> int \<Rightarrow> int" where
  "rem_t a b = a - quot a b * b"

lemma quot_nonneg: "0 \<le> a \<Longrightarrow> 0 < b \<Longrightarrow> quot a b = a div b"
  by (cases "a = 0") (auto simp: quot_def)

lemma rem_t_nonneg: "0 \<le> a \<Longrightarrow> 0 < b \<Longrightarrow> rem_t a b = a mod b"
  by (simp add: rem_t_def quot_nonneg minus_div_mult_eq_mod)

section \<open>Tables\<close>

text \<open>
  A database table is the list of its rows. The statements of the source that change a table are
  updates and deletions by a condition and insertions; what they leave alone is said once here.
\<close>

definition update_where :: "('r \<Rightarrow> bool) \<Rightarrow> ('r \<Rightarrow> 'r) \<Rightarrow> 'r list \<Rightarrow> 'r list" where
  "update_where P f rows = map (\<lambda>r. if P r then f r else r) rows"

definition delete_where :: "('r \<Rightarrow> bool) \<Rightarrow> 'r list \<Rightarrow> 'r list" where
  "delete_where P rows = filter (\<lambda>r. \<not> P r) rows"

definition count_where :: "('r \<Rightarrow> bool) \<Rightarrow> 'r list \<Rightarrow> nat" where
  "count_where P rows = length (filter P rows)"

definition row_by :: "('r \<Rightarrow> 'k) \<Rightarrow> 'k \<Rightarrow> 'r list \<Rightarrow> 'r option" where
  "row_by key k rows = List.find (\<lambda>r. key r = k) rows"

definition keys :: "('r \<Rightarrow> 'k) \<Rightarrow> 'r list \<Rightarrow> 'k list" where
  "keys key rows = map key rows"

lemma update_where_Nil [simp]: "update_where P f [] = []"
  by (simp add: update_where_def)

lemma update_where_Cons [simp]:
  "update_where P f (r # rows) = (if P r then f r else r) # update_where P f rows"
  by (simp add: update_where_def)

lemma length_update_where [table_simps]: "length (update_where P f rows) = length rows"
  by (simp add: update_where_def)

lemma keys_update_where [table_simps]:
  assumes "\<And>r. key (f r) = key r"
  shows "keys key (update_where P f rows) = keys key rows"
  using assms by (auto simp: update_where_def keys_def)

lemma row_by_Nil [simp]: "row_by key k [] = None"
  by (simp add: row_by_def)

lemma row_by_Cons [simp]:
  "row_by key k (r # rows) = (if key r = k then Some r else row_by key k rows)"
  by (simp add: row_by_def)

lemma row_by_append [table_simps]:
  "row_by key k (xs @ ys) = (case row_by key k xs of None \<Rightarrow> row_by key k ys | Some r \<Rightarrow> Some r)"
  by (induction xs) auto

lemma row_by_update_where [table_simps]:
  assumes "\<And>r. key (f r) = key r"
  shows "row_by key k (update_where P f rows) =
    map_option (\<lambda>r. if P r then f r else r) (row_by key k rows)"
  using assms by (induction rows) auto

lemma row_by_Some_key: "row_by key k rows = Some r \<Longrightarrow> key r = k"
  by (induction rows) (auto split: if_splits)

lemma row_by_Some_mem: "row_by key k rows = Some r \<Longrightarrow> r \<in> set rows"
  by (induction rows) (auto split: if_splits)

lemma row_by_None_iff: "row_by key k rows = None \<longleftrightarrow> k \<notin> set (keys key rows)"
  by (induction rows) (auto simp: keys_def)

lemma row_by_unique:
  "distinct (keys key rows) \<Longrightarrow> r \<in> set rows \<Longrightarrow> row_by key (key r) rows = Some r"
  by (induction rows) (auto simp: keys_def)

lemma row_by_delete_where [table_simps]:
  assumes "distinct (keys key rows)"
  shows "row_by key k (delete_where P rows) =
    (case row_by key k rows of None \<Rightarrow> None | Some r \<Rightarrow> if P r then None else Some r)"
  using assms
proof (induction rows)
  case (Cons r rows)
  have "key r = k \<Longrightarrow> row_by key k (delete_where P rows) = None"
    using Cons.prems by (auto simp: row_by_None_iff keys_def delete_where_def)
  then show ?case using Cons by (auto simp: delete_where_def keys_def)
qed (simp add: delete_where_def)

lemma set_update_where:
  "set (update_where P f rows) = (\<lambda>r. if P r then f r else r) ` set rows"
  by (auto simp: update_where_def)

lemma count_where_zero_iff [table_simps]: "count_where P rows = 0 \<longleftrightarrow> (\<forall>r \<in> set rows. \<not> P r)"
  by (auto simp: count_where_def filter_empty_conv)

lemma set_map_filter: "set (List.map_filter f xs) = {y. \<exists>x \<in> set xs. f x = Some y}"
  by (auto simp: map_filter_def intro!: image_eqI)

lemma update_where_none: "(\<And>r. r \<in> set rows \<Longrightarrow> \<not> P r) \<Longrightarrow> update_where P f rows = rows"
  by (induction rows) auto

lemma find_Some_mem: "List.find P xs = Some x \<Longrightarrow> x \<in> set xs \<and> P x"
  by (auto simp: find_Some_iff)

lemma list_all2_mem: "list_all2 P xs ys \<Longrightarrow> x \<in> set xs \<Longrightarrow> \<exists>y \<in> set ys. P x y"
  by (induction rule: list_all2_induct) auto

text \<open>Go's stable descending sort by an integer rank (\<open>sort.SliceStable\<close> with \<open>>\<close>).\<close>

definition sort_desc :: "('a \<Rightarrow> int) \<Rightarrow> 'a list \<Rightarrow> 'a list" where
  "sort_desc rank xs = sort_key (\<lambda>x. - rank x) xs"

lemma set_sort_desc [simp]: "set (sort_desc rank xs) = set xs"
  by (simp add: sort_desc_def)

lemma length_sort_desc [simp]: "length (sort_desc rank xs) = length xs"
  by (simp add: sort_desc_def)

lemma sort_desc_sorted: "sorted_wrt (\<lambda>x y. rank x \<ge> rank y) (sort_desc rank xs)"
proof -
  have "sorted (map (\<lambda>x. - rank x) (sort_desc rank xs))"
    unfolding sort_desc_def by (rule sorted_sort_key)
  then show ?thesis by (simp add: sorted_map)
qed

lemma sort_desc_hd_max:
  assumes "x \<in> set xs"
  shows "rank x \<le> rank (hd (sort_desc rank xs))"
proof -
  have "x \<in> set (sort_desc rank xs)" using assms by simp
  then show ?thesis
    using sort_desc_sorted [of rank xs] by (cases "sort_desc rank xs") auto
qed

text \<open>\<open>ORDER BY f, g\<close> as two stable sorts, and the first row that satisfies a condition.\<close>

lemma sorted_wrt_two:
  assumes "sorted (map f L)" and "\<And>k. sorted (map g (filter (\<lambda>y. f y = k) L))"
  shows "sorted_wrt (\<lambda>x y. f x < f y \<or> (f x = f y \<and> g x \<le> g y)) L"
  using assms
proof (induction L)
  case (Cons x L)
  have "f x < f y \<or> (f x = f y \<and> g x \<le> g y)" if "y \<in> set L" for y
    using Cons.prems(1) Cons.prems(2) [of "f x"] that by (cases "f x = f y") auto
  moreover have "sorted (map g (filter (\<lambda>y. f y = k) L))" for k
    using Cons.prems(2) [of k] by (cases "f x = k") auto
  ultimately show ?case using Cons by auto
qed simp

lemma sort_two_sorted:
  "sorted_wrt (\<lambda>x y. f x < f y \<or> (f x = f y \<and> g x \<le> g y)) (sort_key f (sort_key g xs))"
proof (rule sorted_wrt_two)
  fix k
  have "filter (\<lambda>y. f y = k) (sort_key f (sort_key g xs)) = sort_key g (filter (\<lambda>y. f y = k) xs)"
    by (simp add: sort_key_stable filter_sort)
  then show "sorted (map g (filter (\<lambda>y. f y = k) (sort_key f (sort_key g xs))))" by simp
qed simp

lemma find_first_sorted:
  "sorted_wrt R L \<Longrightarrow> List.find P L = Some x \<Longrightarrow> y \<in> set L \<Longrightarrow> P y \<Longrightarrow> y = x \<or> R x y"
  by (induction L) (auto split: if_splits)

end
