(* ===== verification/Store.thy ===== *)
theory Store
  imports Relio_Prelude
begin

text \<open>
  How a service talks to PostgreSQL. A method of a service is a function of the world: the tables
  it can reach, the outcome of its coming database calls (a failed call is Go's non-nil \<open>err\<close>) and
  what other sessions commit in between. Statements issued on the pool (\<open>s.DB.Exec\<close>,
  \<open>s.DB.QueryRow\<close>) see the commits of other sessions that arrived before them; a transaction
  (\<open>s.DB.Begin\<close> \<dots> \<open>tx.Commit\<close>) is one step that is undone as a whole unless it commits.

  The theory ends with a rely-guarantee triple over such methods: what a method assumes of the
  other sessions, what each of its own committed steps does, and what it returns.
\<close>

section \<open>The world of a method\<close>

record 's world =
  tabs :: 's
  faults :: "bool list"
  others :: "('s \<Rightarrow> 's) list"

text \<open>
  The outcomes of a method besides a value: a database error, \<open>pgx.ErrNoRows\<close>, a Go panic, the
  error of \<open>auth.Require\<close> for a missing permission, or an error the service itself constructs.
\<close>

datatype 'e err = Db_failed | No_rows | Panicked | Forbidden string | App 'e

type_synonym ('s, 'e, 'a) go = "'s world \<Rightarrow> ('e err + 'a) \<times> 's world"

definition calm :: "'s \<Rightarrow> 's world" where
  "calm s = \<lparr>tabs = s, faults = [], others = []\<rparr>"

lemma calm_sel [simp]: "tabs (calm s) = s" "faults (calm s) = []" "others (calm s) = []"
  by (simp_all add: calm_def)

lemma calm_update [simp]: "(calm s)\<lparr>tabs := t\<rparr> = calm t"
  by (simp add: calm_def)

definition ret :: "'a \<Rightarrow> ('s, 'e, 'a) go" where
  "ret x w = (Inr x, w)"

definition raise :: "'e err \<Rightarrow> ('s, 'e, 'a) go" where
  "raise e w = (Inl e, w)"

text \<open>Sequencing with Go's \<open>if err != nil { return err }\<close>.\<close>

definition and_then :: "('s, 'e, 'a) go \<Rightarrow> ('a \<Rightarrow> ('s, 'e, 'b) go) \<Rightarrow> ('s, 'e, 'b) go" where
  "and_then m f w = (case m w of (Inl e, v) \<Rightarrow> (Inl e, v) | (Inr x, v) \<Rightarrow> f x v)"

text \<open>An early return of the error \<open>e\<close> unless the condition holds.\<close>

definition check :: "bool \<Rightarrow> 'e \<Rightarrow> ('s, 'e, unit) go" where
  "check b e = (if b then ret () else raise (App e))"

text \<open>A pure computation that may return an error of the service.\<close>

definition lift :: "'e + 'a \<Rightarrow> ('s, 'e, 'a) go" where
  "lift r = (case r of Inl e \<Rightarrow> raise (App e) | Inr x \<Rightarrow> ret x)"

text \<open>A pure computation whose error may also be a panic.\<close>

definition outcome :: "'e err + 'a \<Rightarrow> ('s, 'e, 'a) go" where
  "outcome r = (case r of Inl e \<Rightarrow> raise e | Inr x \<Rightarrow> ret x)"

text \<open>\<open>_, _ = call()\<close>: the error is dropped; \<open>or_default\<close> keeps the variable's initial value.\<close>

definition or_default :: "'a \<Rightarrow> ('s, 'e, 'a) go \<Rightarrow> ('s, 'e, 'a) go" where
  "or_default d m w = (case m w of (Inl e, v) \<Rightarrow> (Inr d, v) | (Inr x, v) \<Rightarrow> (Inr x, v))"

text \<open>The error of a call replaced by one of the service's own.\<close>

definition with_err :: "'e \<Rightarrow> ('s, 'e, 'a) go \<Rightarrow> ('s, 'e, 'a) go" where
  "with_err e m w = (case m w of (Inl _, v) \<Rightarrow> (Inl (App e), v) | (Inr x, v) \<Rightarrow> (Inr x, v))"

text \<open>The error of another service handed on as one of this service's.\<close>

definition lift_err :: "('e \<Rightarrow> 'f) \<Rightarrow> ('s, 'e, 'a) go \<Rightarrow> ('s, 'f, 'a) go" where
  "lift_err f m w = (case m w of
     (Inl (App e), v) \<Rightarrow> (Inl (App (f e)), v)
   | (Inl Db_failed, v) \<Rightarrow> (Inl Db_failed, v)
   | (Inl No_rows, v) \<Rightarrow> (Inl No_rows, v)
   | (Inl Panicked, v) \<Rightarrow> (Inl Panicked, v)
   | (Inl (Forbidden x), v) \<Rightarrow> (Inl (Forbidden x), v)
   | (Inr x, v) \<Rightarrow> (Inr x, v))"

text \<open>\<open>if x, err := first(); err == nil { return x }\<close> and then the second call.\<close>

definition or_else :: "('s, 'e, 'a) go \<Rightarrow> ('s, 'e, 'a) go \<Rightarrow> ('s, 'e, 'a) go" where
  "or_else m n w = (case m w of (Inl e, v) \<Rightarrow> n v | (Inr x, v) \<Rightarrow> (Inr x, v))"

text \<open>A call whose result and error are both kept for later, \<open>x, err := call()\<close>.\<close>

definition call_result :: "('s, 'e, 'a) go \<Rightarrow> ('s, 'e, 'e err + 'a) go" where
  "call_result m w = (case m w of (r, v) \<Rightarrow> (Inr r, v))"

text \<open>An effect outside the database, such as handing a notice to the mail queue.\<close>

definition effect :: "('s \<Rightarrow> 's) \<Rightarrow> ('s, 'e, unit) go" where
  "effect f w = (Inr (), w\<lparr>tabs := f (tabs w)\<rparr>)"

definition take_fault :: "'s world \<Rightarrow> bool \<times> 's world" where
  "take_fault w = (case faults w of [] \<Rightarrow> (False, w) | b # bs \<Rightarrow> (b, w\<lparr>faults := bs\<rparr>))"

definition interfere :: "'s world \<Rightarrow> 's world" where
  "interfere w = (case others w of [] \<Rightarrow> w | f # fs \<Rightarrow> w\<lparr>tabs := f (tabs w), others := fs\<rparr>)"

text \<open>Inside a transaction.\<close>

definition tx_query :: "('s \<Rightarrow> 'a) \<Rightarrow> ('s, 'e, 'a) go" where
  "tx_query q w = (case take_fault w of
     (True, v) \<Rightarrow> (Inl Db_failed, v) | (False, v) \<Rightarrow> (Inr (q (tabs v)), v))"

text \<open>
  A writing statement returns the new tables and its result (rows affected, a returned value);
  \<open>None\<close> is a refused statement, such as a violated constraint.
\<close>

definition tx_exec :: "('s \<Rightarrow> ('s \<times> 'a) option) \<Rightarrow> ('s, 'e, 'a) go" where
  "tx_exec f w = (case take_fault w of
     (True, v) \<Rightarrow> (Inl Db_failed, v)
   | (False, v) \<Rightarrow> (case f (tabs v) of
       None \<Rightarrow> (Inl Db_failed, v) | Some (s, x) \<Rightarrow> (Inr x, v\<lparr>tabs := s\<rparr>)))"

definition one_row :: "('s, 'e, 'a option) go \<Rightarrow> ('s, 'e, 'a) go" where
  "one_row m = and_then m (\<lambda>r. case r of None \<Rightarrow> raise No_rows | Some x \<Rightarrow> ret x)"

text \<open>On the pool.\<close>

definition on_pool :: "('s, 'e, 'a) go \<Rightarrow> ('s, 'e, 'a) go" where
  "on_pool m w = m (interfere w)"

definition db_query :: "('s \<Rightarrow> 'a) \<Rightarrow> ('s, 'e, 'a) go" where
  "db_query q = on_pool (tx_query q)"

definition db_row :: "('s \<Rightarrow> 'a option) \<Rightarrow> ('s, 'e, 'a) go" where
  "db_row q = one_row (db_query q)"

definition tx_row :: "('s \<Rightarrow> 'a option) \<Rightarrow> ('s, 'e, 'a) go" where
  "tx_row q = one_row (tx_query q)"

definition db_exec :: "('s \<Rightarrow> ('s \<times> 'a) option) \<Rightarrow> ('s, 'e, 'a) go" where
  "db_exec f = on_pool (tx_exec f)"

text \<open>A statement that always succeeds and whose result is not used.\<close>

definition writes :: "('s \<Rightarrow> 's) \<Rightarrow> 's \<Rightarrow> ('s \<times> unit) option" where
  "writes f s = Some (f s, ())"

definition in_tx :: "('s, 'e, 'a) go \<Rightarrow> ('s, 'e, 'a) go" where
  "in_tx body w =
     (case take_fault (interfere w) of
        (True, v) \<Rightarrow> (Inl Db_failed, v)
      | (False, v) \<Rightarrow> (case body v of
          (Inl e, u) \<Rightarrow> (Inl e, u\<lparr>tabs := tabs v\<rparr>)
        | (Inr x, u) \<Rightarrow> (case take_fault u of
            (True, u') \<Rightarrow> (Inl Db_failed, u'\<lparr>tabs := tabs v\<rparr>)
          | (False, u') \<Rightarrow> (Inr x, u'))))"

text \<open>Loops over a slice with an early return, as \<open>for _, x := range xs\<close>.\<close>

fun for_each :: "('a \<Rightarrow> ('s, 'e, unit) go) \<Rightarrow> 'a list \<Rightarrow> ('s, 'e, unit) go" where
  "for_each f [] = ret ()"
| "for_each f (x # xs) = and_then (f x) (\<lambda>_. for_each f xs)"

fun collect :: "('a \<Rightarrow> ('s, 'e, 'b) go) \<Rightarrow> 'a list \<Rightarrow> ('s, 'e, 'b list) go" where
  "collect f [] = ret []"
| "collect f (x # xs) = and_then (f x) (\<lambda>y. and_then (collect f xs) (\<lambda>ys. ret (y # ys)))"

section \<open>Evaluation without faults or other sessions\<close>

named_theorems calm_simps "evaluation of methods in a calm world"
named_theorems run_simps "what a method that returned a value has done"

lemma and_then_assoc: "and_then (and_then m f) g = and_then m (\<lambda>x. and_then (f x) g)"
  by (rule ext) (auto simp: and_then_def split: prod.splits sum.splits)

lemma ret_then [simp, calm_simps]: "and_then (ret x) f = f x"
  by (rule ext) (simp add: and_then_def ret_def)

lemma or_default_ret [simp, calm_simps]: "or_default d (ret x) = ret x"
  by (rule ext) (simp add: or_default_def ret_def)

lemma raise_then [simp, calm_simps]: "and_then (raise e) f = raise e"
  by (rule ext) (simp add: and_then_def raise_def)

lemma check_then [calm_simps]: "and_then (check b e) f = (if b then f () else raise (App e))"
  by (simp add: check_def)

lemma lift_then [calm_simps]:
  "and_then (lift r) f = (case r of Inl e \<Rightarrow> raise (App e) | Inr x \<Rightarrow> f x)"
  by (simp add: lift_def split: sum.split)

lemma outcome_then [calm_simps]:
  "and_then (outcome r) f = (case r of Inl e \<Rightarrow> raise e | Inr x \<Rightarrow> f x)"
  by (simp add: outcome_def split: sum.split)

lemma ret_calm [calm_simps]: "ret x w = (Inr x, w)"
  by (simp add: ret_def)

lemma raise_calm [calm_simps]: "raise e w = (Inl e, w)"
  by (simp add: raise_def)

lemma tx_query_calm [calm_simps]: "tx_query q (calm s) = (Inr (q s), calm s)"
  by (simp add: tx_query_def take_fault_def)

lemma tx_exec_calm [calm_simps]:
  "tx_exec f (calm s) = (case f s of None \<Rightarrow> (Inl Db_failed, calm s) | Some (t, x) \<Rightarrow> (Inr x, calm t))"
  by (simp add: tx_exec_def take_fault_def split: option.splits)

lemma db_query_calm [calm_simps]: "db_query q (calm s) = (Inr (q s), calm s)"
  by (simp add: db_query_def on_pool_def interfere_def tx_query_calm)

lemma db_exec_calm [calm_simps]:
  "db_exec f (calm s) = (case f s of None \<Rightarrow> (Inl Db_failed, calm s) | Some (t, x) \<Rightarrow> (Inr x, calm t))"
  by (simp add: db_exec_def on_pool_def interfere_def tx_exec_calm)

lemma one_row_calm:
  "one_row (\<lambda>w. (Inr (q w), w)) w = (case q w of None \<Rightarrow> (Inl No_rows, w) | Some x \<Rightarrow> (Inr x, w))"
  by (simp add: one_row_def and_then_def raise_def ret_def split: option.splits)

lemma db_row_calm [calm_simps]:
  "db_row q (calm s) = (case q s of None \<Rightarrow> (Inl No_rows, calm s) | Some x \<Rightarrow> (Inr x, calm s))"
  by (simp add: db_row_def one_row_def and_then_def db_query_calm raise_def ret_def split: option.splits)

lemma tx_row_calm [calm_simps]:
  "tx_row q (calm s) = (case q s of None \<Rightarrow> (Inl No_rows, calm s) | Some x \<Rightarrow> (Inr x, calm s))"
  by (simp add: tx_row_def one_row_def and_then_def tx_query_calm raise_def ret_def split: option.splits)

lemma and_then_calm [calm_simps]:
  "and_then m f (calm s) =
     (case m (calm s) of (Inl e, v) \<Rightarrow> (Inl e, v) | (Inr x, v) \<Rightarrow> f x v)"
  by (simp add: and_then_def)

lemma or_default_calm [calm_simps]:
  "or_default d m (calm s) =
     (case m (calm s) of (Inl e, v) \<Rightarrow> (Inr d, v) | (Inr x, v) \<Rightarrow> (Inr x, v))"
  by (simp add: or_default_def)

lemma with_err_calm [calm_simps]:
  "with_err e m (calm s) =
     (case m (calm s) of (Inl _, v) \<Rightarrow> (Inl (App e), v) | (Inr x, v) \<Rightarrow> (Inr x, v))"
  by (simp add: with_err_def)

lemma lift_err_calm [calm_simps]:
  "lift_err f m (calm s) = (case m (calm s) of
     (Inl (App e), v) \<Rightarrow> (Inl (App (f e)), v)
   | (Inl Db_failed, v) \<Rightarrow> (Inl Db_failed, v)
   | (Inl No_rows, v) \<Rightarrow> (Inl No_rows, v)
   | (Inl Panicked, v) \<Rightarrow> (Inl Panicked, v)
   | (Inl (Forbidden x), v) \<Rightarrow> (Inl (Forbidden x), v)
   | (Inr x, v) \<Rightarrow> (Inr x, v))"
  by (simp add: lift_err_def)

lemma lift_err_run [run_simps]: "lift_err f m w = (Inr y, v) \<longleftrightarrow> m w = (Inr y, v)"
  by (auto simp: lift_err_def split: prod.split sum.split err.split)

lemma or_else_calm [calm_simps]:
  "or_else m n (calm s) = (case m (calm s) of (Inl e, v) \<Rightarrow> n v | (Inr x, v) \<Rightarrow> (Inr x, v))"
  by (simp add: or_else_def)

lemma call_result_calm [calm_simps]: "call_result m (calm s) = (case m (calm s) of (r, v) \<Rightarrow> (Inr r, v))"
  by (simp add: call_result_def)

lemma call_result_run [run_simps]: "call_result m w = (Inr r, v) \<longleftrightarrow> m w = (r, v)"
  by (auto simp: call_result_def split: prod.split)

lemma effect_calm [calm_simps, run_simps]: "effect f (calm s) = (Inr (), calm (f s))"
  by (simp add: effect_def)

lemma take_fault_calm [calm_simps]: "take_fault (calm s) = (False, calm s)"
  by (simp add: take_fault_def)

lemma in_tx_calm [calm_simps]:
  "in_tx body (calm s) =
     (case body (calm s) of
        (Inl e, u) \<Rightarrow> (Inl e, u\<lparr>tabs := s\<rparr>)
      | (Inr x, u) \<Rightarrow> (case take_fault u of
          (True, u') \<Rightarrow> (Inl Db_failed, u'\<lparr>tabs := s\<rparr>)
        | (False, u') \<Rightarrow> (Inr x, u')))"
  by (simp add: in_tx_def interfere_def take_fault_calm split: prod.split sum.split bool.split)

lemma writes_Some [simp]: "writes f s = Some (f s, ())"
  by (simp add: writes_def)

section \<open>Taking a successful run apart\<close>

lemma and_then_run [run_simps]:
  "and_then m f w = (Inr y, v) \<longleftrightarrow> (\<exists>x u. m w = (Inr x, u) \<and> f x u = (Inr y, v))"
  by (auto simp: and_then_def split: prod.split sum.split)

lemma ret_run [run_simps]: "ret x w = (Inr y, v) \<longleftrightarrow> y = x \<and> v = w"
  by (auto simp: ret_def)

lemma raise_run [run_simps]: "raise e w = (Inr y, v) \<longleftrightarrow> False"
  by (simp add: raise_def)

lemma check_run [run_simps]: "check b e w = (Inr y, v) \<longleftrightarrow> b \<and> v = w"
  by (auto simp: check_def ret_def raise_def)

lemma lift_run [run_simps]: "lift r w = (Inr y, v) \<longleftrightarrow> r = Inr y \<and> v = w"
  by (auto simp: lift_def ret_def raise_def split: sum.split)

lemma outcome_run [run_simps]: "outcome r w = (Inr y, v) \<longleftrightarrow> r = Inr y \<and> v = w"
  by (auto simp: outcome_def ret_def raise_def split: sum.split)

lemma db_query_run [run_simps]: "db_query q (calm s) = (Inr y, v) \<longleftrightarrow> y = q s \<and> v = calm s"
  by (auto simp: db_query_calm)

lemma db_row_run [run_simps]: "db_row q (calm s) = (Inr y, v) \<longleftrightarrow> q s = Some y \<and> v = calm s"
  by (auto simp: db_row_calm split: option.split)

lemma tx_query_run [run_simps]: "tx_query q (calm s) = (Inr y, v) \<longleftrightarrow> y = q s \<and> v = calm s"
  by (auto simp: tx_query_calm)

lemma tx_row_run [run_simps]: "tx_row q (calm s) = (Inr y, v) \<longleftrightarrow> q s = Some y \<and> v = calm s"
  by (auto simp: tx_row_calm split: option.split)

lemma db_exec_run [run_simps]:
  "db_exec f (calm s) = (Inr y, v) \<longleftrightarrow> (\<exists>t. f s = Some (t, y) \<and> v = calm t)"
  by (auto simp: db_exec_calm split: option.split)

lemma tx_exec_run [run_simps]:
  "tx_exec f (calm s) = (Inr y, v) \<longleftrightarrow> (\<exists>t. f s = Some (t, y) \<and> v = calm t)"
  by (auto simp: tx_exec_calm split: option.split)

lemma in_tx_run [run_simps]:
  "in_tx body (calm s) = (Inr y, v) \<longleftrightarrow> (\<exists>u. body (calm s) = (Inr y, u) \<and> take_fault u = (False, v))"
  by (auto simp: in_tx_calm split: prod.splits sum.splits bool.splits)

lemma take_fault_run [run_simps]: "take_fault (calm s) = (b, v) \<longleftrightarrow> \<not> b \<and> v = calm s"
  by (auto simp: take_fault_calm)

text \<open>Calls whose error is dropped always return.\<close>

lemma or_default_row_calm [run_simps]:
  "or_default d (db_row q) (calm s) = (Inr (case q s of None \<Rightarrow> d | Some x \<Rightarrow> x), calm s)"
  by (simp add: or_default_calm db_row_calm split: option.split)

lemma or_default_query_calm [run_simps]: "or_default d (db_query q) (calm s) = (Inr (q s), calm s)"
  by (simp add: or_default_calm db_query_calm)

lemma or_default_exec_calm [run_simps]:
  "or_default d (db_exec f) (calm s) =
     (case f s of None \<Rightarrow> (Inr d, calm s) | Some (t, x) \<Rightarrow> (Inr x, calm t))"
  by (simp add: or_default_calm db_exec_calm split: option.split)

end
