(* ===== verification/Rely_Guarantee.thy ===== *)
theory Rely_Guarantee
  imports Store
begin

text \<open>
  A triple for the methods of a service that shares its tables with other sessions.
  \<open>rg R G P m Q\<close> says: if the tables satisfy \<open>P\<close> when \<open>m\<close> starts and every commit of another
  session is a step of the rely \<open>R\<close>, then all \<open>m\<close> does to the tables are steps of the guarantee
  \<open>G\<close> (a transaction being one step), and if it returns a value \<open>x\<close> then \<open>Q x\<close> holds of the
  tables at that point. Assertions that are used after another statement must be stable under
  \<open>R\<close>, which the rules for the statements ask for.
\<close>

definition rely_ok :: "('s \<Rightarrow> 's \<Rightarrow> bool) \<Rightarrow> 's world \<Rightarrow> bool" where
  "rely_ok R w \<longleftrightarrow> (\<forall>f \<in> set (others w). \<forall>s. R s (f s))"

definition rg ::
  "('s \<Rightarrow> 's \<Rightarrow> bool) \<Rightarrow> ('s \<Rightarrow> 's \<Rightarrow> bool) \<Rightarrow> ('s \<Rightarrow> bool) \<Rightarrow> ('s, 'e, 'a) go
     \<Rightarrow> ('a \<Rightarrow> 's \<Rightarrow> bool) \<Rightarrow> bool" where
  "rg R G P m Q \<longleftrightarrow>
     (\<forall>w. P (tabs w) \<longrightarrow> rely_ok R w \<longrightarrow>
        rely_ok R (snd (m w)) \<and>
        (\<lambda>s t. R s t \<or> G s t)\<^sup>*\<^sup>* (tabs w) (tabs (snd (m w))) \<and>
        (\<forall>x. fst (m w) = Inr x \<longrightarrow> Q x (tabs (snd (m w)))))"

lemma rgI:
  assumes "\<And>w r v. P (tabs w) \<Longrightarrow> rely_ok R w \<Longrightarrow> m w = (r, v) \<Longrightarrow>
    rely_ok R v \<and> (\<lambda>s t. R s t \<or> G s t)\<^sup>*\<^sup>* (tabs w) (tabs v) \<and> (\<forall>x. r = Inr x \<longrightarrow> Q x (tabs v))"
  shows "rg R G P m Q"
  unfolding rg_def using assms by (metis prod.collapse)

lemma rgD:
  assumes "rg R G P m Q" and "P (tabs w)" and "rely_ok R w" and "m w = (r, v)"
  shows "rely_ok R v" and "(\<lambda>s t. R s t \<or> G s t)\<^sup>*\<^sup>* (tabs w) (tabs v)"
    and "r = Inr x \<Longrightarrow> Q x (tabs v)"
  using assms unfolding rg_def by force+

text \<open>An assertion no step of the rely invalidates.\<close>

definition stable :: "('s \<Rightarrow> 's \<Rightarrow> bool) \<Rightarrow> ('s \<Rightarrow> bool) \<Rightarrow> bool" where
  "stable R P \<longleftrightarrow> (\<forall>s t. P s \<longrightarrow> R s t \<longrightarrow> P t)"

lemma stable_True [simp, intro]: "stable R (\<lambda>s. True)"
  by (simp add: stable_def)

lemma stable_const [simp, intro]: "stable R (\<lambda>s. b)"
  by (simp add: stable_def)

lemma stable_conj [intro]: "stable R P \<Longrightarrow> stable R Q \<Longrightarrow> stable R (\<lambda>s. P s \<and> Q s)"
  by (auto simp: stable_def)

lemma stableI [intro?]: "(\<And>s t. P s \<Longrightarrow> R s t \<Longrightarrow> P t) \<Longrightarrow> stable R P"
  by (auto simp: stable_def)

section \<open>Effects of faults and interference\<close>

lemma take_fault_world:
  assumes "take_fault w = (b, v)"
  shows "tabs v = tabs w" and "others v = others w"
  using assms by (auto simp: take_fault_def split: list.splits)

lemma interfere_rely: "rely_ok R w \<Longrightarrow> rely_ok R (interfere w)"
  by (auto simp: rely_ok_def interfere_def split: list.splits)

lemma interfere_step:
  "rely_ok R w \<Longrightarrow> tabs (interfere w) = tabs w \<or> R (tabs w) (tabs (interfere w))"
  by (auto simp: rely_ok_def interfere_def split: list.splits)

lemma interfere_stable:
  "stable R P \<Longrightarrow> rely_ok R w \<Longrightarrow> P (tabs w) \<Longrightarrow> P (tabs (interfere w))"
  using interfere_step [of R w] by (auto simp: stable_def)

lemma interfere_reach:
  "rely_ok R w \<Longrightarrow> (\<lambda>s t. R s t \<or> G s t)\<^sup>*\<^sup>* (tabs w) (tabs (interfere w))"
  using interfere_step [of R w] by auto

section \<open>Rules\<close>

named_theorems rg_rules "rules of the rely-guarantee triple"

lemma rg_ret [rg_rules]: "(\<And>s. P s \<Longrightarrow> Q x s) \<Longrightarrow> rg R G P (ret x) Q"
  by (simp add: rg_def ret_def)

lemma rg_raise [rg_rules]: "rg R G P (raise e) Q"
  by (simp add: rg_def raise_def)

lemma rg_check [rg_rules]: "(\<And>s. P s \<Longrightarrow> b \<Longrightarrow> Q () s) \<Longrightarrow> rg R G P (check b e) Q"
  by (auto simp: check_def intro: rg_ret rg_raise)

lemma rg_lift [rg_rules]: "(\<And>x s. P s \<Longrightarrow> r = Inr x \<Longrightarrow> Q x s) \<Longrightarrow> rg R G P (lift r) Q"
  by (auto simp: lift_def intro: rg_ret rg_raise split: sum.split)

lemma rg_then:
  assumes m: "rg R G P m M" and f: "\<And>x. rg R G (M x) (f x) Q"
  shows "rg R G P (and_then m f) Q"
proof (rule rgI)
  fix w r v assume w: "P (tabs w)" "rely_ok R w" and run: "and_then m f w = (r, v)"
  obtain r1 v1 where mw: "m w = (r1, v1)" by (cases "m w")
  note m1 = rgD [OF m w mw]
  show "rely_ok R v \<and> (\<lambda>s t. R s t \<or> G s t)\<^sup>*\<^sup>* (tabs w) (tabs v) \<and> (\<forall>x. r = Inr x \<longrightarrow> Q x (tabs v))"
  proof (cases r1)
    case (Inl e)
    with mw run m1 show ?thesis by (auto simp: and_then_def)
  next
    case (Inr x)
    with mw run have fx: "f x v1 = (r, v)" by (simp add: and_then_def)
    note f1 = rgD [OF f m1(3) [OF Inr] m1(1) fx]
    from m1(2) f1(2) have "(\<lambda>s t. R s t \<or> G s t)\<^sup>*\<^sup>* (tabs w) (tabs v)" by (rule rtranclp_trans)
    with f1 show ?thesis by blast
  qed
qed

lemma rg_weaken:
  assumes "rg R G P' m Q'" and "\<And>s. P s \<Longrightarrow> P' s" and "\<And>x s. Q' x s \<Longrightarrow> Q x s"
  shows "rg R G P m Q"
  using assms unfolding rg_def by blast

lemma rg_post: "rg R G P m Q' \<Longrightarrow> (\<And>x s. Q' x s \<Longrightarrow> Q x s) \<Longrightarrow> rg R G P m Q"
  by (rule rg_weaken)

lemma rg_wider:
  assumes "rg R G P m Q" and "\<And>s t. G s t \<Longrightarrow> G' s t"
  shows "rg R G' P m Q"
proof (rule rgI)
  fix w r v assume w: "P (tabs w)" "rely_ok R w" "m w = (r, v)"
  note m1 = rgD [OF assms(1) w]
  have "(\<lambda>s t. R s t \<or> G s t)\<^sup>*\<^sup>* \<le> (\<lambda>s t. R s t \<or> G' s t)\<^sup>*\<^sup>*"
    using assms(2) by (intro rtranclp_mono) auto
  with m1 show "rely_ok R v \<and> (\<lambda>s t. R s t \<or> G' s t)\<^sup>*\<^sup>* (tabs w) (tabs v) \<and> (\<forall>x. r = Inr x \<longrightarrow> Q x (tabs v))"
    by blast
qed

text \<open>An assertion that both sides' steps keep survives every method.\<close>

lemma rg_invariant:
  assumes m: "rg R G P m Q" and "stable R P" and "stable G P"
  shows "rg R G P m (\<lambda>x s. P s \<and> Q x s)"
proof (rule rgI)
  fix w r v assume w: "P (tabs w)" "rely_ok R w" "m w = (r, v)"
  note m1 = rgD [OF m w]
  have step: "P s \<Longrightarrow> R s t \<or> G s t \<Longrightarrow> P t" for s t
    using assms(2,3) unfolding stable_def by blast
  have "P (tabs v)" using m1(2) w(1)
    by (induction rule: rtranclp_induct) (auto intro: step)
  with m1 show "rely_ok R v \<and> (\<lambda>s t. R s t \<or> G s t)\<^sup>*\<^sup>* (tabs w) (tabs v) \<and>
      (\<forall>x. r = Inr x \<longrightarrow> P (tabs v) \<and> Q x (tabs v))" by blast
qed

lemma rg_check_then:
  "(b \<Longrightarrow> rg R G P (f ()) Q) \<Longrightarrow> rg R G P (and_then (check b e) f) Q"
  by (simp add: check_then rg_raise)

lemma rg_lift_then:
  "(\<And>x. r = Inr x \<Longrightarrow> rg R G P (f x) Q) \<Longrightarrow> rg R G P (and_then (lift r) f) Q"
  by (simp add: lift_then rg_raise split: sum.split)

lemma rg_outcome_then:
  "(\<And>x. r = Inr x \<Longrightarrow> rg R G P (f x) Q) \<Longrightarrow> rg R G P (and_then (outcome r) f) Q"
  by (simp add: outcome_then rg_raise split: sum.split)

lemma rg_if [rg_rules]:
  "(b \<Longrightarrow> rg R G P m Q) \<Longrightarrow> (\<not> b \<Longrightarrow> rg R G P n Q) \<Longrightarrow> rg R G P (if b then m else n) Q"
  by simp

lemma rg_case_option [rg_rules]:
  "(x = None \<Longrightarrow> rg R G P m Q) \<Longrightarrow> (\<And>y. x = Some y \<Longrightarrow> rg R G P (f y) Q)
    \<Longrightarrow> rg R G P (case x of None \<Rightarrow> m | Some y \<Rightarrow> f y) Q"
  by (cases x) auto

lemma rg_case_prod [rg_rules]:
  "(\<And>a b. x = (a, b) \<Longrightarrow> rg R G P (f a b) Q) \<Longrightarrow> rg R G P (case x of (a, b) \<Rightarrow> f a b) Q"
  by (cases x) auto

lemma rg_pre_conj: "(b \<Longrightarrow> rg R G P m Q) \<Longrightarrow> rg R G (\<lambda>s. b \<and> P s) m Q"
  by (auto simp: rg_def)

lemma rg_case_prod_pre:
  "(\<And>a b. rg R G (P a b) (f a b) Q) \<Longrightarrow>
     rg R G ((case x of (a, b) \<Rightarrow> P a b)) (case x of (a, b) \<Rightarrow> f a b) Q"
  by (cases x) auto

lemma rg_or_default:
  assumes m: "rg R G P m Q'" and "\<And>x s. Q' x s \<Longrightarrow> Q x s" and "\<And>s. Q d s"
  shows "rg R G P (or_default d m) Q"
proof (rule rgI)
  fix w r v assume w: "P (tabs w)" "rely_ok R w" and run: "or_default d m w = (r, v)"
  obtain r1 v1 where mw: "m w = (r1, v1)" by (cases "m w")
  note m1 = rgD [OF m w mw]
  from mw run have "v = v1" by (cases r1) (auto simp: or_default_def)
  with m1(1,2) assms(2,3) m1(3) mw run
  show "rely_ok R v \<and> (\<lambda>s t. R s t \<or> G s t)\<^sup>*\<^sup>* (tabs w) (tabs v) \<and> (\<forall>x. r = Inr x \<longrightarrow> Q x (tabs v))"
    by (cases r1) (auto simp: or_default_def)
qed

lemma rg_with_err [rg_rules]:
  assumes m: "rg R G P m Q"
  shows "rg R G P (with_err e m) Q"
proof (rule rgI)
  fix w r v assume w: "P (tabs w)" "rely_ok R w" and run: "with_err e m w = (r, v)"
  obtain r1 v1 where mw: "m w = (r1, v1)" by (cases "m w")
  note m1 = rgD [OF m w mw]
  from mw run have "v = v1" by (cases r1) (auto simp: with_err_def)
  with m1(1,2) m1(3) mw run
  show "rely_ok R v \<and> (\<lambda>s t. R s t \<or> G s t)\<^sup>*\<^sup>* (tabs w) (tabs v) \<and> (\<forall>x. r = Inr x \<longrightarrow> Q x (tabs v))"
    by (cases r1) (auto simp: with_err_def)
qed

lemma rg_tx_query:
  "(\<And>s. P s \<Longrightarrow> Q (q s) s) \<Longrightarrow> rg R G P (tx_query q) Q"
  unfolding rg_def tx_query_def rely_ok_def
  by (auto split: prod.splits bool.splits dest: take_fault_world)

lemma rg_tx_exec:
  assumes f: "\<And>s t x. P s \<Longrightarrow> f s = Some (t, x) \<Longrightarrow> G s t \<and> Q x t"
  shows "rg R G P (tx_exec f) Q"
proof (rule rgI)
  fix w r v assume P: "P (tabs w)" and R: "rely_ok R w" and run: "tx_exec f w = (r, v)"
  obtain b u where tf: "take_fault w = (b, u)" by (cases "take_fault w")
  note u = take_fault_world [OF tf]
  show "rely_ok R v \<and> (\<lambda>s t. R s t \<or> G s t)\<^sup>*\<^sup>* (tabs w) (tabs v) \<and> (\<forall>x. r = Inr x \<longrightarrow> Q x (tabs v))"
  proof (cases "b \<or> f (tabs w) = None")
    case True
    with tf u R run show ?thesis by (cases b) (auto simp: tx_exec_def rely_ok_def)
  next
    case False
    then obtain t x where "f (tabs w) = Some (t, x)" and "\<not> b" by auto
    with f [of "tabs w" t x] P tf u R run show ?thesis
      by (auto simp: tx_exec_def rely_ok_def)
  qed
qed

lemma rg_on_pool:
  assumes st: "stable R P" and m: "rg R G P m Q"
  shows "rg R G P (on_pool m) Q"
proof (rule rgI)
  fix w r v assume P: "P (tabs w)" and R: "rely_ok R w" and run: "on_pool m w = (r, v)"
  note m1 = rgD [OF m interfere_stable [OF st R P] interfere_rely [OF R] run [unfolded on_pool_def]]
  from interfere_reach [OF R] m1(2) have "(\<lambda>s t. R s t \<or> G s t)\<^sup>*\<^sup>* (tabs w) (tabs v)"
    by (rule rtranclp_trans)
  with m1 show "rely_ok R v \<and> (\<lambda>s t. R s t \<or> G s t)\<^sup>*\<^sup>* (tabs w) (tabs v) \<and> (\<forall>x. r = Inr x \<longrightarrow> Q x (tabs v))"
    by blast
qed

lemma rg_db_query:
  "stable R P \<Longrightarrow> (\<And>s. P s \<Longrightarrow> Q (q s) s) \<Longrightarrow> rg R G P (db_query q) Q"
  unfolding db_query_def by (intro rg_on_pool rg_tx_query)

lemma rg_one_row:
  fixes m :: "('s, 'e, 'a option) go"
  assumes "rg R G P m (\<lambda>r s. \<forall>x. r = Some x \<longrightarrow> Q x s)"
  shows "rg R G P (one_row m) Q"
  unfolding one_row_def
proof (rule rg_then [OF assms])
  fix r :: "'a option"
  show "rg R G (\<lambda>s. \<forall>x. r = Some x \<longrightarrow> Q x s) (case r of None \<Rightarrow> raise No_rows | Some x \<Rightarrow> ret x) Q"
    by (cases r) (auto intro: rg_ret rg_raise)
qed

lemma rg_db_row:
  "stable R P \<Longrightarrow> (\<And>s x. P s \<Longrightarrow> q s = Some x \<Longrightarrow> Q x s) \<Longrightarrow> rg R G P (db_row q) Q"
  unfolding db_row_def by (intro rg_one_row rg_db_query) auto

lemma rg_tx_row:
  "(\<And>s x. P s \<Longrightarrow> q s = Some x \<Longrightarrow> Q x s) \<Longrightarrow> rg R G P (tx_row q) Q"
  unfolding tx_row_def by (intro rg_one_row rg_tx_query) auto

lemma rg_db_exec:
  assumes "stable R P" and "\<And>s t x. P s \<Longrightarrow> f s = Some (t, x) \<Longrightarrow> G s t \<and> Q x t"
  shows "rg R G P (db_exec f) Q"
  unfolding db_exec_def using assms by (intro rg_on_pool rg_tx_exec)

section \<open>Transactions\<close>

text \<open>
  The body of a transaction runs against the tables as they are at \<open>Begin\<close>, with no other
  session in between: \<open>tx_triple P m Q\<close> is an ordinary Hoare triple for it.
\<close>

definition tx_triple ::
  "('s \<Rightarrow> bool) \<Rightarrow> ('s, 'e, 'a) go \<Rightarrow> ('a \<Rightarrow> 's \<Rightarrow> bool) \<Rightarrow> bool" where
  "tx_triple P m Q \<longleftrightarrow>
     (\<forall>w. P (tabs w) \<longrightarrow> others (snd (m w)) = others w \<and>
        (\<forall>x. fst (m w) = Inr x \<longrightarrow> Q x (tabs (snd (m w)))))"

named_theorems tx_rules "rules of the transaction triple"

lemma tx_ret: "(\<And>s. P s \<Longrightarrow> Q x s) \<Longrightarrow> tx_triple P (ret x) Q"
  by (simp add: tx_triple_def ret_def)

lemma tx_raise: "tx_triple P (raise e) Q"
  by (simp add: tx_triple_def raise_def)

lemma tx_then:
  fixes m :: "('s, 'e, 'a) go"
  assumes m: "tx_triple P m M" and f: "\<And>x. tx_triple (M x) (f x) Q"
  shows "tx_triple P (and_then m f) Q"
  unfolding tx_triple_def
proof (intro allI impI)
  fix w :: "'s world" assume P: "P (tabs w)"
  obtain r v where mw: "m w = (r, v)" by (cases "m w")
  with m P have "others v = others w" and "\<And>x. r = Inr x \<Longrightarrow> M x (tabs v)"
    unfolding tx_triple_def by force+
  with f mw show "others (snd (and_then m f w)) = others w \<and>
      (\<forall>x. fst (and_then m f w) = Inr x \<longrightarrow> Q x (tabs (snd (and_then m f w))))"
    unfolding tx_triple_def and_then_def by (cases r) auto
qed

lemma tx_check_then:
  "(b \<Longrightarrow> tx_triple P (f ()) Q) \<Longrightarrow> tx_triple P (and_then (check b e) f) Q"
  by (simp add: check_then tx_raise)

lemma tx_check: "(\<And>s. P s \<Longrightarrow> b \<Longrightarrow> Q () s) \<Longrightarrow> tx_triple P (check b e) Q"
  by (auto simp: check_def intro: tx_ret tx_raise)

lemma tx_lift_then:
  "(\<And>x. r = Inr x \<Longrightarrow> tx_triple P (f x) Q) \<Longrightarrow> tx_triple P (and_then (lift r) f) Q"
  by (simp add: lift_then tx_raise split: sum.split)

lemma tx_if:
  "(b \<Longrightarrow> tx_triple P m Q) \<Longrightarrow> (\<not> b \<Longrightarrow> tx_triple P n Q)
    \<Longrightarrow> tx_triple P (if b then m else n) Q"
  by simp

lemma tx_query_rule: "(\<And>s. P s \<Longrightarrow> Q (q s) s) \<Longrightarrow> tx_triple P (tx_query q) Q"
  unfolding tx_triple_def tx_query_def
  by (auto split: prod.splits bool.splits dest: take_fault_world)

lemma tx_exec_rule:
  "(\<And>s t x. P s \<Longrightarrow> f s = Some (t, x) \<Longrightarrow> Q x t) \<Longrightarrow> tx_triple P (tx_exec f) Q"
  unfolding tx_triple_def tx_exec_def
  by (force split: prod.splits bool.splits option.splits dest: take_fault_world)

lemma tx_row_rule:
  "(\<And>s x. P s \<Longrightarrow> q s = Some x \<Longrightarrow> Q x s) \<Longrightarrow> tx_triple P (tx_row q) Q"
  unfolding tx_row_def one_row_def
proof (rule tx_then [where M = "\<lambda>r s. \<forall>x. r = Some x \<longrightarrow> Q x s"])
  fix r show "tx_triple (\<lambda>s. \<forall>x. r = Some x \<longrightarrow> Q x s)
      (case r of None \<Rightarrow> raise No_rows | Some x \<Rightarrow> ret x) Q"
    by (cases r) (auto intro: tx_ret tx_raise)
qed (auto intro: tx_query_rule)

lemma tx_post: "tx_triple P m Q' \<Longrightarrow> (\<And>x s. Q' x s \<Longrightarrow> Q x s) \<Longrightarrow> tx_triple P m Q"
  unfolding tx_triple_def by blast

lemma tx_for_each:
  assumes "\<And>x. x \<in> set xs \<Longrightarrow> tx_triple I (f x) (\<lambda>_. I)"
  shows "tx_triple I (for_each f xs) (\<lambda>_. I)"
  using assms
proof (induction xs)
  case Nil
  then show ?case by (simp add: tx_ret)
next
  case (Cons x xs)
  then show ?case by (auto intro: tx_then)
qed

lemma tx_pre_conj: "(b \<Longrightarrow> tx_triple P m Q) \<Longrightarrow> tx_triple (\<lambda>s. b \<and> P s) m Q"
  by (auto simp: tx_triple_def)

text \<open>A loop over the indices of a slice, with an assertion per index.\<close>

lemma tx_for_upt:
  assumes "\<And>i. k \<le> i \<Longrightarrow> i < n \<Longrightarrow> tx_triple (I i) (f i) (\<lambda>_. I (Suc i))" and "k \<le> n"
  shows "tx_triple (I k) (for_each f [k..<n]) (\<lambda>_. I n)"
  using assms
proof (induction "n - k" arbitrary: k)
  case 0
  then show ?case by (simp add: tx_ret)
next
  case (Suc m)
  then have "k < n" by simp
  then have "tx_triple (I (Suc k)) (for_each f [Suc k..<n]) (\<lambda>_. I n)"
    using Suc by (intro Suc.hyps(1)) auto
  with Suc.prems(1) [of k] \<open>k < n\<close> show ?case
    by (auto simp: upt_conv_Cons intro: tx_then)
qed

lemma rg_in_tx:
  assumes st: "stable R P"
    and body: "\<And>s. P s \<Longrightarrow> tx_triple (\<lambda>t. t = s) body (\<lambda>x t. G s t \<and> Q x t)"
  shows "rg R G P (in_tx body) Q"
  unfolding rg_def
proof (intro allI impI)
  fix w assume P: "P (tabs w)" and R: "rely_ok R w"
  obtain b v where tf: "take_fault (interfere w) = (b, v)" by (cases "take_fault (interfere w)")
  note v = take_fault_world [OF tf]
  obtain r u where bv: "body v = (r, u)" by (cases "body v")
  obtain c u' where tu: "take_fault u = (c, u')" by (cases "take_fault u")
  note u = take_fault_world [OF tu]
  have Pv: "P (tabs v)" using interfere_stable [OF st R P] v by simp
  have Rv: "rely_ok R v" using interfere_rely [OF R] v by (simp add: rely_ok_def)
  have ou: "others u = others v" and committed: "\<And>x. r = Inr x \<Longrightarrow> G (tabs v) (tabs u) \<and> Q x (tabs u)"
    using body [OF Pv] bv unfolding tx_triple_def by force+
  have reach: "(\<lambda>s t. R s t \<or> G s t)\<^sup>*\<^sup>* (tabs w) (tabs v)"
    using interfere_reach [OF R, of G] v by simp
  show "rely_ok R (snd (in_tx body w)) \<and>
      (\<lambda>s t. R s t \<or> G s t)\<^sup>*\<^sup>* (tabs w) (tabs (snd (in_tx body w))) \<and>
      (\<forall>x. fst (in_tx body w) = Inr x \<longrightarrow> Q x (tabs (snd (in_tx body w))))"
  proof (cases "b \<or> (\<exists>e. r = Inl e) \<or> c")
    case True
    with tf bv tu u ou Rv reach show ?thesis
      by (cases b; cases r; cases c) (auto simp: in_tx_def rely_ok_def)
  next
    case False
    then obtain x where x: "r = Inr x" "\<not> b" "\<not> c" by (cases r) auto
    have "R (tabs v) (tabs u) \<or> G (tabs v) (tabs u)" using committed [OF x(1)] by simp
    with reach have "(\<lambda>s t. R s t \<or> G s t)\<^sup>*\<^sup>* (tabs w) (tabs u)"
      by (rule rtranclp.rtrancl_into_rtrancl)
    with x tf bv tu u ou Rv committed [OF x(1)] show ?thesis
      by (auto simp: in_tx_def rely_ok_def)
  qed
qed

text \<open>Whatever its body does, a transaction that does not commit leaves the tables alone.\<close>

lemma in_tx_atomic:
  assumes "fst (in_tx body w) = Inl e"
  shows "tabs (snd (in_tx body w)) = tabs (interfere w)"
  using assms unfolding in_tx_def
  by (auto split: prod.splits bool.splits sum.splits dest: take_fault_world)

section \<open>Loops on the pool\<close>

lemma rg_for_each:
  assumes "\<And>x. x \<in> set xs \<Longrightarrow> rg R G I (f x) (\<lambda>_. I)"
  shows "rg R G I (for_each f xs) (\<lambda>_. I)"
  using assms
proof (induction xs)
  case Nil
  then show ?case by (simp add: rg_ret)
next
  case (Cons x xs)
  then show ?case by (auto intro: rg_then)
qed

section \<open>Methods that only take allowed steps\<close>

text \<open>
  \<open>keeps R G m\<close>: whatever the tables are, all \<open>m\<close> does to them are steps of \<open>G\<close>. The rules let
  \<open>intro keeps_rules\<close> walk through a method and leave only its writing statements as goals.
\<close>

definition keeps :: "('s \<Rightarrow> 's \<Rightarrow> bool) \<Rightarrow> ('s \<Rightarrow> 's \<Rightarrow> bool) \<Rightarrow> ('s, 'e, 'a) go \<Rightarrow> bool" where
  "keeps R G m \<longleftrightarrow> rg R G (\<lambda>_. True) m (\<lambda>_ _. True)"

named_theorems keeps_rules "syntax-directed rules for methods that only take allowed steps"

lemma keeps_rg: "rg R G (\<lambda>_. True) m Q \<Longrightarrow> keeps R G m"
  unfolding keeps_def by (rule rg_post) auto

lemma rg_keeps_stable:
  assumes "keeps R G m" and "stable R P" and "stable G P"
  shows "rg R G P m (\<lambda>_. P)"
proof -
  have "rg R G P m (\<lambda>_ _. True)" using assms(1) unfolding keeps_def by (rule rg_weaken) auto
  from rg_invariant [OF this assms(2,3)] show ?thesis by simp
qed

text \<open>A method that reads, run alone, leaves every assertion about the tables as it is.\<close>

lemma rg_reads_alone:
  assumes "keeps (=) (=) m" and "\<And>s. G s s"
  shows "rg (=) G P m (\<lambda>_. P)"
proof (rule rg_wider)
  show "rg (=) (=) P m (\<lambda>_. P)"
    using assms(1) by (rule rg_keeps_stable) (auto simp: stable_def)
qed (use assms(2) in auto)

lemma keeps_ret [keeps_rules]: "keeps R G (ret x)"
  by (simp add: keeps_def rg_ret)

lemma keeps_raise [keeps_rules]: "keeps R G (raise e)"
  by (simp add: keeps_def rg_raise)

lemma keeps_check [keeps_rules]: "keeps R G (check b e)"
  by (simp add: keeps_def rg_check)

lemma keeps_lift [keeps_rules]: "keeps R G (lift r)"
  by (simp add: keeps_def rg_lift)

lemma keeps_outcome [keeps_rules]: "keeps R G (outcome r)"
  by (auto simp: keeps_def outcome_def rg_ret rg_raise split: sum.split)

text \<open>
  Sequencing: the rest of the method may use that its argument is a value the first part can
  return, from which \<open>returns_fact\<close> recovers what a triple says of it.
\<close>

definition returns :: "('s \<Rightarrow> 's \<Rightarrow> bool) \<Rightarrow> ('s, 'e, 'a) go \<Rightarrow> 'a \<Rightarrow> bool" where
  "returns R m x \<longleftrightarrow> (\<exists>w v. rely_ok R w \<and> m w = (Inr x, v))"

lemma returns_fact: "returns R m x \<Longrightarrow> rg R G (\<lambda>_. True) m (\<lambda>x _. B x) \<Longrightarrow> B x"
  by (auto simp: returns_def dest: rgD(3))

lemma keeps_then:
  assumes m: "keeps R G m" and f: "\<And>x. returns R m x \<Longrightarrow> keeps R G (f x)"
  shows "keeps R G (and_then m f)"
  unfolding keeps_def
proof (rule rgI)
  fix w r v assume w: "rely_ok R w" and run: "and_then m f w = (r, v)"
  obtain r1 v1 where mw: "m w = (r1, v1)" by (cases "m w")
  note m1 = rgD [OF m [unfolded keeps_def] TrueI w mw]
  show "rely_ok R v \<and> (\<lambda>s t. R s t \<or> G s t)\<^sup>*\<^sup>* (tabs w) (tabs v) \<and> (\<forall>x. r = Inr x \<longrightarrow> True)"
  proof (cases r1)
    case (Inl e)
    with mw run m1 show ?thesis by (auto simp: and_then_def)
  next
    case (Inr x)
    with mw run have fx: "f x v1 = (r, v)" by (simp add: and_then_def)
    have "returns R m x" using mw w Inr by (auto simp: returns_def)
    note f1 = rgD [OF f [OF this, unfolded keeps_def] TrueI m1(1) fx]
    from m1(2) f1(2) have "(\<lambda>s t. R s t \<or> G s t)\<^sup>*\<^sup>* (tabs w) (tabs v)" by (rule rtranclp_trans)
    with f1 show ?thesis by blast
  qed
qed

lemma keeps_check_then [keeps_rules]:
  "(b \<Longrightarrow> keeps R G (f ())) \<Longrightarrow> keeps R G (and_then (check b e) f)"
  unfolding keeps_def by (rule rg_check_then)

lemma keeps_lift_then [keeps_rules]:
  "(\<And>x. r = Inr x \<Longrightarrow> keeps R G (f x)) \<Longrightarrow> keeps R G (and_then (lift r) f)"
  unfolding keeps_def by (rule rg_lift_then)

lemma keeps_outcome_then [keeps_rules]:
  "(\<And>x. r = Inr x \<Longrightarrow> keeps R G (f x)) \<Longrightarrow> keeps R G (and_then (outcome r) f)"
  unfolding keeps_def by (rule rg_outcome_then)

lemma keeps_or_default [keeps_rules]: "keeps R G m \<Longrightarrow> keeps R G (or_default d m)"
  unfolding keeps_def by (rule rg_or_default) auto

lemma keeps_with_err [keeps_rules]: "keeps R G m \<Longrightarrow> keeps R G (with_err e m)"
  unfolding keeps_def by (rule rg_with_err)

lemma rg_lift_err:
  assumes "rg R G P m Q"
  shows "rg R G P (lift_err f m) Q"
proof (rule rgI)
  fix w r v assume w: "P (tabs w)" "rely_ok R w" and run: "lift_err f m w = (r, v)"
  obtain r1 where m: "m w = (r1, v)" and r: "r = Inr x \<Longrightarrow> r1 = Inr x" for x
    using run by (auto simp: lift_err_def split: prod.splits sum.splits err.splits)
  show "rely_ok R v \<and> (\<lambda>s t. R s t \<or> G s t)\<^sup>*\<^sup>* (tabs w) (tabs v) \<and> (\<forall>x. r = Inr x \<longrightarrow> Q x (tabs v))"
    using rgD [OF assms w m] r by blast
qed

lemma keeps_lift_err [keeps_rules]: "keeps R G m \<Longrightarrow> keeps R G (lift_err f m)"
  unfolding keeps_def by (rule rg_lift_err)

lemma keeps_or_else [keeps_rules]:
  assumes "keeps R G m" and "keeps R G n"
  shows "keeps R G (or_else m n)"
  unfolding keeps_def
proof (rule rgI)
  fix w r v assume w: "rely_ok R w" and run: "or_else m n w = (r, v)"
  obtain r1 v1 where mw: "m w = (r1, v1)" by (cases "m w")
  note m1 = rgD [OF assms(1) [unfolded keeps_def] TrueI w mw]
  show "rely_ok R v \<and> (\<lambda>s t. R s t \<or> G s t)\<^sup>*\<^sup>* (tabs w) (tabs v) \<and> (\<forall>x. r = Inr x \<longrightarrow> True)"
  proof (cases r1)
    case (Inl e)
    with mw run have "n v1 = (r, v)" by (simp add: or_else_def)
    note n1 = rgD [OF assms(2) [unfolded keeps_def] TrueI m1(1) this]
    from m1(2) n1(2) have "(\<lambda>s t. R s t \<or> G s t)\<^sup>*\<^sup>* (tabs w) (tabs v)" by (rule rtranclp_trans)
    with n1 show ?thesis by blast
  next
    case (Inr x)
    with mw run m1 show ?thesis by (auto simp: or_else_def)
  qed
qed

lemma rg_call_result:
  assumes "rg R G P m Q" and "\<And>e s. Q' (Inl e) s" and "\<And>x s. Q x s \<Longrightarrow> Q' (Inr x) s"
  shows "rg R G P (call_result m) Q'"
proof (rule rgI)
  fix w r v assume w: "P (tabs w)" "rely_ok R w" and run: "call_result m w = (r, v)"
  obtain r1 where m: "m w = (r1, v)" and r: "r = Inr r1"
    using run by (auto simp: call_result_def split: prod.splits)
  note m1 = rgD [OF assms(1) w m]
  show "rely_ok R v \<and> (\<lambda>s t. R s t \<or> G s t)\<^sup>*\<^sup>* (tabs w) (tabs v) \<and> (\<forall>x. r = Inr x \<longrightarrow> Q' x (tabs v))"
    using m1 r assms(2,3) by (cases r1) auto
qed

lemma keeps_call_result [keeps_rules]: "keeps R G m \<Longrightarrow> keeps R G (call_result m)"
  unfolding keeps_def by (rule rg_call_result) auto

lemma rg_effect:
  assumes "\<And>s. P s \<Longrightarrow> G s (f s) \<and> Q () (f s)"
  shows "rg R G P (effect f) Q"
  unfolding rg_def effect_def using assms by (auto simp: rely_ok_def intro!: r_into_rtranclp)

lemma keeps_effect [keeps_rules]: "(\<And>s. G s (f s)) \<Longrightarrow> keeps R G (effect f)"
  unfolding keeps_def by (rule rg_effect) auto

lemma keeps_db_query [keeps_rules]: "keeps R G (db_query q)"
  unfolding keeps_def by (rule rg_db_query) auto

lemma keeps_db_row [keeps_rules]: "keeps R G (db_row q)"
  unfolding keeps_def by (rule rg_db_row) auto

lemma keeps_db_exec [keeps_rules]:
  "(\<And>s t x. f s = Some (t, x) \<Longrightarrow> G s t) \<Longrightarrow> keeps R G (db_exec f)"
  unfolding keeps_def by (rule rg_db_exec) auto

lemma keeps_in_tx:
  "(\<And>s. tx_triple (\<lambda>t. t = s) body (\<lambda>_ t. G s t)) \<Longrightarrow> keeps R G (in_tx body)"
  unfolding keeps_def by (rule rg_in_tx) auto

lemma keeps_for_each [keeps_rules]:
  "(\<And>x. x \<in> set xs \<Longrightarrow> keeps R G (f x)) \<Longrightarrow> keeps R G (for_each f xs)"
  unfolding keeps_def by (rule rg_for_each)

lemma keeps_if [keeps_rules]:
  "(b \<Longrightarrow> keeps R G m) \<Longrightarrow> (\<not> b \<Longrightarrow> keeps R G n) \<Longrightarrow> keeps R G (if b then m else n)"
  by simp

lemma keeps_case_option [keeps_rules]:
  "(x = None \<Longrightarrow> keeps R G m) \<Longrightarrow> (\<And>y. x = Some y \<Longrightarrow> keeps R G (f y))
    \<Longrightarrow> keeps R G (case x of None \<Rightarrow> m | Some y \<Rightarrow> f y)"
  by (cases x) auto

lemma keeps_case_prod [keeps_rules]:
  "(\<And>a b. x = (a, b) \<Longrightarrow> keeps R G (f a b)) \<Longrightarrow> keeps R G (case x of (a, b) \<Rightarrow> f a b)"
  by (cases x) auto

lemma keeps_let [keeps_rules]: "keeps R G (f x) \<Longrightarrow> keeps R G (Let x f)"
  by simp

lemma keeps_collect [keeps_rules]:
  assumes "\<And>x. x \<in> set xs \<Longrightarrow> keeps R G (f x)"
  shows "keeps R G (collect f xs)"
  using assms by (induction xs) (auto intro!: keeps_then keeps_ret)

text \<open>A fact about the value, carried past a call that may fail.\<close>

lemma rg_fact_for_each:
  assumes "\<And>x. x \<in> set xs \<Longrightarrow> rg R G (\<lambda>_. True) (f x) (\<lambda>_ _. B x)"
  shows "rg R G (\<lambda>_. True) (for_each f xs) (\<lambda>_ _. \<forall>x \<in> set xs. B x)"
  using assms
proof (induction xs)
  case (Cons x xs)
  have "rg R G (\<lambda>_. B x) (for_each f xs) (\<lambda>_ _. \<forall>y \<in> set (x # xs). B y)"
    using Cons.IH Cons.prems by (auto simp: rg_def)
  then show ?case using Cons.prems by (auto intro!: rg_then)
qed (simp add: rg_ret)

section \<open>Invariants of a service shared by sessions\<close>

text \<open>
  The contract between a service and the sessions that share its tables: an invariant that the
  steps of the service keep, and that the other sessions keep too. Every method with a triple
  for that guarantee then keeps the invariant, on success, on error and on a panic alike.
\<close>

locale shared_invariant =
  fixes R :: "'s \<Rightarrow> 's \<Rightarrow> bool" and G :: "'s \<Rightarrow> 's \<Rightarrow> bool" and I :: "'s \<Rightarrow> bool"
  assumes rely_keeps: "I s \<Longrightarrow> R s t \<Longrightarrow> I t"
    and guarantee_keeps: "I s \<Longrightarrow> G s t \<Longrightarrow> I t"
begin

lemma reach_keeps: "(\<lambda>s t. R s t \<or> G s t)\<^sup>*\<^sup>* s t \<Longrightarrow> I s \<Longrightarrow> I t"
  by (induction rule: rtranclp_induct) (auto intro: rely_keeps guarantee_keeps)

lemma method_keeps:
  assumes "rg R G P m Q" and "P (tabs w)" and "rely_ok R w" and "I (tabs w)"
  shows "I (tabs (snd (m w)))"
proof -
  have "(\<lambda>s t. R s t \<or> G s t)\<^sup>*\<^sup>* (tabs w) (tabs (snd (m w)))"
    using assms(1-3) unfolding rg_def by blast
  then show ?thesis using assms(4) by (rule reach_keeps)
qed

lemma keeps_invariant:
  assumes "keeps R G m" and "I (tabs w)" and "rely_ok R w"
  shows "I (tabs (snd (m w)))"
  using assms(1) [unfolded keeps_def] TrueI assms(3,2) by (rule method_keeps)

lemma invariant_stable: "stable R I"
  by (auto simp: stable_def intro: rely_keeps)

end

text \<open>
  A relation between earlier and later tables that is reflexive and transitive and contains the
  steps of both sides, such as "a decided request stays decided": it holds between the tables
  before and after every method.
\<close>

locale shared_history =
  fixes R :: "'s \<Rightarrow> 's \<Rightarrow> bool" and G :: "'s \<Rightarrow> 's \<Rightarrow> bool" and H :: "'s \<Rightarrow> 's \<Rightarrow> bool"
  assumes history_refl: "H s s"
    and history_trans: "H s t \<Longrightarrow> H t u \<Longrightarrow> H s u"
    and rely_history: "R s t \<Longrightarrow> H s t"
    and guarantee_history: "G s t \<Longrightarrow> H s t"
begin

lemma reach_history: "(\<lambda>s t. R s t \<or> G s t)\<^sup>*\<^sup>* s t \<Longrightarrow> H s t"
  by (induction rule: rtranclp_induct)
    (auto intro: history_refl history_trans dest: rely_history guarantee_history)

lemma method_history:
  assumes "rg R G P m Q" and "P (tabs w)" and "rely_ok R w"
  shows "H (tabs w) (tabs (snd (m w)))"
proof -
  have "(\<lambda>s t. R s t \<or> G s t)\<^sup>*\<^sup>* (tabs w) (tabs (snd (m w)))"
    using assms unfolding rg_def by blast
  then show ?thesis by (rule reach_history)
qed

lemma keeps_history:
  assumes "keeps R G m" and "rely_ok R w"
  shows "H (tabs w) (tabs (snd (m w)))"
  using assms(1) [unfolded keeps_def] TrueI assms(2) by (rule method_history)

end

end
