(* ===== verification/Go_Encoding.thy ===== *)
theory Go_Encoding
  imports Relio_Prelude
begin

text \<open>
  The encodings of Go's standard library the services rely on: decimal numbers
  (\<open>fmt.Sprintf("%d")\<close>, \<open>strconv.Atoi\<close>) and unpadded base64 in its two alphabets
  (\<open>base64.RawURLEncoding\<close>, \<open>base64.RawStdEncoding\<close>), each with its round trip.
\<close>

section \<open>Decimal numbers\<close>

definition digit_char :: "nat \<Rightarrow> char" where
  "digit_char d = char_of (48 + d)"

definition is_digit :: "char \<Rightarrow> bool" where
  "is_digit c \<longleftrightarrow> CHR ''0'' \<le> c \<and> c \<le> CHR ''9''"

definition digit_val :: "char \<Rightarrow> nat" where
  "digit_val c = of_char c - 48"

fun show_nat :: "nat \<Rightarrow> string" where
  "show_nat n = (if n < 10 then [digit_char n] else show_nat (n div 10) @ [digit_char (n mod 10)])"

declare show_nat.simps [simp del]

definition show_int :: "int \<Rightarrow> string" where
  "show_int n = (if n < 0 then CHR ''-'' # show_nat (nat (- n)) else show_nat (nat n))"

definition read_digits :: "string \<Rightarrow> nat" where
  "read_digits s = foldl (\<lambda>n c. 10 * n + digit_val c) 0 s"

text \<open>\<open>strconv.Atoi\<close>: an optional sign, at least one digit, a value that fits an \<open>int64\<close>.\<close>

definition atoi :: "string \<Rightarrow> int option" where
  "atoi s =
     (let (neg, ds) = (case s of
        [] \<Rightarrow> (False, [])
      | c # cs \<Rightarrow> if c = CHR ''-'' then (True, cs) else if c = CHR ''+'' then (False, cs) else (False, s))
      in if ds = [] \<or> \<not> list_all is_digit ds then None
         else let n = (if neg then - int (read_digits ds) else int (read_digits ds))
              in if - (2 ^ 63) \<le> n \<and> n < 2 ^ 63 then Some n else None)"

lemma of_char_digit: "d < 10 \<Longrightarrow> of_char (digit_char d) = 48 + (d :: nat)"
  by (simp add: digit_char_def)

lemma is_digit_char: "d < 10 \<Longrightarrow> is_digit (digit_char d)"
  by (simp add: is_digit_def less_eq_char_def of_char_digit)

lemma digit_val_char: "d < 10 \<Longrightarrow> digit_val (digit_char d) = d"
  by (simp add: digit_val_def of_char_digit)

lemma digit_not: "is_digit c \<Longrightarrow> c \<noteq> CHR ''-'' \<and> c \<noteq> CHR ''+'' \<and> c \<noteq> CHR '':'' \<and> c \<noteq> CHR '',''"
  by (auto simp: is_digit_def less_eq_char_def)

lemma show_nat_digits: "list_all is_digit (show_nat n)"
proof (induction n rule: show_nat.induct)
  case (1 n)
  then show ?case by (subst show_nat.simps) (auto simp: is_digit_char)
qed

lemma show_nat_not_Nil [simp]: "show_nat n \<noteq> []"
  by (subst show_nat.simps) simp

lemma read_digits_snoc: "read_digits (ds @ [c]) = 10 * read_digits ds + digit_val c"
  by (simp add: read_digits_def)

lemma read_show_nat: "read_digits (show_nat n) = n"
proof (induction n rule: show_nat.induct)
  case (1 n)
  show ?case
  proof (cases "n < 10")
    case True
    then show ?thesis by (subst show_nat.simps) (simp add: read_digits_def digit_val_char)
  next
    case False
    with 1 show ?thesis by (subst show_nat.simps) (simp add: read_digits_snoc digit_val_char)
  qed
qed

lemma atoi_show_nat: "int n < 2 ^ 63 \<Longrightarrow> atoi (show_nat n) = Some (int n)"
proof -
  assume small: "int n < 2 ^ 63"
  obtain c cs where s: "show_nat n = c # cs" by (cases "show_nat n") auto
  with show_nat_digits [of n] have "is_digit c" by simp
  then have "c \<noteq> CHR ''-''" "c \<noteq> CHR ''+''" by (auto dest: digit_not)
  with s small show_nat_digits [of n] read_show_nat [of n] show ?thesis
    by (simp add: atoi_def)
qed

lemma atoi_range: "atoi s = Some n \<Longrightarrow> - (2 ^ 63) \<le> n \<and> n < 2 ^ 63"
  by (auto simp: atoi_def Let_def split: prod.splits if_splits)

section \<open>Base64\<close>

definition index_of :: "'a \<Rightarrow> 'a list \<Rightarrow> nat option" where
  "index_of x xs = (if x \<in> set xs then Some (length (takeWhile (\<lambda>y. y \<noteq> x) xs)) else None)"

lemma index_of_nth: "distinct xs \<Longrightarrow> n < length xs \<Longrightarrow> index_of (xs ! n) xs = Some n"
  by (simp add: index_of_def takeWhile_eq_take_P_nth [of n] nth_eq_iff_index_eq)

definition alpha_num :: string where
  "alpha_num = ''ABCDEFGHIJKLMNOPQRSTUVWXYZabcdefghijklmnopqrstuvwxyz0123456789''"

definition std_alphabet :: string where "std_alphabet = alpha_num @ ''+/''"
definition url_alphabet :: string where "url_alphabet = alpha_num @ ''-_''"

definition good_alphabet :: "string \<Rightarrow> bool" where
  "good_alphabet abc \<longleftrightarrow> distinct abc \<and> length abc = 64 \<and> CHR 0x0A \<notin> set abc \<and> CHR 0x0D \<notin> set abc"

lemma std_alphabet_good: "good_alphabet std_alphabet" by code_simp
lemma url_alphabet_good: "good_alphabet url_alphabet" by code_simp

fun sextets :: "nat list \<Rightarrow> nat list" where
  "sextets [] = []"
| "sextets [a] = [a div 4, a mod 4 * 16]"
| "sextets [a, b] = [a div 4, a mod 4 * 16 + b div 16, b mod 16 * 4]"
| "sextets (a # b # c # bs) =
     [a div 4, a mod 4 * 16 + b div 16, b mod 16 * 4 + c div 64, c mod 64] @ sextets bs"

text \<open>The decoder does not look at the unused low bits of the last digit (Go's non-strict mode).\<close>

fun octets :: "nat list \<Rightarrow> nat list option" where
  "octets [] = Some []"
| "octets [p] = None"
| "octets [p, q] = Some [p * 4 + q div 16]"
| "octets [p, q, r] = Some [p * 4 + q div 16, q mod 16 * 16 + r div 4]"
| "octets (p # q # r # t # ps) =
     map_option (\<lambda>bs. [p * 4 + q div 16, q mod 16 * 16 + r div 4, r mod 4 * 64 + t] @ bs) (octets ps)"

fun opt_all :: "'a option list \<Rightarrow> 'a list option" where
  "opt_all [] = Some []"
| "opt_all (None # xs) = None"
| "opt_all (Some x # xs) = map_option ((#) x) (opt_all xs)"

definition b64_encode :: "string \<Rightarrow> string \<Rightarrow> string" where
  "b64_encode abc s = map (\<lambda>n. abc ! n) (sextets (map of_char s))"

definition b64_decode :: "string \<Rightarrow> string \<Rightarrow> string option" where
  "b64_decode abc s =
     (case opt_all (map (\<lambda>c. index_of c abc) (filter (\<lambda>c. c \<noteq> CHR 0x0A \<and> c \<noteq> CHR 0x0D) s)) of
        None \<Rightarrow> None
      | Some ps \<Rightarrow> map_option (map char_of) (octets ps))"

lemma byte_parts:
  fixes a :: nat
  assumes "a < 256"
  shows "a div 4 < 64" and "a div 16 < 16" and "a div 64 < 4"
  using assms by (simp_all add: less_mult_imp_div_less)

lemma join_bound: "x < m \<Longrightarrow> y < k \<Longrightarrow> x * k + y < m * (k :: nat)"
  using mult_le_mono1 [of "Suc x" m k] by simp

lemma six_bits:
  fixes a b c :: nat
  assumes "a < 256" "b < 256" "c < 256"
  shows "a div 4 < 64" "a mod 4 * 16 + b div 16 < 64" "b mod 16 * 4 + c div 64 < 64" "c mod 64 < 64"
    and "a mod 4 * 16 < 64" "b mod 16 * 4 < 64"
  using join_bound [of "a mod 4" 4 "b div 16" 16] join_bound [of "b mod 16" 16 "c div 64" 4]
    byte_parts [OF assms(1)] byte_parts [OF assms(2)] byte_parts [OF assms(3)]
  by simp_all

lemma join_split:
  fixes b c a :: nat
  assumes "b < 256" and "c < 256"
  shows "a div 4 * 4 + (a mod 4 * 16 + b div 16) div 16 = a"
    and "(a mod 4 * 16 + b div 16) mod 16 * 16 + (b mod 16 * 4 + c div 64) div 4 = b"
    and "(b mod 16 * 4 + c div 64) mod 4 * 64 + c mod 64 = c"
    and "a div 4 * 4 + a mod 4 * 16 div 16 = a"
    and "(a mod 4 * 16 + b div 16) mod 16 * 16 + b mod 16 * 4 div 4 = b"
  using byte_parts [OF assms(1)] byte_parts [OF assms(2)] by simp_all

lemma sextets_bound: "\<forall>b \<in> set bs. b < 256 \<Longrightarrow> \<forall>p \<in> set (sextets bs). p < 64"
proof (induction bs rule: sextets.induct)
  case (4 a b c bs)
  then show ?case using six_bits [of a b c] by auto
qed (use six_bits in auto)

lemma octets_sextets: "\<forall>b \<in> set bs. b < 256 \<Longrightarrow> octets (sextets bs) = Some bs"
proof (induction bs rule: sextets.induct)
  case (3 a b)
  then show ?case using join_split [of b b] by simp
next
  case (4 a b c bs)
  then show ?case using join_split [of b c] by simp
qed (use join_split in auto)

lemma chars_of_bytes: "map char_of (map of_char s :: nat list) = s"
  by (induction s) auto

lemma char_byte: "of_char c < (256 :: nat)"
  by simp

lemma opt_all_Some: "opt_all (map Some xs) = Some xs"
  by (induction xs) auto

lemma b64_roundtrip:
  assumes abc: "good_alphabet abc"
  shows "b64_decode abc (b64_encode abc s) = Some s"
proof -
  let ?ps = "sextets (map of_char s)"
  have small: "\<forall>b \<in> set (map of_char s). b < (256 :: nat)" by (auto simp: char_byte)
  have bound: "\<forall>p \<in> set ?ps. p < length abc"
    using sextets_bound [OF small] abc by (simp add: good_alphabet_def)
  have "filter (\<lambda>c. c \<noteq> CHR 0x0A \<and> c \<noteq> CHR 0x0D) (map ((!) abc) ?ps) = map ((!) abc) ?ps"
    using bound abc by (auto simp: good_alphabet_def filter_id_conv) (metis nth_mem)+
  moreover have "map (\<lambda>c. index_of c abc) (map ((!) abc) ?ps) = map Some ?ps"
    using bound abc by (auto simp: good_alphabet_def index_of_nth)
  ultimately show ?thesis
    using octets_sextets [OF small]
    by (simp add: b64_decode_def b64_encode_def opt_all_Some chars_of_bytes del: map_map)
qed

lemma b64_encode_chars:
  assumes abc: "good_alphabet abc" and "c \<in> set (b64_encode abc s)"
  shows "c \<in> set abc"
proof -
  have "\<forall>b \<in> set (map of_char s). b < (256 :: nat)" by (auto simp: char_byte)
  then show ?thesis using sextets_bound assms by (fastforce simp: b64_encode_def good_alphabet_def)
qed

section \<open>Hexadecimal text and random identifiers\<close>

definition hex_digit :: "nat \<Rightarrow> char" where
  "hex_digit d = (if d < 10 then digit_char d else char_of (87 + d))"

definition hex_encode :: "string \<Rightarrow> string" where
  "hex_encode s = concat (map (\<lambda>c. [hex_digit (of_char c div 16), hex_digit (of_char c mod 16)]) s)"

text \<open>
  \<open>ids.Token\<close>, \<open>ids.HexToken\<close> and \<open>ids.New\<close>, as functions of the random bytes they draw
  (16 of them for \<open>ids.New\<close>).
\<close>

definition new_token :: "string \<Rightarrow> string" where
  "new_token random = b64_encode url_alphabet random"

definition hex_token :: "string \<Rightarrow> string" where
  "hex_token random = hex_encode random"

definition new_id :: "string \<Rightarrow> string" where
  "new_id random =
     (let b = random[6 := char_of (of_char (random ! 6) mod 16 + 64 :: nat),
                     8 := char_of (of_char (random ! 8) mod 64 + 128 :: nat)]
      in join_with ''-'' [hex_encode (take 4 b), hex_encode (take 2 (drop 4 b)), hex_encode (take 2 (drop 6 b)),
           hex_encode (take 2 (drop 8 b)), hex_encode (take 6 (drop 10 b))])"

lemma hex_digit_plain: "d < 16 \<Longrightarrow> hex_digit d \<noteq> CHR ''_''"
proof -
  have "list_all (\<lambda>d. hex_digit d \<noteq> CHR ''_'') [0..<16]" by code_simp
  then show "d < 16 \<Longrightarrow> hex_digit d \<noteq> CHR ''_''" by (simp add: list_all_iff)
qed

lemma hex_token_plain: "CHR ''_'' \<notin> set (hex_token r)"
proof -
  have "hex_digit (of_char c div 16) \<noteq> CHR ''_''" "hex_digit (of_char c mod 16) \<noteq> CHR ''_''" for c
    using char_byte [of c] by (auto intro!: hex_digit_plain less_mult_imp_div_less)
  then show ?thesis by (fastforce simp: hex_token_def hex_encode_def)
qed

lemma hex_token_Nil [simp]: "hex_token r = [] \<longleftrightarrow> r = []"
  by (auto simp: hex_token_def hex_encode_def)

end
