(* ===== verification/Go_Json.thy ===== *)
theory Go_Json
  imports Go_Encoding Complex_Main
begin

text \<open>
  JSON values as \<open>encoding/json\<close> decodes them into \<open>any\<close>, and the two conversions between numbers
  and text the services use on them. A \<open>float64\<close> is modelled by the exact rational number it
  stands for: reading a number does not round, and printing is the plain decimal notation of
  \<open>strconv.FormatFloat(x, 'f', -1, 64)\<close>. The special values (NaN, infinities), hexadecimal floats
  and digit separators that \<open>ParseFloat\<close> also reads are not numbers here.
\<close>

datatype json =
    JNull
  | JBool bool
  | JNum rat
  | JStr string
  | JArr "json list"
  | JObj "(string \<times> json) list"

section \<open>Decimal notation\<close>

fun dec_places :: "nat \<Rightarrow> nat \<Rightarrow> nat \<Rightarrow> nat" where
  "dec_places 0 q k = k"
| "dec_places (Suc fuel) q k = (if 10 ^ k mod q = 0 then k else dec_places fuel q (Suc k))"

definition pad_zeros :: "nat \<Rightarrow> string \<Rightarrow> string" where
  "pad_zeros n s = replicate (n - length s) CHR ''0'' @ s"

text \<open>1074 decimal places write every \<open>float64\<close> exactly.\<close>

definition show_abs :: "nat \<Rightarrow> nat \<Rightarrow> string" where
  "show_abs n q =
     (let k = dec_places 1074 q 0; m = n * 10 ^ k div q
      in if k = 0 then show_nat m
         else show_nat (m div 10 ^ k) @ ''.'' @ pad_zeros k (show_nat (m mod 10 ^ k)))"

definition show_dec :: "rat \<Rightarrow> string" where
  "show_dec r = (case quotient_of r of (n, q) \<Rightarrow>
     (if n < 0 then ''-'' else []) @ show_abs (nat \<bar>n\<bar>) (nat q))"

text \<open>The exponent part: none, or e with an optional sign and at least one digit.\<close>

definition parse_exponent :: "string \<Rightarrow> int option" where
  "parse_exponent s =
     (case s of
        [] \<Rightarrow> Some 0
      | c # cs \<Rightarrow>
          if c \<noteq> CHR ''e'' \<and> c \<noteq> CHR ''E'' then None
          else
            let (neg, ds) = (case cs of
                  x # xs \<Rightarrow> if x = CHR ''-'' then (True, xs) else if x = CHR ''+'' then (False, xs) else (False, cs)
                | [] \<Rightarrow> (False, []))
            in if ds = [] \<or> \<not> list_all is_digit ds then None
               else Some (if neg then - int (read_digits ds) else int (read_digits ds)))"

definition scale10 :: "rat \<Rightarrow> int \<Rightarrow> rat" where
  "scale10 r e = (if 0 \<le> e then r * 10 ^ nat e else r / 10 ^ nat (- e))"

text \<open>The largest value that does not round to infinity lies below this bound.\<close>

definition float_limit :: rat where
  "float_limit = 2 ^ 1024 - 2 ^ 970"

definition parse_unsigned :: "string \<Rightarrow> rat option" where
  "parse_unsigned s =
     (let whole = takeWhile is_digit s; rest = dropWhile is_digit s;
          (frac, rest') = (case rest of
             c # cs \<Rightarrow> if c = CHR ''.'' then (takeWhile is_digit cs, dropWhile is_digit cs) else ([], rest)
           | [] \<Rightarrow> ([], []))
      in if whole = [] \<and> frac = [] then None
         else map_option (scale10 (of_nat (read_digits (whole @ frac)) / 10 ^ length frac)) (parse_exponent rest'))"

definition parse_float :: "string \<Rightarrow> rat option" where
  "parse_float s =
     (let (neg, u) = (case s of
        c # cs \<Rightarrow> if c = CHR ''-'' then (True, cs) else if c = CHR ''+'' then (False, cs) else (False, s)
      | [] \<Rightarrow> (False, []))
      in case parse_unsigned u of
           None \<Rightarrow> None
         | Some r \<Rightarrow> if r \<ge> float_limit then None else Some (if neg then - r else r))"

section \<open>Printing with \<open>fmt.Sprint\<close>\<close>

text \<open>
  Numbers inside a list or an object print in plain notation here; Go switches to the exponent
  notation from \<open>1e21\<close> on.
\<close>

fun sprint :: "json \<Rightarrow> string" where
  "sprint JNull = ''<nil>''"
| "sprint (JBool b) = (if b then ''true'' else ''false'')"
| "sprint (JNum r) = show_dec r"
| "sprint (JStr s) = s"
| "sprint (JArr vs) = ''['' @ join_with '' '' (map sprint vs) @ '']''"
| "sprint (JObj kvs) =
     ''map['' @ join_with '' '' (map snd (sort_key fst (map (\<lambda>(k, v). (k, k @ '':'' @ sprint v)) kvs))) @ '']''"

definition json_field :: "string \<Rightarrow> (string \<times> json) list \<Rightarrow> json option" where
  "json_field k obj = map_of obj k"

end
