(* ===== verification/Accounts.thy ===== *)
theory Accounts
  imports Rely_Guarantee Go_Json
begin

text \<open>
  The tables the account services share (\<open>migrations/001_initial.sql\<close>): users and their roles,
  browser sessions, personal keys with their history, system settings and the audit log; and the
  principal that a request acts as (\<open>auth.Principal\<close>, internal/auth/service.go) with its
  permission checks.
\<close>

section \<open>Tables\<close>

record user_row =
  u_id :: string
  u_username :: string
  u_display_name :: string
  u_email :: "string option"
  u_hash :: "string option"
  u_source :: string
  u_org :: "string option"
  u_manager :: "string option"
  u_active :: bool
  u_bootstrap :: bool
  u_must_change :: bool
  u_last_login :: "instant option"
  u_created :: instant
  u_updated_at :: instant
  u_version :: int

record role_row =
  r_id :: string
  r_code :: string
  r_scope :: string

record session_row =
  s_hash :: string
  s_user :: string
  s_csrf :: string
  s_method :: string
  s_ip :: string
  s_agent :: string
  s_expires :: instant
  s_last_seen :: instant

record key_row =
  k_id :: string
  k_user :: string
  k_name :: string
  k_key_id :: string
  k_digest :: string
  k_scopes :: "string list"
  k_channels :: "string list"
  k_status :: string
  k_version :: int
  k_expires :: "instant option"
  k_grace :: "instant option"
  k_parent :: "string option"
  k_last_used :: "instant option"
  k_last_ip :: string
  k_created :: instant
  k_revoked :: "instant option"

record key_event =
  e_key :: string
  e_action :: string
  e_actor :: string

record setting_row =
  st_namespace :: string
  st_key :: string
  st_value :: json
  st_secret :: bool
  st_version :: int

text \<open>
  What \<open>(value #>> '{}')::int\<close> and \<open>::boolean\<close> yield, \<open>None\<close> for SQL NULL and for a cast PostgreSQL
  refuses; text is read in decimal notation without the prefixes and underscores of newer servers.
\<close>

definition int4 :: "int \<Rightarrow> int option" where
  "int4 n = (if - (2 ^ 31) \<le> n \<and> n < 2 ^ 31 then Some n else None)"

definition json_int :: "json \<Rightarrow> int option" where
  "json_int v =
     (case v of
        JNum r \<Rightarrow> (case quotient_of r of (n, d) \<Rightarrow> if d = 1 then int4 n else None)
      | JStr s \<Rightarrow> Option.bind (atoi (trim_space s)) int4
      | _ \<Rightarrow> None)"

definition st_int :: "setting_row \<Rightarrow> int option" where
  "st_int r = json_int (st_value r)"

definition read_bool :: "string \<Rightarrow> bool option" where
  "read_bool s =
     (let u = to_lower (trim_space s) in
      if u \<in> {''t'', ''tr'', ''tru'', ''true'', ''y'', ''ye'', ''yes'', ''on'', ''1''} then Some True
      else if u \<in> {''f'', ''fa'', ''fal'', ''fals'', ''false'', ''n'', ''no'', ''of'', ''off'', ''0''} then Some False
      else None)"

definition st_bool :: "setting_row \<Rightarrow> bool option" where
  "st_bool r =
     (case st_value r of
        JBool b \<Rightarrow> Some b
      | JStr s \<Rightarrow> read_bool s
      | JNum n \<Rightarrow> if n = 1 then Some True else if n = 0 then Some False else None
      | _ \<Rightarrow> None)"

text \<open>\<open>value::text::integer\<close> and \<open>::boolean\<close>, where a string keeps its quotation marks.\<close>

definition text_int :: "setting_row \<Rightarrow> int option" where
  "text_int r = (case st_value r of JStr _ \<Rightarrow> None | v \<Rightarrow> json_int v)"

definition text_bool :: "setting_row \<Rightarrow> bool option" where
  "text_bool r = (case st_value r of JStr _ \<Rightarrow> None | _ \<Rightarrow> st_bool r)"

text \<open>
  An audit entry (\<open>audit.Event\<close>) without its payload columns \<open>before_data\<close>, \<open>after_data\<close> and
  \<open>metadata\<close>; the insert stores NULL for an empty actor, resource id or address.
\<close>

record audit_row =
  a_actor :: "string option"
  a_actor_name :: string
  a_channel :: string
  a_action :: string
  a_resource :: string
  a_resource_id :: "string option"
  a_ip :: "string option"
  a_request :: string
  a_agent :: string

record account_tables =
  users :: "user_row list"
  roles :: "role_row list"
  user_roles :: "(string \<times> string) list"
  role_perms :: "(string \<times> string) list"
  sessions :: "session_row list"
  pkeys :: "key_row list"
  key_history :: "key_event list"
  settings :: "setting_row list"
  audit_log :: "audit_row list"

type_synonym ('e, 'a) account_op = "(account_tables, 'e, 'a) go"

definition setting :: "string \<Rightarrow> string \<Rightarrow> 'z account_tables_scheme \<Rightarrow> setting_row option" where
  "setting ns key t = List.find (\<lambda>r. st_namespace r = ns \<and> st_key r = key) (settings t)"

section \<open>The principal\<close>

record principal =
  user_id :: string
  username :: string
  display_name :: string
  email :: string
  organization_id :: string
  manager_id :: string
  auth_method :: string
  is_bootstrap :: bool
  must_change_password :: bool
  data_scope :: string
  permissions :: "string list"
  key_id :: string
  key_db_id :: string
  key_scopes :: "string list"
  key_channels :: "string list"
  oauth_client :: string
  token_scopes :: "string list"
  csrf_token :: string
  perm :: "string list"

definition key_allows :: "principal \<Rightarrow> string \<Rightarrow> bool" where
  "key_allows p permission =
     (if key_id p = [] then True
      else list_ex (\<lambda>s. s = permission \<or> s = ''admin:*'') (key_scopes p))"

definition has :: "principal \<Rightarrow> string \<Rightarrow> bool" where
  "has p permission =
     (if is_bootstrap p \<or> ''admin:*'' \<in> set (perm p) \<or> permission \<in> set (perm p)
      then key_allows p permission else False)"

definition channel_allowed :: "principal \<Rightarrow> string \<Rightarrow> bool" where
  "channel_allowed p channel =
     (if key_id p = [] then True else list_ex (\<lambda>c. equal_fold c channel) (key_channels p))"

definition require :: "principal \<Rightarrow> string \<Rightarrow> ('s, 'e, unit) go" where
  "require p permission = (if has p permission then ret () else raise (Forbidden permission))"

text \<open>What the user may do without the restriction of a key.\<close>

definition user_may :: "principal \<Rightarrow> string \<Rightarrow> bool" where
  "user_may p permission \<longleftrightarrow>
     is_bootstrap p \<or> ''admin:*'' \<in> set (perm p) \<or> permission \<in> set (perm p)"

lemma has_iff: "has p x \<longleftrightarrow> user_may p x \<and> key_allows p x"
  by (simp add: has_def user_may_def)

lemma key_allows_iff:
  "key_allows p x \<longleftrightarrow> key_id p = [] \<or> x \<in> set (key_scopes p) \<or> ''admin:*'' \<in> set (key_scopes p)"
  by (auto simp: key_allows_def list_ex_iff)

lemma require_then: "and_then (require p x) f = (if has p x then f () else raise (Forbidden x))"
  by (simp add: require_def)

lemma rg_require_then:
  "(has p x \<Longrightarrow> rg R G P (f ()) Q) \<Longrightarrow> rg R G P (and_then (require p x) f) Q"
  by (simp add: require_then rg_raise)

section \<open>The audit log\<close>

text \<open>What a handler passes on about the request it serves.\<close>

record client_info =
  c_ip :: string
  c_request :: string
  c_agent :: string

definition null_if_empty :: "string \<Rightarrow> string option" where
  "null_if_empty s = (if s = [] then None else Some s)"

definition audit_event :: "principal \<Rightarrow> client_info \<Rightarrow> string \<Rightarrow> string \<Rightarrow> string \<Rightarrow> string \<Rightarrow> audit_row" where
  "audit_event p c channel action resource rid =
     \<lparr>a_actor = null_if_empty (user_id p), a_actor_name = username p, a_channel = channel,
      a_action = action, a_resource = resource, a_resource_id = null_if_empty rid,
      a_ip = null_if_empty (c_ip c), a_request = c_request c, a_agent = c_agent c\<rparr>"

text \<open>\<open>audit.Record\<close>: one insert whose failure is only logged.\<close>

definition record_audit :: "audit_row \<Rightarrow> ('z account_tables_scheme, 'e, unit) go" where
  "record_audit e = or_default () (db_exec (writes (\<lambda>t. t\<lparr>audit_log := audit_log t @ [e]\<rparr>)))"

section \<open>Loading a principal\<close>

definition scope_rank :: "string \<Rightarrow> int" where
  "scope_rank s =
     (if s = ''USER'' then 1 else if s = ''TEAM'' then 2 else if s = ''DEPARTMENT'' then 3
      else if s = ''DIVISION'' then 4 else if s = ''COMPANY'' then 5 else 0)"

definition new_principal :: "string \<Rightarrow> principal" where
  "new_principal uid =
     \<lparr>user_id = uid, username = [], display_name = [], email = [], organization_id = [],
      manager_id = [], auth_method = [], is_bootstrap = False, must_change_password = False,
      data_scope = ''USER'', permissions = [], key_id = [], key_db_id = [], key_scopes = [],
      key_channels = [], oauth_client = [], token_scopes = [], csrf_token = [], perm = []\<rparr>"

text \<open>The rows of the role query: a left join, so a role without permissions yields one row.\<close>

definition role_rows :: "string \<Rightarrow> 'z account_tables_scheme \<Rightarrow> (string \<times> string option) list" where
  "role_rows uid t =
     concat (map (\<lambda>(u, rid).
       if u \<noteq> uid then []
       else case row_by r_id rid (roles t) of
         None \<Rightarrow> []
       | Some r \<Rightarrow>
           (case map snd (filter (\<lambda>(q, _). q = rid) (role_perms t)) of
              [] \<Rightarrow> [(r_scope r, None)]
            | ps \<Rightarrow> map (\<lambda>x. (r_scope r, Some x)) ps))
       (user_roles t))"

lemma role_rows_frame:
  "user_roles t' = user_roles t \<Longrightarrow> roles t' = roles t \<Longrightarrow> role_perms t' = role_perms t \<Longrightarrow>
    role_rows uid t' = role_rows uid t"
  by (simp add: role_rows_def cong: if_cong option.case_cong list.case_cong)

fun apply_role_row :: "principal \<Rightarrow> string \<times> string option \<Rightarrow> principal" where
  "apply_role_row p (scope, permission) =
     (let q = (if scope_rank scope > scope_rank (data_scope p) then p\<lparr>data_scope := scope\<rparr> else p)
      in case permission of None \<Rightarrow> q | Some x \<Rightarrow> q\<lparr>perm := List.insert x (perm q)\<rparr>)"

definition with_user :: "principal \<Rightarrow> user_row \<Rightarrow> principal" where
  "with_user p u = p\<lparr>username := u_username u, display_name := u_display_name u,
     email := case_option [] id (u_email u), organization_id := case_option [] id (u_org u),
     manager_id := case_option [] id (u_manager u), is_bootstrap := u_bootstrap u,
     must_change_password := u_must_change u\<rparr>"

definition with_roles :: "principal \<Rightarrow> (string \<times> string option) list \<Rightarrow> principal" where
  "with_roles p rows =
     (let q = foldl apply_role_row p rows in q\<lparr>permissions := sort (perm q)\<rparr>)"

definition load_principal :: "string \<Rightarrow> ('z account_tables_scheme, 'e, principal) go" where
  "load_principal uid =
     and_then (db_row (\<lambda>t. List.find (\<lambda>u. u_id u = uid \<and> u_active u) (users t))) (\<lambda>u.
     and_then (db_query (role_rows uid)) (\<lambda>rows.
     ret (with_roles (with_user (new_principal uid) u) rows)))"

text \<open>What the fold over the role rows computes.\<close>

definition best_scope :: "string \<Rightarrow> string list \<Rightarrow> string" where
  "best_scope s0 ss = foldl (\<lambda>a s. if scope_rank s > scope_rank a then s else a) s0 ss"

lemma fold_roles_scope:
  "data_scope (foldl apply_role_row p rows) = best_scope (data_scope p) (map fst rows)"
proof (induction rows arbitrary: p)
  case (Cons r rows)
  have "data_scope (apply_role_row p r) =
      (if scope_rank (fst r) > scope_rank (data_scope p) then fst r else data_scope p)"
    by (cases r) (auto simp: Let_def split: option.splits)
  with Cons show ?case by (simp add: best_scope_def)
qed (simp add: best_scope_def)

lemma best_scope_max:
  "scope_rank (best_scope s0 ss) = foldl max (scope_rank s0) (map scope_rank ss)"
  unfolding best_scope_def by (induction ss arbitrary: s0) (auto simp: max_def)

lemma foldl_max_ge: "a \<le> foldl max a xs \<and> (\<forall>x \<in> set xs. x \<le> foldl max a xs)" for a :: int
proof (induction xs arbitrary: a)
  case (Cons x xs)
  then have "max a x \<le> foldl max (max a x) xs" and "\<forall>y \<in> set xs. y \<le> foldl max (max a x) xs" by blast+
  then show ?case by simp
qed simp

lemma best_scope_ge: "s \<in> set (s0 # ss) \<Longrightarrow> scope_rank s \<le> scope_rank (best_scope s0 ss)"
  using foldl_max_ge [of "scope_rank s0" "map scope_rank ss"] by (auto simp: best_scope_max)

lemma best_scope_in: "best_scope s0 ss \<in> set (s0 # ss)"
  unfolding best_scope_def by (induction ss arbitrary: s0) (auto split: if_splits)

lemma fold_roles_perm:
  "set (perm (foldl apply_role_row p rows)) = set (perm p) \<union> {x. \<exists>s. (s, Some x) \<in> set rows}"
proof (induction rows arbitrary: p)
  case (Cons r rows)
  have "set (perm (apply_role_row p r)) = set (perm p) \<union> {x. \<exists>s. (s, Some x) = r}"
    by (cases r) (auto simp: Let_def split: option.splits)
  with Cons show ?case by auto
qed simp

lemma apply_role_row_frame:
  "user_id (apply_role_row p r) = user_id p" "is_bootstrap (apply_role_row p r) = is_bootstrap p"
  "key_id (apply_role_row p r) = key_id p" "organization_id (apply_role_row p r) = organization_id p"
  "must_change_password (apply_role_row p r) = must_change_password p"
  by (cases r; auto simp: Let_def split: option.splits)+

lemma fold_roles_frame:
  "user_id (foldl apply_role_row p rows) = user_id p"
  "is_bootstrap (foldl apply_role_row p rows) = is_bootstrap p"
  "key_id (foldl apply_role_row p rows) = key_id p"
  "organization_id (foldl apply_role_row p rows) = organization_id p"
  "must_change_password (foldl apply_role_row p rows) = must_change_password p"
  by (induction rows arbitrary: p) (simp_all add: apply_role_row_frame)

lemma with_roles_frame [simp]:
  "user_id (with_roles p rows) = user_id p" "is_bootstrap (with_roles p rows) = is_bootstrap p"
  "key_id (with_roles p rows) = key_id p" "organization_id (with_roles p rows) = organization_id p"
  "must_change_password (with_roles p rows) = must_change_password p"
  by (simp_all add: with_roles_def Let_def fold_roles_frame)

lemma with_user_frame [simp]:
  "user_id (with_user p u) = user_id p" "key_id (with_user p u) = key_id p"
  "is_bootstrap (with_user p u) = u_bootstrap u" "perm (with_user p u) = perm p"
  "data_scope (with_user p u) = data_scope p"
  by (simp_all add: with_user_def)

lemma new_principal_sel [simp]:
  "user_id (new_principal uid) = uid" "key_id (new_principal uid) = []"
  "perm (new_principal uid) = []" "data_scope (new_principal uid) = ''USER''"
  by (simp_all add: new_principal_def)

text \<open>Loading a principal only reads; what it returns is about the user asked for.\<close>

lemma rg_load_principal:
  assumes "stable R P"
  shows "rg R G P (load_principal uid) (\<lambda>p s. P s \<and> user_id p = uid \<and> key_id p = [])"
  unfolding load_principal_def
proof (rule rg_then)
  show "rg R G P (db_row (\<lambda>t. List.find (\<lambda>u. u_id u = uid \<and> u_active u) (users t))) (\<lambda>_. P)"
    by (rule rg_db_row [OF assms])
  show "rg R G P (and_then (db_query (role_rows uid)) (\<lambda>rows. ret (with_roles (with_user (new_principal uid) u) rows)))
      (\<lambda>p s. P s \<and> user_id p = uid \<and> key_id p = [])" for u
    by (rule rg_then [where M = "\<lambda>_. P"], rule rg_db_query [OF assms]) (auto intro: rg_ret)
qed

lemma load_principal_calm:
  "load_principal uid (calm t) =
     (case List.find (\<lambda>u. u_id u = uid \<and> u_active u) (users t) of
        None \<Rightarrow> (Inl No_rows, calm t)
      | Some u \<Rightarrow> (Inr (with_roles (with_user (new_principal uid) u) (role_rows uid t)), calm t))"
  by (simp add: load_principal_def calm_simps split: option.split)

end
