(* ===== verification/Auth.thy ===== *)
theory Auth
  imports Accounts Go_Encoding
begin

text \<open>
  Authentication (internal/auth/service.go, internal/auth/password.go): password hashes, the local
  login, sessions, personal keys and bearer tokens. Argon2, SHA-256, the keyed digest of the
  secrets manager and the OIDC validator are parameters; random tokens and the clock are
  arguments of the call that draws them.
\<close>

section \<open>Passwords\<close>

text \<open>
  \<open>argon2.IDKey\<close> of golang.org/x/crypto: password, salt, time, memory, threads, key length;
  \<open>None\<close> is a panic (the library refuses zero rounds or threads).
\<close>

type_synonym id_key = "string \<Rightarrow> string \<Rightarrow> nat \<Rightarrow> nat \<Rightarrow> nat \<Rightarrow> nat \<Rightarrow> string option"

datatype auth_error =
    Password_too_short
  | Rand_failed
  | Invalid_credentials
  | Local_login_disabled
  | Not_authenticated
  | Session_expired
  | Invalid_access_key
  | Key_expired_or_revoked
  | Bearer_refused string string
  | No_local_password
  | Wrong_password

definition argon_memory :: nat where "argon_memory = 65536"
definition argon_time :: nat where "argon_time = 3"
definition argon_threads :: nat where "argon_threads = 2"
definition argon_key_len :: nat where "argon_key_len = 32"

definition dollar :: char where "dollar = CHR ''$''"

definition param_text :: "nat \<Rightarrow> nat \<Rightarrow> nat \<Rightarrow> string" where
  "param_text m t p = ''m='' @ show_nat m @ '',t='' @ show_nat t @ '',p='' @ show_nat p"

text \<open>\<open>salt\<close> is what \<open>rand.Read\<close> filled in, \<open>None\<close> where it returned an error.\<close>

definition hash_password :: "id_key \<Rightarrow> string option \<Rightarrow> string \<Rightarrow> auth_error err + string" where
  "hash_password idkey salt password =
     (if length password < 12 then Inl (App Password_too_short)
      else case salt of
        None \<Rightarrow> Inl (App Rand_failed)
      | Some s \<Rightarrow> (case idkey password s argon_time argon_memory argon_threads argon_key_len of
          None \<Rightarrow> Inl Panicked
        | Some h \<Rightarrow> Inr (dollar # ''argon2id'' @ dollar # ''v=19'' @
            dollar # param_text argon_memory argon_time argon_threads @
            dollar # b64_encode std_alphabet s @ dollar # b64_encode std_alphabet h)))"

text \<open>
  \<open>fmt.Sscanf(s, "m=%d,t=%d,p=%d", \<dots>)\<close> into a \<open>uint32\<close>, a \<open>uint32\<close> and a \<open>uint8\<close>: literals
  match exactly, a number may be preceded by spaces other than newlines, is a run of digits, and
  must fit its variable; what follows the last number is not looked at.
\<close>

definition scan_lit :: "string \<Rightarrow> string \<Rightarrow> string option" where
  "scan_lit l s = (if prefix l s then Some (drop (length l) s) else None)"

definition scan_uint :: "nat \<Rightarrow> string \<Rightarrow> (nat \<times> string) option" where
  "scan_uint bound s =
     (let t = strip_prefixes (filter (\<lambda>p. p \<noteq> [CHR 0x0A]) go_spaces) s;
          ds = takeWhile is_digit t
      in if ds = [] \<or> read_digits ds \<ge> bound then None else Some (read_digits ds, dropWhile is_digit t))"

definition scan_params :: "string \<Rightarrow> (nat \<times> nat \<times> nat) option" where
  "scan_params s =
     Option.bind (scan_lit ''m='' s) (\<lambda>s.
     Option.bind (scan_uint (2 ^ 32) s) (\<lambda>(m, s).
     Option.bind (scan_lit '',t='' s) (\<lambda>s.
     Option.bind (scan_uint (2 ^ 32) s) (\<lambda>(t, s).
     Option.bind (scan_lit '',p='' s) (\<lambda>s.
     Option.bind (scan_uint 256 s) (\<lambda>(p, s). Some (m, t, p)))))))"

text \<open>\<open>None\<close> is a panic of the key derivation.\<close>

definition verify_password :: "id_key \<Rightarrow> string \<Rightarrow> string \<Rightarrow> bool option" where
  "verify_password idkey encoded password =
     (let parts = split_on dollar encoded
      in if length parts \<noteq> 6 \<or> parts ! 1 \<noteq> ''argon2id'' \<or> parts ! 2 \<noteq> ''v=19'' then Some False
         else case scan_params (parts ! 3) of
           None \<Rightarrow> Some False
         | Some (memory, time, threads) \<Rightarrow>
             if memory > 256 * 1024 \<or> time > 10 \<or> threads > 16 then Some False
             else case b64_decode std_alphabet (parts ! 4) of
               None \<Rightarrow> Some False
             | Some salt \<Rightarrow> (case b64_decode std_alphabet (parts ! 5) of
                 None \<Rightarrow> Some False
               | Some want \<Rightarrow>
                   map_option (\<lambda>got. got = want) (idkey password salt time memory threads (length want))))"

lemma scan_lit_append [simp]: "scan_lit l (l @ s) = Some s"
  by (simp add: scan_lit_def)

lemma strip_number:
  "is_digit c \<Longrightarrow> strip_prefixes (filter (\<lambda>p. p \<noteq> [CHR 0x0A]) go_spaces) (c # s) = c # s"
  by (rule strip_prefixes_id) (auto simp: go_spaces_def is_digit_def less_eq_char_def)

lemma take_digits_append:
  assumes "list_all is_digit ds" and "\<And>c cs. s = c # cs \<Longrightarrow> \<not> is_digit c"
  shows "takeWhile is_digit (ds @ s) = ds" and "dropWhile is_digit (ds @ s) = s"
  using assms by (induction ds) (cases s; auto)+

lemma scan_uint_show:
  assumes "n < bound" and "\<And>c cs. s = c # cs \<Longrightarrow> \<not> is_digit c"
  shows "scan_uint bound (show_nat n @ s) = Some (n, s)"
proof -
  obtain c cs where sn: "show_nat n = c # cs" by (cases "show_nat n") auto
  with show_nat_digits [of n] have "is_digit c" by simp
  then have "strip_prefixes (filter (\<lambda>p. p \<noteq> [CHR 0x0A]) go_spaces) (show_nat n @ s) = show_nat n @ s"
    using strip_number sn by simp
  with take_digits_append [OF show_nat_digits assms(2), where s = s] assms(1) show ?thesis
    by (simp add: scan_uint_def read_show_nat)
qed

lemma comma_not_digit: "\<not> is_digit CHR '',''"
  by (simp add: is_digit_def less_eq_char_def)

lemma scan_param_text:
  assumes "m < 2 ^ 32" and "t < 2 ^ 32" and "p < 256"
  shows "scan_params (param_text m t p) = Some (m, t, p)"
proof -
  have "scan_uint 256 (show_nat p) = Some (p, [])"
    using scan_uint_show [of p 256 "[]"] assms by simp
  moreover have "scan_uint (2 ^ 32) (show_nat t @ '',p='' @ r) = Some (t, '',p='' @ r)" for r
    using assms by (intro scan_uint_show) (auto simp: comma_not_digit)
  moreover have "scan_uint (2 ^ 32) (show_nat m @ '',t='' @ r) = Some (m, '',t='' @ r)" for r
    using assms by (intro scan_uint_show) (auto simp: comma_not_digit)
  ultimately show ?thesis
    by (simp only: scan_params_def param_text_def scan_lit_append Option.bind.simps prod.case)
qed

lemma dollar_not_b64: "dollar \<notin> set (b64_encode std_alphabet s)"
proof -
  have "dollar \<notin> set std_alphabet" by code_simp
  then show ?thesis using b64_encode_chars [OF std_alphabet_good] by blast
qed

lemma dollar_not_digits: "list_all is_digit ds \<Longrightarrow> dollar \<notin> set ds"
  by (auto simp: list_all_iff dollar_def is_digit_def less_eq_char_def)

lemma dollar_not_param: "dollar \<notin> set (param_text m t p)"
  using dollar_not_digits [OF show_nat_digits] by (auto simp: param_text_def) (auto simp: dollar_def)

lemma split_hash:
  "split_on dollar (dollar # ''argon2id'' @ dollar # ''v=19'' @ dollar # param_text m t p @
      dollar # b64_encode std_alphabet s @ dollar # b64_encode std_alphabet h) =
   [[], ''argon2id'', ''v=19'', param_text m t p, b64_encode std_alphabet s, b64_encode std_alphabet h]"
proof -
  have "dollar \<notin> set ''argon2id''" "dollar \<notin> set ''v=19''" by (simp_all add: dollar_def)
  then show ?thesis
    by (simp add: split_on_append_sep split_on_no_sep dollar_not_param dollar_not_b64
        del: append_Cons append.simps(2))
qed

lemma verify_hash:
  assumes hash: "hash_password idkey (Some salt) password = Inr h"
    and len: "\<And>pw k. idkey pw salt argon_time argon_memory argon_threads argon_key_len = Some k
                \<Longrightarrow> length k = argon_key_len"
  shows "verify_password idkey h attempt =
    map_option (\<lambda>got. idkey password salt argon_time argon_memory argon_threads argon_key_len = Some got)
      (idkey attempt salt argon_time argon_memory argon_threads argon_key_len)"
proof -
  from hash obtain k where k: "idkey password salt argon_time argon_memory argon_threads argon_key_len = Some k"
    and h: "h = dollar # ''argon2id'' @ dollar # ''v=19'' @ dollar # param_text argon_memory argon_time argon_threads @
            dollar # b64_encode std_alphabet salt @ dollar # b64_encode std_alphabet k"
    by (auto simp: hash_password_def split: if_splits option.splits)
  have "scan_params (param_text argon_memory argon_time argon_threads) =
      Some (argon_memory, argon_time, argon_threads)"
    by (rule scan_param_text) (simp_all add: argon_memory_def argon_time_def argon_threads_def)
  then show ?thesis
    unfolding verify_password_def h split_hash
    using k len [OF k]
    by (auto simp: Let_def b64_roundtrip std_alphabet_good argon_memory_def argon_time_def argon_threads_def
        intro!: option.map_cong)
qed

section \<open>Local login\<close>

record crypto =
  sha :: "string \<Rightarrow> string"
  hmac :: "string \<Rightarrow> string"
  id_key_of :: id_key

record local_account =
  la_id :: string
  la_hash :: string
  la_active :: bool
  la_bootstrap :: bool
  la_found :: bool

definition no_account :: local_account where
  "no_account = \<lparr>la_id = [], la_hash = [], la_active = False, la_bootstrap = False, la_found = False\<rparr>"

text \<open>A NULL \<open>password_hash\<close> fails the scan, as a missing row does.\<close>

definition find_account :: "string \<Rightarrow> 'z account_tables_scheme \<Rightarrow> local_account option" where
  "find_account name t =
     (case List.find (\<lambda>u. to_lower (u_username u) = to_lower name \<and> u_source u = ''LOCAL'') (users t) of
        None \<Rightarrow> None
      | Some u \<Rightarrow> (case u_hash u of
          None \<Rightarrow> None
        | Some h \<Rightarrow> Some \<lparr>la_id = u_id u, la_hash = h, la_active = u_active u,
            la_bootstrap = u_bootstrap u, la_found = True\<rparr>))"

definition admit_local :: "id_key \<Rightarrow> local_account \<Rightarrow> string \<Rightarrow> bool \<Rightarrow> auth_error err + unit" where
  "admit_local idkey acct password bootstrap_only =
     (if \<not> la_found acct \<or> \<not> la_active acct then Inl (App Invalid_credentials)
      else case verify_password idkey (la_hash acct) password of
        None \<Rightarrow> Inl Panicked
      | Some False \<Rightarrow> Inl (App Invalid_credentials)
      | Some True \<Rightarrow>
          if bootstrap_only \<and> \<not> la_bootstrap acct then Inl (App Local_login_disabled) else Inr ())"

definition session_minutes :: "'z account_tables_scheme \<Rightarrow> int" where
  "session_minutes t =
     (let m = (case setting ''security'' ''session_minutes'' t of
        Some r \<Rightarrow> (case st_int r of Some n \<Rightarrow> n | None \<Rightarrow> 480) | None \<Rightarrow> 480)
      in if m < 15 \<or> m > 10080 then 480 else m)"

definition session_duration :: "('z account_tables_scheme, auth_error, duration) go" where
  "session_duration =
     and_then (or_default 480 (db_query session_minutes)) (\<lambda>m. ret (minutes m))"

definition insert_session :: "session_row \<Rightarrow> 'z account_tables_scheme \<Rightarrow> ('z account_tables_scheme \<times> unit) option" where
  "insert_session r t =
     (if s_hash r \<in> set (keys s_hash (sessions t)) \<or> s_user r \<notin> set (keys u_id (users t)) then None
      else Some (t\<lparr>sessions := sessions t @ [r]\<rparr>, ()))"

definition new_session :: "crypto \<Rightarrow> string \<Rightarrow> string \<Rightarrow> string \<Rightarrow> string \<Rightarrow> string \<Rightarrow> string \<Rightarrow> instant
    \<Rightarrow> duration \<Rightarrow> session_row" where
  "new_session c token uid csrf method ip ua now d =
     \<lparr>s_hash = sha c token, s_user = uid, s_csrf = csrf, s_method = method, s_ip = ip, s_agent = ua,
      s_expires = now + d, s_last_seen = now\<rparr>"

definition login :: "crypto \<Rightarrow> string \<Rightarrow> string \<Rightarrow> string \<Rightarrow> string \<Rightarrow> bool \<Rightarrow> string \<Rightarrow> string \<Rightarrow> instant
    \<Rightarrow> ('z account_tables_scheme, auth_error, string \<times> principal) go" where
  "login c name password ip ua bootstrap_only token csrf now =
     and_then (or_default no_account (db_row (find_account name))) (\<lambda>acct.
     and_then (outcome (admit_local (id_key_of c) acct password bootstrap_only)) (\<lambda>_.
     and_then session_duration (\<lambda>d.
     and_then (db_exec (insert_session (new_session c token (la_id acct) csrf ''LOCAL'' ip ua now d))) (\<lambda>_.
     and_then (or_default () (db_exec (writes (\<lambda>t. t\<lparr>users :=
         update_where (\<lambda>u. u_id u = la_id acct) (\<lambda>u. u\<lparr>u_last_login := Some now\<rparr>) (users t)\<rparr>)))) (\<lambda>_.
     and_then (load_principal (la_id acct)) (\<lambda>p.
     ret (token, p\<lparr>auth_method := ''LOCAL'', csrf_token := csrf\<rparr>)))))))"

definition create_session :: "crypto \<Rightarrow> string \<Rightarrow> string \<Rightarrow> string \<Rightarrow> string \<Rightarrow> string \<Rightarrow> string \<Rightarrow> instant
    \<Rightarrow> ('z account_tables_scheme, auth_error, string \<times> principal) go" where
  "create_session c uid method ip ua token csrf now =
     and_then session_duration (\<lambda>d.
     and_then (db_exec (insert_session (new_session c token uid csrf method ip ua now d))) (\<lambda>_.
     and_then (load_principal uid) (\<lambda>p.
     ret (token, p\<lparr>auth_method := method, csrf_token := csrf\<rparr>))))"

definition logout :: "crypto \<Rightarrow> string \<Rightarrow> ('z account_tables_scheme, auth_error, unit) go" where
  "logout c token =
     or_default () (db_exec (writes (\<lambda>t. t\<lparr>sessions := delete_where (\<lambda>r. s_hash r = sha c token) (sessions t)\<rparr>)))"

definition change_password :: "crypto \<Rightarrow> principal \<Rightarrow> string \<Rightarrow> string \<Rightarrow> string option \<Rightarrow> instant
    \<Rightarrow> ('z account_tables_scheme, auth_error, unit) go" where
  "change_password c p current next_pw salt now =
     and_then (with_err No_local_password (db_row (\<lambda>t.
         case List.find (\<lambda>u. u_id u = user_id p \<and> u_source u = ''LOCAL'') (users t) of
           None \<Rightarrow> None | Some u \<Rightarrow> u_hash u))) (\<lambda>h.
     and_then (outcome (case verify_password (id_key_of c) h current of None \<Rightarrow> Inl Panicked | Some ok \<Rightarrow> Inr ok)) (\<lambda>ok.
     and_then (check ok Wrong_password) (\<lambda>_.
     and_then (outcome (hash_password (id_key_of c) salt next_pw)) (\<lambda>h'.
     db_exec (writes (\<lambda>t. t\<lparr>users := update_where (\<lambda>u. u_id u = user_id p)
       (\<lambda>u. u\<lparr>u_hash := Some h', u_must_change := False, u_updated_at := now, u_version := u_version u + 1\<rparr>)
       (users t)\<rparr>))))))"

section \<open>Authenticating a request\<close>

record request =
  authorization :: string
  url_path :: string
  session_cookie :: "string option"
  client_ip :: string

record access_token =
  at_user :: string
  at_subject :: string
  at_client :: string
  at_scopes :: "string list"

text \<open>
  The injected OIDC validator: refused with RFC 6750 code and description, failed for another
  reason (\<open>Inl None\<close>), or accepted. The flag tells it that the request is for the MCP endpoint.
\<close>

type_synonym oidc_validator = "(string \<Rightarrow> bool \<Rightarrow> (string \<times> string) option + access_token) option"

definition is_mcp_path :: "string \<Rightarrow> bool" where
  "is_mcp_path path \<longleftrightarrow> path = ''/mcp'' \<or> prefix ''/mcp/'' path"

definition bearer :: "'r request_scheme \<Rightarrow> string" where
  "bearer r =
     (let v = trim_space (authorization r)
      in if length v < 8 \<or> \<not> equal_fold (take 7 v) ''Bearer '' then [] else trim_space (drop 7 v))"

text \<open>\<open>strings.SplitN(raw, "_", 3)\<close> where it has three parts.\<close>

definition split_three :: "string \<Rightarrow> (string \<times> string \<times> string) option" where
  "split_three raw =
     (case cut_at CHR ''_'' raw of
        (a, rest, True) \<Rightarrow> (case cut_at CHR ''_'' rest of
            (b, c, True) \<Rightarrow> Some (a, b, c) | _ \<Rightarrow> None)
      | _ \<Rightarrow> None)"

definition key_usable :: "instant \<Rightarrow> key_row \<Rightarrow> bool" where
  "key_usable now k \<longleftrightarrow>
     (k_status k = ''ACTIVE'' \<or>
        (k_status k = ''ROTATING'' \<and> (case k_grace k of None \<Rightarrow> False | Some g \<Rightarrow> now < g))) \<and>
     \<not> (case k_expires k of None \<Rightarrow> False | Some x \<Rightarrow> x < now)"

definition with_key :: "principal \<Rightarrow> key_row \<Rightarrow> principal" where
  "with_key p k = p\<lparr>auth_method := ''PERSONAL_KEY'', key_id := k_key_id k, key_db_id := k_id k,
     key_scopes := k_scopes k, key_channels := k_channels k\<rparr>"

definition authenticate_key :: "crypto \<Rightarrow> string \<Rightarrow> string \<Rightarrow> instant \<Rightarrow> ('z account_tables_scheme, auth_error, principal) go" where
  "authenticate_key c raw ip now =
     (case split_three raw of
        None \<Rightarrow> raise (App Invalid_access_key)
      | Some (a, b, s) \<Rightarrow>
          if a \<noteq> ''relio'' \<or> b = [] \<or> s = [] then raise (App Invalid_access_key)
          else
            and_then (with_err Invalid_access_key (db_row (\<lambda>t. row_by k_key_id b (pkeys t)))) (\<lambda>k.
            and_then (check (k_digest k = hmac c raw) Invalid_access_key) (\<lambda>_.
            and_then (check (key_usable now k) Key_expired_or_revoked) (\<lambda>_.
            and_then (load_principal (k_user k)) (\<lambda>p.
            and_then (or_default () (db_exec (writes (\<lambda>t. t\<lparr>pkeys :=
                update_where (\<lambda>r. k_id r = k_id k) (\<lambda>r. r\<lparr>k_last_used := Some now, k_last_ip := ip\<rparr>) (pkeys t)\<rparr>)))) (\<lambda>_.
            ret (with_key p k)))))))"

definition authenticate_cookie :: "crypto \<Rightarrow> string option \<Rightarrow> instant \<Rightarrow> ('z account_tables_scheme, auth_error, principal) go" where
  "authenticate_cookie c cookie now =
     (case cookie of
        None \<Rightarrow> raise (App Not_authenticated)
      | Some v \<Rightarrow>
          and_then (with_err Session_expired (db_row (\<lambda>t.
              List.find (\<lambda>r. s_hash r = sha c v \<and> now < s_expires r) (sessions t)))) (\<lambda>r.
          and_then (load_principal (s_user r)) (\<lambda>p.
          and_then (or_default () (db_exec (writes (\<lambda>t. t\<lparr>sessions :=
              update_where (\<lambda>x. s_hash x = sha c v \<and> s_last_seen x < now - 5 * minute_ns)
                (\<lambda>x. x\<lparr>s_last_seen := now\<rparr>) (sessions t)\<rparr>)))) (\<lambda>_.
          ret (p\<lparr>auth_method := s_method r, csrf_token := s_csrf r\<rparr>)))))"

definition authenticate :: "crypto \<Rightarrow> oidc_validator \<Rightarrow> 'r request_scheme \<Rightarrow> instant \<Rightarrow> ('z account_tables_scheme, auth_error, principal) go" where
  "authenticate c oidc r now =
     (let b = bearer r in
      if b = [] then authenticate_cookie c (session_cookie r) now
      else if prefix ''relio_'' b then authenticate_key c b (client_ip r) now
      else case oidc of
        None \<Rightarrow> raise (App (Bearer_refused ''invalid_token'' ''The bearer token is not recognised''))
      | Some validate \<Rightarrow> (case validate b (is_mcp_path (url_path r)) of
          Inl (Some (code, desc)) \<Rightarrow> raise (App (Bearer_refused code desc))
        | Inl None \<Rightarrow> raise (App (Bearer_refused ''invalid_token'' ''The access token could not be verified''))
        | Inr token \<Rightarrow>
            and_then (load_principal (at_user token)) (\<lambda>p.
            ret (p\<lparr>auth_method := ''OIDC_ACCESS_TOKEN'', oauth_client := at_client token,
              token_scopes := at_scopes token\<rparr>))))"

end
