(* ===== verification/Auth_Facts.thy ===== *)
theory Auth_Facts
  imports Auth
begin

text \<open>What authentication guarantees: passwords, the order of the checks of a local login, sessions
  from login to logout, and what a personal key proves about its caller.\<close>

section \<open>Passwords and local login\<close>

text \<open>
  A password hash made by \<open>HashPassword\<close> is accepted by \<open>VerifyPassword\<close> for exactly the
  passwords that argon2 maps, under the stored salt, to the stored key; in particular for the
  password it was made from. Printing and parsing of the parameters, the salt and the key agree.
\<close>

theorem password_roundtrip:
  assumes "hash_password idkey (Some salt) password = Inr h"
    and "\<And>pw k. idkey pw salt argon_time argon_memory argon_threads argon_key_len = Some k
                \<Longrightarrow> length k = argon_key_len"
  shows "verify_password idkey h password = Some True \<and>
    (verify_password idkey h attempt = Some True \<longleftrightarrow>
       idkey attempt salt argon_time argon_memory argon_threads argon_key_len =
       idkey password salt argon_time argon_memory argon_threads argon_key_len)"
proof -
  from assms(1) obtain k where
    "idkey password salt argon_time argon_memory argon_threads argon_key_len = Some k"
    by (auto simp: hash_password_def split: if_splits option.splits)
  then show ?thesis using verify_hash [OF assms] by auto
qed

definition toy_id_key :: id_key where
  "toy_id_key pw salt t m p n = Some (take n (pw @ salt @ replicate n CHR ''x''))"

theorem password_roundtrip_witness:
  "\<exists>h. hash_password toy_id_key (Some ''0123456789abcdef'') ''correct horse'' = Inr h \<and>
     verify_password toy_id_key h ''correct horse'' = Some True \<and>
     verify_password toy_id_key h ''battery staple'' \<noteq> Some True"
proof -
  obtain h where h: "hash_password toy_id_key (Some ''0123456789abcdef'') ''correct horse'' = Inr h"
    by (auto simp: hash_password_def toy_id_key_def)
  have len: "length k = argon_key_len"
    if "toy_id_key pw ''0123456789abcdef'' argon_time argon_memory argon_threads argon_key_len = Some k" for pw k
    using that by (auto simp: toy_id_key_def)
  have "verify_password toy_id_key h ''correct horse'' = Some True \<and>
    (verify_password toy_id_key h ''battery staple'' = Some True \<longleftrightarrow>
       toy_id_key ''battery staple'' ''0123456789abcdef'' argon_time argon_memory argon_threads argon_key_len =
       toy_id_key ''correct horse'' ''0123456789abcdef'' argon_time argon_memory argon_threads argon_key_len)"
    by (rule password_roundtrip [OF h]) (rule len)
  moreover have "toy_id_key ''battery staple'' ''0123456789abcdef'' argon_time argon_memory argon_threads argon_key_len \<noteq>
      toy_id_key ''correct horse'' ''0123456789abcdef'' argon_time argon_memory argon_threads argon_key_len"
    by (simp add: toy_id_key_def argon_key_len_def)
  ultimately show ?thesis using h by blast
qed

definition proves_password :: "id_key \<Rightarrow> string \<Rightarrow> string \<Rightarrow> account_tables \<Rightarrow> bool" where
  "proves_password idkey name password t \<longleftrightarrow>
     (\<exists>a. find_account name t = Some a \<and> la_active a \<and> verify_password idkey (la_hash a) password = Some True)"

lemma find_account_found: "find_account name t = Some a \<Longrightarrow> la_found a"
  by (auto simp: find_account_def split: option.splits)

lemma admit_refused:
  assumes "find_account name t = Some a" and "\<not> proves_password idkey name password t"
    and "verify_password idkey (la_hash a) password \<noteq> None"
  shows "admit_local idkey a password b = Inl (App Invalid_credentials)"
  using assms by (auto simp: admit_local_def proves_password_def split: option.splits bool.splits)

text \<open>
  C15: A local login that does not prove its password is answered with the one error
  \<open>Invalid_credentials\<close> and writes nothing, whether the account is unknown, inactive, an SSO
  account or has another password, and whether or not local login is switched off.
\<close>

theorem login_refusal_uniform:
  assumes "\<not> proves_password (id_key_of c) name password t"
    and "\<And>a. find_account name t = Some a \<Longrightarrow> verify_password (id_key_of c) (la_hash a) password \<noteq> None"
  shows "login c name password ip ua bootstrap_only token csrf now (calm t) =
    (Inl (App Invalid_credentials), calm t)"
proof (cases "find_account name t")
  case None
  then show ?thesis by (simp add: login_def calm_simps no_account_def admit_local_def)
next
  case (Some a)
  with assms admit_refused [OF Some assms(1) assms(2) [OF Some]]
  show ?thesis by (simp add: login_def calm_simps)
qed

definition toy_crypto :: crypto where
  "toy_crypto = \<lparr>sha = (\<lambda>s. CHR ''#'' # s), hmac = (\<lambda>s. CHR ''%'' # s), id_key_of = toy_id_key\<rparr>"

definition no_tables :: account_tables where
  "no_tables = \<lparr>users = [], roles = [], user_roles = [], role_perms = [], sessions = [], pkeys = [],
     key_history = [], settings = [], audit_log = []\<rparr>"

theorem login_refusal_uniform_witness:
  "login toy_crypto ''admin'' ''guess'' [] [] True ''tok'' ''csrf'' 5 (calm no_tables) =
     (Inl (App Invalid_credentials), calm no_tables)"
proof (rule login_refusal_uniform)
  show "\<not> proves_password (id_key_of toy_crypto) ''admin'' ''guess'' no_tables"
    by (simp add: proves_password_def find_account_def no_tables_def)
  show "verify_password (id_key_of toy_crypto) (la_hash a) ''guess'' \<noteq> None"
    if "find_account ''admin'' no_tables = Some a" for a
    using that by (simp add: find_account_def no_tables_def)
qed

text \<open>
  The answer that local login is switched off is only ever given after the password has been
  proven, and never to the bootstrap administrator.
\<close>

theorem login_disabled_after_proof:
  "admit_local idkey acct password bootstrap_only = Inl (App Local_login_disabled) \<longleftrightarrow>
     la_found acct \<and> la_active acct \<and> verify_password idkey (la_hash acct) password = Some True \<and>
     bootstrap_only \<and> \<not> la_bootstrap acct"
  by (auto simp: admit_local_def split: option.splits bool.splits)

section \<open>Sessions\<close>

lemma session_minutes_range: "15 \<le> session_minutes t \<and> session_minutes t \<le> 10080"
  by (simp add: session_minutes_def Let_def)

lemma session_duration_calm:
  "session_duration (calm t) = (Inr (session_minutes t * minute_ns), calm t)"
  using session_minutes_range [of t] by (simp add: session_duration_def calm_simps minutes_exact)

lemma find_new_session:
  assumes "s_hash r = h" and "h \<notin> set (keys s_hash rs)" and "now < s_expires r"
  shows "List.find (\<lambda>x. s_hash x = h \<and> now < s_expires x) (rs @ [r]) = Some r"
  using assms by (induction rs) (auto simp: keys_def)

lemma find_deleted_session:
  "List.find (\<lambda>x. s_hash x = h \<and> P x) (delete_where (\<lambda>x. s_hash x = h) rs) = None"
  by (auto simp: find_None_iff delete_where_def)

lemma find_user_update:
  assumes "\<And>u. u_id (f u) = u_id u \<and> u_active (f u) = u_active u"
  shows "List.find (\<lambda>u. u_id u = i \<and> u_active u) (update_where P f us) =
    map_option (\<lambda>u. if P u then f u else u) (List.find (\<lambda>u. u_id u = i \<and> u_active u) us)"
  using assms by (induction us) auto

lemma load_principal_after_login:
  "load_principal i (calm (t\<lparr>sessions := ss, users := update_where P (\<lambda>u. u\<lparr>u_last_login := x\<rparr>) (users t)\<rparr>)) =
    (fst (load_principal i (calm t)), calm (t\<lparr>sessions := ss, users := update_where P (\<lambda>u. u\<lparr>u_last_login := x\<rparr>) (users t)\<rparr>))"
proof -
  have "role_rows i (t\<lparr>sessions := ss, users := us\<rparr>) = role_rows i t" for us
    by (rule role_rows_frame) simp_all
  then show ?thesis
    by (simp add: load_principal_calm find_user_update with_user_def split: option.split)
qed

lemma keys_users_login [simp]:
  "keys u_id (update_where P (\<lambda>u. u\<lparr>u_last_login := x\<rparr>) us) = keys u_id us"
  by (rule keys_update_where) simp

text \<open>The tables after a successful login.\<close>

lemma login_success:
  assumes "login c name password ip ua bo token csrf now (calm t) = (Inr (tok, p), v)"
  obtains a q where "find_account name t = Some a" and "tok = token"
    and "fst (load_principal (la_id a) (calm t)) = (Inr q :: auth_error err + principal)" and "p = q\<lparr>auth_method := ''LOCAL'', csrf_token := csrf\<rparr>"
    and "sha c token \<notin> set (keys s_hash (sessions t))"
    and "v = calm (t\<lparr>sessions := sessions t @
          [new_session c token (la_id a) csrf ''LOCAL'' ip ua now (session_minutes t * minute_ns)],
        users := update_where (\<lambda>u. u_id u = la_id a) (\<lambda>u. u\<lparr>u_last_login := Some now\<rparr>) (users t)\<rparr>)"
proof -
  from assms obtain a where a: "find_account name t = Some a"
    by (cases "find_account name t") (auto simp: login_def calm_simps no_account_def admit_local_def)
  from assms a have ok: "admit_local (id_key_of c) a password bo = Inr ()"
    by (auto simp: login_def calm_simps split: sum.splits)
  let ?r = "new_session c token (la_id a) csrf ''LOCAL'' ip ua now (session_minutes t * minute_ns)"
  let ?f = "\<lambda>u. u\<lparr>u_last_login := Some now\<rparr>"
  let ?t = "t\<lparr>sessions := sessions t @ [?r], users := update_where (\<lambda>u. u_id u = la_id a) ?f (users t)\<rparr>"
  have run: "login c name password ip ua bo token csrf now (calm t) =
      (if sha c token \<in> set (keys s_hash (sessions t)) \<or> la_id a \<notin> set (keys u_id (users t)) then (Inl Db_failed, calm t)
       else case fst (load_principal (la_id a) (calm t)) of
         Inl e \<Rightarrow> (Inl e, calm ?t)
       | Inr q \<Rightarrow> (Inr (token, q\<lparr>auth_method := ''LOCAL'', csrf_token := csrf\<rparr>), calm ?t))"
    using a ok
    by (auto simp: load_principal_after_login login_def calm_simps session_duration_calm insert_session_def new_session_def split: sum.split)
  with assms a that show thesis by (auto split: if_splits sum.splits)
qed

text \<open>
  C11: The token a login returns opens that user's session: until the session expires the cookie
  authenticates to the same principal, from the expiry on it does not, and after \<open>Logout\<close> it
  does not either.
\<close>

theorem login_session_lifetime:
  assumes "login c name password ip ua bo token csrf now (calm t) = (Inr (tok, p), v)"
  shows "(later < now + session_minutes t * minute_ns \<longrightarrow>
      fst (authenticate_cookie c (Some tok) later v) = Inr p) \<and>
    (later \<ge> now + session_minutes t * minute_ns \<longrightarrow>
      fst (authenticate_cookie c (Some tok) later v) = Inl (App Session_expired)) \<and>
    fst (authenticate_cookie c (Some tok) later (snd (logout c tok v))) = Inl (App Session_expired)"
proof -
  from assms obtain a q where a: "find_account name t = Some a" and tok: "tok = token"
    and q: "fst (load_principal (la_id a) (calm t)) = (Inr q :: auth_error err + principal)"
    and p: "p = q\<lparr>auth_method := ''LOCAL'', csrf_token := csrf\<rparr>"
    and fresh: "sha c token \<notin> set (keys s_hash (sessions t))"
    and t': "v = calm (t\<lparr>sessions := sessions t @
          [new_session c token (la_id a) csrf ''LOCAL'' ip ua now (session_minutes t * minute_ns)],
        users := update_where (\<lambda>u. u_id u = la_id a) (\<lambda>u. u\<lparr>u_last_login := Some now\<rparr>) (users t)\<rparr>)"
    by (rule login_success)
  let ?r = "new_session c token (la_id a) csrf ''LOCAL'' ip ua now (session_minutes t * minute_ns)"
  have r: "s_hash ?r = sha c token" "s_user ?r = la_id a" "s_method ?r = ''LOCAL''" "s_csrf ?r = csrf"
    "s_expires ?r = now + session_minutes t * minute_ns"
    by (simp_all add: new_session_def)
  have alive: "fst (authenticate_cookie c (Some tok) later v) = Inr p"
    if "later < now + session_minutes t * minute_ns"
    using that fresh q p r tok unfolding t'
    by (simp add: authenticate_cookie_def calm_simps find_new_session load_principal_after_login)
  have expired: "fst (authenticate_cookie c (Some tok) later v) = Inl (App Session_expired)"
    if "later \<ge> now + session_minutes t * minute_ns"
  proof -
    have "List.find (\<lambda>x. s_hash x = sha c token \<and> later < s_expires x) (sessions t @ [?r]) = None"
      using that fresh r by (auto simp: find_None_iff keys_def image_iff)
    then show ?thesis using tok unfolding t' by (simp add: authenticate_cookie_def calm_simps)
  qed
  have "fst (authenticate_cookie c (Some tok) later (snd (logout c tok v))) = Inl (App Session_expired)"
    unfolding t' by (simp add: authenticate_cookie_def logout_def calm_simps find_deleted_session)
  with alive expired show ?thesis by blast
qed

definition toy_hash :: string where
  "toy_hash = projr (hash_password toy_id_key (Some ''0123456789abcdef'') ''correct horse'')"

lemma toy_hash_verifies: "verify_password toy_id_key toy_hash ''correct horse'' = Some True"
proof -
  have h: "hash_password toy_id_key (Some ''0123456789abcdef'') ''correct horse'' = Inr toy_hash"
    by (auto simp: toy_hash_def hash_password_def toy_id_key_def)
  have "verify_password toy_id_key toy_hash ''correct horse'' =
    map_option (\<lambda>got. toy_id_key ''correct horse'' ''0123456789abcdef'' argon_time argon_memory argon_threads argon_key_len = Some got)
      (toy_id_key ''correct horse'' ''0123456789abcdef'' argon_time argon_memory argon_threads argon_key_len)"
    by (rule verify_hash [OF h]) (auto simp: toy_id_key_def)
  then show ?thesis by (simp add: toy_id_key_def)
qed

definition toy_user :: user_row where
  "toy_user = \<lparr>u_id = ''u1'', u_username = ''Kim'', u_display_name = ''Kim'', u_email = None,
     u_hash = Some toy_hash,
     u_source = ''LOCAL'', u_org = Some ''o1'', u_manager = None, u_active = True, u_bootstrap = False,
     u_must_change = False, u_last_login = None, u_created = 0, u_updated_at = 0, u_version = 1\<rparr>"

definition toy_role :: role_row where
  "toy_role = \<lparr>r_id = ''r1'', r_code = ''SALES'', r_scope = ''TEAM''\<rparr>"

definition toy_tables :: account_tables where
  "toy_tables = no_tables\<lparr>users := [toy_user], roles := [toy_role], user_roles := [(''u1'', ''r1'')],
     role_perms := [(''r1'', ''customer:read''), (''r1'', ''mcp:use'')]\<rparr>"

lemma toy_tables_sel [simp]:
  "users toy_tables = [toy_user]" "sessions toy_tables = []" "settings toy_tables = []" "pkeys toy_tables = []"
  by (simp_all add: toy_tables_def no_tables_def)

lemma toy_user_sel [simp]:
  "u_id toy_user = ''u1''" "u_hash toy_user = Some toy_hash" "u_source toy_user = ''LOCAL''"
  "u_active toy_user = True" "u_username toy_user = ''Kim''" "u_bootstrap toy_user = False"
  by (simp_all add: toy_user_def)

lemma toy_load: "load_principal ''u1'' (calm toy_tables) =
    (Inr (with_roles (with_user (new_principal ''u1'') toy_user) (role_rows ''u1'' toy_tables)), calm toy_tables)"
  by (simp add: load_principal_calm)

lemma toy_rows: "role_rows ''u1'' toy_tables = [(''TEAM'', Some ''customer:read''), (''TEAM'', Some ''mcp:use'')]"
  by (simp add: role_rows_def toy_tables_def no_tables_def toy_role_def)

lemma toy_account: "find_account ''KIM'' toy_tables =
    Some \<lparr>la_id = ''u1'', la_hash = toy_hash, la_active = True, la_bootstrap = False, la_found = True\<rparr>"
proof -
  have "to_lower ''Kim'' = to_lower ''KIM''" by code_simp
  then show ?thesis by (simp add: find_account_def)
qed

lemma toy_load_after:
  "load_principal ''u1'' (calm (toy_tables\<lparr>sessions := ss, users := [toy_user\<lparr>u_last_login := Some 5\<rparr>]\<rparr>)) =
    (Inr (with_roles (with_user (new_principal ''u1'') toy_user) (role_rows ''u1'' toy_tables)),
     calm (toy_tables\<lparr>sessions := ss, users := [toy_user\<lparr>u_last_login := Some 5\<rparr>]\<rparr>))"
  using load_principal_after_login [where i = "''u1''" and t = toy_tables and ss = ss and P = "\<lambda>u. u_id u = ''u1''"
      and x = "Some 5"]
  by (simp add: toy_load)

lemma toy_login: "\<exists>p v. login toy_crypto ''KIM'' ''correct horse'' [] [] False ''tok'' ''csrf'' 5 (calm toy_tables) =
    (Inr (''tok'', p), v)"
proof -
  have "id_key_of toy_crypto = toy_id_key" by (simp add: toy_crypto_def)
  then show ?thesis
    by (simp add: login_def calm_simps toy_account admit_local_def toy_hash_verifies session_duration_calm
        insert_session_def keys_def new_session_def toy_load_after)
qed

theorem login_session_lifetime_witness:
  "\<exists>p (v :: account_tables world). fst (authenticate_cookie toy_crypto (Some ''tok'') 7 v) = Inr p \<and>
     fst (authenticate_cookie toy_crypto (Some ''tok'') 7 (snd (logout toy_crypto ''tok'' v))) =
       Inl (App Session_expired)"
proof -
  from toy_login obtain p v where
    l: "login toy_crypto ''KIM'' ''correct horse'' [] [] False ''tok'' ''csrf'' 5 (calm toy_tables) = (Inr (''tok'', p), v)"
    by blast
  have "(7 :: int) < 5 + session_minutes toy_tables * minute_ns"
    using session_minutes_range [of toy_tables] by (simp add: minute_ns_def)
  with login_session_lifetime [OF l, of 7] show ?thesis by blast
qed

section \<open>Personal keys\<close>

lemma rg_authenticate_key:
  "rg (=) (\<lambda>_ _. True) (\<lambda>t. t = t0) (authenticate_key c raw ip now)
     (\<lambda>p t. \<exists>k \<in> set (pkeys t0). k_digest k = hmac c raw \<and> key_usable now k \<and> user_id p = k_user k \<and>
        key_id p = k_key_id k \<and> key_id p \<noteq> [] \<and> key_scopes p = k_scopes k \<and> key_channels p = k_channels k)"
  (is "rg _ _ ?P _ ?Q")
proof -
  have stable: "stable (=) (\<lambda>t. t = t0)" by (simp add: stable_def)
  have main: "rg (=) (\<lambda>_ _. True) ?P
      (and_then (with_err Invalid_access_key (db_row (\<lambda>t. row_by k_key_id b (pkeys t)))) (\<lambda>k.
       and_then (check (k_digest k = hmac c raw) Invalid_access_key) (\<lambda>_.
       and_then (check (key_usable now k) Key_expired_or_revoked) (\<lambda>_.
       and_then (load_principal (k_user k)) (\<lambda>p.
       and_then (or_default () (db_exec (writes (\<lambda>t. t\<lparr>pkeys :=
           update_where (\<lambda>r. k_id r = k_id k) (\<lambda>r. r\<lparr>k_last_used := Some now, k_last_ip := ip\<rparr>) (pkeys t)\<rparr>)))) (\<lambda>_.
       ret (with_key p k)))))))
      ?Q" if "b \<noteq> []" for b
  proof (rule rg_then)
    show "rg (=) (\<lambda>_ _. True) ?P (with_err Invalid_access_key (db_row (\<lambda>t. row_by k_key_id b (pkeys t))))
        (\<lambda>k t. t = t0 \<and> k \<in> set (pkeys t0) \<and> k_key_id k = b)"
      by (intro rg_with_err rg_db_row stable) (auto dest: row_by_Some_mem row_by_Some_key)
    fix k
    let ?K = "k \<in> set (pkeys t0) \<and> k_key_id k = b"
    show "rg (=) (\<lambda>_ _. True) (\<lambda>t. t = t0 \<and> ?K)
       (and_then (check (k_digest k = hmac c raw) Invalid_access_key) (\<lambda>_.
        and_then (check (key_usable now k) Key_expired_or_revoked) (\<lambda>_.
        and_then (load_principal (k_user k)) (\<lambda>p.
        and_then (or_default () (db_exec (writes (\<lambda>t. t\<lparr>pkeys :=
            update_where (\<lambda>r. k_id r = k_id k) (\<lambda>r. r\<lparr>k_last_used := Some now, k_last_ip := ip\<rparr>) (pkeys t)\<rparr>)))) (\<lambda>_.
        ret (with_key p k)))))) ?Q"
    proof (intro rg_check_then, rule rg_then)
      show "rg (=) (\<lambda>_ _. True) (\<lambda>t. t = t0 \<and> ?K) (load_principal (k_user k))
          (\<lambda>p t. (t = t0 \<and> ?K) \<and> user_id p = k_user k \<and> key_id p = [])"
        by (rule rg_load_principal) (simp add: stable_def)
      show "rg (=) (\<lambda>_ _. True) (\<lambda>t. (t = t0 \<and> ?K) \<and> user_id p = k_user k \<and> key_id p = [])
         (and_then (or_default () (db_exec (writes (\<lambda>t. t\<lparr>pkeys :=
            update_where (\<lambda>r. k_id r = k_id k) (\<lambda>r. r\<lparr>k_last_used := Some now, k_last_ip := ip\<rparr>) (pkeys t)\<rparr>)))) (\<lambda>_.
          ret (with_key p k))) ?Q"
        if "k_digest k = hmac c raw" "key_usable now k" for p
      proof (cases "user_id p = k_user k \<and> ?K")
        case True
        show ?thesis
          by (rule rg_then [where M = "\<lambda>_ _. True"], rule rg_or_default [where Q' = "\<lambda>_ _. True"],
              rule rg_db_exec)
            (use that True \<open>b \<noteq> []\<close> in \<open>auto simp: stable_def with_key_def intro!: rg_ret\<close>)
      next
        case False
        then show ?thesis by (auto simp: rg_def)
      qed
    qed
  qed
  show ?thesis
    unfolding authenticate_key_def
    by (auto split: option.split prod.split intro!: rg_raise main)
qed


definition toy_key :: key_row where
  "toy_key = \<lparr>k_id = ''k1'', k_user = ''u1'', k_name = ''agent'', k_key_id = ''abc'',
     k_digest = CHR ''%'' # ''relio_abc_s3cret'', k_scopes = [''customer:read''], k_channels = [''REST''],
     k_status = ''ACTIVE'', k_version = 1, k_expires = Some 100, k_grace = None, k_parent = None,
     k_last_used = None, k_last_ip = [], k_created = 0, k_revoked = None\<rparr>"

definition key_tables :: account_tables where
  "key_tables = toy_tables\<lparr>pkeys := [toy_key]\<rparr>"


text \<open>
  C13: A principal is loaded only for an active user; its data scope is the widest one among the
  user's roles (at least its own records), it holds exactly the permissions of those roles, and
  they are listed sorted.
\<close>

theorem principal_from_roles:
  assumes "load_principal uid (calm t) = (Inr p, v)"
  shows "(\<exists>u \<in> set (users t). u_id u = uid \<and> u_active u \<and> is_bootstrap p = u_bootstrap u) \<and>
    user_id p = uid \<and>
    data_scope p \<in> insert ''USER'' (fst ` set (role_rows uid t)) \<and>
    (\<forall>(s, x) \<in> set (role_rows uid t). scope_rank s \<le> scope_rank (data_scope p)) \<and>
    set (permissions p) = {x. \<exists>s. (s, Some x) \<in> set (role_rows uid t)} \<and>
    sorted (permissions p) \<and> (\<forall>x. x \<in> set (permissions p) \<longleftrightarrow> x \<in> set (perm p))"
proof -
  from assms obtain u where u: "List.find (\<lambda>u. u_id u = uid \<and> u_active u) (users t) = Some u"
    and p: "p = with_roles (with_user (new_principal uid) u) (role_rows uid t)"
    by (auto simp: load_principal_calm split: option.splits)
  let ?q = "foldl apply_role_row (with_user (new_principal uid) u) (role_rows uid t)"
  have scope: "data_scope p = best_scope ''USER'' (map fst (role_rows uid t))"
    by (simp add: p with_roles_def Let_def fold_roles_scope)
  have perms: "set (perm p) = {x. \<exists>s. (s, Some x) \<in> set (role_rows uid t)}"
    by (simp add: p with_roles_def Let_def fold_roles_perm)
  have "set (permissions p) = set (perm p)" and "sorted (permissions p)"
    by (simp_all add: p with_roles_def Let_def)
  moreover have "\<forall>(s, x) \<in> set (role_rows uid t). scope_rank s \<le> scope_rank (data_scope p)"
  proof clarify
    fix s x assume "(s, x) \<in> set (role_rows uid t)"
    then have "s \<in> set (map fst (role_rows uid t))" by (metis fst_conv image_eqI set_map)
    then show "scope_rank s \<le> scope_rank (data_scope p)" unfolding scope by (intro best_scope_ge) simp
  qed
  moreover have "data_scope p \<in> insert ''USER'' (fst ` set (role_rows uid t))"
    using best_scope_in [of "''USER''" "map fst (role_rows uid t)"] by (simp add: scope)
  moreover have "user_id p = uid" "is_bootstrap p = u_bootstrap u" by (simp_all add: p)
  ultimately show ?thesis using find_Some_mem [OF u] perms by blast
qed

theorem principal_from_roles_witness:
  "\<exists>p. fst (load_principal ''u1'' (calm toy_tables)) = (Inr p :: auth_error err + principal) \<and>
     data_scope p = ''TEAM'' \<and> ''customer:read'' \<in> set (permissions p)"
proof -
  let ?p = "with_roles (with_user (new_principal ''u1'') toy_user) (role_rows ''u1'' toy_tables)"
  have run: "load_principal ''u1'' (calm toy_tables) = (Inr ?p :: auth_error err + principal, calm toy_tables)"
    by (rule toy_load)
  have "''customer:read'' \<in> set (permissions ?p)"
    using principal_from_roles [OF run] by (simp add: toy_rows)
  moreover have "data_scope ?p = ''TEAM''"
    by (simp add: toy_rows with_roles_def Let_def scope_rank_def)
  ultimately show ?thesis using run by auto
qed

end
