(* ===== verification/Apikey.thy ===== *)
theory Apikey
  imports Auth
begin

text \<open>
  Personal keys (internal/apikey/service.go): what a key may carry, creating, changing, rotating
  and revoking keys. The random identifiers and the clock are arguments; the \<open>details\<close> column of
  the key history is left out. Dates are those of a process that runs in UTC, so that
  \<open>AddDate(0, 0, n)\<close> is n times 24 hours.
\<close>

section \<open>Scopes and channels\<close>

datatype key_error =
    Name_required
  | Too_many_keys int
  | Bad_channels
  | Rest_disabled
  | Mcp_disabled
  | No_scope
  | Scope_not_allowed string
  | Scope_exceeds string
  | Mcp_needs_scope
  | Scope_needs_mcp
  | Bad_expiry int
  | Access_denied
  | Version_required
  | Only_active_changed
  | Changed_by_other
  | Only_active_rotated
  | Already_revoked

definition allowed_scopes :: "string list" where
  "allowed_scopes =
     [''customer:read'', ''customer:write'', ''customer:delete'', ''intelligence:read'',
      ''intelligence:write'', ''contact:read'', ''contact:write'', ''lead:read'', ''lead:write'',
      ''opportunity:read'', ''opportunity:write'', ''activity:read'', ''activity:write'',
      ''product:read'', ''product:write'', ''quotation:read'', ''quotation:write'', ''contract:read'',
      ''contract:write'', ''sales:read'', ''sales:write'', ''target:read'', ''target:write'',
      ''forecast:read'', ''forecast:write'', ''notification:read'', ''notification:write'',
      ''report:read'', ''voice:read'', ''voice:write'', ''approval:request'', ''approval:approve'', ''mcp:use'']"

definition allowed_scope :: "string \<Rightarrow> bool" where
  "allowed_scope v = list_ex (\<lambda>a. v = a) allowed_scopes"

definition valid_channels :: "string list \<Rightarrow> bool" where
  "valid_channels cs = (if length cs = 0 then False else list_all (\<lambda>c. c = ''REST'' \<or> c = ''MCP'') cs)"

text \<open>The loop that keeps the first of equal non-empty values, with the set of those seen.\<close>

fun keep_new :: "string list \<Rightarrow> string list \<Rightarrow> string list" where
  "keep_new seen [] = []"
| "keep_new seen (v # vs) =
     (if v \<noteq> [] \<and> v \<notin> set seen then v # keep_new (v # seen) vs else keep_new seen vs)"

definition normalize_access :: "string list \<Rightarrow> string list \<Rightarrow> string list \<times> string list" where
  "normalize_access scopes channels =
     (keep_new [] (map trim_space scopes), keep_new [] (map (\<lambda>c. to_upper (trim_space c)) channels))"

definition includes_value :: "string list \<Rightarrow> string \<Rightarrow> bool" where
  "includes_value values wanted = list_ex (\<lambda>v. v = wanted) values"

definition policy_int :: "string \<Rightarrow> int \<Rightarrow> (key_error, int) account_op" where
  "policy_int key fallback =
     or_default fallback (db_row (\<lambda>t. Option.bind (setting ''keys'' key t) st_int))"

definition policy_bool :: "string \<Rightarrow> bool \<Rightarrow> (key_error, bool) account_op" where
  "policy_bool key fallback =
     or_default fallback (db_row (\<lambda>t. Option.bind (setting ''keys'' key t) st_bool))"

definition channel_enabled :: "string \<Rightarrow> (key_error, unit) account_op" where
  "channel_enabled channel =
     (if channel = ''REST'' then and_then (policy_bool ''api_enabled'' True) (\<lambda>ok. check ok Rest_disabled)
      else if channel = ''MCP'' then and_then (policy_bool ''mcp_enabled'' True) (\<lambda>ok. check ok Mcp_disabled)
      else ret ())"

definition delegable :: "principal \<Rightarrow> string \<Rightarrow> key_error + unit" where
  "delegable p scope =
     (if \<not> allowed_scope scope then Inl (Scope_not_allowed scope)
      else if \<not> is_bootstrap p \<and> \<not> has p scope then Inl (Scope_exceeds scope)
      else Inr ())"

definition validate_access :: "principal \<Rightarrow> string list \<Rightarrow> string list \<Rightarrow> (key_error, unit) account_op" where
  "validate_access p scopes channels =
     and_then (check (valid_channels channels) Bad_channels) (\<lambda>_.
     and_then (for_each channel_enabled channels) (\<lambda>_.
     and_then (check (length scopes \<noteq> 0) No_scope) (\<lambda>_.
     and_then (for_each (\<lambda>s. lift (delegable p s)) scopes) (\<lambda>_.
     and_then (check (\<not> (includes_value channels ''MCP'' \<and> \<not> includes_value scopes ''mcp:use'')) Mcp_needs_scope) (\<lambda>_.
     check (\<not> (includes_value scopes ''mcp:use'' \<and> \<not> includes_value channels ''MCP'')) Scope_needs_mcp)))))"

definition allowed_scopes_for :: "principal \<Rightarrow> string list" where
  "allowed_scopes_for p = filter (\<lambda>s. is_bootstrap p \<or> has p s) allowed_scopes"

section \<open>Listing\<close>

record key_view =
  v_id :: string
  v_name :: string
  v_key_id :: string
  v_scopes :: "string list"
  v_channels :: "string list"
  v_status :: string
  v_version :: int
  v_expires :: "instant option"
  v_grace :: "instant option"
  v_last_used :: "instant option"
  v_last_ip :: string
  v_created :: instant

definition view_key :: "key_row \<Rightarrow> key_view" where
  "view_key k = \<lparr>v_id = k_id k, v_name = k_name k, v_key_id = k_key_id k, v_scopes = k_scopes k,
     v_channels = k_channels k, v_status = k_status k, v_version = k_version k, v_expires = k_expires k,
     v_grace = k_grace k, v_last_used = k_last_used k, v_last_ip = k_last_ip k, v_created = k_created k\<rparr>"

definition list_keys :: "principal \<Rightarrow> string \<Rightarrow> bool \<Rightarrow> (key_error, key_view list) account_op" where
  "list_keys p uid admin =
     (let uid = (if uid = [] then user_id p else uid) in
      and_then (check (\<not> (uid \<noteq> user_id p \<and> \<not> admin)) Access_denied) (\<lambda>_.
      db_query (\<lambda>t. map view_key (sort_desc k_created (filter (\<lambda>k. k_user k = uid) (pkeys t))))))"

text \<open>A key with its owner's id, user name and display name.\<close>

definition list_all_keys :: "principal \<Rightarrow> string \<Rightarrow>
    (key_error, (key_view \<times> string \<times> string \<times> string) list) account_op" where
  "list_all_keys p uid =
     and_then (require p ''admin:read'') (\<lambda>_.
     db_query (\<lambda>t. take 1000 (concat (map (\<lambda>k. case row_by u_id (k_user k) (users t) of
         None \<Rightarrow> []
       | Some u \<Rightarrow> if uid = [] \<or> u_id u = uid then [(view_key k, u_id u, u_username u, u_display_name u)] else [])
       (sort_desc k_created (pkeys t))))))"

section \<open>Creating and changing keys\<close>

definition live :: "key_row \<Rightarrow> bool" where
  "live k \<longleftrightarrow> k_status k = ''ACTIVE'' \<or> k_status k = ''ROTATING''"

text \<open>The primary key, the unique key id and the owner's foreign key.\<close>

definition insert_key :: "key_row \<Rightarrow> account_tables \<Rightarrow> (account_tables \<times> unit) option" where
  "insert_key k t =
     (if k_id k \<in> set (keys k_id (pkeys t)) \<or> k_key_id k \<in> set (keys k_key_id (pkeys t)) \<or>
         k_user k \<notin> set (keys u_id (users t)) then None
      else Some (t\<lparr>pkeys := pkeys t @ [k]\<rparr>, ()))"

definition insert_event :: "key_event \<Rightarrow> account_tables \<Rightarrow> (account_tables \<times> unit) option" where
  "insert_event e t =
     (if e_key e \<notin> set (keys k_id (pkeys t)) \<or> e_actor e \<notin> set (keys u_id (users t)) then None
      else Some (t\<lparr>key_history := key_history t @ [e]\<rparr>, ()))"

definition key_event_of :: "string \<Rightarrow> string \<Rightarrow> string \<Rightarrow> key_event" where
  "key_event_of kid action actor = \<lparr>e_key = kid, e_action = action, e_actor = actor\<rparr>"

text \<open>An update of the matching keys, and the number of rows it affected.\<close>

definition update_keys :: "(key_row \<Rightarrow> bool) \<Rightarrow> (key_row \<Rightarrow> key_row) \<Rightarrow> account_tables
    \<Rightarrow> (account_tables \<times> int) option" where
  "update_keys P f t = Some (t\<lparr>pkeys := update_where P f (pkeys t)\<rparr>, int (count_where P (pkeys t)))"

record create_input =
  ci_name :: string
  ci_scopes :: "string list"
  ci_channels :: "string list"
  ci_expires :: "instant option"

text \<open>The identifiers and the secret drawn for a new key: its row id and two runs of random bytes.\<close>

record key_draw =
  d_row :: string
  d_key :: string
  d_secret :: string

record created =
  cr_key :: "key_view option"
  cr_secret :: string

definition raw_key :: "key_draw \<Rightarrow> string" where
  "raw_key d = ''relio_'' @ hex_token (d_key d) @ ''_'' @ new_token (d_secret d)"

definition fresh_key :: "crypto \<Rightarrow> principal \<Rightarrow> string \<Rightarrow> string list \<Rightarrow> string list \<Rightarrow> instant \<Rightarrow> instant
    \<Rightarrow> key_draw \<Rightarrow> key_row" where
  "fresh_key c p name scopes channels expires now d =
     \<lparr>k_id = d_row d, k_user = user_id p, k_name = name, k_key_id = hex_token (d_key d),
      k_digest = hmac c (raw_key d), k_scopes = scopes, k_channels = channels, k_status = ''ACTIVE'',
      k_version = 1, k_expires = Some expires, k_grace = None, k_parent = None, k_last_used = None,
      k_last_ip = [], k_created = now, k_revoked = None\<rparr>"

definition add_days :: "instant \<Rightarrow> int \<Rightarrow> instant" where
  "add_days t n = t + n * day_ns"

definition create_with :: "crypto \<Rightarrow> principal \<Rightarrow> create_input \<Rightarrow> client_info \<Rightarrow> key_draw \<Rightarrow> instant \<Rightarrow> bool
    \<Rightarrow> (key_error, created) account_op" where
  "create_with c p inp ci d now replacing =
     and_then (check (\<not> blank (ci_name inp)) Name_required) (\<lambda>_.
     and_then (policy_int ''max_per_user'' 10) (\<lambda>limit.
     and_then (or_default 0 (db_query (\<lambda>t.
         int (count_where (\<lambda>k. k_user k = user_id p \<and> live k) (pkeys t))))) (\<lambda>n.
     and_then (check (\<not> (n \<ge> limit \<and> \<not> replacing)) (Too_many_keys limit)) (\<lambda>_.
     case normalize_access (ci_scopes inp) (ci_channels inp) of (scopes, channels) \<Rightarrow>
     and_then (validate_access p scopes channels) (\<lambda>_.
     and_then (policy_int ''default_lifetime_days'' 365) (\<lambda>default_days.
     and_then (policy_int ''max_lifetime_days'' 730) (\<lambda>max_days.
     let expires = (case ci_expires inp of None \<Rightarrow> add_days now default_days | Some x \<Rightarrow> x) in
     and_then (check (\<not> (expires < now \<or> expires > add_days now max_days)) (Bad_expiry max_days)) (\<lambda>_.
     and_then (db_exec (insert_key
         (fresh_key c p (trim_space (ci_name inp)) scopes channels expires now d))) (\<lambda>_.
     and_then (or_default () (db_exec (insert_event (key_event_of (d_row d) ''CREATE'' (user_id p))))) (\<lambda>_.
     and_then (record_audit (audit_event p ci ''WEB'' ''KEY_CREATE'' ''personal_key'' (d_row d))) (\<lambda>_.
     and_then (or_default [] (list_keys p (user_id p) False)) (\<lambda>items.
     ret \<lparr>cr_key = List.find (\<lambda>v. v_id v = d_row d) items, cr_secret = raw_key d\<rparr>))))))))))))"

definition create_key :: "crypto \<Rightarrow> principal \<Rightarrow> create_input \<Rightarrow> client_info \<Rightarrow> key_draw \<Rightarrow> instant
    \<Rightarrow> (key_error, created) account_op" where
  "create_key c p inp ci d now = create_with c p inp ci d now False"

record access_input =
  ai_scopes :: "string list"
  ai_channels :: "string list"
  ai_version :: int

definition update_access :: "principal \<Rightarrow> string \<Rightarrow> access_input \<Rightarrow> client_info
    \<Rightarrow> (key_error, key_view) account_op" where
  "update_access p kid inp ci =
     and_then (check (\<not> ai_version inp < 1) Version_required) (\<lambda>_.
     case normalize_access (ai_scopes inp) (ai_channels inp) of (scopes, channels) \<Rightarrow>
     and_then (validate_access p scopes channels) (\<lambda>_.
     and_then (db_row (\<lambda>t. row_by k_id kid (pkeys t))) (\<lambda>k.
     and_then (check (k_user k = user_id p) Access_denied) (\<lambda>_.
     and_then (check (k_status k = ''ACTIVE'') Only_active_changed) (\<lambda>_.
     and_then (check (k_version k = ai_version inp) Changed_by_other) (\<lambda>_.
     and_then (in_tx
       (and_then (tx_exec (update_keys
           (\<lambda>r. k_id r = kid \<and> k_status r = ''ACTIVE'' \<and> k_version r = ai_version inp)
           (\<lambda>r. r\<lparr>k_scopes := scopes, k_channels := channels, k_version := k_version r + 1\<rparr>))) (\<lambda>n.
        and_then (check (n = 1) Changed_by_other) (\<lambda>_.
        tx_exec (insert_event (key_event_of kid ''UPDATE_ACCESS'' (user_id p))))))) (\<lambda>_.
     and_then (record_audit (audit_event p ci ''WEB'' ''KEY_ACCESS_UPDATE'' ''personal_key'' kid)) (\<lambda>_.
     and_then (list_keys p (user_id p) False) (\<lambda>items.
     case List.find (\<lambda>v. v_id v = kid) items of None \<Rightarrow> raise No_rows | Some v \<Rightarrow> ret v)))))))))"

text \<open>What follows the creation of the replacement; these statements are not one transaction.\<close>

definition retire_key :: "principal \<Rightarrow> string \<Rightarrow> client_info \<Rightarrow> instant \<Rightarrow> created
    \<Rightarrow> (key_error, created) account_op" where
  "retire_key p kid ci now new =
     and_then (policy_int ''rotation_grace_hours'' 24) (\<lambda>grace.
     let grace_at = now + hours grace; new_id = case_option [] v_id (cr_key new) in
     and_then (db_exec (update_keys (\<lambda>r. k_id r = kid \<and> k_status r = ''ACTIVE'')
         (\<lambda>r. r\<lparr>k_status := ''ROTATING'', k_grace := Some grace_at\<rparr>))) (\<lambda>_.
     and_then (or_default 0 (db_exec (update_keys (\<lambda>r. k_id r = new_id) (\<lambda>r. r\<lparr>k_parent := Some kid\<rparr>)))) (\<lambda>_.
     and_then (or_default () (db_exec (insert_event (key_event_of kid ''ROTATE'' (user_id p))))) (\<lambda>_.
     and_then (record_audit (audit_event p ci ''WEB'' ''KEY_ROTATE'' ''personal_key'' kid)) (\<lambda>_.
     ret new)))))"

definition rotate_key :: "crypto \<Rightarrow> principal \<Rightarrow> string \<Rightarrow> client_info \<Rightarrow> key_draw \<Rightarrow> instant
    \<Rightarrow> (key_error, created) account_op" where
  "rotate_key c p kid ci d now =
     and_then (db_row (\<lambda>t. row_by k_id kid (pkeys t))) (\<lambda>k.
     and_then (check (k_user k = user_id p) Access_denied) (\<lambda>_.
     and_then (check (k_status k = ''ACTIVE'') Only_active_rotated) (\<lambda>_.
     and_then (create_with c p \<lparr>ci_name = k_name k, ci_scopes = k_scopes k, ci_channels = k_channels k,
         ci_expires = k_expires k\<rparr> ci d now True)
       (retire_key p kid ci now))))"

section \<open>Revoking\<close>

definition revoke :: "principal \<Rightarrow> string \<Rightarrow> client_info \<Rightarrow> instant \<Rightarrow> bool \<Rightarrow> (key_error, unit) account_op" where
  "revoke p kid ci now admin =
     and_then (db_row (\<lambda>t. row_by k_id kid (pkeys t))) (\<lambda>k.
     and_then (check (\<not> (k_user k \<noteq> user_id p \<and> \<not> admin)) Access_denied) (\<lambda>_.
     and_then (db_exec (update_keys (\<lambda>r. k_id r = kid \<and> k_status r \<noteq> ''REVOKED'')
         (\<lambda>r. r\<lparr>k_status := ''REVOKED'', k_revoked := Some now\<rparr>))) (\<lambda>n.
     and_then (check (n \<noteq> 0) Already_revoked) (\<lambda>_.
     and_then (or_default () (db_exec (insert_event (key_event_of kid ''REVOKE'' (user_id p))))) (\<lambda>_.
     record_audit (audit_event p ci (if admin then ''ADMIN'' else ''WEB'') ''KEY_REVOKE'' ''personal_key'' kid))))))"

definition revoke_returning :: "string \<Rightarrow> instant \<Rightarrow> account_tables \<Rightarrow> (account_tables \<times> string list) option" where
  "revoke_returning uid now t =
     (let P = (\<lambda>k. k_user k = uid \<and> live k) in
      Some (t\<lparr>pkeys := update_where P (\<lambda>k. k\<lparr>k_status := ''REVOKED'', k_revoked := Some now\<rparr>) (pkeys t)\<rparr>,
        map k_id (filter P (pkeys t))))"

definition revoke_all :: "principal \<Rightarrow> string \<Rightarrow> client_info \<Rightarrow> instant \<Rightarrow> (key_error, int) account_op" where
  "revoke_all p uid ci now =
     and_then (require p ''admin:write'') (\<lambda>_.
     and_then (db_row (\<lambda>t. row_by u_id uid (users t))) (\<lambda>_.
     and_then (in_tx
       (and_then (tx_exec (revoke_returning uid now)) (\<lambda>revoked.
        and_then (for_each (\<lambda>kid. tx_exec (insert_event (key_event_of kid ''ADMIN_REVOKE'' (user_id p)))) revoked) (\<lambda>_.
        ret revoked)))) (\<lambda>revoked.
     and_then (record_audit (audit_event p ci ''ADMIN'' ''USER_KEYS_REVOKE_ALL'' ''user'' uid)) (\<lambda>_.
     ret (int (length revoked))))))"

end
