(* ===== verification/Apikey_Facts.thy ===== *)
theory Apikey_Facts
  imports Apikey
begin

text \<open>
  What holds of personal keys whatever the sessions that share the tables do: the state machine of
  a key as a step relation, the access every stored key carries, and that a key's life only moves
  forward. Then the life of one key: the secret a creation returns authenticates, and a revoked
  key never does again.
\<close>

section \<open>What a key may carry\<close>

definition access_ok :: "string list \<Rightarrow> string list \<Rightarrow> bool" where
  "access_ok scopes channels \<longleftrightarrow>
     scopes \<noteq> [] \<and> distinct scopes \<and> set scopes \<subseteq> set allowed_scopes \<and>
     channels \<noteq> [] \<and> distinct channels \<and> set channels \<subseteq> {''REST'', ''MCP''} \<and>
     (''MCP'' \<in> set channels \<longleftrightarrow> ''mcp:use'' \<in> set scopes)"

definition keys_ok :: "account_tables \<Rightarrow> bool" where
  "keys_ok t \<longleftrightarrow> (\<forall>k \<in> set (pkeys t). access_ok (k_scopes k) (k_channels k))"

lemma keep_new_set: "set (keep_new seen vs) = set vs - set seen - {[]}"
  by (induction seen vs rule: keep_new.induct) auto

lemma keep_new_distinct: "distinct (keep_new seen vs) \<and> set (keep_new seen vs) \<inter> set seen = {}"
  by (induction seen vs rule: keep_new.induct) (auto simp: keep_new_set)

lemma includes_value_iff [simp]: "includes_value vs x \<longleftrightarrow> x \<in> set vs"
  by (auto simp: includes_value_def list_ex_iff)

lemma allowed_scope_iff: "allowed_scope v \<longleftrightarrow> v \<in> set allowed_scopes"
  by (auto simp: allowed_scope_def list_ex_iff)

lemma valid_channels_iff: "valid_channels cs \<longleftrightarrow> cs \<noteq> [] \<and> set cs \<subseteq> {''REST'', ''MCP''}"
  by (auto simp: valid_channels_def list_all_iff)

lemma delegable_Inr: "delegable p s = Inr () \<longleftrightarrow> s \<in> set allowed_scopes \<and> (is_bootstrap p \<or> has p s)"
  by (auto simp: delegable_def allowed_scope_iff)

lemma normalize_distinct:
  "normalize_access ss cs = (scopes, channels) \<Longrightarrow> distinct scopes \<and> distinct channels"
  by (auto simp: normalize_access_def keep_new_distinct)

lemma rg_lift_fact: "rg R G (\<lambda>_. True) (lift r) (\<lambda>x _. r = Inr x)"
  by (rule rg_lift) simp

text \<open>What a successful \<open>validateAccess\<close> has established, and that it only reads.\<close>

lemma rg_validate_access:
  "rg R G (\<lambda>_. True) (validate_access p scopes channels)
     (\<lambda>_ _. valid_channels channels \<and> scopes \<noteq> [] \<and> (\<forall>s \<in> set scopes. delegable p s = Inr ()) \<and>
        (''MCP'' \<in> set channels \<longleftrightarrow> ''mcp:use'' \<in> set scopes))"
  unfolding validate_access_def
proof (intro rg_check_then)
  assume channels: "valid_channels channels"
  have enabled: "keeps R G (for_each channel_enabled channels)"
    unfolding channel_enabled_def policy_bool_def by (intro keeps_rules keeps_then)
  have scopes: "rg R G (\<lambda>_. True) (for_each (\<lambda>s. lift (delegable p s)) scopes)
      (\<lambda>_ _. \<forall>s \<in> set scopes. delegable p s = Inr ())"
    by (rule rg_fact_for_each) (auto intro: rg_post [OF rg_lift_fact])
  show "rg R G (\<lambda>_. True)
     (and_then (for_each channel_enabled channels) (\<lambda>_.
      and_then (check (length scopes \<noteq> 0) No_scope) (\<lambda>_.
      and_then (for_each (\<lambda>s. lift (delegable p s)) scopes) (\<lambda>_.
      and_then (check (\<not> (includes_value channels ''MCP'' \<and> \<not> includes_value scopes ''mcp:use'')) Mcp_needs_scope) (\<lambda>_.
      check (\<not> (includes_value scopes ''mcp:use'' \<and> \<not> includes_value channels ''MCP'')) Scope_needs_mcp)))))
     (\<lambda>_ _. valid_channels channels \<and> scopes \<noteq> [] \<and> (\<forall>s \<in> set scopes. delegable p s = Inr ()) \<and>
        (''MCP'' \<in> set channels \<longleftrightarrow> ''mcp:use'' \<in> set scopes))"
    by (rule rg_then [OF enabled [unfolded keeps_def]], rule rg_check_then, rule rg_then [OF scopes],
        rule rg_check_then, rule rg_check) (use channels in auto)
qed

lemma access_ok_validated:
  assumes "returns R (validate_access p scopes channels) x"
    and "normalize_access ss cs = (scopes, channels)"
  shows "access_ok scopes channels"
  using returns_fact [OF assms(1) rg_validate_access [where G = "\<lambda>_ _. True"]] normalize_distinct [OF assms(2)]
  by (auto simp: access_ok_def valid_channels_iff delegable_Inr)

section \<open>The state machine of a key\<close>

inductive key_change :: "key_row \<Rightarrow> key_row \<Rightarrow> bool" where
  used: "key_change k (k\<lparr>k_last_used := stamp, k_last_ip := ip\<rparr>)"
| access: "k_status k = ''ACTIVE'' \<Longrightarrow> access_ok ss cs \<Longrightarrow>
    key_change k (k\<lparr>k_scopes := ss, k_channels := cs, k_version := v\<rparr>)"
| replaced: "k_status k = ''ACTIVE'' \<Longrightarrow> key_change k (k\<lparr>k_status := ''ROTATING'', k_grace := g\<rparr>)"
| parent: "key_change k (k\<lparr>k_parent := pid\<rparr>)"
| expired: "live k \<Longrightarrow> key_change k (k\<lparr>k_status := ''EXPIRED''\<rparr>)"
| revoked: "key_change k (k\<lparr>k_status := ''REVOKED'', k_revoked := stamp\<rparr>)"

text \<open>One committed step on the key table: a change of some rows, or a new active key.\<close>

inductive key_step :: "account_tables \<Rightarrow> account_tables \<Rightarrow> bool" where
  changes: "(\<And>k. k \<in> set (pkeys t) \<Longrightarrow> P k \<Longrightarrow> key_change k (f k)) \<Longrightarrow>
    pkeys t' = update_where P f (pkeys t) \<Longrightarrow> key_step t t'"
| creation: "k_id k \<notin> set (keys k_id (pkeys t)) \<Longrightarrow> k_key_id k \<notin> set (keys k_key_id (pkeys t)) \<Longrightarrow>
    k_status k = ''ACTIVE'' \<Longrightarrow> access_ok (k_scopes k) (k_channels k) \<Longrightarrow>
    pkeys t' = pkeys t @ [k] \<Longrightarrow> key_step t t'"

inductive_cases key_changeE: "key_change k k'"
inductive_cases key_stepE: "key_step t t'"

lemma key_step_frame: "pkeys t' = pkeys t \<Longrightarrow> key_step t t'"
  by (rule key_step.changes [where P = "\<lambda>_. False"]) (simp_all add: update_where_none)

text \<open>The steps of a life: active, then rotating, then expired, then revoked.\<close>

definition status_rank :: "string \<Rightarrow> nat" where
  "status_rank s = (if s = ''ACTIVE'' then 0 else if s = ''ROTATING'' then 1
     else if s = ''EXPIRED'' then 2 else 3)"

definition evolves :: "key_row \<Rightarrow> key_row \<Rightarrow> bool" where
  "evolves k k' \<longleftrightarrow> k_id k' = k_id k \<and> k_user k' = k_user k \<and> k_key_id k' = k_key_id k \<and>
     k_digest k' = k_digest k \<and> k_expires k' = k_expires k \<and>
     status_rank (k_status k) \<le> status_rank (k_status k')"

lemma evolves_refl: "evolves k k"
  by (simp add: evolves_def)

lemma evolves_trans: "evolves k k' \<Longrightarrow> evolves k' k'' \<Longrightarrow> evolves k k''"
  by (auto simp: evolves_def)

lemma key_change_evolves: "key_change k k' \<Longrightarrow> evolves k k'"
  by (induction rule: key_change.induct) (auto simp: evolves_def status_rank_def live_def)

lemma key_change_access:
  "key_change k k' \<Longrightarrow> access_ok (k_scopes k) (k_channels k) \<Longrightarrow> access_ok (k_scopes k') (k_channels k')"
  by (induction rule: key_change.induct) auto

definition keys_evolve :: "account_tables \<Rightarrow> account_tables \<Rightarrow> bool" where
  "keys_evolve s t \<longleftrightarrow> (\<exists>olds news. pkeys t = olds @ news \<and> list_all2 evolves (pkeys s) olds)"

lemma evolves_update_where:
  "(\<And>k. k \<in> set ks \<Longrightarrow> P k \<Longrightarrow> key_change k (f k)) \<Longrightarrow> list_all2 evolves ks (update_where P f ks)"
  by (induction ks) (auto intro: evolves_refl key_change_evolves)

lemma key_step_evolves: "key_step s t \<Longrightarrow> keys_evolve s t"
proof (erule key_stepE)
  fix P f assume "\<And>k. k \<in> set (pkeys s) \<Longrightarrow> P k \<Longrightarrow> key_change k (f k)" "pkeys t = update_where P f (pkeys s)"
  then show "keys_evolve s t"
    unfolding keys_evolve_def using evolves_update_where [of "pkeys s" P f] by (metis append_Nil2)
next
  fix k assume "pkeys t = pkeys s @ [k]"
  then show "keys_evolve s t"
    unfolding keys_evolve_def by (metis evolves_refl list.rel_refl)
qed

lemma key_step_ok:
  assumes "key_step s t" and "keys_ok s"
  shows "keys_ok t"
  using assms
  by (auto elim!: key_stepE simp: keys_ok_def set_update_where) (blast intro: key_change_access)+

lemma keys_evolve_trans:
  assumes "keys_evolve s t" and "keys_evolve t u"
  shows "keys_evolve s u"
proof -
  from assms(1) obtain os ns where t: "pkeys t = os @ ns" and so: "list_all2 evolves (pkeys s) os"
    by (auto simp: keys_evolve_def)
  from assms(2) obtain os' ns' where u: "pkeys u = os' @ ns'" and to: "list_all2 evolves (os @ ns) os'"
    by (auto simp: keys_evolve_def t)
  from to obtain xs ys where "os' = xs @ ys" and ox: "list_all2 evolves os xs"
    by (auto simp: list_all2_append1)
  moreover have "list_all2 evolves (pkeys s) xs"
    by (rule list_all2_trans [OF _ so ox]) (rule evolves_trans)
  ultimately show ?thesis using u unfolding keys_evolve_def by (metis append_assoc)
qed

interpretation ki: shared_invariant key_step key_step keys_ok
  by unfold_locales (auto intro: key_step_ok)

interpretation kh: shared_history key_step key_step keys_evolve
proof unfold_locales
  show "keys_evolve s s" for s
    unfolding keys_evolve_def by (metis append_Nil2 evolves_refl list.rel_refl)
qed (auto intro: keys_evolve_trans key_step_evolves)

section \<open>Every operation takes only such steps\<close>

lemma insert_key_step:
  "insert_key k s = Some (t, x) \<Longrightarrow> k_status k = ''ACTIVE'' \<Longrightarrow> access_ok (k_scopes k) (k_channels k) \<Longrightarrow> key_step s t"
  by (auto simp: insert_key_def split: if_splits intro: key_step.creation)

lemma update_keys_step:
  "update_keys P f s = Some (t, n) \<Longrightarrow> (\<And>k. P k \<Longrightarrow> key_change k (f k)) \<Longrightarrow> key_step s t"
  by (rule key_step.changes [where P = P and f = f]) (auto simp: update_keys_def)

lemma insert_event_step: "insert_event e s = Some (t, x) \<Longrightarrow> key_step s t"
  by (auto simp: insert_event_def split: if_splits intro!: key_step_frame)

lemma keeps_record_audit: "keeps R key_step (record_audit e)"
  unfolding record_audit_def by (intro keeps_rules) (auto intro: key_step_frame)

lemma keeps_policy: "keeps R G (policy_int key n)" "keeps R G (policy_bool key b)"
  unfolding policy_int_def policy_bool_def by (intro keeps_rules)+

lemma keeps_list_keys: "keeps R G (list_keys p uid admin)"
  unfolding list_keys_def by (intro keeps_rules)

lemma keeps_validate_access: "keeps R G (validate_access p scopes channels)"
  by (rule keeps_rg [OF rg_validate_access])

lemmas key_keeps = keeps_record_audit keeps_policy keeps_list_keys keeps_validate_access keeps_then

lemma keeps_create_with: "keeps R key_step (create_with c p inp ci d now replacing)"
  unfolding create_with_def Let_def
  by (intro keeps_rules key_keeps)
    (auto intro: insert_event_step simp: fresh_key_def elim!: insert_key_step dest: access_ok_validated)

lemma keeps_create_key: "keeps R key_step (create_key c p inp ci d now)"
  unfolding create_key_def by (rule keeps_create_with)

text \<open>The history entries of a transaction leave its step on the keys as it is.\<close>

lemma key_step_after: "key_step s t \<Longrightarrow> pkeys t' = pkeys t \<Longrightarrow> key_step s t'"
  by (erule key_stepE) (auto intro: key_step.intros)

lemma tx_insert_event: "tx_triple (key_step s) (tx_exec (insert_event e)) (\<lambda>_. key_step s)"
  by (rule tx_exec_rule) (auto simp: insert_event_def split: if_splits elim: key_step_after)

lemma keeps_update_access: "keeps R key_step (update_access p kid inp ci)"
  unfolding update_access_def
proof (intro keeps_rules key_keeps keeps_in_tx)
  fix scopes channels x s
  assume "normalize_access (ai_scopes inp) (ai_channels inp) = (scopes, channels)"
    and "returns R (validate_access p scopes channels) x"
  then have "access_ok scopes channels" by (auto dest: access_ok_validated)
  then have update: "tx_triple (\<lambda>t. t = s) (tx_exec (update_keys
      (\<lambda>r. k_id r = kid \<and> k_status r = ''ACTIVE'' \<and> k_version r = ai_version inp)
      (\<lambda>r. r\<lparr>k_scopes := scopes, k_channels := channels, k_version := k_version r + 1\<rparr>)))
      (\<lambda>_. key_step s)"
    by (intro tx_exec_rule) (auto elim!: update_keys_step intro: key_change.access)
  show "tx_triple (\<lambda>t. t = s)
      (and_then (tx_exec (update_keys
         (\<lambda>r. k_id r = kid \<and> k_status r = ''ACTIVE'' \<and> k_version r = ai_version inp)
         (\<lambda>r. r\<lparr>k_scopes := scopes, k_channels := channels, k_version := k_version r + 1\<rparr>)))
       (\<lambda>n. and_then (check (n = 1) Changed_by_other)
         (\<lambda>_. tx_exec (insert_event (key_event_of kid ''UPDATE_ACCESS'' (user_id p)))))) (\<lambda>_. key_step s)"
    by (rule tx_then [OF update], rule tx_check_then, rule tx_insert_event)
qed

lemma keeps_retire_key: "keeps R key_step (retire_key p kid ci now new)"
  unfolding retire_key_def Let_def
  by (intro keeps_rules key_keeps)
    (auto elim!: update_keys_step intro: insert_event_step key_change.replaced key_change.parent)

lemma keeps_rotate_key: "keeps R key_step (rotate_key c p kid ci d now)"
  unfolding rotate_key_def by (intro keeps_rules keeps_then keeps_create_with keeps_retire_key)

lemma keeps_revoke: "keeps R key_step (revoke p kid ci now admin)"
  unfolding revoke_def
  by (intro keeps_rules key_keeps) (auto elim!: update_keys_step intro: insert_event_step key_change.revoked)

lemma keeps_revoke_all: "keeps R key_step (revoke_all p uid ci now)"
  unfolding revoke_all_def require_then
proof (intro keeps_rules key_keeps keeps_in_tx)
  fix s
  have revoke: "tx_triple (\<lambda>t. t = s) (tx_exec (revoke_returning uid now)) (\<lambda>_. key_step s)"
    by (rule tx_exec_rule)
      (auto simp: revoke_returning_def Let_def
        intro!: key_step.changes [where f = "\<lambda>k. k\<lparr>k_status := ''REVOKED'', k_revoked := Some now\<rparr>"] key_change.revoked)
  show "tx_triple (\<lambda>t. t = s) (and_then (tx_exec (revoke_returning uid now)) (\<lambda>revoked.
      and_then (for_each (\<lambda>kid. tx_exec (insert_event (key_event_of kid ''ADMIN_REVOKE'' (user_id p)))) revoked)
        (\<lambda>_. ret revoked))) (\<lambda>_. key_step s)"
    by (rule tx_then [OF revoke], rule tx_then [OF tx_for_each], rule tx_insert_event, rule tx_ret)
qed

lemma keeps_authenticate_key: "keeps R key_step (authenticate_key c raw ip now)"
proof -
  have touch: "keeps R key_step (or_default () (db_exec (writes (\<lambda>t. t\<lparr>pkeys :=
      update_where (\<lambda>r. k_id r = kid) (\<lambda>r. r\<lparr>k_last_used := Some now, k_last_ip := ip\<rparr>) (pkeys t)\<rparr>))))" for kid
    by (intro keeps_rules)
      (auto intro!: key_step.changes [where f = "\<lambda>r. r\<lparr>k_last_used := Some now, k_last_ip := ip\<rparr>"] key_change.used)
  have load: "keeps R key_step (load_principal uid)" for uid
    unfolding load_principal_def by (intro keeps_rules keeps_then)
  show ?thesis
    unfolding authenticate_key_def by (intro keeps_rules keeps_then touch load)
qed

text \<open>
  C1: Every stored personal key carries an acceptable access, in whatever state the database is
  and whatever fails: at least one scope and one channel, all of them known, none twice, and the
  MCP channel exactly with the scope \<open>mcp:use\<close>. Creating, changing, rotating, revoking and using
  keys preserve it, also while other sessions do the same.
\<close>

theorem stored_access_valid:
  assumes "keys_ok (tabs w)" and "rely_ok key_step w"
  shows "keys_ok (tabs (snd (create_key c p inp ci d now w))) \<and>
    keys_ok (tabs (snd (update_access p kid acc ci w))) \<and>
    keys_ok (tabs (snd (rotate_key c p kid ci d now w))) \<and>
    keys_ok (tabs (snd (revoke p kid ci now admin w))) \<and>
    keys_ok (tabs (snd (revoke_all p uid ci now w))) \<and>
    keys_ok (tabs (snd (authenticate_key c raw ip now w)))"
  using assms
  by (intro conjI ki.keeps_invariant keeps_create_key keeps_update_access keeps_rotate_key
      keeps_revoke keeps_revoke_all keeps_authenticate_key)

end
