(* ===== verification/Apikey_Life.thy ===== *)
theory Apikey_Life
  imports Apikey_Facts Auth_Facts
begin

text \<open>The life of a key: it only moves forward, a revoked key is refused for good, and the secret of
  a new key authenticates as its owner with the access that was granted.\<close>

section \<open>A key only moves forward\<close>

lemma evolves_forward:
  "evolves k k' \<Longrightarrow> k_status k = ''REVOKED'' \<Longrightarrow> k_status k' \<noteq> ''ACTIVE'' \<and> k_status k' \<noteq> ''ROTATING''"
  by (auto simp: evolves_def status_rank_def split: if_splits)

text \<open>
  C2: Keys are never deleted or handed to someone else, and a key's status only moves forward,
  from active over rotating and expired to revoked: whatever fails and whatever other sessions do
  with keys in between, every key there was before an operation is there after it, with the same
  owner, key id, secret digest and expiry.
\<close>

theorem keys_move_forward:
  assumes "rely_ok key_step w"
  shows "keys_evolve (tabs w) (tabs (snd (create_key c p inp ci d now w))) \<and>
    keys_evolve (tabs w) (tabs (snd (update_access p kid acc ci w))) \<and>
    keys_evolve (tabs w) (tabs (snd (rotate_key c p kid ci d now w))) \<and>
    keys_evolve (tabs w) (tabs (snd (revoke p kid ci now admin w))) \<and>
    keys_evolve (tabs w) (tabs (snd (revoke_all p uid ci now w))) \<and>
    keys_evolve (tabs w) (tabs (snd (authenticate_key c raw ip now w)))"
  using assms
  by (intro conjI kh.keeps_history keeps_create_key keeps_update_access keeps_rotate_key
      keeps_revoke keeps_revoke_all keeps_authenticate_key)

section \<open>Revoked for good\<close>

definition key_with :: "string \<Rightarrow> (key_row \<Rightarrow> bool) \<Rightarrow> account_tables \<Rightarrow> bool" where
  "key_with b Q t \<longleftrightarrow> (\<exists>k. row_by k_key_id b (pkeys t) = Some k \<and> Q k)"

lemma key_with_stable:
  assumes "\<And>k k'. key_change k k' \<Longrightarrow> Q k \<Longrightarrow> Q k'"
  shows "stable key_step (key_with b Q)"
proof
  fix s t assume "key_with b Q s" and step: "key_step s t"
  then obtain k where k: "row_by k_key_id b (pkeys s) = Some k" "Q k" by (auto simp: key_with_def)
  from step show "key_with b Q t"
  proof (rule key_stepE)
    fix P f assume chg: "\<And>k. k \<in> set (pkeys s) \<Longrightarrow> P k \<Longrightarrow> key_change k (f k)"
      and t: "pkeys t = update_where P f (pkeys s)"
    have "row_by k_key_id b (update_where P f ks) = map_option (\<lambda>r. if P r then f r else r) (row_by k_key_id b ks)"
      if "set ks \<subseteq> set (pkeys s)" for ks
      using that
    proof (induction ks)
      case (Cons x xs)
      then have "P x \<Longrightarrow> k_key_id (f x) = k_key_id x"
        using key_change_evolves [OF chg [of x]] by (simp add: evolves_def)
      with Cons show ?case by auto
    qed simp
    then show ?thesis
      using k t chg [of k] assms [of k "f k"] row_by_Some_mem [OF k(1)] by (auto simp: key_with_def)
  next
    fix k' assume "pkeys t = pkeys s @ [k']"
    then show ?thesis using k by (simp add: key_with_def row_by_append)
  qed
qed

lemma change_keeps_dead: "key_change k k' \<Longrightarrow> \<not> live k \<Longrightarrow> \<not> live k'"
  by (induction rule: key_change.induct) (auto simp: live_def)

lemma dead_stable: "stable key_step (key_with b (\<lambda>k. \<not> live k))"
  by (rule key_with_stable) (rule change_keeps_dead)

lemma same_key_stable: "stable key_step (key_with b (\<lambda>k. k_id k = kid))"
  by (rule key_with_stable) (auto dest: key_change_evolves simp: evolves_def)

lemma dead_not_usable: "\<not> live k \<Longrightarrow> \<not> key_usable now k"
  by (auto simp: key_usable_def live_def)

lemma rg_authenticate_dead:
  assumes "split_three raw = Some (a, b, s)"
  shows "rg key_step G (key_with b (\<lambda>k. \<not> live k)) (authenticate_key c raw ip now) (\<lambda>_ _. False)"
proof -
  have row: "rg key_step G (key_with b (\<lambda>k. \<not> live k))
      (with_err Invalid_access_key (db_row (\<lambda>t. row_by k_key_id b (pkeys t)))) (\<lambda>k _. \<not> live k)"
    by (rule rg_with_err, rule rg_db_row [OF dead_stable]) (auto simp: key_with_def)
  have rest: "rg key_step G (\<lambda>_. \<not> live k)
      (and_then (check (k_digest k = hmac c raw) e) (\<lambda>_. and_then (check (key_usable now k) e') f)) (\<lambda>_ _. False)"
    for k e e' f
    by (cases "live k") (simp_all add: rg_def check_then dead_not_usable raise_def)
  show ?thesis
    unfolding authenticate_key_def assms option.case prod.case
    by (rule rg_if, rule rg_raise, rule rg_then [OF row], rule rest)
qed

lemma rg_revoke:
  "rg key_step key_step (key_with b (\<lambda>k. k_id k = kid)) (revoke p kid ci now admin)
     (\<lambda>_. key_with b (\<lambda>k. \<not> live k))"
proof -
  let ?P = "key_with b (\<lambda>k. k_id k = kid)" and ?Q = "key_with b (\<lambda>k. \<not> live k)"
  note P = same_key_stable [of b kid] and Q = dead_stable [of b]
  have update: "rg key_step key_step ?P (db_exec (update_keys (\<lambda>r. k_id r = kid \<and> k_status r \<noteq> ''REVOKED'')
         (\<lambda>r. r\<lparr>k_status := ''REVOKED'', k_revoked := Some now\<rparr>))) (\<lambda>_. ?Q)"
    by (rule rg_db_exec [OF P])
      (auto simp: update_keys_def key_with_def row_by_update_where live_def
        intro!: key_step.changes [where f = "\<lambda>r. r\<lparr>k_status := ''REVOKED'', k_revoked := Some now\<rparr>"] key_change.revoked)
  note keep = rg_keeps_stable [OF _ Q Q]
  show ?thesis
    unfolding revoke_def
    by (rule rg_then [OF rg_db_row [OF P, where Q = "\<lambda>_. ?P"]], simp, rule rg_check_then, rule rg_then [OF update],
        rule rg_check_then, rule rg_then [OF keep], intro keeps_rules, rule insert_event_step, assumption,
        rule keep, rule keeps_record_audit)
qed

lemma split_three_raw:
  "split_three (''relio_'' @ hex_token h @ ''_'' @ s) = Some (''relio'', hex_token h, s)"
proof -
  have "cut_at CHR ''_'' (''relio'' @ CHR ''_'' # hex_token h @ CHR ''_'' # s) =
      (''relio'', hex_token h @ CHR ''_'' # s, True)"
    by (rule cut_at_append) simp
  moreover have "cut_at CHR ''_'' (hex_token h @ CHR ''_'' # s) = (hex_token h, s, True)"
    by (rule cut_at_append [OF hex_token_plain])
  ultimately show ?thesis by (simp add: split_three_def)
qed

text \<open>
  C4: Once \<open>Revoke\<close> has reported success, no request with that key's secret is authenticated any
  more, whatever database calls fail and whatever key operations other sessions commit before,
  between and after the two calls.
\<close>

theorem revoked_key_refused:
  assumes "row_by k_key_id (hex_token h) (pkeys (tabs w)) = Some k" and "k_id k = kid"
    and "rely_ok key_step w"
    and "revoke p kid ci now admin w = (Inr (), v)"
  shows "fst (authenticate_key c (''relio_'' @ hex_token h @ ''_'' @ s) ip later v) \<noteq> Inr q"
proof
  let ?m = "authenticate_key c (''relio_'' @ hex_token h @ ''_'' @ s) ip later"
  assume "fst (?m v) = Inr q"
  then obtain u where run: "?m v = (Inr q, u)" by (cases "?m v") auto
  have "key_with (hex_token h) (\<lambda>k. k_id k = kid) (tabs w)"
    using assms(1,2) by (simp add: key_with_def)
  note dead = rgD [OF rg_revoke this assms(3,4)]
  show False
    by (rule rgD(3) [OF rg_authenticate_dead [OF split_three_raw] dead(3) [OF refl] dead(1) run refl])
qed

section \<open>From creation to authentication\<close>

lemma policy_int_calm [run_simps]:
  "policy_int key d (calm t) =
     (Inr (case Option.bind (setting ''keys'' key t) st_int of None \<Rightarrow> d | Some n \<Rightarrow> n), calm t)"
  by (simp add: policy_int_def or_default_row_calm)

lemma list_keys_own_calm [run_simps]:
  "uid = user_id p \<Longrightarrow> list_keys p uid admin (calm t) =
     (Inr (map view_key (sort_desc k_created (filter (\<lambda>k. k_user k = uid) (pkeys t)))), calm t)"
  by (cases "user_id p = []") (simp_all add: list_keys_def check_then db_query_calm)

lemma or_default_list_calm [run_simps]:
  "uid = user_id p \<Longrightarrow> or_default d (list_keys p uid admin) (calm t) =
     (Inr (map view_key (sort_desc k_created (filter (\<lambda>k. k_user k = uid) (pkeys t)))), calm t)"
  by (simp add: or_default_def list_keys_own_calm)

lemma fresh_key_sel [simp]:
  "k_id (fresh_key c p n ss cs x now d) = d_row d" "k_user (fresh_key c p n ss cs x now d) = user_id p"
  "k_key_id (fresh_key c p n ss cs x now d) = hex_token (d_key d)"
  "k_digest (fresh_key c p n ss cs x now d) = hmac c (raw_key d)"
  "k_scopes (fresh_key c p n ss cs x now d) = ss" "k_channels (fresh_key c p n ss cs x now d) = cs"
  "k_status (fresh_key c p n ss cs x now d) = ''ACTIVE''"
  "k_expires (fresh_key c p n ss cs x now d) = Some x" "k_grace (fresh_key c p n ss cs x now d) = None"
  by (simp_all add: fresh_key_def)

lemma for_each_channel_calm:
  "for_each channel_enabled cs (calm t) = (Inr (), u) \<Longrightarrow> u = calm t"
proof (induction cs)
  case (Cons c cs)
  have "channel_enabled c (calm t) = (Inr (), v) \<Longrightarrow> v = calm t" for v
    by (auto simp: channel_enabled_def policy_bool_def run_simps split: if_splits)
  with Cons show ?case by (auto simp: run_simps)
qed (auto simp: run_simps)

lemma for_each_lift_run: "for_each (\<lambda>s. lift (g s)) ss w = (Inr (), v) \<Longrightarrow> v = w \<and> (\<forall>s \<in> set ss. g s = Inr ())"
  by (induction ss) (auto simp: run_simps)

lemma validate_access_run:
  assumes "validate_access p ss cs (calm t) = (Inr x, v)"
  shows "v = calm t \<and> ss \<noteq> [] \<and> (\<forall>s \<in> set ss. delegable p s = Inr ())"
  using assms unfolding validate_access_def
  by (auto simp: run_simps dest!: for_each_channel_calm for_each_lift_run)

text \<open>The expiry a creation settles on.\<close>

definition key_expiry :: "account_tables \<Rightarrow> create_input \<Rightarrow> instant \<Rightarrow> instant" where
  "key_expiry t inp now = (case ci_expires inp of
     None \<Rightarrow> add_days now (case Option.bind (setting ''keys'' ''default_lifetime_days'' t) st_int of
       None \<Rightarrow> 365 | Some n \<Rightarrow> n)
   | Some x \<Rightarrow> x)"

lemma create_with_run:
  assumes "create_with c p inp ci d now b (calm t) = (Inr cr, v)"
  obtains scopes channels evs log where
    "normalize_access (ci_scopes inp) (ci_channels inp) = (scopes, channels)"
    and "\<forall>s \<in> set scopes. delegable p s = Inr ()"
    and "now \<le> key_expiry t inp now"
    and "cr_secret cr = raw_key d"
    and "v = calm (t\<lparr>pkeys := pkeys t @ [fresh_key c p (trim_space (ci_name inp)) scopes channels
          (key_expiry t inp now) now d], key_history := evs, audit_log := log\<rparr>)"
    and "cr_key cr = List.find (\<lambda>v. v_id v = d_row d) (map view_key (sort_desc k_created
          (filter (\<lambda>k. k_user k = user_id p) (pkeys (tabs v)))))"
    and "d_row d \<notin> set (keys k_id (pkeys t))" and "hex_token (d_key d) \<notin> set (keys k_key_id (pkeys t))"
proof -
  obtain scopes channels where na: "normalize_access (ci_scopes inp) (ci_channels inp) = (scopes, channels)"
    by fastforce
  show thesis
    using assms na that
    unfolding create_with_def record_audit_def Let_def
    by (auto simp: run_simps insert_key_def insert_event_def key_event_of_def keys_def key_expiry_def
        split: if_splits dest!: validate_access_run)
qed

lemma authenticate_key_calm:
  assumes "split_three raw = Some (''relio'', b, s)" and "b \<noteq> []" and "s \<noteq> []"
    and "row_by k_key_id b (pkeys t) = Some k" and "k_digest k = hmac c raw" and "key_usable now k"
    and "\<exists>u \<in> set (users t). u_id u = k_user k \<and> u_active u"
  shows "\<exists>q. fst (authenticate_key c raw ip now (calm t)) = Inr q \<and> user_id q = k_user k \<and>
    key_id q = k_key_id k \<and> key_scopes q = k_scopes k \<and> key_channels q = k_channels k"
proof -
  obtain u where u: "List.find (\<lambda>u. u_id u = k_user k \<and> u_active u) (users t) = Some u"
    using assms(7) by (cases "List.find (\<lambda>u. u_id u = k_user k \<and> u_active u) (users t)")
      (auto simp: find_None_iff)
  show ?thesis
    using assms u by (simp add: authenticate_key_def calm_simps load_principal_calm with_key_def)
qed

lemma admin_not_delegable: "''admin:*'' \<notin> set allowed_scopes"
  by (simp add: allowed_scopes_def)

text \<open>
  C5: The secret of a new key works: until the key expires it authenticates a request as the
  user who created it, and lets that request do only what the key was given, which is scopes that
  may be delegated at all and that, but for the bootstrap administrator, the creator could use.
\<close>

theorem created_key_authenticates:
  assumes "create_key c p inp ci d now (calm t) = (Inr cr, v)"
    and "\<exists>u \<in> set (users t). u_id u = user_id p \<and> u_active u"
    and "d_key d \<noteq> []" and "new_token (d_secret d) \<noteq> []"
    and "later \<le> key_expiry t inp now"
  shows "\<exists>q. fst (authenticate_key c (cr_secret cr) ip later v) = Inr q \<and> user_id q = user_id p \<and>
    set (key_scopes q) \<subseteq> trim_space ` set (ci_scopes inp) \<inter> set allowed_scopes \<and>
    (\<forall>x. has q x \<longrightarrow> x \<in> set (key_scopes q)) \<and>
    (\<forall>x \<in> set (key_scopes q). is_bootstrap p \<or> has p x)"
proof -
  from assms(1) [unfolded create_key_def]
  obtain scopes channels evs log where na: "normalize_access (ci_scopes inp) (ci_channels inp) = (scopes, channels)"
    and del: "\<forall>s \<in> set scopes. delegable p s = Inr ()" and secret: "cr_secret cr = raw_key d"
    and v: "v = calm (t\<lparr>pkeys := pkeys t @ [fresh_key c p (trim_space (ci_name inp)) scopes channels
          (key_expiry t inp now) now d], key_history := evs, audit_log := log\<rparr>)"
    and new: "hex_token (d_key d) \<notin> set (keys k_key_id (pkeys t))"
    by (rule create_with_run)
  let ?k = "fresh_key c p (trim_space (ci_name inp)) scopes channels (key_expiry t inp now) now d"
  have split: "split_three (cr_secret cr) = Some (''relio'', hex_token (d_key d), new_token (d_secret d))"
    using split_three_raw [of "d_key d" "new_token (d_secret d)"] by (simp add: secret raw_key_def)
  have row: "row_by k_key_id (hex_token (d_key d)) (pkeys t @ [?k]) = Some ?k"
    using new by (simp add: row_by_append row_by_None_iff [THEN iffD2])
  have "key_usable later ?k" using assms(5) by (simp add: key_usable_def)
  with split row assms(2-4) obtain q where q: "fst (authenticate_key c (cr_secret cr) ip later v) = Inr q"
    "user_id q = user_id p" "key_id q = hex_token (d_key d)" "key_scopes q = scopes"
    using authenticate_key_calm [OF split, where k = ?k and c = c and now = later and ip = ip
        and t = "t\<lparr>pkeys := pkeys t @ [?k], key_history := evs, audit_log := log\<rparr>"]
    unfolding v by (auto simp: secret)
  have "set scopes \<subseteq> trim_space ` set (ci_scopes inp)" using na by (auto simp: normalize_access_def keep_new_set)
  moreover have "\<forall>x. has q x \<longrightarrow> x \<in> set scopes"
    using q(3,4) assms(3) del admin_not_delegable by (auto simp: has_iff key_allows_iff delegable_Inr)
  ultimately show ?thesis using q del by (auto simp: delegable_Inr)
qed

section \<open>Rotation\<close>

lemma find_view:
  assumes "k \<in> set ks"
  shows "case_option [] v_id (List.find (\<lambda>v. v_id v = k_id k) (map view_key (sort_desc r ks))) = k_id k"
proof (cases "List.find (\<lambda>v. v_id v = k_id k) (map view_key (sort_desc r ks))")
  case None
  then show ?thesis using assms by (auto simp: find_None_iff view_key_def)
next
  case (Some v)
  then show ?thesis by (auto dest: find_Some_mem)
qed

definition rotation_grace :: "account_tables \<Rightarrow> duration" where
  "rotation_grace t = hours (case Option.bind (setting ''keys'' ''rotation_grace_hours'' t) st_int of
     None \<Rightarrow> 24 | Some n \<Rightarrow> n)"

lemma setting_frame [simp]: "setting ns key (t\<lparr>pkeys := a, key_history := b, audit_log := l\<rparr>) = setting ns key t"
  by (simp add: setting_def)

text \<open>
  C7: After a rotation the old secret keeps working exactly until the grace period of the policy
  or the key's own expiry is over, whichever is first, and the replacement is an active key of the
  same owner that names the old one as its parent.
\<close>

theorem rotation_grace_period:
  assumes "rotate_key c p kid ci d now (calm t) = (Inr cr, v)"
  shows "\<exists>k k' n. row_by k_id kid (pkeys t) = Some k \<and> k_user k = user_id p \<and>
    row_by k_id kid (pkeys (tabs v)) = Some k' \<and> k_digest k' = k_digest k \<and>
    (key_usable later k' \<longleftrightarrow> later < now + rotation_grace t \<and> (\<forall>x. k_expires k = Some x \<longrightarrow> later \<le> x)) \<and>
    row_by k_id (d_row d) (pkeys (tabs v)) = Some n \<and> k_user n = user_id p \<and> k_status n = ''ACTIVE'' \<and>
    k_digest n = hmac c (cr_secret cr) \<and> k_parent n = Some kid"
proof -
  obtain k u where k: "row_by k_id kid (pkeys t) = Some k" "k_user k = user_id p" "k_status k = ''ACTIVE''"
    and run: "create_with c p \<lparr>ci_name = k_name k, ci_scopes = k_scopes k, ci_channels = k_channels k,
         ci_expires = k_expires k\<rparr> ci d now True (calm t) = (Inr cr, u)"
    and rest: "retire_key p kid ci now cr u = (Inr cr, v)"
    using assms unfolding rotate_key_def retire_key_def by (auto simp: run_simps Let_def)
  from run obtain scopes channels evs log x where secret: "cr_secret cr = raw_key d"
    and u: "u = calm (t\<lparr>pkeys := pkeys t @ [fresh_key c p (trim_space (k_name k)) scopes channels x now d],
          key_history := evs, audit_log := log\<rparr>)"
    and found: "cr_key cr = List.find (\<lambda>v. v_id v = d_row d) (map view_key (sort_desc k_created
          (filter (\<lambda>k. k_user k = user_id p) (pkeys (tabs u)))))"
    and new: "d_row d \<notin> set (keys k_id (pkeys t))"
    by (rule create_with_run) auto
  let ?n = "fresh_key c p (trim_space (k_name k)) scopes channels x now d"
  have new_id: "case_option [] v_id (cr_key cr) = d_row d"
    using find_view [of ?n "filter (\<lambda>k. k_user k = user_id p) (pkeys (tabs u))" k_created]
    unfolding found by (simp add: u)
  have other: "d_row d \<noteq> kid" using new k(1) row_by_None_iff [of k_id kid "pkeys t"] by auto
  have "pkeys (tabs v) = update_where (\<lambda>r. k_id r = d_row d) (\<lambda>r. r\<lparr>k_parent := Some kid\<rparr>)
      (update_where (\<lambda>r. k_id r = kid \<and> k_status r = ''ACTIVE'')
        (\<lambda>r. r\<lparr>k_status := ''ROTATING'', k_grace := Some (now + rotation_grace t)\<rparr>) (pkeys t @ [?n]))"
    using rest unfolding retire_key_def record_audit_def Let_def new_id u
    by (auto simp: run_simps update_keys_def insert_event_def rotation_grace_def split: if_splits)
  then have "row_by k_id kid (pkeys (tabs v)) =
      Some (k\<lparr>k_status := ''ROTATING'', k_grace := Some (now + rotation_grace t)\<rparr>)"
    "row_by k_id (d_row d) (pkeys (tabs v)) = Some (?n\<lparr>k_parent := Some kid\<rparr>)"
    using k new other row_by_Some_key [OF k(1)]
    by (simp_all add: row_by_update_where row_by_append row_by_None_iff [THEN iffD2])
  with k secret show ?thesis
    by (intro exI [of _ k] exI [of _ "k\<lparr>k_status := ''ROTATING'', k_grace := Some (now + rotation_grace t)\<rparr>"]
        exI [of _ "?n\<lparr>k_parent := Some kid\<rparr>"]) (auto simp: key_usable_def split: option.split)
qed

section \<open>A concrete life\<close>

definition toy_principal :: principal where
  "toy_principal = (new_principal ''u1'')\<lparr>perm := [''customer:read'']\<rparr>"

definition toy_client :: client_info where
  "toy_client = \<lparr>c_ip = [], c_request = ''r1'', c_agent = []\<rparr>"

definition toy_draw :: key_draw where
  "toy_draw = \<lparr>d_row = ''k2'', d_key = ''k'', d_secret = ''s''\<rparr>"

definition toy_input :: create_input where
  "toy_input = \<lparr>ci_name = ''agent'', ci_scopes = ['' customer:read''], ci_channels = [''rest''], ci_expires = Some 100\<rparr>"

lemma toy_principal_sel [simp]: "user_id toy_principal = ''u1''" "is_bootstrap toy_principal = False"
  and toy_principal_has: "has toy_principal x \<longleftrightarrow> x = ''customer:read''"
  by (auto simp: toy_principal_def has_iff user_may_def key_allows_iff new_principal_def)

lemma toy_setting [simp]: "setting ns key toy_tables = None"
  by (simp add: setting_def)

lemma toy_create: "\<exists>cr v. create_key toy_crypto toy_principal toy_input toy_client toy_draw 5 (calm toy_tables) = (Inr cr, v)"
proof -
  have na: "normalize_access ['' customer:read''] [''rest''] = ([''customer:read''], [''REST''])" by code_simp
  have nb: "\<not> blank ''agent''" by code_simp
  have ok: "valid_channels [''REST'']" "delegable toy_principal ''customer:read'' = Inr ()"
    by (simp_all add: valid_channels_iff delegable_Inr allowed_scopes_def toy_principal_has)
  have "validate_access toy_principal [''customer:read''] [''REST''] (calm toy_tables) = (Inr (), calm toy_tables)"
    by (simp add: validate_access_def ok run_simps channel_enabled_def policy_bool_def check_then lift_then ret_calm and_then_calm
      check_def)
  then show ?thesis
    by (simp add: create_key_def create_with_def toy_input_def na nb check_then and_then_calm run_simps Let_def
      add_days_def day_ns_def insert_key_def keys_def insert_event_def key_event_of_def record_audit_def ret_calm
      check_def count_where_def db_exec_calm raise_calm)
qed

definition hex_key :: key_row where
  "hex_key = toy_key\<lparr>k_key_id := hex_token ''k''\<rparr>"

definition hex_tables :: account_tables where
  "hex_tables = toy_tables\<lparr>pkeys := [hex_key]\<rparr>"

lemma hex_key_sel [simp]:
  "k_id hex_key = ''k1''" "k_user hex_key = ''u1''" "k_status hex_key = ''ACTIVE''" "k_name hex_key = ''agent''"
  "k_key_id hex_key = hex_token ''k''" "k_scopes hex_key = [''customer:read'']" "k_channels hex_key = [''REST'']"
  "k_expires hex_key = Some 100"
  by (simp_all add: hex_key_def toy_key_def)

lemma hex_tables_sel [simp]:
  "pkeys hex_tables = [hex_key]" "users hex_tables = [toy_user]" "setting ns key hex_tables = None"
  by (simp_all add: hex_tables_def setting_def)

lemma hex_tables_ok: "keys_ok (tabs (calm hex_tables))" and calm_rely: "rely_ok R (calm s)"
  by (simp_all add: keys_ok_def access_ok_def allowed_scopes_def rely_ok_def)

theorem stored_access_valid_witness:
  "keys_ok (tabs (snd (revoke toy_principal ''k1'' toy_client 9 False (calm hex_tables))))"
  using stored_access_valid [OF hex_tables_ok calm_rely] by blast

theorem keys_move_forward_witness:
  "keys_evolve hex_tables (tabs (snd (revoke toy_principal ''k1'' toy_client 9 False (calm hex_tables))))"
  using keys_move_forward [OF calm_rely, of hex_tables] by simp

lemma toy_revoke: "\<exists>v. revoke toy_principal ''k1'' toy_client 9 False (calm hex_tables) = (Inr (), v)"
  by (simp add: revoke_def record_audit_def and_then_calm run_simps check_then update_keys_def db_exec_calm db_row_calm
      count_where_def insert_event_def key_event_of_def keys_def)

theorem revoked_key_refused_witness:
  "\<exists>v. revoke toy_principal ''k1'' toy_client 9 False (calm hex_tables) = (Inr (), v) \<and>
     (\<forall>q. fst (authenticate_key toy_crypto (''relio_'' @ hex_token ''k'' @ ''_'' @ ''s3cret'') [] 10 v) \<noteq> Inr q)"
proof -
  obtain v where run: "revoke toy_principal ''k1'' toy_client 9 False (calm hex_tables) = (Inr (), v)"
    using toy_revoke by blast
  have "row_by k_key_id (hex_token ''k'') (pkeys (tabs (calm hex_tables))) = Some hex_key" by simp
  from revoked_key_refused [OF this _ calm_rely run] run show ?thesis by auto
qed

theorem created_key_authenticates_witness:
  "\<exists>cr v q. create_key toy_crypto toy_principal toy_input toy_client toy_draw 5 (calm toy_tables) = (Inr cr, v) \<and>
     fst (authenticate_key toy_crypto (cr_secret cr) [] 100 v) = Inr q \<and> user_id q = ''u1''"
proof -
  obtain cr v where run: "create_key toy_crypto toy_principal toy_input toy_client toy_draw 5 (calm toy_tables) = (Inr cr, v)"
    using toy_create by blast
  have d: "d_key toy_draw \<noteq> []" "new_token (d_secret toy_draw) \<noteq> []" by code_simp+
  have "\<exists>u \<in> set (users toy_tables). u_id u = user_id toy_principal \<and> u_active u" by simp
  moreover have "(100 :: int) \<le> key_expiry toy_tables toy_input 5" by (simp add: key_expiry_def toy_input_def)
  ultimately show ?thesis
    using created_key_authenticates [OF run _ d, where later = 100 and ip = "[]"] run by auto
qed

lemma toy_rotate: "\<exists>cr v. rotate_key toy_crypto toy_principal ''k1'' toy_client (toy_draw\<lparr>d_key := ''n''\<rparr>) 5 (calm hex_tables) = (Inr cr, v)"
proof -
  have na: "normalize_access [''customer:read''] [''REST''] = ([''customer:read''], [''REST''])" by code_simp
  have nb: "\<not> blank ''agent''" by code_simp
  have hex: "hex_token ''n'' \<noteq> hex_token ''k''" by code_simp
  have ok: "valid_channels [''REST'']" "delegable toy_principal ''customer:read'' = Inr ()"
    by (simp_all add: valid_channels_iff delegable_Inr allowed_scopes_def toy_principal_has)
  have "validate_access toy_principal [''customer:read''] [''REST''] (calm hex_tables) = (Inr (), calm hex_tables)"
    by (simp add: validate_access_def ok run_simps channel_enabled_def policy_bool_def check_then lift_then ret_calm and_then_calm
      check_def)
  then show ?thesis
    by (simp add: rotate_key_def retire_key_def create_with_def na nb hex check_then and_then_calm run_simps Let_def
      add_days_def day_ns_def insert_key_def keys_def insert_event_def key_event_of_def record_audit_def ret_calm
      check_def count_where_def db_exec_calm raise_calm db_row_calm update_keys_def toy_draw_def)
qed

theorem rotation_grace_period_witness:
  "\<exists>cr v k'. rotate_key toy_crypto toy_principal ''k1'' toy_client (toy_draw\<lparr>d_key := ''n''\<rparr>) 5 (calm hex_tables) = (Inr cr, v) \<and>
     row_by k_id ''k1'' (pkeys (tabs v)) = Some k' \<and> k_digest k' = k_digest hex_key \<and> key_usable 99 k' \<and> \<not> key_usable 101 k'"
proof -
  obtain cr v where run: "rotate_key toy_crypto toy_principal ''k1'' toy_client (toy_draw\<lparr>d_key := ''n''\<rparr>) 5 (calm hex_tables) = (Inr cr, v)"
    using toy_rotate by blast
  have "rotation_grace hex_tables = 24 * hour_ns"
    by (simp add: rotation_grace_def hours_exact)
  then have "(99 :: int) < 5 + rotation_grace hex_tables" by (simp add: hour_ns_def)
  with rotation_grace_period [OF run, of 99] rotation_grace_period [OF run, of 101] run show ?thesis by auto
qed

end
