(* ===== verification/Job.thy ===== *)
theory Job
  imports Apikey_Facts Auth_Facts
begin

text \<open>
  The maintenance pass (internal/job/runner.go): it expires keys and sessions while it holds
  PostgreSQL's advisory lock, and then runs the injected jobs. The two clean-ups of tables outside
  the account tables (login states and idempotency keys) and the injected jobs are parameters: a
  failing statement or job is logged and the pass goes on.
\<close>

section \<open>The maintenance pass\<close>

definition revoke_after_grace :: "instant \<Rightarrow> account_tables \<Rightarrow> (account_tables \<times> int) option" where
  "revoke_after_grace now =
     update_keys (\<lambda>k. k_status k = ''ROTATING'' \<and> (case k_grace k of None \<Rightarrow> False | Some g \<Rightarrow> g \<le> now))
       (\<lambda>k. k\<lparr>k_status := ''REVOKED'', k_revoked := Some now\<rparr>)"

definition expire_keys :: "instant \<Rightarrow> account_tables \<Rightarrow> (account_tables \<times> int) option" where
  "expire_keys now =
     update_keys (\<lambda>k. live k \<and> (case k_expires k of None \<Rightarrow> False | Some x \<Rightarrow> x \<le> now))
       (\<lambda>k. k\<lparr>k_status := ''EXPIRED''\<rparr>)"

definition drop_sessions :: "instant \<Rightarrow> account_tables \<Rightarrow> (account_tables \<times> unit) option" where
  "drop_sessions now = writes (\<lambda>t. t\<lparr>sessions := delete_where (\<lambda>s. s_expires s < now - day_ns) (sessions t)\<rparr>)"

definition no_job :: "('e, unit) account_op" where
  "no_job = ret ()"

text \<open>
  \<open>lock\<close> is the answer of \<open>pg_try_advisory_lock\<close>; \<open>other_clean_ups\<close>, \<open>snapshot\<close>, \<open>analyze\<close> and
  \<open>mail\<close> are \<open>no_job\<close> where the runner has none.
\<close>

definition maintain :: "bool \<Rightarrow> ('e, unit) account_op list \<Rightarrow> ('e, unit) account_op \<Rightarrow> ('e, unit) account_op
    \<Rightarrow> ('e, unit) account_op \<Rightarrow> instant \<Rightarrow> ('e, unit) account_op" where
  "maintain lock other_clean_ups snapshot analyze mail now =
     and_then (or_default False (db_query (\<lambda>_. lock))) (\<lambda>locked.
     if \<not> locked then ret ()
     else
       and_then (or_default 0 (db_exec (revoke_after_grace now))) (\<lambda>_.
       and_then (or_default 0 (db_exec (expire_keys now))) (\<lambda>_.
       and_then (or_default () (db_exec (drop_sessions now))) (\<lambda>_.
       and_then (for_each (or_default ()) other_clean_ups) (\<lambda>_.
       and_then (or_default () snapshot) (\<lambda>_.
       and_then (or_default () analyze) (\<lambda>_.
       or_default () mail)))))))"

section \<open>What a pass does\<close>

lemma keeps_maintain:
  assumes "\<And>m. m \<in> set clean_ups \<Longrightarrow> keeps R key_step m"
    and "keeps R key_step snapshot" and "keeps R key_step analyze" and "keeps R key_step mail"
  shows "keeps R key_step (maintain lock clean_ups snapshot analyze mail now)"
proof -
  have keys: "keeps R key_step (or_default 0 (db_exec (revoke_after_grace now)))"
    "keeps R key_step (or_default 0 (db_exec (expire_keys now)))"
    unfolding revoke_after_grace_def expire_keys_def
    by (intro keeps_rules; auto elim!: update_keys_step intro: key_change.intros)+
  have sess: "keeps R key_step (or_default () (db_exec (drop_sessions now)))"
    unfolding drop_sessions_def by (intro keeps_rules) (auto intro: key_step_frame)
  show ?thesis
    unfolding maintain_def using assms by (intro keeps_rules keeps_then keys sess) auto
qed

text \<open>What the two key statements make of one key.\<close>

definition maintained :: "instant \<Rightarrow> key_row \<Rightarrow> key_row" where
  "maintained now k =
     (let k' = (if k_status k = ''ROTATING'' \<and> (case k_grace k of None \<Rightarrow> False | Some g \<Rightarrow> g \<le> now)
                then k\<lparr>k_status := ''REVOKED'', k_revoked := Some now\<rparr> else k)
      in if live k' \<and> (case k_expires k' of None \<Rightarrow> False | Some x \<Rightarrow> x \<le> now)
         then k'\<lparr>k_status := ''EXPIRED''\<rparr> else k')"

lemma maintain_keys_calm:
  "maintain True [] no_job no_job no_job now (calm t) =
     (Inr (), calm (t\<lparr>pkeys := map (maintained now) (pkeys t),
        sessions := filter (\<lambda>s. \<not> s_expires s < now - day_ns) (sessions t)\<rparr>))"
  by (simp add: maintain_def no_job_def run_simps and_then_calm ret_calm revoke_after_grace_def expire_keys_def
      drop_sessions_def update_keys_def delete_where_def update_where_def o_def maintained_def Let_def
      cong: if_cong)

lemma maintained_usable: "now < later \<Longrightarrow> key_usable later (maintained now k) = key_usable later k"
  by (auto simp: key_usable_def maintained_def live_def Let_def split: option.splits if_splits)

lemma maintained_live:
  "live (maintained now k) \<Longrightarrow> (\<forall>x. k_expires (maintained now k) = Some x \<longrightarrow> now < x) \<and>
     (\<forall>g. k_status (maintained now k) = ''ROTATING'' \<longrightarrow> k_grace (maintained now k) = Some g \<longrightarrow> now < g)"
  by (auto simp: maintained_def live_def Let_def split: option.splits if_splits)

text \<open>
  C18: A maintenance pass changes no answer of authentication: at every later instant a key works
  exactly if it worked before the pass, and the sessions it drops had expired. No key is listed as
  live any more whose grace period or own life is over.
\<close>

theorem maintenance_transparent:
  assumes "maintain True [] no_job no_job no_job now (calm t) = (Inr (), v)"
    and "now < later"
  shows "list_all2 (\<lambda>k k'. key_usable later k' = key_usable later k) (pkeys t) (pkeys (tabs v)) \<and>
    set (sessions (tabs v)) \<subseteq> set (sessions t) \<and>
    (\<forall>s \<in> set (sessions t). later < s_expires s \<longrightarrow> s \<in> set (sessions (tabs v))) \<and>
    (\<forall>k \<in> set (pkeys (tabs v)). live k \<longrightarrow> (\<forall>x. k_expires k = Some x \<longrightarrow> now < x) \<and>
       (\<forall>g. k_status k = ''ROTATING'' \<longrightarrow> k_grace k = Some g \<longrightarrow> now < g))"
proof -
  have v: "v = calm (t\<lparr>pkeys := map (maintained now) (pkeys t),
        sessions := filter (\<lambda>s. \<not> s_expires s < now - day_ns) (sessions t)\<rparr>)"
    using assms(1) by (simp add: maintain_keys_calm)
  have "list_all2 (\<lambda>k k'. key_usable later k' = key_usable later k) (pkeys t) (pkeys (tabs v))"
    unfolding v using maintained_usable [OF assms(2)] by (simp add: list.rel_map list.rel_refl)
  moreover have "\<forall>k \<in> set (pkeys (tabs v)). live k \<longrightarrow> (\<forall>x. k_expires k = Some x \<longrightarrow> now < x) \<and>
       (\<forall>g. k_status k = ''ROTATING'' \<longrightarrow> k_grace k = Some g \<longrightarrow> now < g)"
    unfolding v using maintained_live by auto
  ultimately show ?thesis using assms(2) unfolding v by (auto simp: day_ns_def)
qed

theorem maintenance_transparent_witness:
  "\<exists>t v. pkeys t \<noteq> [] \<and> maintain True [] no_job no_job no_job 150 (calm t) = (Inr (), v) \<and>
     list_all2 (\<lambda>k k'. key_usable 200 k' = key_usable 200 k) (pkeys t) (pkeys (tabs v))"
proof -
  have "pkeys key_tables \<noteq> []" by (simp add: key_tables_def)
  moreover have run: "maintain True [] no_job no_job no_job 150 (calm key_tables) =
      (Inr (), snd (maintain True [] no_job no_job no_job 150 (calm key_tables)))"
    by (simp add: maintain_keys_calm)
  ultimately show ?thesis using maintenance_transparent [OF run, of 200] by auto
qed

end
