(* ===== verification/Approval.thy ===== *)
theory Approval
  imports Accounts Go_Json
begin

text \<open>
  Approvals (internal/approval/service.go): policies and their conditions, the choice of the
  approver, submitting an entity and deciding a request. The snapshots the database builds of an
  entity are JSON objects of the state; letters outside ASCII are compared exactly, and text
  columns are ordered by their bytes. Names are joined in as the queries do.
\<close>

section \<open>Tables\<close>

datatype approval_error =
    Bad_policy
  | Policy_not_saved
  | Unsupported_entity
  | No_policy_applies
  | Already_pending
  | No_approver
  | Bad_decision
  | Not_pending
  | Not_the_approver
  | Changed_meanwhile

text \<open>A policy; the empty text stands for NULL in the optional columns, as its readers see it.\<close>

record policy =
  pl_id :: string
  pl_name :: string
  pl_entity :: string
  pl_field :: string
  pl_op :: string
  pl_value :: json
  pl_method :: string
  pl_role :: string
  pl_org :: string
  pl_steps :: int
  pl_reject :: bool
  pl_resubmit :: bool
  pl_delegate :: bool
  pl_active :: bool
  pl_priority :: int
  pl_created :: instant

record request_row =
  q_id :: string
  q_policy :: string
  q_entity :: string
  q_entity_id :: string
  q_requester :: string
  q_approver :: "string option"
  q_status :: string
  q_step :: int
  q_snapshot :: "(string \<times> json) list"
  q_reason :: string
  q_requested :: instant
  q_decided :: "instant option"
  q_version :: int

record step_row =
  sp_request :: string
  sp_no :: int
  sp_approver :: string
  sp_status :: string
  sp_comment :: string
  sp_decided :: "instant option"

record approval_event =
  ah_request :: string
  ah_action :: string
  ah_actor :: string
  ah_comment :: string

text \<open>What is handed to the mail service: the event, the entity's title, the actor and the recipients.\<close>

record notice =
  n_event :: string
  n_title :: string
  n_actor :: string
  n_recipients :: "string list"

record approval_tables = account_tables +
  policies :: "policy list"
  objects :: "string \<Rightarrow> string \<Rightarrow> (string \<times> json) list option"
  requests :: "request_row list"
  steps :: "step_row list"
  events :: "approval_event list"
  notices :: "notice list"

type_synonym 'a approval_op = "(approval_tables, approval_error, 'a) go"

section \<open>Policies\<close>

definition allowed_entity :: "string \<Rightarrow> bool" where
  "allowed_entity v \<longleftrightarrow> v = ''OPPORTUNITY'' \<or> v = ''QUOTATION'' \<or> v = ''CONTRACT'' \<or> v = ''CUSTOMER''"

definition nullable :: "string \<Rightarrow> string" where
  "nullable v = (if blank v then [] else trim_space v)"

definition policies_of :: "principal \<Rightarrow> string \<Rightarrow> policy list approval_op" where
  "policies_of p entity =
     and_then (require p ''admin:read'') (\<lambda>_.
     db_query (\<lambda>t. sort_key pl_priority (sort_key pl_name
       (filter (\<lambda>x. entity = [] \<or> pl_entity x = entity) (policies t)))))"

text \<open>The input as \<open>SavePolicy\<close> stores it: trimmed, upper case, with the defaults filled in.\<close>

definition normal_policy :: "policy \<Rightarrow> policy" where
  "normal_policy x = x\<lparr>pl_name := trim_space (pl_name x), pl_entity := to_upper (trim_space (pl_entity x)),
     pl_field := nullable (pl_field x), pl_op := nullable (pl_op x),
     pl_method := (if pl_method x = [] then ''MANAGER'' else pl_method x),
     pl_role := nullable (pl_role x), pl_org := nullable (pl_org x),
     pl_steps := (if pl_steps x < 1 then 1 else pl_steps x),
     pl_priority := (if pl_priority x = 0 then 100 else pl_priority x)\<rparr>"

definition role_exists :: "policy \<Rightarrow> 'z account_tables_scheme \<Rightarrow> bool" where
  "role_exists x t \<longleftrightarrow> pl_role x = [] \<or> pl_role x \<in> set (keys r_id (roles t))"

definition insert_policy :: "principal \<Rightarrow> policy \<Rightarrow> approval_tables \<Rightarrow> (approval_tables \<times> unit) option" where
  "insert_policy p x t =
     (if pl_id x \<in> set (keys pl_id (policies t)) \<or> \<not> role_exists x t \<or> user_id p \<notin> set (keys u_id (users t))
      then None else Some (t\<lparr>policies := policies t @ [x]\<rparr>, ()))"

definition change_policy :: "principal \<Rightarrow> policy \<Rightarrow> approval_tables \<Rightarrow> (approval_tables \<times> unit) option" where
  "change_policy p x t =
     (if pl_id x \<in> set (keys pl_id (policies t)) \<and> (\<not> role_exists x t \<or> user_id p \<notin> set (keys u_id (users t)))
      then None
      else Some (t\<lparr>policies := update_where (\<lambda>y. pl_id y = pl_id x) (\<lambda>y. x\<lparr>pl_created := pl_created y\<rparr>) (policies t)\<rparr>, ()))"

definition save_policy :: "principal \<Rightarrow> policy \<Rightarrow> client_info \<Rightarrow> string \<Rightarrow> instant \<Rightarrow> policy approval_op" where
  "save_policy p input ci pid0 now =
     and_then (require p ''admin:write'') (\<lambda>_.
     let x = normal_policy input in
     and_then (check (\<not> (pl_name x = [] \<or> \<not> allowed_entity (pl_entity x))) Bad_policy) (\<lambda>_.
     let pid = (if pl_id x = [] then pid0 else pl_id x) in
     and_then
       (if pl_id x = [] then db_exec (insert_policy p (x\<lparr>pl_id := pid, pl_created := now\<rparr>))
        else db_exec (change_policy p x)) (\<lambda>_.
     and_then (record_audit (audit_event p ci ''ADMIN'' ''APPROVAL_POLICY_SAVE'' ''approval_policy'' pid)) (\<lambda>_.
     and_then (policies_of p (pl_entity x)) (\<lambda>items.
     case List.find (\<lambda>v. pl_id v = pid) items of
       None \<Rightarrow> raise (App Policy_not_saved) | Some v \<Rightarrow> ret v)))))"

section \<open>Conditions\<close>

definition condition_text :: "json \<Rightarrow> string" where
  "condition_text v = (case v of JNull \<Rightarrow> [] | JNum r \<Rightarrow> show_dec r | JStr s \<Rightarrow> s | _ \<Rightarrow> sprint v)"

definition as_float :: "json \<Rightarrow> rat option" where
  "as_float v = (case v of JNum r \<Rightarrow> Some r | JStr s \<Rightarrow> parse_float s | _ \<Rightarrow> None)"

definition compare_numbers :: "string \<Rightarrow> rat \<Rightarrow> rat \<Rightarrow> bool" where
  "compare_numbers op a b =
     (if op = ''GT'' then a > b else if op = ''GTE'' then a \<ge> b else if op = ''LT'' then a < b
      else if op = ''LTE'' then a \<le> b else if op = ''NE'' then a \<noteq> b else a = b)"

definition compare_texts :: "string \<Rightarrow> string \<Rightarrow> string \<Rightarrow> bool" where
  "compare_texts op a b =
     (if op = ''NE'' then \<not> equal_fold a b
      else if op = ''GT'' then to_lower a > to_lower b
      else if op = ''GTE'' then to_lower a \<ge> to_lower b
      else if op = ''LT'' then to_lower a < to_lower b
      else if op = ''LTE'' then to_lower a \<le> to_lower b
      else equal_fold a b)"

definition condition_op :: "policy \<Rightarrow> string" where
  "condition_op p = (let op = to_upper (trim_space (pl_op p)) in if op = [] then ''EQ'' else op)"

definition matches :: "policy \<Rightarrow> (string \<times> json) list \<Rightarrow> bool" where
  "matches p snap =
     (if pl_field p = [] then True
      else case json_field (pl_field p) snap of
        None \<Rightarrow> False
      | Some actual \<Rightarrow>
          let op = condition_op p; a = condition_text actual; b = condition_text (pl_value p)
          in if op = ''CONTAINS'' then contains_sub (to_lower a) (to_lower b)
             else case as_float actual of
               None \<Rightarrow> compare_texts op a b
             | Some x \<Rightarrow> (case as_float (pl_value p) of
                 None \<Rightarrow> compare_texts op a b
               | Some y \<Rightarrow> compare_numbers op x y))"

definition snapshot :: "string \<Rightarrow> string \<Rightarrow> (string \<times> json) list approval_op" where
  "snapshot entity eid =
     (if entity = ''OPPORTUNITY'' \<or> entity = ''CUSTOMER'' \<or> entity = ''QUOTATION'' \<or> entity = ''CONTRACT''
      then db_row (\<lambda>t. objects t entity eid)
      else raise (App Unsupported_entity))"

definition candidates :: "string \<Rightarrow> approval_tables \<Rightarrow> policy list" where
  "candidates entity t =
     sort_key pl_priority (sort_key pl_id (filter (\<lambda>x. pl_active x \<and> pl_entity x = entity) (policies t)))"

definition applicable :: "string \<Rightarrow> string \<Rightarrow> (policy option \<times> (string \<times> json) list) approval_op" where
  "applicable entity eid =
     and_then (snapshot (to_upper entity) eid) (\<lambda>snap.
     and_then (db_query (candidates (to_upper entity))) (\<lambda>ps.
     ret (List.find (\<lambda>x. matches x snap) ps, snap)))"

text \<open>The policy that applies and whether the caller may request an approval.\<close>

definition capability :: "principal \<Rightarrow> string \<Rightarrow> string \<Rightarrow> (policy \<times> bool) option approval_op" where
  "capability p entity eid =
     and_then (applicable entity eid) (\<lambda>(policy, _).
     ret (map_option (\<lambda>x. (x, has p ''approval:request'')) policy))"

section \<open>The approver\<close>

definition with_role :: "(string \<Rightarrow> bool) \<Rightarrow> 'z account_tables_scheme \<Rightarrow> user_row list" where
  "with_role P t =
     concat (map (\<lambda>(u, r). if P r then filter (\<lambda>x. u_id x = u \<and> u_active x) (users t) else []) (user_roles t))"

definition first_by :: "('a \<Rightarrow> nat) \<Rightarrow> ('a \<Rightarrow> instant) \<Rightarrow> 'a list \<Rightarrow> 'a option" where
  "first_by rank created xs =
     (case sort_key rank (sort_key created xs) of [] \<Rightarrow> None | x # _ \<Rightarrow> Some x)"

definition role_approver :: "principal \<Rightarrow> string \<Rightarrow> 'z account_tables_scheme \<Rightarrow> string option" where
  "role_approver p role t =
     map_option u_id (first_by
       (\<lambda>u. if nullable (organization_id p) \<noteq> [] \<and> u_org u = Some (nullable (organization_id p)) then 0 else 1)
       u_created (with_role (\<lambda>r. r = role) t))"

definition admin_approver :: "principal \<Rightarrow> 'z account_tables_scheme \<Rightarrow> string option" where
  "admin_approver p t =
     map_option u_id (first_by (\<lambda>u. if u_id u = user_id p then 1 else 0) u_created
       (with_role (\<lambda>r. (r, ''admin:*'') \<in> set (role_perms t)) t))"

definition resolve_approver :: "principal \<Rightarrow> policy \<Rightarrow> string approval_op" where
  "resolve_approver p x =
     or_else (if pl_method x = ''MANAGER''
        then db_row (\<lambda>t. Option.bind (row_by u_id (user_id p) (users t)) u_manager) else raise No_rows)
     (or_else (if pl_role x \<noteq> [] then db_row (role_approver p (pl_role x)) else raise No_rows)
       (with_err No_approver (db_row (admin_approver p))))"

section \<open>Requests\<close>

record request_view =
  rv_row :: request_row
  rv_policy :: string
  rv_requester :: string
  rv_approver :: string

definition join_request :: "approval_tables \<Rightarrow> request_row \<Rightarrow> request_view option" where
  "join_request t r =
     (case row_by pl_id (q_policy r) (policies t) of
        None \<Rightarrow> None
      | Some pl \<Rightarrow> (case row_by u_id (q_requester r) (users t) of
          None \<Rightarrow> None
        | Some u \<Rightarrow> Some \<lparr>rv_row = r, rv_policy = pl_name pl, rv_requester = u_display_name u,
            rv_approver = (case q_approver r of None \<Rightarrow> [] | Some a \<Rightarrow>
              (case row_by u_id a (users t) of None \<Rightarrow> [] | Some v \<Rightarrow> u_display_name v))\<rparr>))"

definition sees_request :: "principal \<Rightarrow> request_row \<Rightarrow> bool" where
  "sees_request p r \<longleftrightarrow>
     q_requester r = user_id p \<or> q_approver r = Some (user_id p) \<or> is_bootstrap p \<or> has p ''admin:read''"

definition get_request :: "principal \<Rightarrow> string \<Rightarrow> request_view approval_op" where
  "get_request p rid = db_row (\<lambda>t.
     Option.bind (List.find (\<lambda>r. q_id r = rid \<and> sees_request p r) (requests t)) (join_request t))"

definition list_requests :: "principal \<Rightarrow> string \<Rightarrow> request_view list approval_op" where
  "list_requests p status = db_query (\<lambda>t. take 200 (List.map_filter (join_request t)
     (sort_desc q_requested (filter (\<lambda>r. sees_request p r \<and> (status = [] \<or> q_status r = status)) (requests t)))))"

definition entity_title :: "(string \<times> json) list \<Rightarrow> string option" where
  "entity_title snap =
     (case List.find (\<lambda>k. case json_field k snap of Some (JStr s) \<Rightarrow> \<not> blank s | _ \<Rightarrow> False) [''name'', ''title''] of
        None \<Rightarrow> None
      | Some k \<Rightarrow> (case json_field k snap of Some (JStr s) \<Rightarrow> Some (trim_space s) | _ \<Rightarrow> None))"

definition notify :: "bool \<Rightarrow> notice \<Rightarrow> unit approval_op" where
  "notify wired n = (if \<not> wired then ret () else effect (\<lambda>t. t\<lparr>notices := notices t @ [n]\<rparr>))"

definition insert_request :: "request_row \<Rightarrow> approval_tables \<Rightarrow> (approval_tables \<times> unit) option" where
  "insert_request r t =
     (if q_id r \<in> set (keys q_id (requests t)) \<or> q_policy r \<notin> set (keys pl_id (policies t)) \<or>
         q_requester r \<notin> set (keys u_id (users t)) \<or>
         (case q_approver r of None \<Rightarrow> False | Some a \<Rightarrow> a \<notin> set (keys u_id (users t))) then None
      else Some (t\<lparr>requests := requests t @ [r]\<rparr>, ()))"

definition insert_step :: "step_row \<Rightarrow> approval_tables \<Rightarrow> (approval_tables \<times> unit) option" where
  "insert_step s t =
     (if sp_request s \<notin> set (keys q_id (requests t)) \<or>
         (sp_request s, sp_no s) \<in> set (map (\<lambda>x. (sp_request x, sp_no x)) (steps t)) then None
      else Some (t\<lparr>steps := steps t @ [s]\<rparr>, ()))"

definition insert_approval_event :: "approval_event \<Rightarrow> approval_tables \<Rightarrow> (approval_tables \<times> unit) option" where
  "insert_approval_event e t =
     (if ah_request e \<notin> set (keys q_id (requests t)) \<or> ah_actor e \<notin> set (keys u_id (users t)) then None
      else Some (t\<lparr>events := events t @ [e]\<rparr>, ()))"

definition new_request :: "principal \<Rightarrow> policy \<Rightarrow> string \<Rightarrow> string \<Rightarrow> string \<Rightarrow> string
    \<Rightarrow> (string \<times> json) list \<Rightarrow> string \<Rightarrow> instant \<Rightarrow> request_row" where
  "new_request p x rid entity eid approver snap reason now =
     \<lparr>q_id = rid, q_policy = pl_id x, q_entity = to_upper entity, q_entity_id = eid, q_requester = user_id p,
      q_approver = Some approver, q_status = ''PENDING'', q_step = 1, q_snapshot = snap,
      q_reason = nullable reason, q_requested = now, q_decided = None, q_version = 1\<rparr>"

definition submit_tx :: "principal \<Rightarrow> request_row \<Rightarrow> string \<Rightarrow> string \<Rightarrow> unit approval_op" where
  "submit_tx p r approver reason =
     and_then (tx_exec (insert_request r)) (\<lambda>_.
     and_then (tx_exec (insert_step \<lparr>sp_request = q_id r, sp_no = 1, sp_approver = approver,
         sp_status = ''PENDING'', sp_comment = [], sp_decided = None\<rparr>)) (\<lambda>_.
     tx_exec (insert_approval_event \<lparr>ah_request = q_id r, ah_action = ''SUBMIT'', ah_actor = user_id p,
         ah_comment = nullable reason\<rparr>)))"

definition submit :: "bool \<Rightarrow> principal \<Rightarrow> string \<Rightarrow> string \<Rightarrow> string \<Rightarrow> client_info \<Rightarrow> string \<Rightarrow> instant
    \<Rightarrow> request_view approval_op" where
  "submit wired p entity eid reason ci rid now =
     and_then (require p ''approval:request'') (\<lambda>_.
     and_then (applicable entity eid) (\<lambda>(policy, snap).
     case policy of
       None \<Rightarrow> raise (App No_policy_applies)
     | Some x \<Rightarrow>
         and_then (or_default False (db_query (\<lambda>t. list_ex (\<lambda>r. q_entity r = to_upper entity \<and>
             q_entity_id r = eid \<and> q_status r = ''PENDING'') (requests t)))) (\<lambda>exists.
         and_then (check (\<not> exists) Already_pending) (\<lambda>_.
         and_then (resolve_approver p x) (\<lambda>approver.
         and_then (in_tx (submit_tx p (new_request p x rid entity eid approver snap reason now) approver reason)) (\<lambda>_.
         and_then (record_audit (audit_event p ci ''WEB'' ''APPROVAL_SUBMIT'' (to_lower entity) eid)) (\<lambda>_.
         and_then (notify wired \<lparr>n_event = ''approval_requested'', n_title = case_option [] id (entity_title snap),
             n_actor = user_id p, n_recipients = [approver]\<rparr>) (\<lambda>_.
         get_request p rid))))))))"

section \<open>Decisions\<close>

definition decide_update :: "string \<Rightarrow> int \<Rightarrow> string \<Rightarrow> instant \<Rightarrow> approval_tables \<Rightarrow> (approval_tables \<times> int) option" where
  "decide_update rid version status now t =
     (let P = (\<lambda>r. q_id r = rid \<and> q_status r = ''PENDING'' \<and> q_version r = version) in
      Some (t\<lparr>requests := update_where P
          (\<lambda>r. r\<lparr>q_status := status, q_decided := Some now, q_version := q_version r + 1\<rparr>) (requests t)\<rparr>,
        int (count_where P (requests t))))"

definition decide_step :: "string \<Rightarrow> int \<Rightarrow> string \<Rightarrow> string \<Rightarrow> instant \<Rightarrow> approval_tables
    \<Rightarrow> (approval_tables \<times> unit) option" where
  "decide_step rid no status comment now =
     writes (\<lambda>t. t\<lparr>steps := update_where (\<lambda>s. sp_request s = rid \<and> sp_no s = no)
       (\<lambda>s. s\<lparr>sp_status := status, sp_comment := nullable comment, sp_decided := Some now\<rparr>) (steps t)\<rparr>)"

definition decide_tx :: "principal \<Rightarrow> string \<Rightarrow> string \<Rightarrow> string \<Rightarrow> int \<Rightarrow> int \<Rightarrow> string \<Rightarrow> instant
    \<Rightarrow> unit approval_op" where
  "decide_tx p rid decision status version no comment now =
     and_then (tx_exec (decide_update rid version status now)) (\<lambda>n.
     and_then (check (n \<noteq> 0) Changed_meanwhile) (\<lambda>_.
     and_then (tx_exec (decide_step rid no status comment now)) (\<lambda>_.
     tx_exec (insert_approval_event \<lparr>ah_request = rid, ah_action = decision, ah_actor = user_id p,
       ah_comment = nullable comment\<rparr>))))"

definition decide :: "bool \<Rightarrow> principal \<Rightarrow> string \<Rightarrow> string \<Rightarrow> string \<Rightarrow> int \<Rightarrow> client_info \<Rightarrow> instant
    \<Rightarrow> request_view approval_op" where
  "decide wired p rid decision comment version ci now =
     and_then (require p ''approval:approve'') (\<lambda>_.
     let decision = to_upper decision in
     and_then (check (\<not> (decision \<noteq> ''APPROVE'' \<and> decision \<noteq> ''REJECT'')) Bad_decision) (\<lambda>_.
     and_then (get_request p rid) (\<lambda>b.
     let before = rv_row b in
     and_then (check (q_status before = ''PENDING'') Not_pending) (\<lambda>_.
     and_then (check (\<not> (case_option [] id (q_approver before) \<noteq> user_id p \<and> \<not> is_bootstrap p \<and>
         \<not> has p ''admin:write'')) Not_the_approver) (\<lambda>_.
     let version = (if version = 0 then q_version before else version);
         status = (if decision = ''REJECT'' then ''REJECTED'' else ''APPROVED'') in
     and_then (in_tx (decide_tx p rid decision status version (q_step before) comment now)) (\<lambda>_.
     and_then (call_result (get_request p rid)) (\<lambda>after.
     and_then (record_audit (audit_event p ci ''WEB'' (''APPROVAL_'' @ decision)
         (to_lower (q_entity before)) (q_entity_id before))) (\<lambda>_.
     and_then (notify wired \<lparr>n_event = ''approval_decided'',
         n_title = case_option [] id (entity_title (q_snapshot before)),
         n_actor = user_id p, n_recipients = [q_requester before]\<rparr>) (\<lambda>_.
     outcome after)))))))))"

end
