(* ===== verification/Approval_Facts.thy ===== *)
theory Approval_Facts
  imports Approval
begin

text \<open>
  What approvals guarantee while many sessions use them: a request is decided at most once and its
  history shows exactly that decision, only someone entitled decides, and the policy that applies
  is the first one whose condition holds.
\<close>

section \<open>The state machine of a request\<close>

text \<open>One committed step: nothing about requests, a new pending request, or a decision.\<close>

inductive approval_step :: "approval_tables \<Rightarrow> approval_tables \<Rightarrow> bool" where
  other: "requests t' = requests t \<Longrightarrow> events t' = events t \<Longrightarrow> approval_step t t'"
| submitted: "q_id r \<notin> set (keys q_id (requests t)) \<Longrightarrow> q_status r = ''PENDING'' \<Longrightarrow>
    requests t' = requests t @ [r] \<Longrightarrow> events t' = events t @ [e] \<Longrightarrow>
    ah_request e = q_id r \<Longrightarrow> ah_action e = ''SUBMIT'' \<Longrightarrow> approval_step t t'"
| decided: "decision \<in> {''APPROVE'', ''REJECT''} \<Longrightarrow>
    status = (if decision = ''REJECT'' then ''REJECTED'' else ''APPROVED'') \<Longrightarrow>
    r \<in> set (requests t) \<Longrightarrow> q_id r = rid \<Longrightarrow> q_status r = ''PENDING'' \<Longrightarrow> q_version r = version \<Longrightarrow>
    requests t' = update_where (\<lambda>r. q_id r = rid \<and> q_status r = ''PENDING'' \<and> q_version r = version)
      (\<lambda>r. r\<lparr>q_status := status, q_decided := Some now, q_version := q_version r + 1\<rparr>) (requests t) \<Longrightarrow>
    events t' = events t @ [e] \<Longrightarrow> ah_request e = rid \<Longrightarrow> ah_action e = decision \<Longrightarrow> approval_step t t'"

text \<open>The decisions recorded in the history of a request.\<close>

definition decisions :: "string \<Rightarrow> approval_event list \<Rightarrow> string list" where
  "decisions rid es = map ah_action (filter (\<lambda>e. ah_request e = rid \<and> ah_action e \<noteq> ''SUBMIT'') es)"

definition recorded :: "request_row \<Rightarrow> string list" where
  "recorded r = (if q_status r = ''APPROVED'' then [''APPROVE'']
     else if q_status r = ''REJECTED'' then [''REJECT''] else [])"

definition approvals_ok :: "approval_tables \<Rightarrow> bool" where
  "approvals_ok t \<longleftrightarrow> distinct (keys q_id (requests t)) \<and>
     (\<forall>e \<in> set (events t). ah_request e \<in> set (keys q_id (requests t))) \<and>
     (\<forall>r \<in> set (requests t). q_status r \<in> {''PENDING'', ''APPROVED'', ''REJECTED''} \<and>
        decisions (q_id r) (events t) = recorded r)"

lemma decisions_snoc:
  "decisions rid (es @ [e]) =
     decisions rid es @ (if ah_request e = rid \<and> ah_action e \<noteq> ''SUBMIT'' then [ah_action e] else [])"
  by (simp add: decisions_def)

lemma decisions_fresh:
  "(\<forall>e \<in> set es. ah_request e \<in> ids) \<Longrightarrow> rid \<notin> ids \<Longrightarrow> decisions rid es = []"
  by (auto simp: decisions_def filter_empty_conv)

lemma approval_step_ok:
  assumes "approval_step t t'" and ok: "approvals_ok t"
  shows "approvals_ok t'"
  using assms(1)
proof (cases rule: approval_step.cases)
  case other
  then show ?thesis using ok by (simp add: approvals_ok_def)
next
  case (submitted r e)
  note r = submitted(1-3) and e = submitted(4-6)
  have "decisions (q_id r) (events t) = []"
    by (rule decisions_fresh [OF _ r(1)]) (use ok in \<open>simp add: approvals_ok_def\<close>)
  then show ?thesis
    using ok r e by (auto simp: approvals_ok_def decisions_snoc recorded_def keys_def)
next
  case (decided decision status r rid version now e)
  let ?P = "\<lambda>r. q_id r = rid \<and> q_status r = ''PENDING'' \<and> q_version r = version"
  let ?f = "\<lambda>r. r\<lparr>q_status := status, q_decided := Some now, q_version := q_version r + 1\<rparr>"
  note d = decided(1,2) and r = decided(3-6) and t' = decided(7) and e = decided(8-10)
  have ids: "keys q_id (requests t') = keys q_id (requests t)"
    unfolding t' by (rule keys_update_where) simp
  have dist: "distinct (map q_id (requests t))" using ok by (simp add: approvals_ok_def keys_def)
  have row: "q_status x \<in> {''PENDING'', ''APPROVED'', ''REJECTED''} \<and> decisions (q_id x) (events t') = recorded x"
    if x: "x \<in> set (requests t')" for x
  proof -
    from x obtain y where y: "y \<in> set (requests t)" "x = (if ?P y then ?f y else y)"
      unfolding t' set_update_where by blast
    have old: "q_status y \<in> {''PENDING'', ''APPROVED'', ''REJECTED''}" "decisions (q_id y) (events t) = recorded y"
      using ok y(1) by (auto simp: approvals_ok_def)
    show ?thesis
    proof (cases "q_id y = rid")
      case True
      then have "y = r" using dist y(1) r(1,2) by (metis distinct_map inj_on_def)
      then show ?thesis using r old y(2) d e by (auto simp: decisions_snoc recorded_def)
    next
      case False
      then show ?thesis using old y(2) e by (auto simp: decisions_snoc)
    qed
  qed
  have "rid \<in> set (keys q_id (requests t))" using r(1,2) by (auto simp: keys_def)
  then have "\<forall>x \<in> set (events t'). ah_request x \<in> set (keys q_id (requests t'))"
    using ok e by (auto simp: ids approvals_ok_def)
  moreover have "distinct (keys q_id (requests t'))" using ok by (simp add: ids approvals_ok_def)
  ultimately show ?thesis using row unfolding approvals_ok_def by blast
qed

text \<open>A request keeps what it is about, its version only grows, and once decided it stays so.\<close>

definition request_evolves :: "request_row \<Rightarrow> request_row \<Rightarrow> bool" where
  "request_evolves r r' \<longleftrightarrow> q_id r' = q_id r \<and> q_policy r' = q_policy r \<and> q_entity r' = q_entity r \<and>
     q_entity_id r' = q_entity_id r \<and> q_requester r' = q_requester r \<and> q_approver r' = q_approver r \<and>
     q_snapshot r' = q_snapshot r \<and> q_version r \<le> q_version r' \<and>
     (q_status r \<noteq> ''PENDING'' \<longrightarrow> q_status r' = q_status r \<and> q_decided r' = q_decided r)"

definition requests_evolve :: "approval_tables \<Rightarrow> approval_tables \<Rightarrow> bool" where
  "requests_evolve s t \<longleftrightarrow>
     (\<exists>olds news. requests t = olds @ news \<and> list_all2 request_evolves (requests s) olds)"

lemma request_evolves_refl: "request_evolves r r"
  by (simp add: request_evolves_def)

lemma request_evolves_trans: "request_evolves r s \<Longrightarrow> request_evolves s t \<Longrightarrow> request_evolves r t"
  by (auto simp: request_evolves_def)

lemma requests_evolve_refl: "requests_evolve s s"
  unfolding requests_evolve_def by (metis append_Nil2 request_evolves_refl list.rel_refl)

lemma requests_evolve_trans:
  assumes "requests_evolve s t" and "requests_evolve t u"
  shows "requests_evolve s u"
proof -
  from assms(1) obtain os ns where t: "requests t = os @ ns" and so: "list_all2 request_evolves (requests s) os"
    by (auto simp: requests_evolve_def)
  from assms(2) obtain os' ns' where u: "requests u = os' @ ns'" and to: "list_all2 request_evolves (os @ ns) os'"
    by (auto simp: requests_evolve_def t)
  from to obtain xs ys where "os' = xs @ ys" and ox: "list_all2 request_evolves os xs"
    by (auto simp: list_all2_append1)
  moreover have "list_all2 request_evolves (requests s) xs"
    by (rule list_all2_trans [OF _ so ox]) (rule request_evolves_trans)
  ultimately show ?thesis using u unfolding requests_evolve_def by (metis append_assoc)
qed

lemma request_evolves_update:
  "list_all2 request_evolves rs (update_where (\<lambda>r. q_id r = i \<and> q_status r = ''PENDING'' \<and> q_version r = v)
     (\<lambda>r. r\<lparr>q_status := s, q_decided := Some now, q_version := q_version r + 1\<rparr>) rs)"
  by (induction rs) (auto simp: request_evolves_def)

lemma approval_step_evolves: "approval_step s t \<Longrightarrow> requests_evolve s t"
proof (induction rule: approval_step.induct)
  case (other t' t)
  then show ?case using requests_evolve_refl [of t] by (simp add: requests_evolve_def)
next
  case (submitted r t t' e)
  then show ?case unfolding requests_evolve_def by (metis request_evolves_refl list.rel_refl)
next
  case (decided decision status r t rid version t' now e)
  show ?case
    unfolding requests_evolve_def decided(7) by (intro exI conjI, rule append_Nil2 [symmetric], rule request_evolves_update)
qed

interpretation ai: shared_invariant approval_step approval_step approvals_ok
  by unfold_locales (auto intro: approval_step_ok)

interpretation ah: shared_history approval_step approval_step requests_evolve
  by unfold_locales (auto intro: requests_evolve_refl requests_evolve_trans approval_step_evolves)

section \<open>Every operation takes only such steps\<close>

lemma keeps_audit_approval: "keeps R approval_step (record_audit e)"
  unfolding record_audit_def by (intro keeps_rules) (auto intro: approval_step.other)

lemma keeps_notify: "keeps R approval_step (notify wired n)"
  unfolding notify_def by (intro keeps_rules) (auto intro: approval_step.other)

lemma keeps_get_request: "keeps R G (get_request p rid)"
  unfolding get_request_def by (intro keeps_rules)

lemma keeps_applicable: "keeps R G (applicable entity eid)"
  unfolding applicable_def snapshot_def by (intro keeps_rules keeps_then)

lemma keeps_resolve: "keeps R G (resolve_approver p x)"
  unfolding resolve_approver_def by (intro keeps_rules keeps_then)

lemma tx_submit:
  assumes "q_status r = ''PENDING''"
  shows "tx_triple (\<lambda>t. t = s) (submit_tx p r approver reason) (\<lambda>_ t. approval_step s t)"
  unfolding submit_tx_def
proof (rule tx_then, rule tx_exec_rule)
  let ?M = "\<lambda>(_ :: unit) t. q_id r \<notin> set (keys q_id (requests s)) \<and> requests t = requests s @ [r] \<and> events t = events s"
  show "?M x t" if "u = s" "insert_request r u = Some (t, x)" for u t x
    using that by (auto simp: insert_request_def split: if_splits)
  show "tx_triple (?M x)
     (and_then (tx_exec (insert_step \<lparr>sp_request = q_id r, sp_no = 1, sp_approver = approver,
         sp_status = ''PENDING'', sp_comment = [], sp_decided = None\<rparr>)) (\<lambda>_.
      tx_exec (insert_approval_event \<lparr>ah_request = q_id r, ah_action = ''SUBMIT'', ah_actor = user_id p,
         ah_comment = nullable reason\<rparr>))) (\<lambda>_ t. approval_step s t)" for x
    by (rule tx_then [where M = ?M], rule tx_exec_rule, force simp: insert_step_def split: if_splits,
        rule tx_exec_rule, rule approval_step.submitted [where r = r])
      (use assms in \<open>auto simp: insert_approval_event_def split: if_splits\<close>)
qed

lemma keeps_submit: "keeps R approval_step (submit wired p entity eid reason ci rid now)"
  unfolding submit_def require_then
  by (intro keeps_rules keeps_then keeps_audit_approval keeps_notify keeps_get_request keeps_applicable
      keeps_resolve keeps_in_tx tx_submit) (simp add: new_request_def)

text \<open>The row a decision writes.\<close>

definition decided_row :: "string \<Rightarrow> instant \<Rightarrow> request_row \<Rightarrow> request_row" where
  "decided_row status now r = r\<lparr>q_status := status, q_decided := Some now, q_version := q_version r + 1\<rparr>"

lemma tx_decide:
  assumes d: "decision \<in> {''APPROVE'', ''REJECT''}"
    and st: "status = (if decision = ''REJECT'' then ''REJECTED'' else ''APPROVED'')"
  shows "tx_triple (\<lambda>t. t = s) (decide_tx p rid decision status version no comment now)
    (\<lambda>_ t. approval_step s t \<and> (\<exists>r \<in> set (requests s). q_id r = rid \<and> q_status r = ''PENDING'' \<and>
        decided_row status now r \<in> set (requests t)))"
proof -
  let ?P = "\<lambda>r. q_id r = rid \<and> q_status r = ''PENDING'' \<and> q_version r = version"
  let ?M = "\<lambda>t. requests t = update_where ?P (decided_row status now) (requests s) \<and> events t = events s"
  have update: "tx_triple (\<lambda>t. t = s) (tx_exec (decide_update rid version status now))
      (\<lambda>n t. n = int (count_where ?P (requests s)) \<and> ?M t)"
    by (rule tx_exec_rule) (auto simp: decide_update_def Let_def decided_row_def [abs_def])
  have rest: "tx_triple (\<lambda>t. n = int (count_where ?P (requests s)) \<and> ?M t)
     (and_then (tx_exec (decide_step rid no status comment now)) (\<lambda>_.
      tx_exec (insert_approval_event \<lparr>ah_request = rid, ah_action = decision, ah_actor = user_id p,
       ah_comment = nullable comment\<rparr>)))
    (\<lambda>_ t. approval_step s t \<and> (\<exists>r \<in> set (requests s). q_id r = rid \<and> q_status r = ''PENDING'' \<and>
        decided_row status now r \<in> set (requests t)))" if "n \<noteq> 0" for n
  proof (rule tx_then [where M = "\<lambda>_ t. n = int (count_where ?P (requests s)) \<and> ?M t"], rule tx_exec_rule)
    show "tx_triple (\<lambda>t. n = int (count_where ?P (requests s)) \<and> ?M t)
      (tx_exec (insert_approval_event \<lparr>ah_request = rid, ah_action = decision, ah_actor = user_id p,
       ah_comment = nullable comment\<rparr>))
      (\<lambda>_ t. approval_step s t \<and> (\<exists>r \<in> set (requests s). q_id r = rid \<and> q_status r = ''PENDING'' \<and>
        decided_row status now r \<in> set (requests t)))" for x :: unit
    proof (rule tx_exec_rule)
      fix u t and x :: unit
      assume u: "n = int (count_where ?P (requests s)) \<and> ?M u"
        and t: "insert_approval_event \<lparr>ah_request = rid, ah_action = decision, ah_actor = user_id p,
          ah_comment = nullable comment\<rparr> u = Some (t, x)"
      from u that have "count_where ?P (requests s) \<noteq> 0" by simp
      then obtain r where r: "r \<in> set (requests s)" "?P r"
        unfolding count_where_zero_iff by blast
      have "approval_step s t"
        by (rule approval_step.decided [OF d st r(1)])
          (use r u t in \<open>auto simp: insert_approval_event_def decided_row_def [abs_def] split: if_splits\<close>)
      moreover have "decided_row status now r \<in> set (requests t)"
        using r u t by (auto simp: insert_approval_event_def set_update_where image_iff split: if_splits
            intro!: bexI [of _ r])
      ultimately show "approval_step s t \<and> (\<exists>r \<in> set (requests s). q_id r = rid \<and> q_status r = ''PENDING'' \<and>
          decided_row status now r \<in> set (requests t))" using r by blast
    qed
  qed (auto simp: decide_step_def)
  show ?thesis
    unfolding decide_tx_def by (rule tx_then [OF update], rule tx_check_then, rule rest)
qed

lemma decision_cases:
  "\<not> (to_upper d \<noteq> ''APPROVE'' \<and> to_upper d \<noteq> ''REJECT'') \<Longrightarrow> to_upper d \<in> {''APPROVE'', ''REJECT''}"
  by auto

lemma keeps_decide: "keeps R approval_step (decide wired p rid d comment version ci now)"
  unfolding decide_def require_then Let_def
  by (intro keeps_rules keeps_then keeps_audit_approval keeps_notify keeps_get_request keeps_in_tx
      tx_post [OF tx_decide [OF decision_cases refl]]) auto

lemma keeps_save_policy: "keeps R approval_step (save_policy p x ci pid now)"
  unfolding save_policy_def require_then Let_def policies_of_def
  by (intro keeps_rules keeps_then keeps_audit_approval)
    (auto simp: insert_policy_def change_policy_def split: if_splits intro: approval_step.other)

text \<open>
  C8: A request is decided at most once, and its history shows exactly the decision its status
  tells: whatever fails and whatever other sessions submit and decide in between, submitting,
  deciding and changing policies preserve that the ids are unique, every history entry belongs to
  a request, a pending request has no decision in its history, an approved one exactly one
  approval and a rejected one exactly one rejection.
\<close>

theorem decided_at_most_once:
  assumes "approvals_ok (tabs w)" and "rely_ok approval_step w"
  shows "approvals_ok (tabs (snd (submit wired p entity eid reason ci rid now w))) \<and>
    approvals_ok (tabs (snd (decide wired p rid d comment version ci now w))) \<and>
    approvals_ok (tabs (snd (save_policy p x ci pid now w)))"
  using assms by (intro conjI ai.keeps_invariant keeps_submit keeps_decide keeps_save_policy)

text \<open>
  C21: A decision is final: every request there was before an operation is there after it with
  the same subject, requester, approver and snapshot, and once it has left the pending state its
  status and its time of decision never change again.
\<close>

theorem decisions_are_final:
  assumes "rely_ok approval_step w"
  shows "requests_evolve (tabs w) (tabs (snd (submit wired p entity eid reason ci rid now w))) \<and>
    requests_evolve (tabs w) (tabs (snd (decide wired p rid d comment version ci now w))) \<and>
    requests_evolve (tabs w) (tabs (snd (save_policy p x ci pid now w)))"
  using assms by (intro conjI ah.keeps_history keeps_submit keeps_decide keeps_save_policy)

section \<open>Who decides\<close>

definition entitled :: "principal \<Rightarrow> request_row \<Rightarrow> bool" where
  "entitled p r \<longleftrightarrow> case_option [] id (q_approver r) = user_id p \<or> is_bootstrap p \<or> has p ''admin:write''"

definition with_request :: "string \<Rightarrow> (request_row \<Rightarrow> bool) \<Rightarrow> approval_tables \<Rightarrow> bool" where
  "with_request rid Q t \<longleftrightarrow> approvals_ok t \<and> (\<exists>r \<in> set (requests t). q_id r = rid \<and> Q r)"

lemma with_request_stable:
  assumes "\<And>r r'. request_evolves r r' \<Longrightarrow> Q r \<Longrightarrow> Q r'"
  shows "stable approval_step (with_request rid Q)"
proof
  fix s t assume w: "with_request rid Q s" and step: "approval_step s t"
  then obtain r where r: "r \<in> set (requests s)" "q_id r = rid" "Q r" by (auto simp: with_request_def)
  from approval_step_evolves [OF step] obtain os ns where t: "requests t = os @ ns"
    and so: "list_all2 request_evolves (requests s) os" by (auto simp: requests_evolve_def)
  from list_all2_mem [OF so r(1)] obtain r' where "r' \<in> set os" "request_evolves r r'" by blast
  with r t assms [of r r'] have "\<exists>r \<in> set (requests t). q_id r = rid \<and> Q r"
    by (auto simp: request_evolves_def intro!: bexI [of _ r'])
  moreover have "approvals_ok t" using approval_step_ok [OF step] w by (simp add: with_request_def)
  ultimately show "with_request rid Q t" by (simp add: with_request_def)
qed

lemma stable_ok: "stable approval_step approvals_ok"
  by (rule ai.invariant_stable)

lemma stable_approver: "stable approval_step (with_request rid (\<lambda>r. q_approver r = a))"
  by (rule with_request_stable) (simp add: request_evolves_def)

definition outcome_of :: "principal \<Rightarrow> string \<Rightarrow> request_row \<Rightarrow> bool" where
  "outcome_of p d r \<longleftrightarrow> entitled p r \<and>
     q_status r = (if to_upper d = ''REJECT'' then ''REJECTED'' else ''APPROVED'')"

lemma stable_outcome: "stable approval_step (with_request rid (outcome_of p d))"
  by (rule with_request_stable) (auto simp: request_evolves_def outcome_of_def entitled_def)

lemma join_request_row: "join_request t r = Some v \<Longrightarrow> rv_row v = r"
  by (auto simp: join_request_def split: option.splits)

lemma rg_decide:
  "rg approval_step approval_step approvals_ok (decide wired p rid d comment version ci now)
     (\<lambda>_. with_request rid (outcome_of p d))"
proof -
  let ?Q = "with_request rid (outcome_of p d)"
  note keep = rg_keeps_stable [OF _ stable_outcome stable_outcome]
  have get: "rg approval_step approval_step approvals_ok (get_request p rid)
      (\<lambda>b. with_request rid (\<lambda>r. q_approver r = q_approver (rv_row b)))"
    unfolding get_request_def
    by (rule rg_db_row [OF stable_ok])
      (auto simp: with_request_def bind_eq_Some_conv dest!: find_Some_mem join_request_row)
  have commit: "rg approval_step approval_step (with_request rid (\<lambda>r. q_approver r = q_approver (rv_row b)))
      (in_tx (decide_tx p rid (to_upper d) (if to_upper d = ''REJECT'' then ''REJECTED'' else ''APPROVED'') v no comment now))
      (\<lambda>_. ?Q)"
    if d: "to_upper d \<in> {''APPROVE'', ''REJECT''}" and e: "entitled p (rv_row b)" for b v no
  proof (rule rg_in_tx [OF stable_approver])
    fix s assume s: "with_request rid (\<lambda>r. q_approver r = q_approver (rv_row b)) s"
    show "tx_triple (\<lambda>t. t = s)
      (decide_tx p rid (to_upper d) (if to_upper d = ''REJECT'' then ''REJECTED'' else ''APPROVED'') v no comment now)
      (\<lambda>x t. approval_step s t \<and> ?Q t)"
    proof (rule tx_post [OF tx_decide [OF d refl]], elim conjE bexE)
      fix t r assume step: "approval_step s t" and r: "r \<in> set (requests s)" "q_id r = rid"
        and new: "decided_row (if to_upper d = ''REJECT'' then ''REJECTED'' else ''APPROVED'') now r \<in> set (requests t)"
      have ok: "approvals_ok s" using s by (simp add: with_request_def)
      then have "inj_on q_id (set (requests s))" by (simp add: approvals_ok_def keys_def distinct_map)
      with s r have "q_approver r = q_approver (rv_row b)"
        by (auto simp: with_request_def dest: inj_onD)
      with new e r approval_step_ok [OF step ok] have "?Q t"
        by (auto simp: with_request_def outcome_of_def entitled_def decided_row_def intro!: bexI [OF _ new])
      with step show "approval_step s t \<and> ?Q t" by blast
    qed
  qed
  have after: "rg approval_step approval_step ?Q
      (and_then (call_result (get_request p rid)) (\<lambda>a. and_then (record_audit e) (\<lambda>_. and_then (notify wired n) (\<lambda>_. outcome a))))
      (\<lambda>_. ?Q)" for e n
    by (rule keep) (intro keeps_rules keeps_then keeps_audit_approval keeps_notify keeps_get_request)
  show ?thesis
    unfolding decide_def Let_def require_then
    by (intro rg_if rg_raise rg_check_then, rule rg_then [OF get], intro rg_check_then,
        rule rg_then [OF commit after]) (auto simp: entitled_def)
qed

text \<open>
  C9: When \<open>Decide\<close> reports success, the request has the status of that decision, and the caller
  holds the permission to approve and is the designated approver, the bootstrap administrator or
  an administrator, whatever other sessions did meanwhile.
\<close>

theorem decide_by_entitled:
  assumes "decide wired p rid d comment version ci now w = (Inr x, v)"
    and "approvals_ok (tabs w)" and "rely_ok approval_step w"
  shows "has p ''approval:approve'' \<and>
    (\<exists>r \<in> set (requests (tabs v)). q_id r = rid \<and>
       q_status r = (if to_upper d = ''REJECT'' then ''REJECTED'' else ''APPROVED'') \<and>
       (case_option [] id (q_approver r) = user_id p \<or> is_bootstrap p \<or> has p ''admin:write''))"
proof
  show "has p ''approval:approve''"
    using assms(1) by (auto simp: decide_def require_then raise_run split: if_splits)
  from rgD(3) [OF rg_decide assms(2,3,1) refl]
  show "\<exists>r \<in> set (requests (tabs v)). q_id r = rid \<and>
       q_status r = (if to_upper d = ''REJECT'' then ''REJECTED'' else ''APPROVED'') \<and>
       (case_option [] id (q_approver r) = user_id p \<or> is_bootstrap p \<or> has p ''admin:write'')"
    by (auto simp: with_request_def outcome_of_def entitled_def)
qed

section \<open>Which policy applies\<close>

text \<open>
  C22: The policy \<open>applicable\<close> returns is active, is for the kind of entity, matches the entity's
  snapshot, and comes first by priority and id among all policies of which that is true; there is
  none only if no policy matches.
\<close>

theorem applicable_first:
  assumes "applicable entity eid (calm t) = (Inr (found, snap), v)"
  shows "objects t (to_upper entity) eid = Some snap \<and>
    (case found of
       None \<Rightarrow> \<forall>y \<in> set (policies t). pl_active y \<longrightarrow> pl_entity y = to_upper entity \<longrightarrow> \<not> matches y snap
     | Some x \<Rightarrow> x \<in> set (policies t) \<and> pl_active x \<and> pl_entity x = to_upper entity \<and> matches x snap \<and>
         (\<forall>y \<in> set (policies t). pl_active y \<longrightarrow> pl_entity y = to_upper entity \<longrightarrow> matches y snap \<longrightarrow>
            y = x \<or> pl_priority x < pl_priority y \<or> pl_priority x = pl_priority y \<and> pl_id x \<le> pl_id y))"
proof -
  let ?C = "candidates (to_upper entity) t"
  have snap: "objects t (to_upper entity) eid = Some snap" and found: "found = List.find (\<lambda>x. matches x snap) ?C"
    using assms by (auto simp: applicable_def snapshot_def run_simps split: if_splits)
  have mem: "y \<in> set ?C \<longleftrightarrow> y \<in> set (policies t) \<and> pl_active y \<and> pl_entity y = to_upper entity" for y
    by (auto simp: candidates_def)
  have sorted: "sorted_wrt (\<lambda>x y. pl_priority x < pl_priority y \<or> pl_priority x = pl_priority y \<and> pl_id x \<le> pl_id y) ?C"
    unfolding candidates_def by (rule sort_two_sorted)
  show ?thesis
  proof (cases found)
    case None
    then have "\<not> (\<exists>x \<in> set ?C. matches x snap)" using found by (metis find_None_iff)
    then show ?thesis using snap None mem by auto
  next
    case (Some x)
    then have x: "List.find (\<lambda>x. matches x snap) ?C = Some x" using found by simp
    show ?thesis using snap Some find_Some_mem [OF x] mem find_first_sorted [OF sorted x] by simp
  qed
qed

text \<open>
  The condition operators fit together: on a field the snapshot has, \<open>GT\<close> is the opposite of
  \<open>LTE\<close>, \<open>GTE\<close> of \<open>LT\<close> and \<open>NE\<close> of \<open>EQ\<close>, for numbers and for texts; and \<open>CONTAINS\<close> always looks at the
  text, so an amount is searched for its digits.
\<close>

theorem operators_complementary:
  assumes "pl_field p \<noteq> []" and "json_field (pl_field p) snap = Some v"
  shows "(matches (p\<lparr>pl_op := ''GT''\<rparr>) snap \<longleftrightarrow> \<not> matches (p\<lparr>pl_op := ''LTE''\<rparr>) snap) \<and>
    (matches (p\<lparr>pl_op := ''LT''\<rparr>) snap \<longleftrightarrow> \<not> matches (p\<lparr>pl_op := ''GTE''\<rparr>) snap) \<and>
    (matches (p\<lparr>pl_op := ''NE''\<rparr>) snap \<longleftrightarrow> \<not> matches (p\<lparr>pl_op := ''EQ''\<rparr>) snap) \<and>
    (matches (p\<lparr>pl_op := ''CONTAINS''\<rparr>) snap \<longleftrightarrow>
      contains_sub (to_lower (condition_text v)) (to_lower (condition_text (pl_value p))))"
proof -
  have ops: "condition_op (p\<lparr>pl_op := ''GT''\<rparr>) = ''GT''" "condition_op (p\<lparr>pl_op := ''LTE''\<rparr>) = ''LTE''"
    "condition_op (p\<lparr>pl_op := ''LT''\<rparr>) = ''LT''" "condition_op (p\<lparr>pl_op := ''GTE''\<rparr>) = ''GTE''"
    "condition_op (p\<lparr>pl_op := ''NE''\<rparr>) = ''NE''" "condition_op (p\<lparr>pl_op := ''EQ''\<rparr>) = ''EQ''"
    "condition_op (p\<lparr>pl_op := ''CONTAINS''\<rparr>) = ''CONTAINS''"
    by (simp_all add: condition_op_def) code_simp+
  show ?thesis
    using assms
    by (auto simp: matches_def ops Let_def compare_texts_def compare_numbers_def split: option.split)
qed

section \<open>A concrete approval\<close>

definition plain_user :: "string \<Rightarrow> string option \<Rightarrow> user_row" where
  "plain_user uid manager = \<lparr>u_id = uid, u_username = uid, u_display_name = uid, u_email = None, u_hash = None,
     u_source = ''OIDC'', u_org = None, u_manager = manager, u_active = True, u_bootstrap = False,
     u_must_change = False, u_last_login = None, u_created = 0, u_updated_at = 0, u_version = 1\<rparr>"

definition toy_policy :: policy where
  "toy_policy = \<lparr>pl_id = ''p1'', pl_name = ''large deals'', pl_entity = ''CONTRACT'', pl_field = ''amount'',
     pl_op = ''gte'', pl_value = JNum 1000, pl_method = ''MANAGER'', pl_role = [], pl_org = [], pl_steps = 1,
     pl_reject = True, pl_resubmit = True, pl_delegate = False, pl_active = True, pl_priority = 100, pl_created = 0\<rparr>"

definition toy_snapshot :: "(string \<times> json) list" where
  "toy_snapshot = [(''id'', JStr ''c1''), (''amount'', JNum 2500)]"

definition toy_approver :: principal where
  "toy_approver = (new_principal ''u2'')\<lparr>perm := [''approval:approve'']\<rparr>"

definition toy_request :: request_row where
  "toy_request = \<lparr>q_id = ''q1'', q_policy = ''p1'', q_entity = ''CONTRACT'', q_entity_id = ''c1'', q_requester = ''u1'',
     q_approver = Some ''u2'', q_status = ''PENDING'', q_step = 1, q_snapshot = toy_snapshot, q_reason = [],
     q_requested = 0, q_decided = None, q_version = 1\<rparr>"

definition toy_approvals :: approval_tables where
  "toy_approvals = \<lparr>users = [plain_user ''u1'' (Some ''u2''), plain_user ''u2'' None], roles = [], user_roles = [],
     role_perms = [], sessions = [], pkeys = [], key_history = [], settings = [], audit_log = [],
     policies = [toy_policy],
     objects = (\<lambda>k i. if k = ''CONTRACT'' \<and> i = ''c1'' then Some toy_snapshot else None),
     requests = [toy_request], steps = [],
     events = [\<lparr>ah_request = ''q1'', ah_action = ''SUBMIT'', ah_actor = ''u1'', ah_comment = []\<rparr>], notices = []\<rparr>"

definition approval_client :: client_info where
  "approval_client = \<lparr>c_ip = [], c_request = ''r1'', c_agent = []\<rparr>"

lemma toy_approvals_ok: "approvals_ok (tabs (calm toy_approvals))"
  by (simp add: approvals_ok_def toy_approvals_def keys_def toy_request_def decisions_def recorded_def)

lemma calm_rely: "rely_ok R (calm s)"
  by (simp add: rely_ok_def)

theorem decided_at_most_once_witness:
  "approvals_ok (tabs (snd (decide True toy_approver ''q1'' ''approve'' [] 0 approval_client 9 (calm toy_approvals))))"
  using decided_at_most_once [OF toy_approvals_ok calm_rely] by blast

theorem decisions_are_final_witness:
  "requests_evolve toy_approvals
     (tabs (snd (decide True toy_approver ''q1'' ''approve'' [] 0 approval_client 9 (calm toy_approvals))))"
  using decisions_are_final [OF calm_rely, of toy_approvals] by simp

lemma toy_decide:
  "\<exists>x v. decide True toy_approver ''q1'' ''approve'' [] 0 approval_client 9 (calm toy_approvals) = (Inr x, v)"
proof -
  have up: "to_upper ''approve'' = ''APPROVE''" by code_simp
  have may: "has toy_approver ''approval:approve''" and me: "user_id toy_approver = ''u2''"
    by (simp_all add: toy_approver_def has_iff user_may_def key_allows_iff new_principal_def)
  have get: "get_request toy_approver ''q1'' (calm t) =
      (case Option.bind (List.find (\<lambda>r. q_id r = ''q1'' \<and> sees_request toy_approver r) (requests t)) (join_request t) of
         None \<Rightarrow> (Inl No_rows, calm t) | Some x \<Rightarrow> (Inr x, calm t))" for t
    by (simp add: get_request_def db_row_calm)
  show ?thesis
    unfolding decide_def require_then up Let_def
    by (simp add: may me run_simps get decide_tx_def decide_update_def decide_step_def insert_approval_event_def
      record_audit_def notify_def toy_approvals_def toy_request_def toy_policy_def join_request_def sees_request_def
      keys_def count_where_def plain_user_def calm_simps check_def)
qed

theorem decide_by_entitled_witness:
  "\<exists>x v. decide True toy_approver ''q1'' ''approve'' [] 0 approval_client 9 (calm toy_approvals) = (Inr x, v) \<and>
     (\<exists>r \<in> set (requests (tabs v)). q_id r = ''q1'' \<and> q_status r = ''APPROVED'')"
proof -
  obtain x v where run: "decide True toy_approver ''q1'' ''approve'' [] 0 approval_client 9 (calm toy_approvals) = (Inr x, v)"
    using toy_decide by blast
  have "to_upper ''approve'' \<noteq> ''REJECT''" by code_simp
  then show ?thesis using decide_by_entitled [OF run toy_approvals_ok calm_rely] run by auto
qed

theorem operators_complementary_witness:
  "matches (toy_policy\<lparr>pl_op := ''GT''\<rparr>) toy_snapshot \<longleftrightarrow> \<not> matches (toy_policy\<lparr>pl_op := ''LTE''\<rparr>) toy_snapshot"
proof -
  have "pl_field toy_policy \<noteq> []" "json_field (pl_field toy_policy) toy_snapshot = Some (JNum 2500)"
    by (simp_all add: toy_policy_def toy_snapshot_def json_field_def)
  from operators_complementary [OF this] show ?thesis by blast
qed

theorem applicable_first_witness:
  "\<exists>found v. applicable ''contract'' ''c1'' (calm toy_approvals) = (Inr (found, toy_snapshot), v) \<and>
     (found = None \<longrightarrow> \<not> matches toy_policy toy_snapshot)"
proof -
  have up: "to_upper ''contract'' = ''CONTRACT''" by code_simp
  obtain found v where run: "applicable ''contract'' ''c1'' (calm toy_approvals) = (Inr (found, toy_snapshot), v)"
    by (simp add: applicable_def snapshot_def up run_simps toy_approvals_def)
  have "toy_policy \<in> set (policies toy_approvals)" "pl_active toy_policy" "pl_entity toy_policy = ''CONTRACT''"
    by (simp_all add: toy_approvals_def toy_policy_def)
  with applicable_first [OF run] run up show ?thesis by (cases found) auto
qed

end
