(* ===== verification/Calendar.thy ===== *)
theory Calendar
  imports Go_Encoding
begin

text \<open>
  Calendar dates as the services use \<open>time.Time\<close> for them: midnight UTC of a day of the proleptic
  Gregorian calendar. Parsing is \<open>time.Parse\<close> with the layout \<open>2006-01-02\<close>.
\<close>

datatype date = Date (yr: int) (mo: int) (dy: int)

instantiation date :: linorder
begin

definition less_eq_date :: "date \<Rightarrow> date \<Rightarrow> bool" where
  "less_eq_date a b \<longleftrightarrow> yr a < yr b \<or>
     (yr a = yr b \<and> (mo a < mo b \<or> (mo a = mo b \<and> dy a \<le> dy b)))"

definition less_date :: "date \<Rightarrow> date \<Rightarrow> bool" where
  "less_date a b \<longleftrightarrow> yr a < yr b \<or>
     (yr a = yr b \<and> (mo a < mo b \<or> (mo a = mo b \<and> dy a < dy b)))"

instance
  by standard (auto simp: less_eq_date_def less_date_def date.expand)

end

definition leap_year :: "int \<Rightarrow> bool" where
  "leap_year y \<longleftrightarrow> y mod 4 = 0 \<and> (y mod 100 \<noteq> 0 \<or> y mod 400 = 0)"

definition days_in_month :: "int \<Rightarrow> int \<Rightarrow> int" where
  "days_in_month y m =
     (if m = 2 then (if leap_year y then 29 else 28)
      else if m = 4 \<or> m = 6 \<or> m = 9 \<or> m = 11 then 30 else 31)"

definition valid_date :: "date \<Rightarrow> bool" where
  "valid_date d \<longleftrightarrow> 1 \<le> mo d \<and> mo d \<le> 12 \<and> 1 \<le> dy d \<and> dy d \<le> days_in_month (yr d) (mo d)"

lemma days_in_month_range: "28 \<le> days_in_month y m" "days_in_month y m \<le> 31"
  by (simp_all add: days_in_month_def)

definition parse_date :: "string \<Rightarrow> date option" where
  "parse_date s =
     (if length s = 10 \<and> s ! 4 = CHR ''-'' \<and> s ! 7 = CHR ''-'' \<and>
         list_all is_digit (take 4 s @ take 2 (drop 5 s) @ drop 8 s)
      then let d = Date (int (read_digits (take 4 s))) (int (read_digits (take 2 (drop 5 s))))
             (int (read_digits (drop 8 s)))
           in if valid_date d then Some d else None
      else None)"

lemma parse_date_valid: "parse_date s = Some d \<Longrightarrow> valid_date d"
  by (auto simp: parse_date_def Let_def split: if_splits)

text \<open>Days since 1970-01-01, counted in years that begin in March; dates subtract to days in SQL.\<close>

definition day_number :: "date \<Rightarrow> int" where
  "day_number d =
     (let y = (if mo d \<le> 2 then yr d - 1 else yr d); m = (mo d + 9) mod 12 in
      365 * y + y div 4 - y div 100 + y div 400 + (153 * m + 2) div 5 + dy d - 1 - 719468)"

text \<open>The day with that number, by the cycle of 400 years.\<close>

definition date_of_day :: "int \<Rightarrow> date" where
  "date_of_day n =
     (let z = n + 719468; era = z div 146097; doe = z mod 146097;
          yoe = (doe - doe div 1460 + doe div 36524 - doe div 146096) div 365;
          doy = doe - (365 * yoe + yoe div 4 - yoe div 100); mp = (5 * doy + 2) div 153;
          m = (if mp < 10 then mp + 3 else mp - 9); y = yoe + era * 400
      in Date (if m \<le> 2 then y + 1 else y) m (doy - (153 * mp + 2) div 5 + 1))"

lemma days_of_two_dates:
  "date_of_day 0 = Date 1970 1 1" "date_of_day 19782 = Date 2024 2 29" "day_number (Date 2024 2 29) = 19782"
  by code_simp+

text \<open>The year and month that lie a number of months after a month (\<open>time.Date\<close> normalizes it).\<close>

definition month_after :: "int \<Rightarrow> int \<Rightarrow> int \<Rightarrow> int \<times> int" where
  "month_after y m n = (y + (m - 1 + n) div 12, (m - 1 + n) mod 12 + 1)"

definition add_months_clamped :: "date \<Rightarrow> int \<Rightarrow> date" where
  "add_months_clamped anchor months =
     (case month_after (yr anchor) (mo anchor) months of (y, m) \<Rightarrow>
        Date y m (min (dy anchor) (days_in_month y m)))"

lemma add_months_valid:
  assumes "1 \<le> dy d"
  shows "valid_date (add_months_clamped d n)"
proof -
  have m: "1 \<le> (mo d - 1 + n) mod 12 + 1" "(mo d - 1 + n) mod 12 + 1 \<le> 12"
    using pos_mod_bound [of 12 "mo d - 1 + n"] by simp_all
  show ?thesis
    using assms m days_in_month_range(1) [of "yr d + (mo d - 1 + n) div 12" "(mo d - 1 + n) mod 12 + 1"]
    by (auto simp: add_months_clamped_def month_after_def valid_date_def)
qed

lemma add_months_zero: "valid_date d \<Longrightarrow> add_months_clamped d 0 = d"
  by (cases d) (auto simp: add_months_clamped_def month_after_def valid_date_def div_pos_pos_trivial mod_pos_pos_trivial)

text \<open>The number of months since the beginning of the calendar; a later month is a later date.\<close>

definition month_index :: "date \<Rightarrow> int" where
  "month_index d = yr d * 12 + (mo d - 1)"

lemma month_index_add: "month_index (add_months_clamped d n) = month_index d + n"
  by (simp add: month_index_def add_months_clamped_def month_after_def)

lemma month_index_less:
  assumes "month_index a < month_index b" and "valid_date a" and "valid_date b"
  shows "a < b"
  using assms by (auto simp: month_index_def less_date_def valid_date_def)

lemma add_months_strict_mono:
  "1 \<le> dy d \<Longrightarrow> n < k \<Longrightarrow> add_months_clamped d n < add_months_clamped d k"
  by (rule month_index_less) (simp_all add: month_index_add add_months_valid)

end
