(* ===== verification/Crm.thy ===== *)
theory Crm
  imports Accounts Calendar Go_Json
begin

text \<open>
  The CRM core (internal/crm/service.go): the data scope every query is filtered by, the isolation
  of a department's workspace, list cursors, search patterns and the customer queries. Recursive
  SQL queries over the organization tree are unfolded once per organization, which is enough for a
  tree; text columns are ordered by their bytes and \<open>lower()\<close> maps the letters \<open>strings.ToLower\<close>
  maps here.
\<close>

section \<open>Tables\<close>

record org_row =
  o_id :: string
  o_parent :: "string option"
  o_type :: string

record workspace_row =
  w_id :: string
  w_code :: string
  w_name :: string
  w_org :: "string option"
  w_isolated :: bool
  w_gate :: bool
  w_code_label :: string
  w_code_pattern :: string
  w_code_scope :: string
  w_active :: bool
  w_order :: int

record customer_row =
  cu_id :: string
  cu_name :: string
  cu_registration :: string
  cu_code :: string
  cu_home :: "string option"
  cu_type :: string
  cu_grade :: string
  cu_industry :: string
  cu_website :: string
  cu_phone :: string
  cu_email :: string
  cu_address :: string
  cu_owner :: string
  cu_org :: "string option"
  cu_health :: string
  cu_revenue :: "rat option"
  cu_employees :: "int option"
  cu_custom :: "(string \<times> json) list"
  cu_scope :: string
  cu_updated_by :: string
  cu_active :: bool
  cu_merged :: "string option"
  cu_version :: int
  cu_created :: instant
  cu_updated :: instant

record opportunity_row =
  op_id :: string
  op_name :: string
  op_customer :: string
  op_owner :: string
  op_org :: "string option"
  op_pipeline :: string
  op_stage :: string
  op_amount :: rat
  op_currency :: string
  op_rate :: rat
  op_probability :: rat
  op_close :: "date option"
  op_category :: string
  op_competitor :: string
  op_next_action :: string
  op_next_date :: "date option"
  op_status :: string
  op_lost :: string
  op_win :: string
  op_custom :: "(string \<times> json) list"
  op_stage_entered :: instant
  op_last_activity :: "instant option"
  op_version :: int
  op_updated_by :: string
  op_created :: instant
  op_updated :: instant

record contract_row =
  ct_id :: string
  ct_no :: string
  ct_customer :: string
  ct_opportunity :: "string option"
  ct_owner :: string
  ct_org :: "string option"
  ct_title :: string
  ct_amount :: rat
  ct_currency :: string
  ct_rate :: rat
  ct_start :: "date option"
  ct_end :: "date option"
  ct_status :: string
  ct_auto_renew :: bool
  ct_schedule :: string
  ct_notice_days :: int
  ct_renewal :: string
  ct_action :: string
  ct_activated :: "instant option"
  ct_custom :: "(string \<times> json) list"
  ct_version :: int
  ct_updated_by :: string
  ct_created :: instant
  ct_updated :: instant

record schedule_row =
  sc_id :: string
  sc_contract :: string
  sc_no :: int
  sc_date :: date
  sc_amount :: rat
  sc_currency :: string
  sc_rate :: rat
  sc_status :: string
  sc_sale :: "string option"
  sc_recognized :: "instant option"

record sale_row =
  sl_id :: string
  sl_customer :: string
  sl_contract :: "string option"
  sl_owner :: string
  sl_org :: "string option"
  sl_amount :: rat
  sl_currency :: string
  sl_rate :: rat
  sl_date :: date
  sl_text :: string

record contact_row =
  cn_id :: string
  cn_customer :: string
  cn_name :: string
  cn_title :: string
  cn_department :: string
  cn_email :: string
  cn_phone :: string
  cn_mobile :: string
  cn_decision :: bool
  cn_primary :: bool
  cn_role :: string
  cn_influence :: string
  cn_sentiment :: string
  cn_strength :: int
  cn_power :: int
  cn_last :: "instant option"
  cn_owner :: string
  cn_updated_by :: string
  cn_created :: instant
  cn_updated :: instant

record pipeline_row =
  pl_id :: string
  pl_name :: string
  pl_active :: bool
  pl_default :: bool

record stage_row =
  st_id :: string
  st_pipeline :: string
  st_name :: string
  st_order :: int
  st_probability :: rat
  st_category :: string
  st_won :: bool
  st_lost :: bool
  st_active :: bool
  st_color :: string
  st_min :: "int option"
  st_max :: "int option"

record activity_row =
  ac_id :: string
  ac_customer :: "string option"
  ac_opportunity :: "string option"
  ac_type :: string
  ac_subject :: string
  ac_text :: string
  ac_occurred :: instant
  ac_next_action :: string
  ac_next_date :: "date option"
  ac_owner :: string
  ac_org :: "string option"
  ac_created :: instant

record task_row =
  tk_id :: string
  tk_customer :: "string option"
  tk_opportunity :: "string option"
  tk_title :: string
  tk_due :: "instant option"
  tk_status :: string
  tk_priority :: string
  tk_assignee :: string
  tk_org :: "string option"

record quotation_row =
  qt_id :: string
  qt_no :: string
  qt_customer :: string
  qt_opportunity :: "string option"
  qt_owner :: string
  qt_org :: "string option"
  qt_title :: string
  qt_amount :: rat
  qt_currency :: string
  qt_rate :: rat
  qt_discount :: rat
  qt_status :: string
  qt_valid :: "date option"
  qt_custom :: "(string \<times> json) list"
  qt_version :: int
  qt_created :: instant
  qt_updated :: instant

record opportunity_change =
  oh_id :: string
  oh_opportunity :: string
  oh_type :: string
  oh_before :: opportunity_row
  oh_after :: opportunity_row
  oh_stages :: "string \<times> string"
  oh_by :: string
  oh_at :: instant

record merge_row =
  mg_id :: string
  mg_target :: string
  mg_source :: string
  mg_by :: string
  mg_at :: instant

record lead_row =
  ld_id :: string
  ld_name :: string
  ld_company :: string
  ld_email :: string
  ld_phone :: string
  ld_source :: string
  ld_status :: string
  ld_owner :: string
  ld_org :: "string option"
  ld_converted :: "string option"
  ld_custom :: "(string \<times> json) list"
  ld_version :: int
  ld_created :: instant
  ld_updated :: instant

record product_row =
  pr_id :: string
  pr_code :: string
  pr_name :: string
  pr_text :: string
  pr_price :: rat
  pr_active :: bool
  pr_created :: instant

record target_row =
  tg_id :: string
  tg_user :: "string option"
  tg_org :: "string option"
  tg_start :: date
  tg_end :: date
  tg_amount :: rat
  tg_by :: string
  tg_created :: instant

record notification_row =
  nf_id :: string
  nf_user :: string
  nf_type :: string
  nf_title :: string
  nf_body :: string
  nf_resource :: string
  nf_resource_id :: "string option"
  nf_read :: "instant option"
  nf_created :: instant

record quotation_version =
  qv_id :: string
  qv_quotation :: string
  qv_version :: int

record edge_row =
  eg_id :: string
  eg_customer :: string
  eg_source :: string
  eg_target :: string
  eg_type :: string
  eg_strength :: int
  eg_text :: string
  eg_active :: bool
  eg_version :: int
  eg_created :: instant
  eg_updated :: instant

record white_space =
  ws_id :: string
  ws_product :: string
  ws_name :: string
  ws_status :: string
  ws_amount :: rat
  ws_notes :: string

record plan_row =
  ap_id :: string
  ap_customer :: string
  ap_year :: int
  ap_status :: string
  ap_strategy :: string
  ap_goals :: "string list"
  ap_initiatives :: "string list"
  ap_objectives :: "string list"
  ap_spaces :: "white_space list"
  ap_competitors :: "string list"
  ap_risks :: "string list"
  ap_target :: rat
  ap_potential :: rat
  ap_owner :: string
  ap_org :: "string option"
  ap_version :: int
  ap_created :: "instant option"
  ap_updated :: "instant option"

record team_row =
  om_opportunity :: string
  om_user :: string
  om_role :: string
  om_text :: string
  om_version :: int
  om_created :: instant
  om_updated :: instant

record crm_tables = account_tables +
  orgs :: "org_row list"
  workspaces :: "workspace_row list"
  customers :: "customer_row list"
  opportunities :: "opportunity_row list"
  contracts :: "contract_row list"
  schedules :: "schedule_row list"
  sales :: "sale_row list"
  contacts :: "contact_row list"
  pipelines :: "pipeline_row list"
  stages :: "stage_row list"
  activities :: "activity_row list"
  tasks :: "task_row list"
  quotations :: "quotation_row list"
  opportunity_log :: "opportunity_change list"
  merges :: "merge_row list"
  lead_rows :: "lead_row list"
  edges :: "edge_row list"
  products :: "product_row list"
  targets :: "target_row list"
  notifications :: "notification_row list"
  quotation_log :: "quotation_version list"
  account_plans :: "plan_row list"
  team_rows :: "team_row list"

text \<open>Tables without a row.\<close>

definition empty_crm :: crm_tables where
  "empty_crm = \<lparr>users = [], roles = [], user_roles = [], role_perms = [], sessions = [], pkeys = [],
     key_history = [], settings = [], audit_log = [], orgs = [], workspaces = [], customers = [],
     opportunities = [], contracts = [], schedules = [], sales = [], contacts = [],
     pipelines = [], stages = [], activities = [], tasks = [], quotations = [], opportunity_log = [], merges = [], lead_rows = [],
     edges = [], products = [], targets = [], notifications = [], quotation_log = [], account_plans = [], team_rows = []\<rparr>"

section \<open>Data scope\<close>

definition opt_text :: "string \<Rightarrow> string option" where
  "opt_text v = (if blank v then None else Some (trim_space v))"

text \<open>The same value in a text column, which a null leaves empty here.\<close>

definition text_column :: "string \<Rightarrow> string" where
  "text_column v = case_option [] id (opt_text v)"

text \<open>The organization and those above it, nearest first.\<close>

fun org_path :: "nat \<Rightarrow> org_row list \<Rightarrow> string option \<Rightarrow> org_row list" where
  "org_path 0 os i = []"
| "org_path (Suc n) os i =
     (case Option.bind i (\<lambda>x. row_by o_id x os) of None \<Rightarrow> [] | Some o' \<Rightarrow> o' # org_path n os (o_parent o'))"

text \<open>The organization and everything beneath it.\<close>

fun org_tree :: "nat \<Rightarrow> org_row list \<Rightarrow> string \<Rightarrow> string list" where
  "org_tree 0 os head = [head]"
| "org_tree (Suc n) os head =
     head # concat (map (\<lambda>o'. org_tree n os (o_id o')) (filter (\<lambda>o'. o_parent o' = Some head) os))"

text \<open>\<open>scope_root\<close>: the nearest organization of the scope's type, or the caller's own.\<close>

definition scope_root :: "org_row list \<Rightarrow> string \<Rightarrow> string option \<Rightarrow> string option" where
  "scope_root os scope mine =
     (case List.find (\<lambda>o'. o_type o' = scope) (org_path (Suc (length os)) os mine) of
        Some o' \<Rightarrow> Some (o_id o') | None \<Rightarrow> mine)"

definition in_scope_tree :: "org_row list \<Rightarrow> string \<Rightarrow> string option \<Rightarrow> string option \<Rightarrow> bool" where
  "in_scope_tree os scope mine org =
     (case scope_root os scope mine of
        None \<Rightarrow> False
      | Some head \<Rightarrow> (case org of None \<Rightarrow> False | Some x \<Rightarrow> x \<in> set (org_tree (length os) os head)))"

text \<open>\<open>scopeSQL\<close> for a row with that owner and organization.\<close>

definition in_scope :: "principal \<Rightarrow> 'z crm_tables_scheme \<Rightarrow> string \<Rightarrow> string option \<Rightarrow> bool" where
  "in_scope p t owner org \<longleftrightarrow>
     data_scope p = ''COMPANY'' \<or> owner = user_id p \<or>
     (data_scope p = ''TEAM'' \<and>
        list_ex (\<lambda>u. u_id u = owner \<and> (u_manager u = Some (user_id p) \<or> u_id u = user_id p)) (users t)) \<or>
     ((data_scope p = ''DEPARTMENT'' \<or> data_scope p = ''DIVISION'') \<and>
        in_scope_tree (orgs t) (data_scope p) (opt_text (organization_id p)) org)"

definition is_admin :: "principal \<Rightarrow> bool" where
  "is_admin p \<longleftrightarrow> is_bootstrap p \<or> has p ''admin:*''"

text \<open>\<open>MemberOfSQL\<close>: the caller's organization is the given one or lies beneath it.\<close>

definition member_of :: "principal \<Rightarrow> 'z crm_tables_scheme \<Rightarrow> string option \<Rightarrow> bool" where
  "member_of p t org =
     list_ex (\<lambda>o'. Some (o_id o') = org) (org_path (Suc (length (orgs t))) (orgs t) (opt_text (organization_id p)))"

definition isolated_from :: "principal \<Rightarrow> 'z crm_tables_scheme \<Rightarrow> string option \<Rightarrow> bool" where
  "isolated_from p t home =
     (case home of
        None \<Rightarrow> False
      | Some i \<Rightarrow> list_ex (\<lambda>w. w_id w = i \<and> w_isolated w \<and> \<not> member_of p t (w_org w)) (workspaces t))"

definition sees_customer :: "principal \<Rightarrow> 'z crm_tables_scheme \<Rightarrow> customer_row \<Rightarrow> bool" where
  "sees_customer p t c \<longleftrightarrow>
     in_scope p t (cu_owner c) (cu_org c) \<and> (is_admin p \<or> \<not> isolated_from p t (cu_home c))"

text \<open>\<open>SalesAccountSQL\<close>: not an isolated member of a department.\<close>

definition sales_account :: "'z crm_tables_scheme \<Rightarrow> customer_row \<Rightarrow> bool" where
  "sales_account t c = (\<not> list_ex (\<lambda>w. Some (w_id w) = cu_home c \<and> w_isolated w) (workspaces t))"

definition crm_audit :: "principal \<Rightarrow> string \<Rightarrow> client_info \<Rightarrow> string \<Rightarrow> string \<Rightarrow> string \<Rightarrow> ('z account_tables_scheme, 'e, unit) go" where
  "crm_audit p channel ci action resource rid = record_audit (audit_event p ci channel action resource rid)"

section \<open>Cursors and search patterns\<close>

datatype crm_error =
    Invalid_cursor
  | Ambiguous_code
  | Name_missing
  | Name_too_long
  | Code_too_long
  | Bad_contract
  | Customer_missing
  | Bad_opportunity
  | Bad_date
  | Start_required
  | End_before_start
  | End_required
  | Bad_schedule_type
  | Period_too_long
  | Empty_period
  | Rate_required
  | Currency_length
  | Currency_letters
  | Rate_not_positive
  | Base_rate_not_one
  | Bad_contract_status
  | Bad_notice_days
  | Not_draft
  | Contract_changed
  | Already_recognized
  | Schedule_not_found
  | Bad_renewal
  | Owner_change_denied
  | Customer_changed
  | Code_taken
  | Merge_count
  | Merge_not_unique
  | Source_missing
  | Opportunity_incomplete
  | Negative_amount
  | Bad_stage
  | No_default_pipeline
  | Stage_not_in_pipeline
  | Stage_inactive
  | Stage_blocked "string list"
  | Opportunity_changed
  | Activity_incomplete
  | Contact_incomplete
  | Bad_contact_role
  | Bad_influence
  | Bad_sentiment
  | Bad_strength
  | Bad_power
  | Contact_missing
  | Contact_in_use nat
  | Bad_quotation
  | Lead_name_missing
  | Bad_product
  | Bad_period_start
  | Bad_period_end
  | Notification_missing
  | Customer_in_use
  | Two_contacts
  | Bad_relationship
  | Contacts_elsewhere
  | Relationship_missing
  | Relationship_changed
  | Space_name_missing
  | Bad_space_status
  | Negative_space
  | Bad_plan_status
  | Negative_revenue
  | Plan_version_not_zero
  | Plan_changed
  | Collaborator_is_owner
  | Bad_member_role
  | Collaborator_missing
  | Member_version_not_zero
  | Member_changed
  | Member_missing

definition parse_cursor :: "string \<Rightarrow> crm_error + int" where
  "parse_cursor cursor =
     (let c = trim_space cursor in
      if c = [] then Inr 0
      else case b64_decode url_alphabet c of
        None \<Rightarrow> Inl Invalid_cursor
      | Some b \<Rightarrow> (case cut_at CHR '':'' b of (before, digits, found) \<Rightarrow>
          if \<not> found \<or> before \<noteq> ''offset'' then Inl Invalid_cursor
          else case atoi digits of
            None \<Rightarrow> Inl Invalid_cursor
          | Some n \<Rightarrow> if n < 0 then Inl Invalid_cursor else Inr n))"

definition next_cursor :: "int \<Rightarrow> string" where
  "next_cursor offset = b64_encode url_alphabet (''offset:'' @ show_int offset)"

text \<open>\<open>likeEscaper\<close>: a backslash before each of backslash, percent and underscore.\<close>

definition backslash :: char where "backslash = CHR 0x5C"

definition like_escape :: "string \<Rightarrow> string" where
  "like_escape s = concat (map (\<lambda>c.
     if c = backslash \<or> c = CHR ''%'' \<or> c = CHR ''_'' then [backslash, c] else [c]) s)"

definition search_pattern :: "string \<Rightarrow> string" where
  "search_pattern q =
     (let q = trim_space q in
      if q = [] then [] else ''%'' @ like_escape (to_lower q) @ ''%'')"

text \<open>SQL's \<open>LIKE\<close> with the backslash as escape character, the pattern first.\<close>

function like :: "string \<Rightarrow> string \<Rightarrow> bool" where
  "like [] s = (s = [])"
| "like (p # ps) s =
     (if p = CHR ''%'' then like ps s \<or> (case s of [] \<Rightarrow> False | _ # cs \<Rightarrow> like (p # ps) cs)
      else if p = backslash then
        (case ps of [] \<Rightarrow> False | q # qs \<Rightarrow> (case s of [] \<Rightarrow> False | c # cs \<Rightarrow> c = q \<and> like qs cs))
      else (case s of [] \<Rightarrow> False | c # cs \<Rightarrow> (p = CHR ''_'' \<or> c = p) \<and> like ps cs))"
  by pat_completeness auto
termination by (relation "measure (\<lambda>(p, s). length p + length s)") auto

section \<open>Customers\<close>

text \<open>\<open>ORDER BY\<close> with a comparison of rows: a stable insertion sort.\<close>

fun insert_by :: "('a \<Rightarrow> 'a \<Rightarrow> bool) \<Rightarrow> 'a \<Rightarrow> 'a list \<Rightarrow> 'a list" where
  "insert_by le x [] = [x]"
| "insert_by le x (y # ys) = (if le x y then x # y # ys else y # insert_by le x ys)"

definition sort_by :: "('a \<Rightarrow> 'a \<Rightarrow> bool) \<Rightarrow> 'a list \<Rightarrow> 'a list" where
  "sort_by le xs = foldr (insert_by le) xs []"

text \<open>Ascending or descending by a key, then ascending by id.\<close>

definition then_id :: "bool \<Rightarrow> (customer_row \<Rightarrow> 'k :: linorder) \<Rightarrow> customer_row \<Rightarrow> customer_row \<Rightarrow> bool" where
  "then_id desc key a b \<longleftrightarrow>
     (if desc then key b < key a else key a < key b) \<or> (key a = key b \<and> cu_id a \<le> cu_id b)"

text \<open>\<open>NULLS LAST\<close> in both directions.\<close>

definition by_revenue :: "bool \<Rightarrow> customer_row \<Rightarrow> customer_row \<Rightarrow> bool" where
  "by_revenue desc a b =
     (case (cu_revenue a, cu_revenue b) of
        (Some x, Some y) \<Rightarrow> (if desc then y < x else x < y) \<or> (x = y \<and> cu_id a \<le> cu_id b)
      | (Some _, None) \<Rightarrow> True
      | (None, Some _) \<Rightarrow> False
      | (None, None) \<Rightarrow> cu_id a \<le> cu_id b)"

definition customer_order :: "string \<Rightarrow> customer_row \<Rightarrow> customer_row \<Rightarrow> bool" where
  "customer_order column =
     (if column = ''name'' then then_id False cu_name
      else if column = ''-name'' then then_id True cu_name
      else if column = ''annualRevenue'' then by_revenue False
      else if column = ''-annualRevenue'' then by_revenue True
      else if column = ''createdAt'' then then_id False cu_created
      else if column = ''-createdAt'' then then_id True cu_created
      else if column = ''updatedAt'' then then_id False cu_updated
      else then_id True cu_updated)"

record customer_query =
  cq_text :: string
  cq_type :: string
  cq_grade :: string
  cq_cursor :: string
  cq_sort :: string
  cq_limit :: int

text \<open>A customer with its owner's display name, and a page of a list.\<close>

record customer_view =
  cv_row :: customer_row
  cv_owner :: string

record 'a page =
  pg_items :: "'a list"
  pg_more :: bool
  pg_next :: string

type_synonym 'a crm_op = "(crm_tables, crm_error, 'a) go"

definition with_owner :: "'z crm_tables_scheme \<Rightarrow> customer_row \<Rightarrow> customer_view option" where
  "with_owner t c = map_option (\<lambda>u. \<lparr>cv_row = c, cv_owner = u_display_name u\<rparr>) (row_by u_id (cu_owner c) (users t))"

definition text_matches :: "string \<Rightarrow> customer_row \<Rightarrow> bool" where
  "text_matches pat c \<longleftrightarrow> pat = [] \<or> like pat (to_lower (cu_name c)) \<or>
     like pat (to_lower (cu_registration c)) \<or> like pat (to_lower (cu_code c))"

definition selects :: "principal \<Rightarrow> customer_query \<Rightarrow> crm_tables \<Rightarrow> customer_row \<Rightarrow> bool" where
  "selects p f t c \<longleftrightarrow>
     cu_active c \<and> cu_merged c = None \<and> sees_customer p t c \<and> text_matches (search_pattern (cq_text f)) c \<and>
     (let ty = to_upper (trim_space (cq_type f)) in ty = [] \<or> cu_type c = ty) \<and>
     (let g = to_upper (trim_space (cq_grade f)) in g = [] \<or> cu_grade c = g)"

definition customer_rows :: "principal \<Rightarrow> customer_query \<Rightarrow> crm_tables \<Rightarrow> customer_view list" where
  "customer_rows p f t =
     List.map_filter (with_owner t) (sort_by (customer_order (cq_sort f)) (filter (selects p f t) (customers t)))"

definition page_limit :: "int \<Rightarrow> int" where
  "page_limit n = (if n < 1 \<or> n > 200 then 50 else n)"

definition search_customers :: "principal \<Rightarrow> customer_query \<Rightarrow> customer_view page crm_op" where
  "search_customers p f =
     and_then (require p ''customer:read'') (\<lambda>_.
     let limit = page_limit (cq_limit f) in
     and_then (lift (parse_cursor (cq_cursor f))) (\<lambda>offset.
     and_then (db_query (\<lambda>t. take (nat (limit + 1)) (drop (nat offset) (customer_rows p f t)))) (\<lambda>items.
     let more = int (length items) > limit in
     ret \<lparr>pg_items = (if more then take (nat limit) items else items), pg_more = more,
       pg_next = (if more then next_cursor (offset + limit) else [])\<rparr>)))"

definition list_customers :: "principal \<Rightarrow> string \<Rightarrow> string \<Rightarrow> string \<Rightarrow> int \<Rightarrow> customer_view page crm_op" where
  "list_customers p q cursor column limit =
     search_customers p \<lparr>cq_text = q, cq_type = [], cq_grade = [], cq_cursor = cursor, cq_sort = column, cq_limit = limit\<rparr>"

definition get_customer :: "principal \<Rightarrow> string \<Rightarrow> ('z crm_tables_scheme, 'e, customer_view) go" where
  "get_customer p cid =
     and_then (require p ''customer:read'') (\<lambda>_.
     db_row (\<lambda>t. Option.bind (List.find (\<lambda>c. cu_id c = cid \<and> cu_active c \<and> sees_customer p t c) (customers t))
       (with_owner t)))"

definition customers_with_code :: "principal \<Rightarrow> string \<Rightarrow> string \<Rightarrow> 'z crm_tables_scheme \<Rightarrow> string list" where
  "customers_with_code p ws code t =
     take 2 (sort (map cu_id (filter (\<lambda>c. cu_code c = trim_space code \<and> cu_code c \<noteq> [] \<and> cu_active c \<and>
       cu_merged c = None \<and> (trim_space ws = [] \<or> cu_home c = Some (trim_space ws)) \<and> sees_customer p t c) (customers t))))"

definition customer_by_code_in :: "principal \<Rightarrow> string \<Rightarrow> string \<Rightarrow> ('z crm_tables_scheme, crm_error, customer_view) go" where
  "customer_by_code_in p ws code =
     and_then (require p ''customer:read'') (\<lambda>_.
     and_then (db_query (customers_with_code p ws code)) (\<lambda>found.
     if length found = 0 then raise No_rows
     else and_then (check (\<not> length found > 1) Ambiguous_code) (\<lambda>_. get_customer p (found ! 0))))"

definition validate_customer :: "string \<Rightarrow> string \<Rightarrow> crm_error + unit" where
  "validate_customer name code =
     (if blank name then Inl Name_missing
      else if length name > 200 then Inl Name_too_long
      else if length (trim_space code) > 64 then Inl Code_too_long
      else Inr ())"

text \<open>The opportunity as stored; the joined names are left out.\<close>

definition get_opportunity :: "principal \<Rightarrow> string \<Rightarrow> ('z crm_tables_scheme, 'e, opportunity_row) go" where
  "get_opportunity p oid =
     and_then (require p ''opportunity:read'') (\<lambda>_.
     db_row (\<lambda>t. List.find (\<lambda>x. op_id x = oid \<and> in_scope p t (op_owner x) (op_org x)) (opportunities t)))"

text \<open>What a salesperson should look at; \<open>today\<close> is the date of the configured time zone at \<open>now\<close>.\<close>

definition opportunity_health :: "opportunity_row \<Rightarrow> instant \<Rightarrow> date \<Rightarrow> string list" where
  "opportunity_health x now today =
     (if (case op_last_activity x of None \<Rightarrow> True | Some a \<Rightarrow> now - a > 30 * day_ns) then [''NO_RECENT_ACTIVITY''] else []) @
     (if (case op_close x of None \<Rightarrow> False | Some d \<Rightarrow> d < today) \<and> op_status x = ''OPEN'' then [''CLOSE_DATE_OVERDUE''] else []) @
     (if op_next_action x = [] \<and> op_status x = ''OPEN'' then [''NO_NEXT_ACTION''] else []) @
     (if now - op_stage_entered x > 30 * day_ns \<and> op_status x = ''OPEN'' then [''STAGE_STALLED''] else [])"

end
