(* ===== verification/Contracts.thy ===== *)
theory Contracts
  imports Crm "HOL-Library.Signed_Division"
begin

text \<open>
  Contracts and their revenue schedules (internal/crm/contracts.go), and the sale of
  internal/crm/resources.go: activation plans the contract's revenue, and each planned entry is
  recognized as one sale. Amounts are exact rationals; a \<open>numeric\<close> column rounds what is stored.
  The date of the configured time zone and that of the database are arguments.
\<close>

section \<open>Money\<close>

text \<open>\<open>math.Round\<close> and SQL's rounding: halves away from zero.\<close>

definition round_away :: "rat \<Rightarrow> int" where
  "round_away x = (if x \<ge> 0 then \<lfloor>x + 1 / 2\<rfloor> else - \<lfloor>1 / 2 - x\<rfloor>)"

text \<open>What a column \<open>numeric(\<dots>, s)\<close> stores.\<close>

definition numeric :: "nat \<Rightarrow> rat \<Rightarrow> rat" where
  "numeric s x = of_int (round_away (x * 10 ^ s)) / 10 ^ s"

text \<open>The generated column \<open>base_amount\<close>.\<close>

definition base_amount :: "rat \<Rightarrow> rat \<Rightarrow> rat" where
  "base_amount amount rate = numeric 2 (amount * rate)"

text \<open>The conversion of a floating point number to \<open>int64\<close> on amd64.\<close>

definition to_int64 :: "int \<Rightarrow> int" where
  "to_int64 n = (if - (2 ^ 63) \<le> n \<and> n < 2 ^ 63 then n else - (2 ^ 63))"

definition base_currency :: string where "base_currency = ''KRW''"

definition validate_currency :: "string \<Rightarrow> rat \<Rightarrow> crm_error + unit" where
  "validate_currency code rate =
     (if length code \<noteq> 3 then Inl Currency_length
      else if \<not> list_all (\<lambda>r. CHR ''A'' \<le> r \<and> r \<le> CHR ''Z'') code then Inl Currency_letters
      else if rate \<le> 0 then Inl Rate_not_positive
      else if code = base_currency \<and> rate \<noteq> 1 then Inl Base_rate_not_one
      else Inr ())"

text \<open>The currency and rate of an input: the rate may be left out for the base currency only.\<close>

definition currency_and_rate :: "string \<Rightarrow> rat option \<Rightarrow> crm_error + (string \<times> rat)" where
  "currency_and_rate code given =
     (let c = to_upper (trim_space code); currency = (if c = [] then base_currency else c) in
      case given of
        Some rate \<Rightarrow> map_sum id (\<lambda>_. (currency, rate)) (validate_currency currency rate)
      | None \<Rightarrow> if currency \<noteq> base_currency then Inl Rate_required
          else map_sum id (\<lambda>_. (currency, 1)) (validate_currency currency 1))"

section \<open>Schedules\<close>

definition parse_contract_date :: "string option \<Rightarrow> crm_error + date option" where
  "parse_contract_date value =
     (case value of
        None \<Rightarrow> Inr None
      | Some s \<Rightarrow> if blank s then Inr None
          else (case parse_date s of None \<Rightarrow> Inl Bad_date | Some d \<Rightarrow> Inr (Some d)))"

definition normalize_schedule_type :: "string \<Rightarrow> crm_error + string" where
  "normalize_schedule_type value =
     (let v = to_upper (trim_space value); v = (if v = [] then ''ONE_TIME'' else v) in
      if v \<in> {''ONE_TIME'', ''MONTHLY'', ''QUARTERLY'', ''ANNUAL''} then Inr v else Inl Bad_schedule_type)"

definition max_schedule_entries :: nat where "max_schedule_entries = 600"

text \<open>The loop of \<open>buildScheduleDates\<close>; the first argument is how many entries are still allowed.\<close>

fun schedule_loop :: "nat \<Rightarrow> date \<Rightarrow> date \<Rightarrow> int \<Rightarrow> int \<Rightarrow> crm_error + date list" where
  "schedule_loop 0 first final step n =
     (if final < add_months_clamped first (n * step) then Inr [] else Inl Period_too_long)"
| "schedule_loop (Suc left) first final step n =
     (let d = add_months_clamped first (n * step) in
      if final < d then Inr []
      else map_sum id ((#) d) (schedule_loop left first final step (n + 1)))"

definition schedule_step :: "string \<Rightarrow> int" where
  "schedule_step ty = (if ty = ''MONTHLY'' then 1 else if ty = ''QUARTERLY'' then 3 else if ty = ''ANNUAL'' then 12 else 0)"

definition build_schedule_dates :: "date option \<Rightarrow> date option \<Rightarrow> string \<Rightarrow> crm_error + date list" where
  "build_schedule_dates begins ends ty =
     (case begins of
        None \<Rightarrow> Inl Start_required
      | Some b \<Rightarrow>
          if (case ends of None \<Rightarrow> False | Some e \<Rightarrow> e < b) then Inl End_before_start
          else if ty = ''ONE_TIME'' then Inr [b]
          else (case ends of
              None \<Rightarrow> Inl End_required
            | Some e \<Rightarrow>
                if schedule_step ty = 0 then Inl Bad_schedule_type
                else (case schedule_loop max_schedule_entries b e (schedule_step ty) 0 of
                    Inl err \<Rightarrow> Inl err
                  | Inr dates \<Rightarrow> if length dates = 0 then Inl Empty_period else Inr dates)))"

definition split_schedule_amount :: "rat \<Rightarrow> nat \<Rightarrow> rat list" where
  "split_schedule_amount whole count =
     (let cents = to_int64 (round_away (whole * 100));
          base = cents sdiv int count;
          remainder = cents smod int count
      in map (\<lambda>i. of_int (if int i < remainder then base + 1 else base) / 100) [0..<count])"

section \<open>Stored rows\<close>

text \<open>The inserts with what the schema refuses: constraints, foreign keys and overflow of a column.\<close>

definition fits :: "nat \<Rightarrow> rat \<Rightarrow> bool" where
  "fits digits x \<longleftrightarrow> \<bar>x\<bar> < 10 ^ digits"

definition refers :: "('r \<Rightarrow> string) \<Rightarrow> 'r list \<Rightarrow> string option \<Rightarrow> bool" where
  "refers key rows r = (case r of None \<Rightarrow> True | Some k \<Rightarrow> k \<in> set (keys key rows))"

definition stored_contract :: "contract_row \<Rightarrow> contract_row" where
  "stored_contract c = c\<lparr>ct_amount := numeric 2 (ct_amount c), ct_rate := numeric 8 (ct_rate c)\<rparr>"

definition insert_contract :: "contract_row \<Rightarrow> crm_tables \<Rightarrow> (crm_tables \<times> unit) option" where
  "insert_contract c t =
     (if ct_id c \<in> set (keys ct_id (contracts t)) \<or> ct_no c \<in> set (keys ct_no (contracts t)) \<or>
         \<not> refers cu_id (customers t) (Some (ct_customer c)) \<or>
         \<not> refers op_id (opportunities t) (ct_opportunity c) \<or>
         \<not> refers u_id (users t) (Some (ct_owner c)) \<or> \<not> refers o_id (orgs t) (ct_org c) \<or>
         \<not> fits 18 (numeric 2 (ct_amount c)) \<or> \<not> fits 12 (numeric 8 (ct_rate c)) \<or>
         numeric 8 (ct_rate c) \<le> 0 then None
      else Some (t\<lparr>contracts := contracts t @ [stored_contract c]\<rparr>, ()))"

definition stored_schedule :: "schedule_row \<Rightarrow> schedule_row" where
  "stored_schedule s = s\<lparr>sc_amount := numeric 2 (sc_amount s), sc_rate := numeric 8 (sc_rate s)\<rparr>"

definition insert_schedule :: "schedule_row \<Rightarrow> crm_tables \<Rightarrow> (crm_tables \<times> unit) option" where
  "insert_schedule s t =
     (if sc_id s \<in> set (keys sc_id (schedules t)) \<or>
         (sc_contract s, sc_no s) \<in> set (map (\<lambda>x. (sc_contract x, sc_no x)) (schedules t)) \<or>
         \<not> refers ct_id (contracts t) (Some (sc_contract s)) \<or> sc_no s \<le> 0 \<or>
         numeric 2 (sc_amount s) < 0 \<or> \<not> fits 18 (numeric 2 (sc_amount s)) \<or>
         numeric 8 (sc_rate s) \<le> 0 \<or> \<not> fits 12 (numeric 8 (sc_rate s)) then None
      else Some (t\<lparr>schedules := schedules t @ [stored_schedule s]\<rparr>, ()))"

definition stored_sale :: "sale_row \<Rightarrow> sale_row" where
  "stored_sale s = s\<lparr>sl_amount := numeric 2 (sl_amount s), sl_rate := numeric 8 (sl_rate s)\<rparr>"

definition insert_sale :: "sale_row \<Rightarrow> crm_tables \<Rightarrow> (crm_tables \<times> unit) option" where
  "insert_sale s t =
     (if sl_id s \<in> set (keys sl_id (sales t)) \<or> \<not> refers cu_id (customers t) (Some (sl_customer s)) \<or>
         \<not> refers ct_id (contracts t) (sl_contract s) \<or> \<not> refers u_id (users t) (Some (sl_owner s)) \<or>
         \<not> refers o_id (orgs t) (sl_org s) \<or>
         \<not> fits 18 (numeric 2 (sl_amount s)) \<or> numeric 8 (sl_rate s) \<le> 0 \<or> \<not> fits 12 (numeric 8 (sl_rate s)) then None
      else Some (t\<lparr>sales := sales t @ [stored_sale s]\<rparr>, ()))"

section \<open>Contracts\<close>

record contract_input =
  ci_no :: string
  ci_customer :: string
  ci_opportunity :: string
  ci_title :: string
  ci_amount :: rat
  ci_currency :: string
  ci_rate :: "rat option"
  ci_start :: "string option"
  ci_end :: "string option"
  ci_status :: string
  ci_auto_renew :: bool
  ci_schedule :: string
  ci_notice_days :: int
  ci_action :: string
  ci_custom :: "(string \<times> json) list"

record contract_view =
  kv_row :: contract_row
  kv_customer :: string

definition get_contract :: "principal \<Rightarrow> string \<Rightarrow> contract_view crm_op" where
  "get_contract p cid =
     and_then (require p ''contract:read'') (\<lambda>_.
     db_row (\<lambda>t. Option.bind (List.find (\<lambda>c. ct_id c = cid \<and> in_scope p t (ct_owner c) (ct_org c)) (contracts t))
       (\<lambda>c. map_option (\<lambda>cu. \<lparr>kv_row = c, kv_customer = cu_name cu\<rparr>) (row_by cu_id (ct_customer c) (customers t)))))"

definition contract_number :: "string \<Rightarrow> string \<Rightarrow> string" where
  "contract_number stamp random = ''C-'' @ stamp @ ''-'' @ to_upper (hex_token random)"

definition schedule_entry :: "contract_row \<Rightarrow> string \<Rightarrow> nat \<Rightarrow> date \<Rightarrow> rat \<Rightarrow> schedule_row" where
  "schedule_entry c sid n d amount =
     \<lparr>sc_id = sid, sc_contract = ct_id c, sc_no = int n, sc_date = d, sc_amount = amount,
      sc_currency = ct_currency c, sc_rate = ct_rate c, sc_status = ''PLANNED'', sc_sale = None, sc_recognized = None\<rparr>"

definition create_revenue_schedule :: "contract_row \<Rightarrow> (nat \<Rightarrow> string) \<Rightarrow> unit crm_op" where
  "create_revenue_schedule c draw =
     and_then (lift (build_schedule_dates (ct_start c) (ct_end c) (ct_schedule c))) (\<lambda>dates.
     let amounts = split_schedule_amount (ct_amount c) (length dates) in
     for_each (\<lambda>i. tx_exec (insert_schedule (schedule_entry c (draw i) (i + 1) (dates ! i) (amounts ! i))))
       [0..<length dates])"

definition new_contract :: "principal \<Rightarrow> contract_input \<Rightarrow> string \<Rightarrow> string \<Rightarrow> string \<Rightarrow> rat \<Rightarrow> date option
    \<Rightarrow> date option \<Rightarrow> string \<Rightarrow> string \<Rightarrow> int \<Rightarrow> instant \<Rightarrow> contract_row" where
  "new_contract p x cid no currency rate begins ends status ty days now =
     \<lparr>ct_id = cid, ct_no = trim_space no, ct_customer = ci_customer x, ct_opportunity = opt_text (ci_opportunity x),
      ct_owner = user_id p, ct_org = opt_text (organization_id p), ct_title = trim_space (ci_title x),
      ct_amount = ci_amount x, ct_currency = currency, ct_rate = rate, ct_start = begins, ct_end = ends,
      ct_status = status, ct_auto_renew = ci_auto_renew x, ct_schedule = ty, ct_notice_days = days,
      ct_renewal = ''NOT_STARTED'', ct_action = text_column (trim_space (ci_action x)),
      ct_activated = (if status = ''ACTIVE'' then Some now else None), ct_custom = ci_custom x, ct_version = 1,
      ct_updated_by = user_id p, ct_created = now, ct_updated = now\<rparr>"

text \<open>The checks before the transaction; the schedule type and the status are normalized.\<close>

definition contract_terms :: "contract_input \<Rightarrow> crm_error + (date option \<times> date option \<times> string \<times> rat \<times> string \<times> string \<times> int)" where
  "contract_terms x =
     (case parse_contract_date (ci_start x) of Inl e \<Rightarrow> Inl e | Inr begins \<Rightarrow>
     (case parse_contract_date (ci_end x) of Inl e \<Rightarrow> Inl e | Inr ends \<Rightarrow>
      if (case (begins, ends) of (Some b, Some e) \<Rightarrow> e < b | _ \<Rightarrow> False) then Inl End_before_start
      else (case currency_and_rate (ci_currency x) (ci_rate x) of Inl e \<Rightarrow> Inl e | Inr (currency, rate) \<Rightarrow>
     (case normalize_schedule_type (ci_schedule x) of Inl e \<Rightarrow> Inl e | Inr ty \<Rightarrow>
      let s = to_upper (trim_space (ci_status x)); status = (if s = [] then ''DRAFT'' else s) in
      if status \<noteq> ''DRAFT'' \<and> status \<noteq> ''ACTIVE'' then Inl Bad_contract_status
      else let days = (if ci_notice_days x = 0 then 90 else ci_notice_days x) in
      if days < 0 \<or> days > 730 then Inl Bad_notice_days
      else Inr (begins, ends, currency, rate, ty, status, days)))))"

definition create_contract :: "principal \<Rightarrow> contract_input \<Rightarrow> string \<Rightarrow> client_info \<Rightarrow> string \<Rightarrow> string \<Rightarrow> string
    \<Rightarrow> (nat \<Rightarrow> string) \<Rightarrow> instant \<Rightarrow> contract_view crm_op" where
  "create_contract p x channel ci stamp random cid draw now =
     and_then (require p ''contract:write'') (\<lambda>_.
     and_then (check (\<not> (ci_customer x = [] \<or> blank (ci_title x) \<or> ci_amount x < 0)) Bad_contract) (\<lambda>_.
     and_then (with_err Customer_missing (get_customer p (ci_customer x))) (\<lambda>_.
     and_then (if ci_opportunity x = [] then ret () else
        and_then (with_err Bad_opportunity (get_opportunity p (ci_opportunity x))) (\<lambda>opp.
        check (op_customer opp = ci_customer x) Bad_opportunity)) (\<lambda>_.
     and_then (lift (contract_terms x)) (\<lambda>(begins, ends, currency, rate, ty, status, days).
     let no = (if ci_no x = [] then contract_number stamp random else ci_no x);
         contract = new_contract p x cid no currency rate begins ends status ty days now in
     and_then (in_tx (and_then (tx_exec (insert_contract contract)) (\<lambda>_.
        if status = ''ACTIVE'' then create_revenue_schedule contract draw else ret ()))) (\<lambda>_.
     and_then (get_contract p cid) (\<lambda>out.
     and_then (crm_audit p channel ci ''CREATE'' ''contract'' cid) (\<lambda>_. ret out))))))))"

definition activate_update :: "string \<Rightarrow> string \<Rightarrow> int \<Rightarrow> instant \<Rightarrow> crm_tables \<Rightarrow> (crm_tables \<times> int) option" where
  "activate_update actor cid version now t =
     (let P = (\<lambda>c. ct_id c = cid \<and> ct_status c = ''DRAFT'' \<and> ct_version c = version) in
      Some (t\<lparr>contracts := update_where P (\<lambda>c. c\<lparr>ct_status := ''ACTIVE'', ct_activated := Some now,
          ct_updated_by := actor, ct_updated := now, ct_version := ct_version c + 1\<rparr>) (contracts t)\<rparr>,
        int (count_where P (contracts t))))"

definition activate_tx :: "principal \<Rightarrow> contract_row \<Rightarrow> string \<Rightarrow> int \<Rightarrow> (nat \<Rightarrow> string) \<Rightarrow> instant \<Rightarrow> unit crm_op" where
  "activate_tx p before cid version draw now =
     and_then (tx_exec (activate_update (user_id p) cid version now)) (\<lambda>n.
     and_then (check (n \<noteq> 0) Contract_changed) (\<lambda>_.
     create_revenue_schedule before draw))"

definition activate_contract :: "principal \<Rightarrow> string \<Rightarrow> int \<Rightarrow> string \<Rightarrow> client_info \<Rightarrow> (nat \<Rightarrow> string) \<Rightarrow> instant
    \<Rightarrow> contract_view crm_op" where
  "activate_contract p cid version channel ci draw now =
     and_then (require p ''contract:write'') (\<lambda>_.
     and_then (get_contract p cid) (\<lambda>b.
     let before = kv_row b in
     and_then (check (ct_status before = ''DRAFT'') Not_draft) (\<lambda>_.
     let version = (if version = 0 then ct_version before else version) in
     and_then (lift (build_schedule_dates (ct_start before) (ct_end before) (ct_schedule before))) (\<lambda>_.
     and_then (in_tx (activate_tx p before cid version draw now)) (\<lambda>_.
     and_then (get_contract p cid) (\<lambda>out.
     and_then (crm_audit p channel ci ''ACTIVATE'' ''contract'' cid) (\<lambda>_. ret out)))))))"

text \<open>The entries of a contract; a planned one of a past day is shown as due.\<close>

definition shown_schedule :: "date \<Rightarrow> schedule_row \<Rightarrow> schedule_row" where
  "shown_schedule today s = (if sc_status s = ''PLANNED'' \<and> sc_date s < today then s\<lparr>sc_status := ''DUE''\<rparr> else s)"

definition list_revenue_schedules :: "principal \<Rightarrow> string \<Rightarrow> date \<Rightarrow> schedule_row list crm_op" where
  "list_revenue_schedules p cid today =
     and_then (get_contract p cid) (\<lambda>_.
     db_query (\<lambda>t. map (shown_schedule today) (sort_key sc_no (filter (\<lambda>s. sc_contract s = cid) (schedules t)))))"

definition schedule_sale :: "contract_row \<Rightarrow> schedule_row \<Rightarrow> string \<Rightarrow> date \<Rightarrow> sale_row" where
  "schedule_sale c s sale d =
     \<lparr>sl_id = sale, sl_customer = ct_customer c, sl_contract = Some (ct_id c), sl_owner = ct_owner c,
      sl_org = ct_org c, sl_amount = sc_amount s, sl_currency = sc_currency s, sl_rate = sc_rate s,
      sl_date = d, sl_text = ''Contract revenue schedule #'' @ sc_id s\<rparr>"

definition recognize_update :: "string \<Rightarrow> string \<Rightarrow> instant \<Rightarrow> crm_tables \<Rightarrow> (crm_tables \<times> unit) option" where
  "recognize_update sid sale now =
     writes (\<lambda>t. t\<lparr>schedules := update_where (\<lambda>s. sc_id s = sid)
       (\<lambda>s. s\<lparr>sc_status := ''RECOGNIZED'', sc_sale := Some sale, sc_recognized := Some now\<rparr>) (schedules t)\<rparr>)"

definition recognize_tx :: "contract_row \<Rightarrow> string \<Rightarrow> string \<Rightarrow> date \<Rightarrow> instant \<Rightarrow> unit crm_op" where
  "recognize_tx c sid sale d now =
     and_then (tx_row (\<lambda>t. List.find (\<lambda>s. sc_id s = sid \<and> sc_contract s = ct_id c) (schedules t))) (\<lambda>s.
     and_then (check (sc_status s = ''PLANNED'') Already_recognized) (\<lambda>_.
     and_then (tx_exec (insert_sale (schedule_sale c s sale d))) (\<lambda>_.
     tx_exec (recognize_update sid sale now))))"

definition recognize_revenue_schedule :: "principal \<Rightarrow> string \<Rightarrow> string \<Rightarrow> string \<Rightarrow> client_info \<Rightarrow> date \<Rightarrow> date
    \<Rightarrow> string \<Rightarrow> instant \<Rightarrow> schedule_row crm_op" where
  "recognize_revenue_schedule p sid day channel ci clock today sale now =
     and_then (require p ''sales:write'') (\<lambda>_.
     and_then (lift (if blank day then Inr clock else (case parse_date day of None \<Rightarrow> Inl Bad_date | Some d \<Rightarrow> Inr d))) (\<lambda>d.
     and_then (db_row (\<lambda>t. map_option sc_contract (row_by sc_id sid (schedules t)))) (\<lambda>cid.
     and_then (get_contract p cid) (\<lambda>c.
     and_then (in_tx (recognize_tx (kv_row c) sid sale d now)) (\<lambda>_.
     and_then (list_revenue_schedules p (ct_id (kv_row c)) today) (\<lambda>items.
     case List.find (\<lambda>s. sc_id s = sid) items of
       None \<Rightarrow> raise (App Schedule_not_found)
     | Some item \<Rightarrow> and_then (crm_audit p channel ci ''RECOGNIZE_REVENUE'' ''revenue_schedule'' sid) (\<lambda>_. ret item)))))))"

definition renewal_update :: "string \<Rightarrow> string \<Rightarrow> string \<Rightarrow> string \<Rightarrow> int \<Rightarrow> instant \<Rightarrow> crm_tables \<Rightarrow> (crm_tables \<times> int) option" where
  "renewal_update actor cid status action version now t =
     (let P = (\<lambda>c. ct_id c = cid \<and> ct_version c = version) in
      Some (t\<lparr>contracts := update_where P (\<lambda>c. c\<lparr>ct_renewal := status, ct_action := text_column action,
          ct_updated_by := actor, ct_updated := now, ct_version := ct_version c + 1\<rparr>) (contracts t)\<rparr>,
        int (count_where P (contracts t))))"

definition update_contract_renewal :: "principal \<Rightarrow> string \<Rightarrow> string \<Rightarrow> string \<Rightarrow> int \<Rightarrow> string \<Rightarrow> client_info \<Rightarrow> instant
    \<Rightarrow> contract_view crm_op" where
  "update_contract_renewal p cid status action version channel ci now =
     and_then (require p ''contract:write'') (\<lambda>_.
     and_then (get_contract p cid) (\<lambda>b.
     let before = kv_row b; s = to_upper (trim_space status); status = (if s = [] then ct_renewal before else s) in
     and_then (check (status \<in> {''NOT_STARTED'', ''PLANNED'', ''IN_PROGRESS'', ''RENEWED'', ''CHURNED''}) Bad_renewal) (\<lambda>_.
     let version = (if version = 0 then ct_version before else version) in
     and_then (db_exec (renewal_update (user_id p) cid status action version now)) (\<lambda>n.
     and_then (check (n \<noteq> 0) Contract_changed) (\<lambda>_.
     and_then (get_contract p cid) (\<lambda>out.
     and_then (crm_audit p channel ci ''UPDATE_RENEWAL'' ''contract'' cid) (\<lambda>_. ret out)))))))"

section \<open>Sales\<close>

record sale_input =
  si_customer :: string
  si_contract :: string
  si_amount :: rat
  si_currency :: string
  si_rate :: "rat option"
  si_date :: string
  si_text :: string

definition create_sale :: "principal \<Rightarrow> sale_input \<Rightarrow> string \<Rightarrow> client_info \<Rightarrow> string \<Rightarrow> sale_row crm_op" where
  "create_sale p x channel ci sid =
     and_then (require p ''sales:write'') (\<lambda>_.
     and_then (check (\<not> (si_customer x = [] \<or> si_amount x < 0)) Bad_contract) (\<lambda>_.
     and_then (lift (case parse_date (si_date x) of None \<Rightarrow> Inl Bad_date | Some d \<Rightarrow> Inr d)) (\<lambda>d.
     and_then (with_err Customer_missing (get_customer p (si_customer x))) (\<lambda>_.
     and_then (lift (currency_and_rate (si_currency x) (si_rate x))) (\<lambda>(currency, rate).
     let sale = \<lparr>sl_id = sid, sl_customer = si_customer x, sl_contract = opt_text (si_contract x), sl_owner = user_id p,
           sl_org = opt_text (organization_id p), sl_amount = si_amount x, sl_currency = currency, sl_rate = rate,
           sl_date = d, sl_text = text_column (si_text x)\<rparr> in
     and_then (db_exec (insert_sale sale)) (\<lambda>_.
     and_then (crm_audit p channel ci ''CREATE'' ''sale'' sid) (\<lambda>_. ret sale)))))))"

definition list_sales :: "principal \<Rightarrow> int \<Rightarrow> (sale_row \<times> string) list crm_op" where
  "list_sales p limit =
     and_then (require p ''sales:read'') (\<lambda>_.
     let limit = (if limit < 1 \<or> limit > 500 then 100 else limit) in
     db_query (\<lambda>t. take (nat limit) (List.map_filter
       (\<lambda>s. map_option (\<lambda>c. (s, cu_name c)) (row_by cu_id (sl_customer s) (customers t)))
       (sort_by (\<lambda>a b. sl_date b < sl_date a \<or> sl_date a = sl_date b)
         (filter (\<lambda>s. in_scope p t (sl_owner s) (sl_org s)) (sales t))))))"

end
