(* ===== verification/Samples.thy ===== *)
theory Samples
  imports Crm
begin

text \<open>
  The rows the witnesses of the properties start from: a user, a customer she owns, a principal that
  acts for her and the client of the request.
\<close>

definition toy_user :: user_row where
  "toy_user = \<lparr>u_id = ''u1'', u_username = ''kim'', u_display_name = ''Kim'', u_email = None,
     u_hash = None, u_source = ''LOCAL'', u_org = None, u_manager = None, u_active = True, u_bootstrap = False,
     u_must_change = False, u_last_login = None, u_created = 0, u_updated_at = 0, u_version = 1\<rparr>"

definition toy_customer :: customer_row where
  "toy_customer = \<lparr>cu_id = ''c1'', cu_name = ''Acme'', cu_registration = [], cu_code = [], cu_home = None,
     cu_type = ''COMPANY'', cu_grade = [], cu_industry = [], cu_website = [], cu_phone = [], cu_email = [],
     cu_address = [], cu_owner = ''u1'', cu_org = None, cu_health = ''GOOD'', cu_revenue = None,
     cu_employees = None, cu_custom = [], cu_scope = ''GLOBAL'', cu_updated_by = ''u1'', cu_active = True, cu_merged = None, cu_version = 1,
     cu_created = 0, cu_updated = 0\<rparr>"

definition toy_crm :: crm_tables where
  "toy_crm = empty_crm\<lparr>users := [toy_user], customers := [toy_customer]\<rparr>"

definition acting :: "string list \<Rightarrow> principal" where
  "acting perms = (new_principal ''u1'')\<lparr>perm := perms\<rparr>"

definition toy_ci :: client_info where "toy_ci = \<lparr>c_ip = [], c_request = [], c_agent = []\<rparr>"

end
