(* ===== verification/Revenue_Facts.thy ===== *)
theory Revenue_Facts
  imports Contracts_Facts Samples
begin

text \<open>
  The state machine of contracts, revenue schedules and sales, and its invariant: a draft contract
  has no schedule, an active one is planned in full, and every recognized entry stands for one sale
  of its own. It is kept by every operation while other sessions take the same steps.
\<close>

section \<open>Steps\<close>

text \<open>The rows \<open>createRevenueSchedule\<close> leaves for a stored contract.\<close>

definition planned :: "contract_row \<Rightarrow> schedule_row list \<Rightarrow> bool" where
  "planned c ss \<longleftrightarrow>
     build_schedule_dates (ct_start c) (ct_end c) (ct_schedule c) = Inr (map sc_date ss) \<and>
     map sc_no ss = map (\<lambda>i. int i + 1) [0..<length ss] \<and>
     sum_list (map sc_amount ss) = ct_amount c \<and>
     (\<forall>s \<in> set ss. sc_contract s = ct_id c \<and> sc_status s = ''PLANNED'' \<and> sc_sale s = None \<and>
        0 \<le> sc_amount s \<and> numeric 2 (sc_amount s) = sc_amount s \<and> numeric 8 (sc_rate s) = sc_rate s)"

text \<open>What no operation of this theory changes of a contract; a status other than draft is final.\<close>

definition contract_kept :: "contract_row \<Rightarrow> contract_row \<Rightarrow> bool" where
  "contract_kept c d \<longleftrightarrow> ct_id d = ct_id c \<and> ct_amount d = ct_amount c \<and> ct_rate d = ct_rate c \<and>
     ct_currency d = ct_currency c \<and> ct_start d = ct_start c \<and> ct_end d = ct_end c \<and>
     ct_schedule d = ct_schedule c \<and> (ct_status c \<noteq> ''DRAFT'' \<longrightarrow> ct_status d = ct_status c)"

definition sale_of :: "schedule_row \<Rightarrow> sale_row \<Rightarrow> bool" where
  "sale_of s x \<longleftrightarrow> sl_contract x = Some (sc_contract s) \<and> sl_amount x = sc_amount s \<and>
     sl_currency x = sc_currency s \<and> sl_rate x = sc_rate s"

inductive contract_step :: "crm_tables \<Rightarrow> crm_tables \<Rightarrow> bool" where
  other: "contracts t' = contracts t \<Longrightarrow> schedules t' = schedules t \<Longrightarrow> sales t' = sales t \<Longrightarrow> contract_step t t'"
| revised: "list_all2 (\<lambda>c d. contract_kept c d \<and> ct_status d = ct_status c) (contracts t) (contracts t') \<Longrightarrow>
    schedules t' = schedules t \<Longrightarrow> sales t' = sales t \<Longrightarrow> contract_step t t'"
| sold: "contracts t' = contracts t \<Longrightarrow> schedules t' = schedules t \<Longrightarrow>
    sl_id x \<notin> set (keys sl_id (sales t)) \<Longrightarrow> sales t' = sales t @ [x] \<Longrightarrow> contract_step t t'"
| created: "ct_id c \<notin> set (keys ct_id (contracts t)) \<Longrightarrow> contracts t' = contracts t @ [c] \<Longrightarrow>
    0 \<le> ct_amount c \<Longrightarrow> numeric 2 (ct_amount c) = ct_amount c \<Longrightarrow> numeric 8 (ct_rate c) = ct_rate c \<Longrightarrow>
    ct_status c = ''DRAFT'' \<and> ss = [] \<or> ct_status c = ''ACTIVE'' \<and> planned c ss \<Longrightarrow>
    distinct (keys sc_id ss) \<Longrightarrow> set (keys sc_id ss) \<inter> set (keys sc_id (schedules t)) = {} \<Longrightarrow>
    schedules t' = schedules t @ ss \<Longrightarrow> sales t' = sales t \<Longrightarrow> contract_step t t'"
| activated: "c \<in> set (contracts t) \<Longrightarrow> ct_id c = i \<Longrightarrow> ct_status c = ''DRAFT'' \<Longrightarrow> ct_version c = v \<Longrightarrow>
    contracts t' = update_where (\<lambda>c. ct_id c = i \<and> ct_status c = ''DRAFT'' \<and> ct_version c = v)
      (\<lambda>c. c\<lparr>ct_status := ''ACTIVE'', ct_activated := Some now, ct_updated_by := actor, ct_updated := now,
         ct_version := ct_version c + 1\<rparr>) (contracts t) \<Longrightarrow>
    planned c ss \<Longrightarrow> distinct (keys sc_id ss) \<Longrightarrow> set (keys sc_id ss) \<inter> set (keys sc_id (schedules t)) = {} \<Longrightarrow>
    schedules t' = schedules t @ ss \<Longrightarrow> sales t' = sales t \<Longrightarrow> contract_step t t'"
| recognized: "contracts t' = contracts t \<Longrightarrow> s \<in> set (schedules t) \<Longrightarrow> sc_id s = i \<Longrightarrow> sc_status s = ''PLANNED'' \<Longrightarrow>
    schedules t' = update_where (\<lambda>s. sc_id s = i)
      (\<lambda>s. s\<lparr>sc_status := ''RECOGNIZED'', sc_sale := Some (sl_id x), sc_recognized := Some now\<rparr>) (schedules t) \<Longrightarrow>
    sl_id x \<notin> set (keys sl_id (sales t)) \<Longrightarrow> sales t' = sales t @ [x] \<Longrightarrow>
    sl_contract x = Some (sc_contract s) \<Longrightarrow> sl_amount x = numeric 2 (sc_amount s) \<Longrightarrow>
    sl_currency x = sc_currency s \<Longrightarrow> sl_rate x = numeric 8 (sc_rate s) \<Longrightarrow> contract_step t t'"

section \<open>The invariant\<close>

definition of_contract :: "crm_tables \<Rightarrow> contract_row \<Rightarrow> schedule_row list" where
  "of_contract t c = filter (\<lambda>s. sc_contract s = ct_id c) (schedules t)"

text \<open>An entry is open, or it stands for a sale of the same contract, amount, currency and rate.\<close>

definition entry_ok :: "sale_row list \<Rightarrow> schedule_row \<Rightarrow> bool" where
  "entry_ok xs s \<longleftrightarrow> 0 \<le> sc_amount s \<and> numeric 2 (sc_amount s) = sc_amount s \<and> numeric 8 (sc_rate s) = sc_rate s \<and>
     (sc_status s = ''PLANNED'' \<and> sc_sale s = None \<or>
      sc_status s = ''RECOGNIZED'' \<and> (\<exists>x \<in> set xs. sc_sale s = Some (sl_id x) \<and> sale_of s x))"

definition contract_ok :: "schedule_row list \<Rightarrow> contract_row \<Rightarrow> bool" where
  "contract_ok ss c \<longleftrightarrow> 0 \<le> ct_amount c \<and> numeric 2 (ct_amount c) = ct_amount c \<and> numeric 8 (ct_rate c) = ct_rate c \<and>
     (ct_status c = ''DRAFT'' \<and> ss = [] \<or>
      ct_status c = ''ACTIVE'' \<and> sum_list (map sc_amount ss) = ct_amount c \<and>
        map sc_no ss = map (\<lambda>i. int i + 1) [0..<length ss] \<and>
        build_schedule_dates (ct_start c) (ct_end c) (ct_schedule c) = Inr (map sc_date ss))"

definition revenue_ok :: "crm_tables \<Rightarrow> bool" where
  "revenue_ok t \<longleftrightarrow>
     distinct (keys ct_id (contracts t)) \<and> distinct (keys sc_id (schedules t)) \<and> distinct (keys sl_id (sales t)) \<and>
     distinct (List.map_filter sc_sale (schedules t)) \<and>
     (\<forall>s \<in> set (schedules t). sc_contract s \<in> set (keys ct_id (contracts t)) \<and> entry_ok (sales t) s) \<and>
     (\<forall>c \<in> set (contracts t). contract_ok (of_contract t c) c)"

lemma entry_ok_mono: "set xs \<subseteq> set ys \<Longrightarrow> entry_ok xs s \<Longrightarrow> entry_ok ys s"
  unfolding entry_ok_def by blast

lemma sale_refs:
  "revenue_ok t \<Longrightarrow> r \<in> set (List.map_filter sc_sale (schedules t)) \<Longrightarrow> r \<in> set (keys sl_id (sales t))"
  by (fastforce simp: revenue_ok_def entry_ok_def set_map_filter keys_def)

lemma planned_entries:
  assumes "planned c ss"
  shows "List.map_filter sc_sale ss = []" and "\<forall>s \<in> set ss. sc_contract s = ct_id c \<and> entry_ok xs s"
    and "filter (\<lambda>s. sc_contract s = ct_id c) ss = ss"
    and "i \<noteq> ct_id c \<Longrightarrow> filter (\<lambda>s. sc_contract s = i) ss = []"
  using assms by (auto simp: planned_def entry_ok_def filter_empty_conv map_filter_def)

lemma planned_ok: "planned c ss \<Longrightarrow> 0 \<le> ct_amount c \<Longrightarrow> numeric 2 (ct_amount c) = ct_amount c \<Longrightarrow>
    numeric 8 (ct_rate c) = ct_rate c \<Longrightarrow> ct_status c = ''ACTIVE'' \<Longrightarrow> contract_ok ss c"
  by (simp add: planned_def contract_ok_def)

lemma kept_ids:
  "list_all2 (\<lambda>c d. contract_kept c d \<and> P c d) cs ds \<Longrightarrow> keys ct_id ds = keys ct_id cs"
  unfolding keys_def by (induction rule: list_all2_induct) (auto simp: contract_kept_def)

lemma kept_ok: "contract_kept c d \<Longrightarrow> ct_status d = ct_status c \<Longrightarrow> contract_ok ss d = contract_ok ss c"
  by (simp add: contract_kept_def contract_ok_def)

lemma map_filter_update_fresh:
  "distinct (List.map_filter f (xs :: 'a list)) \<Longrightarrow> distinct (map k xs) \<Longrightarrow> f (g a) = Some r \<Longrightarrow>
   (\<forall>x \<in> set xs. f x \<noteq> Some r) \<Longrightarrow> (\<forall>x. k x = i \<longrightarrow> f (g x) = Some r) \<Longrightarrow>
   distinct (List.map_filter f (update_where (\<lambda>x. k x = i) g xs))"
proof (induction xs)
  case (Cons x xs)
  have fresh: "update_where (\<lambda>x. k x = i) g xs = xs" if "k x = i"
    using Cons.prems(2) that by (intro update_where_none) (metis distinct.simps(2) image_eqI list.set_map list.simps(9))
  have keep: "set (List.map_filter f (update_where (\<lambda>x. k x = i) g xs)) \<subseteq> insert r (set (List.map_filter f xs))"
    using Cons.prems(5) by (fastforce simp: set_map_filter set_update_where)
  show ?case
  proof (cases "k x = i")
    case True
    then show ?thesis using Cons.prems fresh by (auto simp: map_filter_simps set_map_filter split: option.splits)
  next
    case False
    then show ?thesis using Cons keep by (auto simp: map_filter_simps split: option.splits)
  qed
qed simp

text \<open>New planned entries of a contract that has none yet.\<close>

lemma append_planned:
  assumes ok: "revenue_ok t" and p: "planned c ss"
    and ids: "distinct (keys sc_id ss)" "set (keys sc_id ss) \<inter> set (keys sc_id (schedules t)) = {}"
    and cs: "distinct (keys ct_id cs)" "set (keys ct_id (contracts t)) \<subseteq> set (keys ct_id cs)" "c' \<in> set cs" "ct_id c' = ct_id c"
    and none: "filter (\<lambda>s. sc_contract s = ct_id c) (schedules t) = []"
    and active: "contract_ok ss c'"
    and rest: "\<And>d. d \<in> set cs \<Longrightarrow> d \<noteq> c' \<Longrightarrow> d \<in> set (contracts t)"
    and t': "contracts t' = cs" "schedules t' = schedules t @ ss" "sales t' = sales t"
  shows "revenue_ok t'"
  unfolding revenue_ok_def t'
proof (intro conjI ballI)
  show "distinct (keys sc_id (schedules t @ ss))" using ok ids by (auto simp: revenue_ok_def keys_def)
  show "distinct (List.map_filter sc_sale (schedules t @ ss))"
    using ok planned_entries(1) [OF p] by (simp add: revenue_ok_def map_filter_def)
  have "ct_id c \<in> set (keys ct_id cs)" using cs(3,4) by (metis image_eqI keys_def list.set_map)
  then show "sc_contract s \<in> set (keys ct_id cs)" "entry_ok (sales t) s" if "s \<in> set (schedules t @ ss)" for s
    using that ok planned_entries(2) [OF p] cs(2) by (auto simp: revenue_ok_def)
  show "contract_ok (of_contract t' d) d" if d: "d \<in> set cs" for d
  proof (cases "ct_id d = ct_id c")
    case True
    then have "d = c'" using cs(1,3,4) d by (metis distinct_map inj_onD keys_def)
    then show ?thesis using active none planned_entries(3) [OF p] cs(4) by (simp add: of_contract_def t')
  next
    case False
    then have "d \<in> set (contracts t)" using rest d cs(4) by metis
    then show ?thesis using ok planned_entries(4) [OF p False] by (simp add: of_contract_def t' revenue_ok_def)
  qed
qed (use ok cs in \<open>simp_all add: revenue_ok_def\<close>)

lemma orphans: "revenue_ok t \<Longrightarrow> i \<notin> set (keys ct_id (contracts t)) \<Longrightarrow> filter (\<lambda>s. sc_contract s = i) (schedules t) = []"
  by (auto simp: revenue_ok_def filter_empty_conv)

lemma step_activated:
  assumes ok: "revenue_ok t" and c: "c \<in> set (contracts t)" "ct_id c = i" "ct_status c = ''DRAFT''" "ct_version c = v"
    and cs: "contracts t' = update_where (\<lambda>c. ct_id c = i \<and> ct_status c = ''DRAFT'' \<and> ct_version c = v)
      (\<lambda>c. c\<lparr>ct_status := ''ACTIVE'', ct_activated := Some now, ct_updated_by := actor, ct_updated := now,
         ct_version := ct_version c + 1\<rparr>) (contracts t)"
    and p: "planned c ss" and ids: "distinct (keys sc_id ss)" "set (keys sc_id ss) \<inter> set (keys sc_id (schedules t)) = {}"
    and t': "schedules t' = schedules t @ ss" "sales t' = sales t"
  shows "revenue_ok t'"
proof -
  let ?f = "\<lambda>c. c\<lparr>ct_status := ''ACTIVE'', ct_activated := Some now, ct_updated_by := actor, ct_updated := now,
         ct_version := ct_version c + 1\<rparr>"
  let ?P = "\<lambda>c. ct_id c = i \<and> ct_status c = ''DRAFT'' \<and> ct_version c = v"
  have inj: "inj_on ct_id (set (contracts t))" using ok by (simp add: revenue_ok_def keys_def distinct_map)
  have keys: "keys ct_id (contracts t') = keys ct_id (contracts t)"
    unfolding cs by (rule keys_update_where) simp
  have ok_c: "contract_ok (of_contract t c) c" using ok c(1) by (simp add: revenue_ok_def)
  have new: "?f c \<in> set (contracts t')" using c by (auto simp: cs set_update_where)
  show ?thesis
  proof (rule append_planned [OF ok p ids _ _ new _ _ _ _ refl t'])
    show "distinct (keys ct_id (contracts t'))" "set (keys ct_id (contracts t)) \<subseteq> set (keys ct_id (contracts t'))"
      using ok by (simp_all add: keys revenue_ok_def)
    show "filter (\<lambda>s. sc_contract s = ct_id c) (schedules t) = []"
      using ok_c c(3) by (simp add: contract_ok_def of_contract_def)
    show "contract_ok ss (?f c)" using p ok_c by (auto simp: planned_def contract_ok_def)
    show "d \<in> set (contracts t)" if d: "d \<in> set (contracts t')" "d \<noteq> ?f c" for d
    proof -
      from d(1) obtain e where e: "e \<in> set (contracts t)" "d = (if ?P e then ?f e else e)"
        unfolding cs set_update_where by blast
      have "e = c" if "?P e" by (rule inj_onD [OF inj _ e(1) c(1)]) (use that c(2) in simp)
      then have "\<not> ?P e" using d(2) e(2) by auto
      with e show ?thesis by simp
    qed
  qed simp
qed

lemma step_recognized:
  assumes ok: "revenue_ok t" and cs: "contracts t' = contracts t"
    and s: "s \<in> set (schedules t)" "sc_id s = i" "sc_status s = ''PLANNED''"
    and ss: "schedules t' = update_where (\<lambda>s. sc_id s = i)
      (\<lambda>s. s\<lparr>sc_status := ''RECOGNIZED'', sc_sale := Some (sl_id x), sc_recognized := Some now\<rparr>) (schedules t)"
    and x: "sl_id x \<notin> set (keys sl_id (sales t))" "sales t' = sales t @ [x]" "sl_contract x = Some (sc_contract s)"
      "sl_amount x = numeric 2 (sc_amount s)" "sl_currency x = sc_currency s" "sl_rate x = numeric 8 (sc_rate s)"
  shows "revenue_ok t'"
  unfolding revenue_ok_def
proof (intro conjI ballI)
  let ?f = "\<lambda>s. s\<lparr>sc_status := ''RECOGNIZED'', sc_sale := Some (sl_id x), sc_recognized := Some now\<rparr>"
  have inj: "inj_on sc_id (set (schedules t))" using ok by (simp add: revenue_ok_def keys_def distinct_map)
  show "distinct (keys sc_id (schedules t'))" using ok unfolding ss by (subst keys_update_where) (auto simp: revenue_ok_def)
  show "distinct (keys sl_id (sales t'))" using ok x by (auto simp: revenue_ok_def keys_def)
  have "\<forall>y \<in> set (schedules t). sc_sale y \<noteq> Some (sl_id x)"
    using sale_refs [OF ok] x(1) by (auto simp: set_map_filter)
  then show "distinct (List.map_filter sc_sale (schedules t'))"
    unfolding ss using ok by (intro map_filter_update_fresh) (auto simp: revenue_ok_def keys_def)
  show "sc_contract y \<in> set (keys ct_id (contracts t'))" "entry_ok (sales t') y" if "y \<in> set (schedules t')" for y
  proof -
    from that obtain z where z: "z \<in> set (schedules t)" "y = (if sc_id z = i then ?f z else z)"
      unfolding ss set_update_where by blast
    have old: "sc_contract z \<in> set (keys ct_id (contracts t))" "entry_ok (sales t) z"
      using ok z(1) by (simp_all add: revenue_ok_def)
    then show "sc_contract y \<in> set (keys ct_id (contracts t'))" using z(2) cs by simp
    show "entry_ok (sales t') y"
    proof (cases "sc_id z = i")
      case True
      have "z = s" by (rule inj_onD [OF inj _ z(1) s(1)]) (simp add: True s(2))
      then show ?thesis using z(2) True old(2) x by (auto simp: entry_ok_def sale_of_def)
    next
      case False
      then show ?thesis using z(2) old(2) x(2) by (auto intro: entry_ok_mono)
    qed
  qed
  show "contract_ok (of_contract t' d) d" if "d \<in> set (contracts t')" for d
  proof -
    have "of_contract t' d = update_where (\<lambda>s. sc_id s = i) ?f (of_contract t d)"
      unfolding of_contract_def ss update_where_def filter_map
      by (intro arg_cong [of _ _ "map _"] filter_cong) auto
    then have "map sc_amount (of_contract t' d) = map sc_amount (of_contract t d)"
      "map sc_no (of_contract t' d) = map sc_no (of_contract t d)"
      "map sc_date (of_contract t' d) = map sc_date (of_contract t d)"
      "length (of_contract t' d) = length (of_contract t d)" "of_contract t' d = [] \<longleftrightarrow> of_contract t d = []"
      by (simp_all add: update_where_def)
    moreover have "contract_ok (of_contract t d) d" using ok that cs by (simp add: revenue_ok_def)
    ultimately show ?thesis by (simp add: contract_ok_def)
  qed
qed (use ok cs in \<open>simp add: revenue_ok_def\<close>)

lemma contract_step_ok:
  assumes "contract_step t t'" and ok: "revenue_ok t"
  shows "revenue_ok t'"
  using assms(1)
proof (cases rule: contract_step.cases)
  case other
  then show ?thesis using ok by (simp add: revenue_ok_def of_contract_def)
next
  case revised
  have "contract_ok (of_contract t d) d" if "d \<in> set (contracts t')" for d
  proof -
    from that obtain j where "j < length (contracts t')" "d = contracts t' ! j" by (auto simp: in_set_conv_nth)
    with revised(1) obtain c where c: "c \<in> set (contracts t)" "contract_kept c d" "ct_status d = ct_status c"
      by (auto simp: list_all2_conv_all_nth intro!: that [of "contracts t ! j"])
    then have "of_contract t d = of_contract t c" by (simp add: of_contract_def contract_kept_def)
    with c ok show ?thesis by (simp add: kept_ok revenue_ok_def)
  qed
  then show ?thesis
    using ok revised kept_ids [OF revised(1)] by (simp add: revenue_ok_def of_contract_def)
next
  case (sold x)
  then have "entry_ok (sales t') s" if "entry_ok (sales t) s" for s
    by (rule_tac entry_ok_mono [OF _ that]) auto
  moreover have "distinct (keys sl_id (sales t'))" using ok sold by (auto simp: revenue_ok_def keys_def)
  ultimately show ?thesis using ok sold(1,2) unfolding revenue_ok_def of_contract_def by simp
next
  case (created c ss)
  show ?thesis
  proof (cases "ct_status c = ''DRAFT''")
    case True
    then have "ss = []" using created(6) by auto
    moreover have "of_contract t c = []" using orphans [OF ok created(1)] by (simp add: of_contract_def)
    ultimately show ?thesis
      using ok created True by (auto simp: revenue_ok_def of_contract_def keys_def contract_ok_def)
  next
    case False
    then have p: "planned c ss" "ct_status c = ''ACTIVE''" using created(6) by auto
    show ?thesis
      by (rule append_planned [OF ok p(1) created(7,8) _ _ _ refl orphans [OF ok created(1)] planned_ok [OF p(1) created(3-5) p(2)]
          _ created(2,9,10)]) (use ok created in \<open>auto simp: revenue_ok_def keys_def\<close>)
  qed
next
  case (activated c i v now actor ss)
  show ?thesis by (rule step_activated [OF ok activated])
next
  case (recognized s i x now)
  show ?thesis by (rule step_recognized [OF ok recognized])
qed

interpretation ri: shared_invariant contract_step contract_step revenue_ok
  by unfold_locales (auto intro: contract_step_ok)

section \<open>The transactions\<close>

definition schedule_row_at :: "contract_row \<Rightarrow> (nat \<Rightarrow> string) \<Rightarrow> date list \<Rightarrow> nat \<Rightarrow> schedule_row" where
  "schedule_row_at c draw dates i =
     stored_schedule (schedule_entry c (draw i) (i + 1) (dates ! i) (split_schedule_amount (ct_amount c) (length dates) ! i))"

lemma split_cents: "a \<in> set (split_schedule_amount x n) \<Longrightarrow> numeric 2 a = a"
  by (auto simp: split_schedule_amount_def Let_def simp del: of_int_add)

lemma row_at_fields:
  assumes "i < length dates"
  shows "sc_amount (schedule_row_at c draw dates i) = split_schedule_amount (ct_amount c) (length dates) ! i"
    and "sc_date (schedule_row_at c draw dates i) = dates ! i" and "sc_no (schedule_row_at c draw dates i) = int i + 1"
    and "sc_contract (schedule_row_at c draw dates i) = ct_id c" and "sc_status (schedule_row_at c draw dates i) = ''PLANNED''"
    and "sc_sale (schedule_row_at c draw dates i) = None" and "sc_rate (schedule_row_at c draw dates i) = numeric 8 (ct_rate c)"
proof -
  have "split_schedule_amount (ct_amount c) (length dates) ! i \<in> set (split_schedule_amount (ct_amount c) (length dates))"
    using assms by simp
  then show "sc_amount (schedule_row_at c draw dates i) = split_schedule_amount (ct_amount c) (length dates) ! i"
    by (simp add: schedule_row_at_def stored_schedule_def schedule_entry_def split_cents)
qed (simp_all add: schedule_row_at_def stored_schedule_def schedule_entry_def)

lemma schedule_length: "build_schedule_dates b e ty = Inr dates \<Longrightarrow> 0 < length dates \<and> length dates \<le> 600"
  using schedule_loop_spec [where left = max_schedule_entries and b = "the b" and e = "the e" and step = "schedule_step ty" and n = 0]
  by (auto simp: build_schedule_dates_def max_schedule_entries_def split: option.splits if_splits sum.splits)

lemma rows_planned:
  assumes "build_schedule_dates (ct_start c) (ct_end c) (ct_schedule c) = Inr dates" and "0 \<le> ct_amount c"
    and nonneg: "\<forall>i < length dates. 0 \<le> sc_amount (schedule_row_at c draw dates i)"
  shows "planned (stored_contract c) (map (schedule_row_at c draw dates) [0..<length dates])"
proof -
  let ?n = "length dates" and ?rows = "map (schedule_row_at c draw dates) [0..<length dates]"
  have n: "0 < ?n" "?n \<le> 600" using schedule_length [OF assms(1)] by simp_all
  have amounts: "map sc_amount ?rows = split_schedule_amount (ct_amount c) ?n"
    by (rule nth_equalityI) (simp_all add: row_at_fields)
  have "\<forall>a \<in> set (split_schedule_amount (ct_amount c) ?n). \<not> a < 0"
    using nonneg by (auto simp: in_set_conv_nth row_at_fields not_less)
  then have "round_away (ct_amount c * 100) < 2 ^ 63" using split_out_of_range [OF assms(2) _ n] by blast
  then have "sum_list (map sc_amount ?rows) = numeric 2 (ct_amount c)"
    unfolding amounts using assms(2) n(1) by (intro split_sum)
  moreover have "map sc_date ?rows = dates" by (rule nth_equalityI) (simp_all add: row_at_fields)
  moreover have "map sc_no ?rows = map (\<lambda>i. int i + 1) [0..<?n]" by (rule nth_equalityI) (simp_all add: row_at_fields)
  moreover have "numeric 2 (sc_amount s) = sc_amount s" if "s \<in> set ?rows" for s
    using that by (auto simp: schedule_row_at_def stored_schedule_def)
  ultimately show ?thesis
    using assms(1) nonneg by (auto simp: planned_def stored_contract_def row_at_fields)
qed

lemma insert_schedule_Some:
  assumes "insert_schedule e t = Some (u, x)"
  shows "u = t\<lparr>schedules := schedules t @ [stored_schedule e]\<rparr>"
    and "sc_id (stored_schedule e) \<notin> set (keys sc_id (schedules t))" and "0 \<le> sc_amount (stored_schedule e)"
  using assms by (auto simp: insert_schedule_def stored_schedule_def split: if_splits)

lemma keys_append: "keys k (xs @ ys) = keys k xs @ keys k ys" "keys k [x] = [k x]"
  by (simp_all add: keys_def)

definition added_schedule :: "crm_tables \<Rightarrow> contract_row \<Rightarrow> crm_tables \<Rightarrow> bool" where
  "added_schedule s c t \<longleftrightarrow> (\<exists>ss. t = s\<lparr>schedules := schedules s @ ss\<rparr> \<and> planned c ss \<and>
     distinct (keys sc_id ss) \<and> set (keys sc_id ss) \<inter> set (keys sc_id (schedules s)) = {})"

lemma tx_schedule:
  assumes "0 \<le> ct_amount c"
  shows "tx_triple (\<lambda>t. t = s) (create_revenue_schedule c draw) (\<lambda>_. added_schedule s (stored_contract c))"
  unfolding create_revenue_schedule_def Let_def
proof (rule tx_lift_then)
  fix dates assume dates: "build_schedule_dates (ct_start c) (ct_end c) (ct_schedule c) = Inr dates"
  let ?row = "schedule_row_at c draw dates"
  define I where "I i t \<longleftrightarrow> (\<forall>j < i. 0 \<le> sc_amount (?row j)) \<and> distinct (keys sc_id (map ?row [0..<i])) \<and>
    set (keys sc_id (map ?row [0..<i])) \<inter> set (keys sc_id (schedules s)) = {} \<and>
    t = s\<lparr>schedules := schedules s @ map ?row [0..<i]\<rparr>" for i t
  have start: "I 0 = (\<lambda>t. t = s)" by (rule ext) (auto simp: I_def keys_def)
  have "tx_triple (I 0) (for_each (\<lambda>i. tx_exec (insert_schedule (schedule_entry c (draw i) (i + 1) (dates ! i)
      (split_schedule_amount (ct_amount c) (length dates) ! i)))) [0..<length dates]) (\<lambda>_. I (length dates))"
  proof (rule tx_for_upt)
    fix i assume "i < length dates"
    show "tx_triple (I i) (tx_exec (insert_schedule (schedule_entry c (draw i) (i + 1) (dates ! i)
      (split_schedule_amount (ct_amount c) (length dates) ! i)))) (\<lambda>_. I (Suc i))"
    proof (rule tx_exec_rule)
      fix u t and x :: unit assume u: "I i u" and "insert_schedule (schedule_entry c (draw i) (i + 1) (dates ! i)
          (split_schedule_amount (ct_amount c) (length dates) ! i)) u = Some (t, x)"
      from insert_schedule_Some [OF this(2)] have t: "t = u\<lparr>schedules := schedules u @ [?row i]\<rparr>"
        "sc_id (?row i) \<notin> set (keys sc_id (schedules u))" "0 \<le> sc_amount (?row i)"
        by (simp_all add: schedule_row_at_def)
      have rows: "map ?row [0..<Suc i] = map ?row [0..<i] @ [?row i]" by simp
      show "I (Suc i) t"
        using u t unfolding I_def rows by (auto simp: less_Suc_eq keys_append)
    qed
  qed simp
  then have "tx_triple (\<lambda>t. t = s) (for_each (\<lambda>i. tx_exec (insert_schedule (schedule_entry c (draw i) (i + 1) (dates ! i)
      (split_schedule_amount (ct_amount c) (length dates) ! i)))) [0..<length dates]) (\<lambda>_. I (length dates))"
    by (simp only: start)
  then show "tx_triple (\<lambda>t. t = s) (for_each (\<lambda>i. tx_exec (insert_schedule (schedule_entry c (draw i) (i + 1) (dates ! i)
      (split_schedule_amount (ct_amount c) (length dates) ! i)))) [0..<length dates]) (\<lambda>_. added_schedule s (stored_contract c))"
    by (rule tx_post) (use rows_planned [OF dates assms, of draw] in \<open>auto simp: I_def added_schedule_def\<close>)
qed

lemma tx_create:
  assumes "0 \<le> ct_amount c" and "ct_status c \<in> {''DRAFT'', ''ACTIVE''}"
  shows "tx_triple (\<lambda>t. t = s) (and_then (tx_exec (insert_contract c)) (\<lambda>_.
      if ct_status c = ''ACTIVE'' then create_revenue_schedule c draw else ret ())) (\<lambda>_ t. contract_step s t)"
proof (rule tx_then)
  let ?c = "stored_contract c" and ?s = "s\<lparr>contracts := contracts s @ [stored_contract c]\<rparr>"
  let ?M = "\<lambda>(_ :: unit) t. ct_id c \<notin> set (keys ct_id (contracts s)) \<and> t = ?s"
  show "tx_triple (\<lambda>t. t = s) (tx_exec (insert_contract c)) ?M"
    by (rule tx_exec_rule) (auto simp: insert_contract_def split: if_splits)
  have c: "ct_id ?c = ct_id c" "ct_status ?c = ct_status c" "0 \<le> ct_amount ?c" "numeric 2 (ct_amount ?c) = ct_amount ?c"
    "numeric 8 (ct_rate ?c) = ct_rate ?c"
    using assms(1) by (simp_all add: stored_contract_def numeric_nonneg)
  have finish: "contract_step s t" if "ct_id c \<notin> set (keys ct_id (contracts s))" "t = ?s\<lparr>schedules := schedules s @ ss\<rparr>"
    "ct_status c = ''DRAFT'' \<and> ss = [] \<or> ct_status c = ''ACTIVE'' \<and> planned ?c ss" "distinct (keys sc_id ss)"
    "set (keys sc_id ss) \<inter> set (keys sc_id (schedules s)) = {}" for t ss
    by (rule contract_step.created [where c = ?c and ss = ss]) (use that c in auto)
  show "tx_triple (?M x) (if ct_status c = ''ACTIVE'' then create_revenue_schedule c draw else ret ())
      (\<lambda>_ t. contract_step s t)" for x
  proof (rule tx_pre_conj, rule tx_if)
    assume "ct_status c = ''ACTIVE''" and "ct_id c \<notin> set (keys ct_id (contracts s))"
    then show "tx_triple (\<lambda>t. t = ?s) (create_revenue_schedule c draw) (\<lambda>_ t. contract_step s t)"
      by (intro tx_post [OF tx_schedule [OF assms(1)]]) (auto simp: added_schedule_def intro!: finish)
  next
    assume "ct_status c \<noteq> ''ACTIVE''" and "ct_id c \<notin> set (keys ct_id (contracts s))"
    then show "tx_triple (\<lambda>t. t = ?s) (ret ()) (\<lambda>_ t. contract_step s t)"
      using assms(2) by (intro tx_ret finish [of _ "[]"]) (auto simp: keys_def)
  qed
qed

text \<open>What \<open>ActivateContract\<close> has read stays true of the contract: its terms never change.\<close>

definition same_terms :: "string \<Rightarrow> contract_row \<Rightarrow> crm_tables \<Rightarrow> bool" where
  "same_terms i b t \<longleftrightarrow> (\<exists>c \<in> set (contracts t). ct_id c = i \<and> contract_kept b c)"

definition books_evolve :: "crm_tables \<Rightarrow> crm_tables \<Rightarrow> bool" where
  "books_evolve s t \<longleftrightarrow> (\<forall>c \<in> set (contracts s). \<exists>d \<in> set (contracts t). contract_kept c d) \<and>
     (\<forall>x \<in> set (schedules s). \<exists>y \<in> set (schedules t). sc_id y = sc_id x \<and> sc_contract y = sc_contract x \<and>
        sc_no y = sc_no x \<and> sc_date y = sc_date x \<and> sc_amount y = sc_amount x \<and>
        (sc_sale x \<noteq> None \<longrightarrow> sc_status y = sc_status x \<and> sc_sale y = sc_sale x)) \<and>
     set (sales s) \<subseteq> set (sales t)"

lemma contract_kept_refl: "contract_kept c c"
  by (simp add: contract_kept_def)

lemma contract_kept_trans: "contract_kept b c \<Longrightarrow> contract_kept c d \<Longrightarrow> contract_kept b d"
  by (auto simp: contract_kept_def)

lemma books_evolve_refl: "books_evolve s s"
  unfolding books_evolve_def using contract_kept_refl by blast

lemma books_evolve_trans:
  assumes "books_evolve s t" and "books_evolve t u"
  shows "books_evolve s u"
  unfolding books_evolve_def
proof (intro conjI ballI)
  fix c assume "c \<in> set (contracts s)"
  with assms(1) obtain d where d: "d \<in> set (contracts t)" "contract_kept c d" by (auto simp: books_evolve_def)
  with assms(2) obtain e where "e \<in> set (contracts u)" "contract_kept d e" by (auto simp: books_evolve_def)
  with d show "\<exists>d \<in> set (contracts u). contract_kept c d" by (blast intro: contract_kept_trans)
next
  fix x assume "x \<in> set (schedules s)"
  with assms(1) obtain y where y: "y \<in> set (schedules t)" "sc_id y = sc_id x \<and> sc_contract y = sc_contract x \<and>
      sc_no y = sc_no x \<and> sc_date y = sc_date x \<and> sc_amount y = sc_amount x \<and>
      (sc_sale x \<noteq> None \<longrightarrow> sc_status y = sc_status x \<and> sc_sale y = sc_sale x)" unfolding books_evolve_def by blast
  from assms(2) y(1) obtain z where z: "z \<in> set (schedules u)" "sc_id z = sc_id y \<and> sc_contract z = sc_contract y \<and>
      sc_no z = sc_no y \<and> sc_date z = sc_date y \<and> sc_amount z = sc_amount y \<and>
      (sc_sale y \<noteq> None \<longrightarrow> sc_status z = sc_status y \<and> sc_sale z = sc_sale y)" unfolding books_evolve_def by blast
  from y(2) z(2) have "sc_id z = sc_id x \<and> sc_contract z = sc_contract x \<and> sc_no z = sc_no x \<and>
      sc_date z = sc_date x \<and> sc_amount z = sc_amount x \<and>
      (sc_sale x \<noteq> None \<longrightarrow> sc_status z = sc_status x \<and> sc_sale z = sc_sale x)" by simp
  with z(1) show "\<exists>y \<in> set (schedules u). sc_id y = sc_id x \<and> sc_contract y = sc_contract x \<and> sc_no y = sc_no x \<and>
      sc_date y = sc_date x \<and> sc_amount y = sc_amount x \<and>
      (sc_sale x \<noteq> None \<longrightarrow> sc_status y = sc_status x \<and> sc_sale y = sc_sale x)" by blast
qed (use assms in \<open>auto simp: books_evolve_def\<close>)

lemma books_evolveI:
  assumes "\<And>c. c \<in> set (contracts s) \<Longrightarrow> \<exists>d \<in> set (contracts t). contract_kept c d"
    and "set (schedules s) \<subseteq> set (schedules t)" and "set (sales s) \<subseteq> set (sales t)"
  shows "books_evolve s t"
  using assms unfolding books_evolve_def by blast

lemma contract_step_evolves:
  assumes "contract_step s t" and ok: "revenue_ok s"
  shows "books_evolve s t"
  using assms(1)
proof (cases rule: contract_step.cases)
  case other
  then show ?thesis by (intro books_evolveI) (auto intro: contract_kept_refl)
next
  case revised
  then show ?thesis
    by (intro books_evolveI) (fastforce dest: list_all2_mem)+
next
  case (sold x)
  then show ?thesis by (intro books_evolveI) (auto intro: contract_kept_refl)
next
  case (created c ss)
  then show ?thesis by (intro books_evolveI) (auto intro: contract_kept_refl)
next
  case (activated c i v now actor ss)
  let ?f = "\<lambda>c. c\<lparr>ct_status := ''ACTIVE'', ct_activated := Some now, ct_updated_by := actor, ct_updated := now,
         ct_version := ct_version c + 1\<rparr>"
  have "\<exists>d \<in> set (contracts t). contract_kept e d" if "e \<in> set (contracts s)" for e
  proof (cases "ct_id e = i \<and> ct_status e = ''DRAFT'' \<and> ct_version e = v")
    case True
    then have "?f e \<in> set (contracts t)" using that activated(5) by (auto simp: set_update_where)
    moreover have "contract_kept e (?f e)" using True by (simp add: contract_kept_def)
    ultimately show ?thesis by blast
  next
    case False
    then have "e \<in> set (contracts t)" using that activated(5) by (auto simp: set_update_where)
    then show ?thesis using contract_kept_refl by blast
  qed
  then show ?thesis using activated(9,10) by (intro books_evolveI) auto
next
  case (recognized r i now x)
  let ?f = "\<lambda>s. s\<lparr>sc_status := ''RECOGNIZED'', sc_sale := Some (sl_id x), sc_recognized := Some now\<rparr>"
  have inj: "inj_on sc_id (set (schedules s))" using ok by (simp add: revenue_ok_def keys_def distinct_map)
  have open': "sc_sale r = None" using ok recognized(2,4) by (auto simp: revenue_ok_def entry_ok_def)
  have "\<exists>z \<in> set (schedules t). sc_id z = sc_id y \<and> sc_contract z = sc_contract y \<and> sc_no z = sc_no y \<and>
      sc_date z = sc_date y \<and> sc_amount z = sc_amount y \<and>
      (sc_sale y \<noteq> None \<longrightarrow> sc_status z = sc_status y \<and> sc_sale z = sc_sale y)" if y: "y \<in> set (schedules s)" for y
  proof (cases "sc_id y = i")
    case True
    have "y = r" by (rule inj_onD [OF inj _ y recognized(2)]) (simp add: True recognized(3))
    moreover have "?f y \<in> set (schedules t)" using y True recognized(5) by (auto simp: set_update_where)
    ultimately show ?thesis using open' by (intro bexI [of _ "?f y"]) auto
  next
    case False
    then have "y \<in> set (schedules t)" using y recognized(5) by (auto simp: set_update_where)
    then show ?thesis by blast
  qed
  then show ?thesis using recognized(1,7) contract_kept_refl unfolding books_evolve_def by auto
qed

text \<open>From consistent tables, every step leads to consistent tables that continue them.\<close>

definition continues :: "crm_tables \<Rightarrow> crm_tables \<Rightarrow> bool" where
  "continues s t \<longleftrightarrow> (revenue_ok s \<longrightarrow> revenue_ok t \<and> books_evolve s t)"

interpretation rh: shared_history contract_step contract_step continues
  by unfold_locales
    (auto simp: continues_def intro: books_evolve_refl books_evolve_trans contract_step_ok contract_step_evolves)

section \<open>Every operation takes only such steps\<close>

lemma keeps_crm_audit: "keeps R contract_step (crm_audit p channel ci action resource rid)"
  unfolding crm_audit_def record_audit_def by (intro keeps_rules) (auto intro: contract_step.other)

lemma keeps_get_customer: "keeps R G (get_customer p cid)"
  unfolding get_customer_def require_then by (intro keeps_rules)

lemma keeps_get_opportunity: "keeps R G (get_opportunity p oid)"
  unfolding get_opportunity_def require_then by (intro keeps_rules)

lemma keeps_get_contract: "keeps R G (get_contract p cid)"
  unfolding get_contract_def require_then by (intro keeps_rules)

lemma keeps_list_schedules: "keeps R G (list_revenue_schedules p cid today)"
  unfolding list_revenue_schedules_def by (intro keeps_rules keeps_then keeps_get_contract)

lemma contract_terms_status:
  "contract_terms x = Inr (b, e, currency, rate, ty, status, days) \<Longrightarrow> status \<in> {''DRAFT'', ''ACTIVE''}"
  by (auto simp: contract_terms_def Let_def split: sum.splits prod.splits if_splits)

lemma keeps_create_contract: "keeps R contract_step (create_contract p x channel ci stamp random cid draw now)"
proof -
  have commit: "keeps R contract_step (in_tx (and_then
      (tx_exec (insert_contract (new_contract p x cid no currency rate b e status ty days now))) (\<lambda>_.
        if status = ''ACTIVE'' then create_revenue_schedule (new_contract p x cid no currency rate b e status ty days now) draw
        else ret ())))"
    if "status \<in> {''DRAFT'', ''ACTIVE''}" "\<not> ci_amount x < 0" for no currency rate b e status ty days
    using tx_create [of "new_contract p x cid no currency rate b e status ty days now"] that
    by (intro keeps_in_tx) (simp add: new_contract_def)
  show ?thesis
    unfolding create_contract_def require_then Let_def
    by (intro keeps_rules keeps_then commit keeps_get_customer keeps_get_opportunity keeps_get_contract keeps_crm_audit)
      (auto dest: contract_terms_status)
qed

lemma tx_recognize: "tx_triple (\<lambda>t. t = s) (recognize_tx c sid sale d now) (\<lambda>_ t. contract_step s t)"
  unfolding recognize_tx_def
proof (rule tx_then, rule tx_row_rule)
  let ?M = "\<lambda>r t. r \<in> set (schedules s) \<and> sc_id r = sid \<and> sc_contract r = ct_id c \<and> t = s"
  show "?M r t" if "t = s" "List.find (\<lambda>s. sc_id s = sid \<and> sc_contract s = ct_id c) (schedules t) = Some r" for r t
    using that find_Some_mem by force
  fix r
  let ?x = "stored_sale (schedule_sale c r sale d)"
  let ?N = "\<lambda>(_ :: unit) t. ?M r s \<and> sc_status r = ''PLANNED'' \<and> sale \<notin> set (keys sl_id (sales s)) \<and>
      t = s\<lparr>sales := sales s @ [?x]\<rparr>"
  show "tx_triple (?M r) (and_then (check (sc_status r = ''PLANNED'') Already_recognized) (\<lambda>_.
      and_then (tx_exec (insert_sale (schedule_sale c r sale d))) (\<lambda>_. tx_exec (recognize_update sid sale now))))
      (\<lambda>_ t. contract_step s t)"
  proof (rule tx_check_then, rule tx_then [where M = ?N])
    assume "sc_status r = ''PLANNED''"
    then show "tx_triple (?M r) (tx_exec (insert_sale (schedule_sale c r sale d))) ?N"
      by (intro tx_exec_rule) (auto simp: insert_sale_def schedule_sale_def split: if_splits)
    fix u :: unit
    show "tx_triple (?N u) (tx_exec (recognize_update sid sale now)) (\<lambda>_ t. contract_step s t)"
    proof (rule tx_exec_rule)
      fix v t and y :: unit assume v: "?N u v" and t: "recognize_update sid sale now v = Some (t, y)"
      have x: "sl_id ?x = sale" "sl_contract ?x = Some (ct_id c)" "sl_amount ?x = numeric 2 (sc_amount r)"
        "sl_currency ?x = sc_currency r" "sl_rate ?x = numeric 8 (sc_rate r)"
        by (simp_all add: stored_sale_def schedule_sale_def)
      show "contract_step s t"
        by (rule contract_step.recognized [where s = r and i = sid and x = ?x and now = now])
          (use v t x in \<open>auto simp: recognize_update_def\<close>)
    qed
  qed
qed

lemma keeps_recognize:
  "keeps R contract_step (recognize_revenue_schedule p sid day channel ci clock today sale now)"
  unfolding recognize_revenue_schedule_def require_then
  by (intro keeps_rules keeps_then keeps_get_contract keeps_list_schedules keeps_crm_audit keeps_in_tx tx_recognize)

lemma renewal_step:
  "renewal_update actor cid status action version now s = Some (t, n) \<Longrightarrow> contract_step s t"
  unfolding renewal_update_def Let_def
  by (rule contract_step.revised) (auto simp: update_where_def list_all2_conv_all_nth contract_kept_def)

lemma keeps_renewal: "keeps R contract_step (update_contract_renewal p cid status action version channel ci now)"
  unfolding update_contract_renewal_def require_then Let_def
  by (intro keeps_rules keeps_then keeps_get_contract keeps_crm_audit) (rule renewal_step)

lemma keeps_create_sale: "keeps R contract_step (create_sale p x channel ci sid)"
  unfolding create_sale_def require_then Let_def
  by (intro keeps_rules keeps_then keeps_get_customer keeps_crm_audit)
    (force simp: insert_sale_def stored_sale_def split: if_splits intro!: contract_step.sold)

lemma same_terms_self: "c \<in> set (contracts t) \<Longrightarrow> ct_id c = i \<Longrightarrow> same_terms i c t"
  unfolding same_terms_def using contract_kept_refl by blast

lemma stable_terms: "stable contract_step (\<lambda>t. revenue_ok t \<and> same_terms i b t)"
proof (rule stableI)
  fix s t assume s: "revenue_ok s \<and> same_terms i b s" and step: "contract_step s t"
  from s obtain c where c: "c \<in> set (contracts s)" "ct_id c = i" "contract_kept b c" by (auto simp: same_terms_def)
  with contract_step_evolves [OF step] s obtain d where "d \<in> set (contracts t)" "contract_kept c d"
    by (auto simp: books_evolve_def)
  with c have "same_terms i b t" unfolding same_terms_def
    by (intro bexI [of _ d]) (auto simp: contract_kept_def)
  with contract_step_ok [OF step] s show "revenue_ok t \<and> same_terms i b t" by blast
qed

lemma planned_kept:
  assumes "contract_kept b c" and "numeric 2 (ct_amount c) = ct_amount c" and "planned (stored_contract b) ss"
  shows "planned c ss"
  using assms by (simp add: planned_def contract_kept_def stored_contract_def)

lemma tx_activate:
  assumes ok: "revenue_ok s" and terms: "same_terms cid b s"
  shows "tx_triple (\<lambda>t. t = s) (activate_tx p b cid version draw now) (\<lambda>_ t. contract_step s t)"
proof -
  let ?P = "\<lambda>c. ct_id c = cid \<and> ct_status c = ''DRAFT'' \<and> ct_version c = version"
  let ?s = "s\<lparr>contracts := update_where ?P (\<lambda>c. c\<lparr>ct_status := ''ACTIVE'', ct_activated := Some now,
      ct_updated_by := user_id p, ct_updated := now, ct_version := ct_version c + 1\<rparr>) (contracts s)\<rparr>"
  from terms obtain c where c: "c \<in> set (contracts s)" "ct_id c = cid" "contract_kept b c"
    by (auto simp: same_terms_def)
  have amount: "0 \<le> ct_amount b" "numeric 2 (ct_amount c) = ct_amount c"
    using ok c by (auto simp: revenue_ok_def contract_ok_def contract_kept_def)
  have inj: "inj_on ct_id (set (contracts s))" using ok by (simp add: revenue_ok_def keys_def distinct_map)
  have commit: "tx_triple (\<lambda>t. t = ?s) (create_revenue_schedule b draw) (\<lambda>_ t. contract_step s t)"
    if n: "count_where ?P (contracts s) \<noteq> 0"
  proof (rule tx_post [OF tx_schedule [OF amount(1)]])
    fix t assume "added_schedule ?s (stored_contract b) t"
    then obtain ss where t: "t = ?s\<lparr>schedules := schedules s @ ss\<rparr>" and p: "planned (stored_contract b) ss"
      and ids: "distinct (keys sc_id ss)" "set (keys sc_id ss) \<inter> set (keys sc_id (schedules s)) = {}"
      by (auto simp: added_schedule_def)
    from n obtain d where d: "d \<in> set (contracts s)" "?P d" unfolding count_where_zero_iff by blast
    have "d = c" by (rule inj_onD [OF inj _ d(1) c(1)]) (simp add: d(2) c(2))
    with d(2) have "ct_status c = ''DRAFT''" "ct_version c = version" by simp_all
    then show "contract_step s t"
      by (rule contract_step.activated [OF c(1,2) _ _ _ planned_kept [OF c(3) amount(2) p] ids]) (simp_all add: t)
  qed
  show ?thesis
    unfolding activate_tx_def
  proof (rule tx_then)
    show "tx_triple (\<lambda>t. t = s) (tx_exec (activate_update (user_id p) cid version now))
        (\<lambda>n t. n = int (count_where ?P (contracts s)) \<and> t = ?s)"
      by (rule tx_exec_rule) (auto simp: activate_update_def Let_def)
    show "tx_triple (\<lambda>t. n = int (count_where ?P (contracts s)) \<and> t = ?s)
        (and_then (check (n \<noteq> 0) Contract_changed) (\<lambda>_. create_revenue_schedule b draw)) (\<lambda>_ t. contract_step s t)" for n
      by (rule tx_pre_conj, rule tx_check_then, rule commit) auto
  qed
qed

lemma rg_activate:
  "rg contract_step contract_step revenue_ok (activate_contract p cid version channel ci draw now) (\<lambda>_ _. True)"
proof -
  have get: "rg contract_step contract_step revenue_ok (get_contract p cid)
      (\<lambda>b t. revenue_ok t \<and> same_terms cid (kv_row b) t)"
    unfolding get_contract_def require_then
    by (intro rg_if rg_raise rg_db_row [OF ri.invariant_stable])
      (auto simp: bind_eq_Some_conv intro!: same_terms_self dest!: find_Some_mem)
  have commit: "rg contract_step contract_step (\<lambda>t. revenue_ok t \<and> same_terms cid (kv_row b) t)
      (in_tx (activate_tx p (kv_row b) cid v draw now)) (\<lambda>_ _. True)" for b :: contract_view and v
    by (rule rg_in_tx [OF stable_terms]) (auto intro: tx_post [OF tx_activate])
  have after: "rg contract_step contract_step (\<lambda>_. True) (and_then (get_contract p cid) (\<lambda>out.
      and_then (crm_audit p channel ci ''ACTIVATE'' ''contract'' cid) (\<lambda>_. ret out))) (\<lambda>_ _. True)"
    unfolding keeps_def [symmetric] by (intro keeps_rules keeps_then keeps_get_contract keeps_crm_audit)
  show ?thesis
    unfolding activate_contract_def Let_def require_then
    by (intro rg_if rg_raise rg_then [OF get] rg_check_then rg_lift_then rg_then [OF commit after])
qed

section \<open>Properties\<close>



definition toy_contract :: contract_row where
  "toy_contract = \<lparr>ct_id = ''k1'', ct_no = ''C-1'', ct_customer = ''c1'', ct_opportunity = None, ct_owner = ''u1'',
     ct_org = None, ct_title = ''Support'', ct_amount = 100, ct_currency = ''KRW'', ct_rate = 1,
     ct_start = Some (Date 2024 1 31), ct_end = Some (Date 2024 3 31), ct_status = ''DRAFT'', ct_auto_renew = False,
     ct_schedule = ''MONTHLY'', ct_notice_days = 90, ct_renewal = ''NOT_STARTED'', ct_action = [],
     ct_activated = None, ct_custom = [], ct_version = 1, ct_updated_by = ''u1'', ct_created = 0, ct_updated = 0\<rparr>"

definition toy_books :: crm_tables where
  "toy_books = toy_crm\<lparr>contracts := [toy_contract]\<rparr>"

definition toy_seller :: principal where
  "toy_seller = acting [''contract:read'', ''contract:write'', ''sales:write'']"

definition toy_active :: "(crm_error err + contract_view) \<times> crm_tables world" where
  "toy_active = activate_contract toy_seller ''k1'' 0 ''WEB'' toy_ci (\<lambda>i. [char_of i]) 5 (calm toy_books)"

lemma toy_books_ok: "revenue_ok toy_books"
proof -
  have "numeric 2 100 = 100" "numeric 8 1 = 1"
    using numeric_int [of 2 100] numeric_int [of 8 1] by simp_all
  then show ?thesis
    by (simp add: revenue_ok_def toy_books_def toy_crm_def empty_crm_def keys_def contract_ok_def of_contract_def toy_contract_def map_filter_simps)
qed

lemma toy_active_schedule:
  "map (\<lambda>s. (sc_date s, sc_amount s)) (schedules (tabs (snd toy_active))) =
     [(Date 2024 1 31, 3334 / 100), (Date 2024 2 29, 3333 / 100), (Date 2024 3 31, 3333 / 100)]"
  by code_simp

lemma calm_relies: "rely_ok contract_step (calm s)"
  by (simp add: rely_ok_def)


text \<open>The first entry is recognized in full; recognizing it again is refused.\<close>

definition toy_recognized :: "(crm_error err + schedule_row) \<times> crm_tables world" where
  "toy_recognized = recognize_revenue_schedule toy_seller [CHR 0x00] [] ''WEB'' toy_ci (Date 2024 2 1) (Date 2024 2 1)
     ''s1'' 9 (calm (tabs (snd toy_active)))"

lemma toy_recognized_once:
  "map (\<lambda>s. (sc_status s, sc_sale s)) (schedules (tabs (snd toy_recognized))) =
     [(''RECOGNIZED'', Some ''s1''), (''PLANNED'', None), (''PLANNED'', None)] \<and>
   map (\<lambda>x. (sl_id x, sl_amount x)) (sales (tabs (snd toy_recognized))) = [(''s1'', 3334 / 100)]"
  by code_simp


end
