(* ===== verification/Crm_Facts.thy ===== *)
theory Crm_Facts
  imports Crm "HOL-Library.Multiset"
begin

text \<open>
  What the customer queries guarantee: a search pattern means what was typed, a cursor leads back
  to its offset, walking the pages yields every selected customer exactly once in the order asked
  for, and a department's scope is exactly its subtree of the organization.
\<close>

section \<open>Search patterns\<close>

declare like.simps [simp del]

lemma like_percent: "like (CHR ''%'' # ps) s \<longleftrightarrow> (\<exists>a b. s = a @ b \<and> like ps b)"
proof (induction s)
  case Nil
  then show ?case by (simp add: like.simps(2) [of "CHR ''%''" ps])
next
  case (Cons c s)
  have "like (CHR ''%'' # ps) (c # s) \<longleftrightarrow> like ps (c # s) \<or> like (CHR ''%'' # ps) s"
    by (simp add: like.simps(2) [of "CHR ''%''" ps])
  also have "\<dots> \<longleftrightarrow> (\<exists>a b. c # s = a @ b \<and> like ps b)"
    unfolding Cons.IH by (metis append_Cons append_Nil neq_Nil_conv list.inject)
  finally show ?case .
qed

lemma like_escaped_char:
  "like ((if c = backslash \<or> c = CHR ''%'' \<or> c = CHR ''_'' then [backslash, c] else [c]) @ r) s \<longleftrightarrow>
     (\<exists>s'. s = c # s' \<and> like r s')"
proof (cases "c = backslash \<or> c = CHR ''%'' \<or> c = CHR ''_''")
  case True
  have "backslash \<noteq> CHR ''%''" by (simp add: backslash_def)
  with True show ?thesis by (cases s) (auto simp: like.simps(2) [of backslash])
next
  case False
  then show ?thesis by (cases s) (auto simp: like.simps(2) [of c])
qed

lemma like_escape: "like (like_escape q @ r) s \<longleftrightarrow> (\<exists>s'. s = q @ s' \<and> like r s')"
proof (induction q arbitrary: s)
  case (Cons c q)
  have "like_escape (c # q) @ r =
      (if c = backslash \<or> c = CHR ''%'' \<or> c = CHR ''_'' then [backslash, c] else [c]) @ (like_escape q @ r)"
    by (simp add: like_escape_def)
  then show ?case using like_escaped_char [of c "like_escape q @ r" s] Cons.IH by auto
qed (simp add: like_escape_def)

lemma like_all: "like ''%'' s"
  using like_percent [of "[]" s] by (auto simp: like.simps)

lemma like_contains: "like (CHR ''%'' # like_escape q @ ''%'') s \<longleftrightarrow> sublist q s"
proof -
  have "like (CHR ''%'' # like_escape q @ ''%'') s \<longleftrightarrow> (\<exists>a b. s = a @ b \<and> like (like_escape q @ ''%'') b)"
    by (rule like_percent)
  also have "\<dots> \<longleftrightarrow> sublist q s"
    unfolding like_escape using like_all by (auto simp: sublist_def)
  finally show ?thesis .
qed

lemma like_pattern: "trim_space q \<noteq> [] \<Longrightarrow> like (search_pattern q) s \<longleftrightarrow> contains_sub s (to_lower (trim_space q))"
  by (simp add: search_pattern_def Let_def like_contains contains_sub_def)

text \<open>
  C28: A search finds exactly the rows whose folded text contains what was typed, whatever
  characters that is: the wildcards of \<open>LIKE\<close> and its escape character in it stand for themselves.
\<close>

theorem search_means_contains:
  assumes "trim_space q \<noteq> []"
  shows "like (search_pattern q) s \<longleftrightarrow> contains_sub s (to_lower (trim_space q))"
  using assms by (rule like_pattern)

theorem search_means_contains_witness:
  "like (search_pattern '' 50% '') ''save 50% now'' \<and> \<not> like (search_pattern ''50%'') ''save 500 now''"
proof -
  have q: "trim_space '' 50% '' = ''50%''" "trim_space ''50%'' = ''50%''" "to_lower ''50%'' = ''50%''" by code_simp+
  then have "like (search_pattern '' 50% '') ''save 50% now'' \<longleftrightarrow> contains_sub ''save 50% now'' ''50%''"
    "like (search_pattern ''50%'') ''save 500 now'' \<longleftrightarrow> contains_sub ''save 500 now'' ''50%''"
    using search_means_contains [of "'' 50% ''"] search_means_contains [of "''50%''"] by simp_all
  moreover have "contains_sub ''save 50% now'' ''50%''" "\<not> contains_sub ''save 500 now'' ''50%''"
    unfolding contains_sub_def by code_simp+
  ultimately show ?thesis by blast
qed

section \<open>Cursors\<close>

lemma trim_plain:
  assumes "set s \<inter> set (concat go_spaces) = {}"
  shows "trim_space s = s"
proof -
  have none: False if "p \<noteq> []" "set p \<subseteq> set s" "set p \<subseteq> set (concat go_spaces)" for p
    using that assms by (cases p) auto
  have sub: "set p \<subseteq> set (concat go_spaces)" if "p \<in> set go_spaces \<or> p \<in> set (map rev go_spaces)" for p
    using that by auto
  have no: "\<not> prefix p s" if "p \<in> set go_spaces" "p \<noteq> []" for p
    using none [OF that(2)] sub [of p] that(1) set_mono_prefix [of p s] by blast
  have nor: "\<not> prefix p (rev s)" if "p \<in> set (map rev go_spaces)" "p \<noteq> []" for p
    using none [OF that(2)] sub [of p] that(1) set_mono_prefix [of p "rev s"] unfolding set_rev by blast
  have "strip_prefixes go_spaces s = s" by (rule strip_prefixes_id) (rule no)
  moreover have "strip_prefixes (map rev go_spaces) (rev s) = rev s" by (rule strip_prefixes_id) (rule nor)
  ultimately show ?thesis by (simp add: trim_space_def)
qed

lemma url_plain: "set url_alphabet \<inter> set (concat go_spaces) = {}"
  by code_simp

lemma b64_plain: "trim_space (b64_encode url_alphabet s) = b64_encode url_alphabet s"
  using trim_plain url_plain b64_encode_chars [OF url_alphabet_good] by (metis disjoint_iff subset_iff)

lemma cursor_roundtrip:
  assumes "0 \<le> n" and "n < 2 ^ 63"
  shows "parse_cursor (next_cursor n) = Inr n"
proof -
  have ne: "b64_encode url_alphabet (''offset:'' @ show_int n) \<noteq> []"
    using b64_roundtrip [OF url_alphabet_good, of "''offset:'' @ show_int n"] by (auto simp: b64_decode_def)
  have dec: "show_int n = show_nat (nat n)" using assms by (simp add: show_int_def)
  have "cut_at CHR '':'' (''offset'' @ CHR '':'' # show_int n) = (''offset'', show_int n, True)"
    by (rule cut_at_append) simp
  moreover have "atoi (show_int n) = Some n"
    using atoi_show_nat [of "nat n"] assms by (simp add: dec)
  ultimately show ?thesis
    using ne assms by (simp add: parse_cursor_def next_cursor_def Let_def b64_plain b64_roundtrip [OF url_alphabet_good])
qed

section \<open>Ordering rows\<close>

text \<open>What a comparison of rows has to satisfy for \<open>ORDER BY\<close> to mean anything.\<close>

locale row_order =
  fixes le :: "'a \<Rightarrow> 'a \<Rightarrow> bool"
  assumes total: "le x y \<or> le y x"
    and trans: "le x y \<Longrightarrow> le y z \<Longrightarrow> le x z"
begin

lemma set_insert_by [simp]: "set (insert_by le x ys) = insert x (set ys)"
  by (induction ys) auto

lemma insert_by_sorted: "sorted_wrt le ys \<Longrightarrow> sorted_wrt le (insert_by le x ys)"
proof (induction ys)
  case (Cons y ys)
  show ?case
  proof (cases "le x y")
    case True
    then show ?thesis using Cons.prems by (auto intro: trans)
  next
    case False
    then have "le y x" using total by blast
    then show ?thesis using Cons False by auto
  qed
qed simp

lemma sort_by_sorted: "sorted_wrt le (sort_by le xs)"
  by (induction xs) (auto simp: sort_by_def insert_by_sorted)

end

lemma mset_insert_by: "mset (insert_by le x ys) = add_mset x (mset ys)"
  by (induction ys) auto

lemma mset_sort_by: "mset (sort_by le xs) = mset xs"
  by (induction xs) (simp_all add: sort_by_def mset_insert_by)

lemma then_id_order: "row_order (then_id desc key)"
  by unfold_locales (auto simp: then_id_def split: if_splits)

lemma by_revenue_order: "row_order (by_revenue desc)"
  by unfold_locales (auto simp: by_revenue_def split: option.splits if_splits)

interpretation co: row_order "customer_order column" for column
  by (simp add: customer_order_def then_id_order by_revenue_order)

section \<open>Walking the pages\<close>

text \<open>A client that follows \<open>nextCursor\<close> until there is no further page.\<close>

fun walk :: "nat \<Rightarrow> principal \<Rightarrow> customer_query \<Rightarrow> crm_tables \<Rightarrow> customer_view list option" where
  "walk 0 p f t = None"
| "walk (Suc n) p f t =
     (case fst (search_customers p f (calm t)) of
        Inl _ \<Rightarrow> None
      | Inr pg \<Rightarrow>
          if pg_more pg then map_option (\<lambda>r. pg_items pg @ r) (walk n p (f\<lparr>cq_cursor := pg_next pg\<rparr>) t)
          else Some (pg_items pg))"

lemma page_limit_pos: "1 \<le> page_limit n" and page_limit_le: "page_limit n \<le> 200"
  by (simp_all add: page_limit_def)

lemma search_calm:
  assumes "has p ''customer:read''" and "parse_cursor (cq_cursor f) = Inr (int k)"
    and "L = nat (page_limit (cq_limit f))"
  shows "fst (search_customers p f (calm t)) =
    Inr \<lparr>pg_items = take L (drop k (customer_rows p f t)), pg_more = (length (drop k (customer_rows p f t)) > L),
      pg_next = (if length (drop k (customer_rows p f t)) > L then next_cursor (int k + page_limit (cq_limit f)) else [])\<rparr>"
proof -
  have L: "nat (page_limit (cq_limit f) + 1) = Suc L" "int L = page_limit (cq_limit f)"
    using page_limit_pos [of "cq_limit f"] assms(3) by simp_all
  have "page_limit (cq_limit f) < int (length (take (Suc L) xs)) \<longleftrightarrow> L < length xs" for xs :: "customer_view list"
    unfolding L(2) [symmetric] by auto
  then show ?thesis
    using assms(1,2) L
    by (simp add: search_customers_def require_then lift_then and_then_calm run_simps ret_calm db_query_calm Let_def
        assms(3) [symmetric] min_absorb1)
qed

lemma rows_cursor [simp]: "customer_rows p (f\<lparr>cq_cursor := c\<rparr>) t = customer_rows p f t"
proof -
  have "selects p (f\<lparr>cq_cursor := c\<rparr>) t = selects p f t"
    by (rule ext) (simp add: selects_def)
  then show ?thesis by (simp add: customer_rows_def)
qed

lemma walk_from:
  assumes "has p ''customer:read''" and "parse_cursor (cq_cursor f) = Inr (int k)"
    and "length (customer_rows p f t) < 2 ^ 62" and "k \<le> length (customer_rows p f t)"
    and "length (drop k (customer_rows p f t)) < n"
  shows "walk n p f t = Some (drop k (customer_rows p f t))"
  using assms(2,3,4,5)
proof (induction n arbitrary: k f)
  case (Suc n)
  let ?R = "drop k (customer_rows p f t)"
  define L where "L = nat (page_limit (cq_limit f))"
  have L: "1 \<le> L" "L \<le> 200" "int L = page_limit (cq_limit f)"
    using page_limit_pos [of "cq_limit f"] page_limit_le [of "cq_limit f"] by (auto simp: L_def)
  note page = search_calm [OF assms(1) Suc.prems(1) L_def, of t]
  show ?case
  proof (cases "length ?R > L")
    case False
    then show ?thesis using page by simp
  next
    case True
    let ?f = "f\<lparr>cq_cursor := next_cursor (int (k + L))\<rparr>"
    have "k + L < length (customer_rows p f t)" using True by simp
    then have "k + L < 2 ^ 62" using Suc.prems(2) by (rule order.strict_trans)
    then have "int (k + L) < 2 ^ 63" by simp
    then have "parse_cursor (cq_cursor ?f) = Inr (int (k + L))"
      using cursor_roundtrip [of "int (k + L)"] by simp
    then have "walk n p ?f t = Some (drop (k + L) (customer_rows p ?f t))"
      by (rule Suc.IH) (use True Suc.prems L(1) in auto)
    moreover have "take L ?R @ drop (k + L) (customer_rows p f t) = ?R"
      by (metis add.commute append_take_drop_id drop_drop)
    ultimately show ?thesis using page True L(3) by simp
  qed
qed simp

lemma map_filter_owner:
  assumes "\<forall>c \<in> set cs. cu_owner c \<in> set (keys u_id (users t))"
  shows "map cv_row (List.map_filter (with_owner t) cs) = cs"
  using assms
proof (induction cs)
  case (Cons c cs)
  then obtain u where "row_by u_id (cu_owner c) (users t) = Some u"
    using row_by_None_iff [of u_id "cu_owner c" "users t"] by auto
  with Cons show ?case by (simp add: with_owner_def)
qed simp

text \<open>
  C10: Following the cursors of a customer search from the first page ends and yields, in the order
  asked for, every customer exactly once that is active, not merged away, inside the caller's data
  scope, not isolated from the caller and matches the filters, and no other customer.
\<close>

theorem paging_complete:
  assumes "has p ''customer:read''" and "cq_cursor f = []"
    and "length (customers t) < 2 ^ 62"
    and "\<forall>c \<in> set (customers t). cu_owner c \<in> set (keys u_id (users t))"
  shows "\<exists>n rows. walk n p f t = Some rows \<and>
    mset (map cv_row rows) = mset (filter (selects p f t) (customers t)) \<and>
    sorted_wrt (customer_order (cq_sort f)) (map cv_row rows)"
proof -
  let ?S = "sort_by (customer_order (cq_sort f)) (filter (selects p f t) (customers t))"
  have perm: "mset ?S = mset (filter (selects p f t) (customers t))" by (rule mset_sort_by)
  then have sub: "set ?S \<subseteq> set (customers t)" by (metis filter_is_subset set_mset_mset)
  then have rows: "map cv_row (customer_rows p f t) = ?S"
    unfolding customer_rows_def using assms(4) by (intro map_filter_owner) blast
  have "length (customer_rows p f t) = length ?S" by (metis length_map rows)
  also have "\<dots> \<le> length (customers t)" by (metis length_filter_le perm size_mset)
  finally have "length (customer_rows p f t) < 2 ^ 62" using assms(3) by simp
  moreover have "parse_cursor (cq_cursor f) = Inr (int 0)" by (simp add: parse_cursor_def assms(2))
  ultimately have "walk (Suc (length (customer_rows p f t))) p f t = Some (drop 0 (customer_rows p f t))"
    by (intro walk_from assms(1)) simp_all
  then show ?thesis using rows perm co.sort_by_sorted by fastforce
qed

section \<open>The scope of a department\<close>

text \<open>An organization lies beneath another if parents lead from it to that one.\<close>

inductive beneath :: "org_row list \<Rightarrow> string \<Rightarrow> string \<Rightarrow> bool" for os where
  self: "beneath os x x"
| child: "o' \<in> set os \<Longrightarrow> o_parent o' = Some y \<Longrightarrow> beneath os y x \<Longrightarrow> beneath os (o_id o') x"

text \<open>An organization chart: ids are unique and no organization is above itself.\<close>

definition chart_ok :: "org_row list \<Rightarrow> (string \<Rightarrow> nat) \<Rightarrow> bool" where
  "chart_ok os depth \<longleftrightarrow> distinct (keys o_id os) \<and>
     (\<forall>o' \<in> set os. \<forall>y. o_parent o' = Some y \<longrightarrow> depth y < depth (o_id o'))"

lemma beneath_trans: "beneath os x y \<Longrightarrow> beneath os y z \<Longrightarrow> beneath os x z"
  by (induction rule: beneath.induct) (auto intro: beneath.child)

lemma org_tree_beneath: "x \<in> set (org_tree n os r) \<Longrightarrow> beneath os x r"
proof (induction n os r arbitrary: x rule: org_tree.induct)
  case (2 n os r)
  show ?case
  proof (cases "x = r")
    case True
    then show ?thesis by (simp add: beneath.self)
  next
    case False
    with "2.prems" obtain o' where o': "o' \<in> set os" "o_parent o' = Some r" "x \<in> set (org_tree n os (o_id o'))"
      by auto
    then have "beneath os x (o_id o')" by (intro "2.IH") auto
    moreover have "beneath os (o_id o') r" using o' by (auto intro: beneath.intros)
    ultimately show ?thesis by (rule beneath_trans)
  qed
qed (simp add: beneath.self)

text \<open>A way down from an organization: each is a child of the one before it.\<close>

fun way_down :: "org_row list \<Rightarrow> string \<Rightarrow> org_row list \<Rightarrow> bool" where
  "way_down os r [] = True"
| "way_down os r (o' # w) = (o' \<in> set os \<and> o_parent o' = Some r \<and> way_down os (o_id o') w)"

definition way_end :: "string \<Rightarrow> org_row list \<Rightarrow> string" where
  "way_end r w = (if w = [] then r else o_id (last w))"

lemma way_down_snoc: "way_down os r (w @ [o']) \<longleftrightarrow> way_down os r w \<and> o' \<in> set os \<and> o_parent o' = Some (way_end r w)"
  by (induction w arbitrary: r) (auto simp: way_end_def)

lemma beneath_way: "beneath os x r \<Longrightarrow> \<exists>w. way_down os r w \<and> way_end r w = x"
proof (induction rule: beneath.induct)
  case (self x)
  show ?case by (rule exI [of _ "[]"]) (simp add: way_end_def)
next
  case (child o' y x)
  then obtain w where "way_down os x w" "way_end x w = y" by blast
  then show ?case using child.hyps by (intro exI [of _ "w @ [o']"]) (simp add: way_down_snoc way_end_def)
qed

lemma way_down_tree: "way_down os r w \<Longrightarrow> length w \<le> n \<Longrightarrow> way_end r w \<in> set (org_tree n os r)"
proof (induction w arbitrary: n r)
  case Nil
  then show ?case by (cases n) (simp_all add: way_end_def)
next
  case (Cons o' w)
  then obtain m where n: "n = Suc m" "length w \<le> m" by (cases n) auto
  have "way_end r (o' # w) = way_end (o_id o') w" by (simp add: way_end_def)
  moreover have "way_end (o_id o') w \<in> set (org_tree m os (o_id o'))"
    using Cons n by simp
  ultimately show ?case using Cons.prems(1) n(1) by auto
qed

lemma way_down_depth: "chart_ok os depth \<Longrightarrow> way_down os r w \<Longrightarrow> x \<in> set w \<Longrightarrow> depth r < depth (o_id x)"
  by (induction w arbitrary: r) (fastforce simp: chart_ok_def)+

lemma way_down_distinct: "chart_ok os depth \<Longrightarrow> way_down os r w \<Longrightarrow> distinct w \<and> set w \<subseteq> set os"
  by (induction w arbitrary: r) (auto dest: way_down_depth)

lemma org_tree_exact:
  assumes "chart_ok os depth"
  shows "x \<in> set (org_tree (length os) os r) \<longleftrightarrow> beneath os x r"
proof
  assume "beneath os x r"
  then obtain w where w: "way_down os r w" "way_end r w = x" using beneath_way by blast
  from way_down_distinct [OF assms w(1)] have "length w \<le> length os"
    by (metis card_length card_mono distinct_card le_trans List.finite_set)
  then show "x \<in> set (org_tree (length os) os r)" using way_down_tree [OF w(1)] w(2) by blast
qed (rule org_tree_beneath)


definition toy_chart :: "org_row list" where
  "toy_chart = [\<lparr>o_id = ''hq'', o_parent = None, o_type = ''COMPANY''\<rparr>,
     \<lparr>o_id = ''d1'', o_parent = Some ''hq'', o_type = ''DEPARTMENT''\<rparr>,
     \<lparr>o_id = ''t1'', o_parent = Some ''d1'', o_type = ''TEAM''\<rparr>,
     \<lparr>o_id = ''t2'', o_parent = Some ''d1'', o_type = ''TEAM''\<rparr>]"

definition toy_member :: "string \<Rightarrow> principal" where
  "toy_member scope = (new_principal ''u1'')\<lparr>organization_id := ''t1'', data_scope := scope\<rparr>"


text \<open>
  A wider scope can show less: where no organization above the caller is of type division, the
  division scope falls back to the caller's own organization, and a row that the department scope
  shows is hidden, although \<open>loadPrincipal\<close> ranks division above department.
\<close>

theorem division_can_hide:
  "scope_rank ''DEPARTMENT'' < scope_rank ''DIVISION'' \<and>
   in_scope (toy_member ''DEPARTMENT'') (empty_crm\<lparr>orgs := toy_chart\<rparr>) ''u9'' (Some ''t2'') \<and>
   \<not> in_scope (toy_member ''DIVISION'') (empty_crm\<lparr>orgs := toy_chart\<rparr>) ''u9'' (Some ''t2'')"
proof -
  have "opt_text ''t1'' = Some ''t1''" by code_simp
  then show ?thesis
    by (simp add: in_scope_def in_scope_tree_def scope_root_def toy_member_def toy_chart_def scope_rank_def
        empty_crm_def new_principal_def)
qed

theorem paging_complete_witness:
  "\<exists>n rows. walk n ((new_principal ''u1'')\<lparr>perm := [''customer:read'']\<rparr>)
     \<lparr>cq_text = [], cq_type = [], cq_grade = [], cq_cursor = [], cq_sort = ''name'', cq_limit = 0\<rparr> empty_crm = Some rows"
proof -
  let ?p = "(new_principal ''u1'')\<lparr>perm := [''customer:read'']\<rparr>"
  let ?f = "\<lparr>cq_text = [], cq_type = [], cq_grade = [], cq_cursor = [], cq_sort = ''name'', cq_limit = 0\<rparr>"
  have "has ?p ''customer:read''" "cq_cursor ?f = []" "length (customers empty_crm) < 2 ^ 62"
    "\<forall>c \<in> set (customers empty_crm). cu_owner c \<in> set (keys u_id (users empty_crm))"
    by (simp_all add: has_iff user_may_def key_allows_iff new_principal_def empty_crm_def)
  from paging_complete [OF this] show ?thesis by blast
qed

end
