(* ===== verification/Crm_Deals.thy ===== *)
theory Crm_Deals
  imports Contracts
begin

text \<open>
  Opportunities, their stages and the activities around them (internal/crm/service.go): creating,
  changing and moving a deal through a pipeline behind the guard of its stage, listing deals and
  activities, and the figures of the dashboard, the forecast and the analysis of won and lost deals.
  The guard is an argument, as the field \<open>StageGuard\<close> of the service is.
\<close>

type_synonym ('z, 'a) crm_on = "('z crm_tables_scheme, crm_error, 'a) go"

section \<open>Input\<close>

definition date_value :: "string option \<Rightarrow> crm_error + date option" where
  "date_value v =
     (case v of
        None \<Rightarrow> Inr None
      | Some s \<Rightarrow> if blank s then Inr None
          else (case parse_date s of None \<Rightarrow> Inl Bad_date | Some d \<Rightarrow> Inr (Some d)))"

text \<open>\<open>Format("2006-01-02")\<close> for the years 0 to 9999.\<close>

definition show_date :: "date \<Rightarrow> string" where
  "show_date d = pad_zeros 4 (show_nat (nat (yr d))) @ ''-'' @ pad_zeros 2 (show_nat (nat (mo d))) @ ''-'' @
     pad_zeros 2 (show_nat (nat (dy d)))"

record opportunity_input =
  oi_name :: string
  oi_customer :: string
  oi_owner :: string
  oi_pipeline :: string
  oi_stage :: string
  oi_amount :: rat
  oi_currency :: string
  oi_rate :: "rat option"
  oi_probability :: "rat option"
  oi_close :: "string option"
  oi_category :: string
  oi_competitor :: string
  oi_next_action :: string
  oi_next_date :: "string option"
  oi_status :: string
  oi_lost :: string
  oi_win :: string
  oi_custom :: "(string \<times> json) list option"
  oi_version :: int

definition validate_opportunity :: "opportunity_input \<Rightarrow> crm_error + unit" where
  "validate_opportunity x =
     (if blank (oi_name x) then Inl Opportunity_incomplete
      else if oi_customer x = [] then Inl Opportunity_incomplete
      else if oi_amount x < 0 then Inl Negative_amount
      else Inr ())"

section \<open>Stored deals\<close>

text \<open>The generated columns \<open>base_expected_amount\<close> and \<open>base_weighted_amount\<close>.\<close>

definition op_base :: "opportunity_row \<Rightarrow> rat" where
  "op_base x = base_amount (op_amount x) (op_rate x)"

definition op_weighted :: "opportunity_row \<Rightarrow> rat" where
  "op_weighted x = numeric 2 (op_amount x * op_rate x * op_probability x / 100)"

definition stored_opportunity :: "opportunity_row \<Rightarrow> opportunity_row" where
  "stored_opportunity x = x\<lparr>op_amount := numeric 2 (op_amount x), op_rate := numeric 8 (op_rate x),
     op_probability := numeric 2 (op_probability x)\<rparr>"

definition opportunity_refused :: "'z crm_tables_scheme \<Rightarrow> opportunity_row \<Rightarrow> bool" where
  "opportunity_refused t x \<longleftrightarrow>
     \<not> refers cu_id (customers t) (Some (op_customer x)) \<or> \<not> refers u_id (users t) (Some (op_owner x)) \<or>
     \<not> refers o_id (orgs t) (op_org x) \<or> \<not> refers pl_id (pipelines t) (Some (op_pipeline x)) \<or>
     \<not> refers st_id (stages t) (Some (op_stage x)) \<or> op_status x \<notin> {''OPEN'', ''WON'', ''LOST''} \<or>
     \<not> fits 18 (op_amount x) \<or> op_rate x \<le> 0 \<or> \<not> fits 12 (op_rate x) \<or> \<not> fits 3 (op_probability x) \<or>
     \<not> fits 18 (op_amount x * op_probability x / 100) \<or> \<not> fits 22 (op_base x) \<or> \<not> fits 22 (op_weighted x)"

definition insert_opportunity :: "opportunity_row \<Rightarrow> 'z crm_tables_scheme \<Rightarrow> ('z crm_tables_scheme \<times> unit) option" where
  "insert_opportunity x t =
     (if op_id x \<in> set (keys op_id (opportunities t)) \<or> opportunity_refused t (stored_opportunity x) then None
      else Some (t\<lparr>opportunities := opportunities t @ [stored_opportunity x]\<rparr>, ()))"

text \<open>\<open>UPDATE opportunities SET \<dots> WHERE id=\<dots> AND version=\<dots>\<close>.\<close>

definition update_opportunity_row :: "string \<Rightarrow> int \<Rightarrow> ('z crm_tables_scheme \<Rightarrow> opportunity_row \<Rightarrow> opportunity_row)
    \<Rightarrow> 'z crm_tables_scheme \<Rightarrow> ('z crm_tables_scheme \<times> int) option" where
  "update_opportunity_row oid version f t =
     (let P = (\<lambda>x. op_id x = oid \<and> op_version x = version); g = (\<lambda>x. stored_opportunity (f t x)) in
      if list_ex (\<lambda>x. P x \<and> opportunity_refused t (g x)) (opportunities t) then None
      else Some (t\<lparr>opportunities := update_where P g (opportunities t)\<rparr>, int (count_where P (opportunities t))))"

section \<open>Stages\<close>

definition active_stage :: "string \<Rightarrow> 'z crm_tables_scheme \<Rightarrow> stage_row option" where
  "active_stage sid t = List.find (\<lambda>s. st_id s = sid \<and> st_active s) (stages t)"

text \<open>The first active stage of the active default pipeline.\<close>

definition default_stage :: "'z crm_tables_scheme \<Rightarrow> stage_row option" where
  "default_stage t =
     (case sort_key st_order (filter (\<lambda>s. st_active s \<and>
         list_ex (\<lambda>q. pl_id q = st_pipeline s \<and> pl_active q \<and> pl_default q) (pipelines t)) (stages t)) of
        [] \<Rightarrow> None | s # _ \<Rightarrow> Some s)"

text \<open>The status a stage dictates, or else the one that was there.\<close>

definition stage_status :: "stage_row \<Rightarrow> string \<Rightarrow> string" where
  "stage_status s status =
     (let status = (if st_won s then ''WON'' else status) in if st_lost s then ''LOST'' else status)"

definition user_org :: "string \<Rightarrow> 'z crm_tables_scheme \<Rightarrow> string option" where
  "user_org uid t = Option.bind (row_by u_id uid (users t)) u_org"

section \<open>Creating a deal\<close>

definition new_opportunity :: "principal \<Rightarrow> opportunity_input \<Rightarrow> string \<Rightarrow> string \<Rightarrow> string option \<Rightarrow> stage_row \<Rightarrow> string \<Rightarrow> rat
    \<Rightarrow> date option \<Rightarrow> date option \<Rightarrow> instant \<Rightarrow> opportunity_row" where
  "new_opportunity p x oid owner org s currency rate close next_day now =
     \<lparr>op_id = oid, op_name = trim_space (oi_name x), op_customer = oi_customer x, op_owner = owner, op_org = org,
      op_pipeline = st_pipeline s, op_stage = st_id s, op_amount = oi_amount x, op_currency = currency, op_rate = rate,
      op_probability = (case oi_probability x of None \<Rightarrow> st_probability s | Some r \<Rightarrow> r), op_close = close,
      op_category = (if oi_category x = [] then st_category s else oi_category x),
      op_competitor = text_column (oi_competitor x), op_next_action = text_column (oi_next_action x),
      op_next_date = next_day, op_status = stage_status s ''OPEN'', op_lost = text_column (oi_lost x),
      op_win = text_column (oi_win x), op_custom = case_option [] id (oi_custom x), op_stage_entered = now,
      op_last_activity = None, op_version = 1, op_updated_by = user_id p, op_created = now, op_updated = now\<rparr>"

definition create_opportunity :: "principal \<Rightarrow> opportunity_input \<Rightarrow> string \<Rightarrow> client_info \<Rightarrow> string \<Rightarrow> instant
    \<Rightarrow> ('z, opportunity_row) crm_on" where
  "create_opportunity p x channel ci oid now =
     and_then (require p ''opportunity:write'') (\<lambda>_.
     and_then (lift (validate_opportunity x)) (\<lambda>_.
     and_then (lift (currency_and_rate (oi_currency x) (oi_rate x))) (\<lambda>(currency, rate).
     let owner = (if oi_owner x = [] \<or> (\<not> is_bootstrap p \<and> \<not> has p ''admin:write'') then user_id p else oi_owner x) in
     and_then (with_err Customer_missing (get_customer p (oi_customer x))) (\<lambda>_.
     and_then (if oi_stage x \<noteq> [] then with_err Bad_stage (db_row (active_stage (oi_stage x)))
        else with_err No_default_pipeline (db_row default_stage)) (\<lambda>s.
     and_then (check (\<not> (oi_pipeline x \<noteq> [] \<and> oi_pipeline x \<noteq> st_pipeline s)) Stage_not_in_pipeline) (\<lambda>_.
     and_then (lift (date_value (oi_close x))) (\<lambda>close.
     and_then (lift (date_value (oi_next_date x))) (\<lambda>next_day.
     and_then (db_exec (\<lambda>t. insert_opportunity
        (new_opportunity p x oid owner (user_org owner t) s currency rate close next_day now) t)) (\<lambda>_.
     and_then (get_opportunity p oid) (\<lambda>out.
     and_then (crm_audit p channel ci ''CREATE'' ''opportunity'' oid) (\<lambda>_. ret out)))))))))))"

section \<open>Changing a deal\<close>

record gate_issue =
  gi_id :: string
  gi_name :: string
  gi_enforcement :: string
  gi_message :: string

record gate_result =
  gr_allowed :: bool
  gr_blocked :: "gate_issue list"
  gr_warnings :: "gate_issue list"

type_synonym 'z stage_guard_fun = "principal \<Rightarrow> string \<Rightarrow> string \<Rightarrow> ('z, gate_result) crm_on"

text \<open>The input with the values of the deal for what is left out.\<close>

definition completed_input :: "opportunity_row \<Rightarrow> opportunity_input \<Rightarrow> opportunity_input" where
  "completed_input before x = x
     \<lparr>oi_name := (if oi_name x = [] then op_name before else oi_name x),
      oi_customer := (if oi_customer x = [] then op_customer before else oi_customer x)\<rparr>"

definition changed_currency :: "opportunity_row \<Rightarrow> opportunity_input \<Rightarrow> crm_error + (string \<times> rat)" where
  "changed_currency before x =
     (let c = to_upper (trim_space (oi_currency x)); currency = (if c = [] then op_currency before else c) in
      case (case oi_rate x of
          Some r \<Rightarrow> Inr r
        | None \<Rightarrow> if currency \<noteq> op_currency before
            then (if currency = base_currency then Inr 1 else Inl Rate_required) else Inr (op_rate before)) of
        Inl e \<Rightarrow> Inl e
      | Inr rate \<Rightarrow> map_sum id (\<lambda>_. (currency, rate)) (validate_currency currency rate))"

text \<open>The row the update writes over the one it finds.\<close>

definition changed_opportunity :: "principal \<Rightarrow> opportunity_row \<Rightarrow> opportunity_input \<Rightarrow> string \<Rightarrow> stage_row \<Rightarrow> string \<Rightarrow> rat
    \<Rightarrow> date option \<Rightarrow> date option \<Rightarrow> instant \<Rightarrow> 'z crm_tables_scheme \<Rightarrow> opportunity_row \<Rightarrow> opportunity_row" where
  "changed_opportunity p before x owner s currency rate close next_day now t o' = o'
     \<lparr>op_name := oi_name x, op_customer := oi_customer x, op_owner := owner, op_org := user_org owner t,
      op_pipeline := st_pipeline s, op_stage := st_id s,
      op_amount := (if oi_amount x = 0 \<and> op_amount before \<noteq> 0 then op_amount before else oi_amount x),
      op_currency := currency, op_rate := rate,
      op_probability := (case oi_probability x of None \<Rightarrow> st_probability s | Some r \<Rightarrow> r), op_close := close,
      op_category := (if oi_category x = [] then st_category s else oi_category x),
      op_competitor := text_column (oi_competitor x), op_next_action := text_column (oi_next_action x),
      op_next_date := next_day,
      op_status := stage_status s (if oi_status x = [] then op_status before else oi_status x),
      op_lost := text_column (oi_lost x), op_win := text_column (oi_win x),
      op_custom := (case oi_custom x of None \<Rightarrow> op_custom before | Some m \<Rightarrow> m),
      op_stage_entered := (if op_stage o' \<noteq> st_id s then now else op_stage_entered o'),
      op_updated_by := user_id p, op_updated := now, op_version := op_version o' + 1\<rparr>"

definition guard_stage :: "'z stage_guard_fun option \<Rightarrow> principal \<Rightarrow> opportunity_row \<Rightarrow> string \<Rightarrow> string \<Rightarrow> ('z, unit) crm_on" where
  "guard_stage guard p before oid sid =
     (case guard of
        None \<Rightarrow> ret ()
      | Some g \<Rightarrow>
          if sid = op_stage before then ret ()
          else and_then (g p oid sid) (\<lambda>gate. check (gr_allowed gate) (Stage_blocked (map gi_message (gr_blocked gate)))))"

text \<open>The logged views of the deal hold the names of their stages, which are read here when they are logged.\<close>

definition stage_name :: "'z crm_tables_scheme \<Rightarrow> string \<Rightarrow> string" where
  "stage_name t sid = case_option [] st_name (row_by st_id sid (stages t))"

definition log_change :: "principal \<Rightarrow> string \<Rightarrow> opportunity_row \<Rightarrow> opportunity_row \<Rightarrow> string \<Rightarrow> instant \<Rightarrow> ('z, unit) crm_on" where
  "log_change p oid before out hid now =
     or_default () (db_exec (\<lambda>t.
       if hid \<in> set (keys oh_id (opportunity_log t)) \<or> \<not> refers op_id (opportunities t) (Some oid) then None
       else Some (t\<lparr>opportunity_log := opportunity_log t @ [\<lparr>oh_id = hid, oh_opportunity = oid,
         oh_type = (if op_stage before \<noteq> op_stage out then ''STAGE_CHANGE'' else ''UPDATE''), oh_before = before,
         oh_after = out, oh_stages = (stage_name t (op_stage before), stage_name t (op_stage out)), oh_by = user_id p, oh_at = now\<rparr>]\<rparr>, ())))"

definition update_opportunity :: "'z stage_guard_fun option \<Rightarrow> principal \<Rightarrow> string \<Rightarrow> opportunity_input \<Rightarrow> string \<Rightarrow> client_info
    \<Rightarrow> string \<Rightarrow> instant \<Rightarrow> ('z, opportunity_row) crm_on" where
  "update_opportunity guard p oid x channel ci hid now =
     and_then (require p ''opportunity:write'') (\<lambda>_.
     and_then (get_opportunity p oid) (\<lambda>before.
     let x = completed_input before x in
     and_then (lift (validate_opportunity x)) (\<lambda>_.
     and_then (lift (changed_currency before x)) (\<lambda>(currency, rate).
     let version = (if oi_version x = 0 then op_version before else oi_version x);
         owner = (if oi_owner x = [] then op_owner before else oi_owner x) in
     and_then (check (\<not> (owner \<noteq> op_owner before \<and> \<not> is_bootstrap p \<and> \<not> has p ''admin:write'')) Owner_change_denied) (\<lambda>_.
     let sid = (if oi_stage x = [] then op_stage before else oi_stage x) in
     and_then (with_err Bad_stage (db_row (\<lambda>t. row_by st_id sid (stages t)))) (\<lambda>s.
     and_then (guard_stage guard p before oid sid) (\<lambda>_.
     and_then (lift (date_value (oi_close x))) (\<lambda>close.
     let close = (if oi_close x = None then op_close before else close) in
     and_then (lift (date_value (oi_next_date x))) (\<lambda>next_day.
     let next_day = (if oi_next_date x = None then op_next_date before else next_day) in
     and_then (db_exec (update_opportunity_row oid version
        (changed_opportunity p before x owner s currency rate close next_day now))) (\<lambda>n.
     and_then (check (n \<noteq> 0) Opportunity_changed) (\<lambda>_.
     and_then (get_opportunity p oid) (\<lambda>out.
     and_then (log_change p oid before out hid now) (\<lambda>_.
     and_then (crm_audit p channel ci ''UPDATE'' ''opportunity'' oid) (\<lambda>_. ret out))))))))))))))"

text \<open>Moving a deal to a stage: an update with everything else as it is.\<close>

definition stage_input :: "opportunity_row \<Rightarrow> string \<Rightarrow> int \<Rightarrow> opportunity_input" where
  "stage_input before sid version =
     \<lparr>oi_name = op_name before, oi_customer = op_customer before, oi_owner = op_owner before, oi_pipeline = [],
      oi_stage = sid, oi_amount = op_amount before, oi_currency = op_currency before, oi_rate = Some (op_rate before),
      oi_probability = None, oi_close = Some (case op_close before of None \<Rightarrow> [] | Some d \<Rightarrow> show_date d), oi_category = [],
      oi_competitor = op_competitor before, oi_next_action = op_next_action before,
      oi_next_date = Some (case op_next_date before of None \<Rightarrow> [] | Some d \<Rightarrow> show_date d), oi_status = [],
      oi_lost = op_lost before, oi_win = op_win before, oi_custom = Some (op_custom before), oi_version = version\<rparr>"

definition change_opportunity_stage :: "'z stage_guard_fun option \<Rightarrow> principal \<Rightarrow> string \<Rightarrow> string \<Rightarrow> int \<Rightarrow> string \<Rightarrow> client_info
    \<Rightarrow> string \<Rightarrow> instant \<Rightarrow> ('z, opportunity_row) crm_on" where
  "change_opportunity_stage guard p oid sid version channel ci hid now =
     and_then (get_opportunity p oid) (\<lambda>before.
     update_opportunity guard p oid (stage_input before sid version) channel ci hid now)"

section \<open>Listing deals\<close>

record opportunity_filter =
  of_text :: string
  of_customer :: string
  of_status :: string
  of_stage :: string
  of_category :: string
  of_cursor :: string
  of_sort :: string
  of_limit :: int
  of_stale :: bool

definition deal_order :: "bool \<Rightarrow> (opportunity_row \<Rightarrow> 'k :: linorder) \<Rightarrow> opportunity_row \<Rightarrow> opportunity_row \<Rightarrow> bool" where
  "deal_order desc key a b \<longleftrightarrow>
     (if desc then key b < key a else key a < key b) \<or> (key a = key b \<and> op_id a \<le> op_id b)"

text \<open>By close date, deals without one last in both directions.\<close>

definition close_order :: "bool \<Rightarrow> opportunity_row \<Rightarrow> opportunity_row \<Rightarrow> bool" where
  "close_order desc a b =
     (case (op_close a, op_close b) of
        (Some x, Some y) \<Rightarrow> (if desc then y < x else x < y) \<or> (x = y \<and> op_id a \<le> op_id b)
      | (Some _, None) \<Rightarrow> True
      | (None, Some _) \<Rightarrow> False
      | (None, None) \<Rightarrow> op_id a \<le> op_id b)"

definition opportunity_order :: "string \<Rightarrow> opportunity_row \<Rightarrow> opportunity_row \<Rightarrow> bool" where
  "opportunity_order column =
     (if column = ''name'' then deal_order False op_name else if column = ''-name'' then deal_order True op_name
      else if column = ''expectedAmount'' then deal_order False op_base
      else if column = ''-expectedAmount'' then deal_order True op_base
      else if column = ''probability'' then deal_order False op_probability
      else if column = ''-probability'' then deal_order True op_probability
      else if column = ''expectedCloseDate'' then close_order False
      else if column = ''-expectedCloseDate'' then close_order True
      else if column = ''updatedAt'' then deal_order False op_updated
      else deal_order True op_updated)"

definition lists_deal :: "principal \<Rightarrow> opportunity_filter \<Rightarrow> instant \<Rightarrow> 'z crm_tables_scheme \<Rightarrow> opportunity_row \<Rightarrow> bool" where
  "lists_deal p f now t x \<longleftrightarrow>
     in_scope p t (op_owner x) (op_org x) \<and>
     (let pat = search_pattern (of_text f) in
        pat = [] \<or> like pat (to_lower (op_name x)) \<or>
        (case row_by cu_id (op_customer x) (customers t) of None \<Rightarrow> False | Some c \<Rightarrow> like pat (to_lower (cu_name c)))) \<and>
     (of_customer f = [] \<or> op_customer x = of_customer f) \<and> (of_status f = [] \<or> op_status x = of_status f) \<and>
     (of_stage f = [] \<or> op_stage x = of_stage f) \<and> (of_category f = [] \<or> op_category x = to_upper (of_category f)) \<and>
     (of_stale f \<longrightarrow> (case op_last_activity x of None \<Rightarrow> True | Some a \<Rightarrow> a < now - 30 * day_ns))"

definition list_opportunities :: "principal \<Rightarrow> opportunity_filter \<Rightarrow> instant \<Rightarrow> date
    \<Rightarrow> ('z, (opportunity_row \<times> string list) page) crm_on" where
  "list_opportunities p f now today =
     and_then (require p ''opportunity:read'') (\<lambda>_.
     let limit = (if of_limit f < 1 \<or> of_limit f > 200 then 50 else of_limit f) in
     and_then (lift (parse_cursor (of_cursor f))) (\<lambda>offset.
     and_then (db_query (\<lambda>t. take (nat (limit + 1)) (drop (nat offset)
       (sort_by (opportunity_order (of_sort f)) (filter (lists_deal p f now t) (opportunities t)))))) (\<lambda>xs.
     let items = map (\<lambda>x. (x, opportunity_health x now today)) xs in
     ret (if int (length items) > limit
       then \<lparr>pg_items = take (nat limit) items, pg_more = True, pg_next = next_cursor (offset + limit)\<rparr>
       else \<lparr>pg_items = items, pg_more = False, pg_next = []\<rparr>))))"

definition pipelines_of :: "principal \<Rightarrow> bool \<Rightarrow> ('z, (pipeline_row \<times> stage_row list) list) crm_on" where
  "pipelines_of p inactive =
     and_then (require p ''opportunity:read'') (\<lambda>_.
     db_query (\<lambda>t. map (\<lambda>q. (q, sort_key st_order (filter (\<lambda>s. st_pipeline s = pl_id q) (stages t))))
       (sort_key (\<lambda>q. if pl_default q then 0 else (1 :: int)) (sort_key pl_name
         (filter (\<lambda>q. pl_active q \<or> inactive) (pipelines t))))))"

section \<open>Activities\<close>

record activity_input =
  ai_customer :: string
  ai_opportunity :: string
  ai_type :: string
  ai_subject :: string
  ai_text :: string
  ai_occurred :: "instant option"
  ai_next_action :: string
  ai_next_date :: "string option"

definition insert_activity :: "activity_row \<Rightarrow> 'z crm_tables_scheme \<Rightarrow> ('z crm_tables_scheme \<times> unit) option" where
  "insert_activity a t =
     (if ac_id a \<in> set (keys ac_id (activities t)) \<or> \<not> refers cu_id (customers t) (ac_customer a) \<or>
         \<not> refers op_id (opportunities t) (ac_opportunity a) \<or> \<not> refers u_id (users t) (Some (ac_owner a)) \<or>
         \<not> refers o_id (orgs t) (ac_org a) then None
      else Some (t\<lparr>activities := activities t @ [a]\<rparr>, ()))"

text \<open>The deal an activity belongs to takes over its time and, when given, its next step.\<close>

definition touched_deal :: "activity_input \<Rightarrow> instant \<Rightarrow> date option \<Rightarrow> instant \<Rightarrow> opportunity_row \<Rightarrow> opportunity_row" where
  "touched_deal x occurred next_day now o' = o'
     \<lparr>op_last_activity := Some occurred,
      op_next_action := (if ai_next_action x = [] then op_next_action o' else ai_next_action x),
      op_next_date := (case next_day of None \<Rightarrow> op_next_date o' | Some d \<Rightarrow> Some d), op_updated := now\<rparr>"

definition get_activity :: "principal \<Rightarrow> string \<Rightarrow> ('z, activity_row) crm_on" where
  "get_activity p aid =
     db_row (\<lambda>t. List.find (\<lambda>a. ac_id a = aid \<and> in_scope p t (ac_owner a) (ac_org a)) (activities t))"

definition add_activity :: "principal \<Rightarrow> activity_input \<Rightarrow> string \<Rightarrow> client_info \<Rightarrow> string \<Rightarrow> instant \<Rightarrow> ('z, activity_row) crm_on" where
  "add_activity p x channel ci aid now =
     and_then (require p ''activity:write'') (\<lambda>_.
     and_then (check (\<not> (blank (ai_subject x) \<or> blank (ai_type x))) Activity_incomplete) (\<lambda>_.
     let occurred = (case ai_occurred x of None \<Rightarrow> now | Some t \<Rightarrow> t) in
     and_then (lift (date_value (ai_next_date x))) (\<lambda>next_day.
     and_then (db_exec (insert_activity
        \<lparr>ac_id = aid, ac_customer = opt_text (ai_customer x), ac_opportunity = opt_text (ai_opportunity x),
         ac_type = to_upper (ai_type x), ac_subject = trim_space (ai_subject x), ac_text = text_column (ai_text x),
         ac_occurred = occurred, ac_next_action = text_column (ai_next_action x), ac_next_date = next_day,
         ac_owner = user_id p, ac_org = opt_text (organization_id p), ac_created = now\<rparr>)) (\<lambda>_.
     and_then (if ai_opportunity x \<noteq> []
        then or_default () (db_exec (writes (\<lambda>t. t\<lparr>opportunities := update_where (\<lambda>o'. op_id o' = ai_opportunity x)
          (touched_deal x occurred next_day now) (opportunities t)\<rparr>)))
        else ret ()) (\<lambda>_.
     and_then (get_activity p aid) (\<lambda>out.
     and_then (crm_audit p channel ci ''CREATE'' ''activity'' aid) (\<lambda>_. ret out)))))))"

definition list_activities :: "principal \<Rightarrow> string \<Rightarrow> string \<Rightarrow> string \<Rightarrow> int \<Rightarrow> ('z, activity_row list) crm_on" where
  "list_activities p customer opportunity ty limit =
     and_then (require p ''activity:read'') (\<lambda>_.
     let limit = (if limit < 1 \<or> limit > 200 then 50 else limit) in
     db_query (\<lambda>t. take (nat limit) (sort_desc ac_occurred (filter (\<lambda>a. in_scope p t (ac_owner a) (ac_org a) \<and>
       (customer = [] \<or> ac_customer a = Some customer) \<and> (opportunity = [] \<or> ac_opportunity a = Some opportunity) \<and>
       (to_upper (trim_space ty) = [] \<or> ac_type a = to_upper (trim_space ty))) (activities t)))))"

section \<open>Figures\<close>

text \<open>The rows of deals a caller's figures count.\<close>

definition scoped_deals :: "principal \<Rightarrow> 'z crm_tables_scheme \<Rightarrow> opportunity_row list" where
  "scoped_deals p t = filter (\<lambda>x. in_scope p t (op_owner x) (op_org x)) (opportunities t)"

definition open_deals :: "principal \<Rightarrow> 'z crm_tables_scheme \<Rightarrow> opportunity_row list" where
  "open_deals p t = filter (\<lambda>x. op_status x = ''OPEN'') (scoped_deals p t)"

definition total :: "('r \<Rightarrow> rat) \<Rightarrow> 'r list \<Rightarrow> rat" where
  "total f xs = sum_list (map f xs)"

definition task_in_scope :: "principal \<Rightarrow> 'z crm_tables_scheme \<Rightarrow> task_row \<Rightarrow> bool" where
  "task_in_scope p t k \<longleftrightarrow>
     data_scope p = ''COMPANY'' \<or> tk_assignee k = user_id p \<or>
     data_scope p = ''TEAM'' \<and> list_ex (\<lambda>u. u_id u = tk_assignee k \<and>
       (u_manager u = Some (user_id p) \<or> u_id u = user_id p)) (users t) \<or>
     data_scope p \<in> {''DEPARTMENT'', ''DIVISION''} \<and> opt_text (organization_id p) \<noteq> None \<and> tk_org k = opt_text (organization_id p)"

record dashboard_figures =
  df_customers :: nat
  df_open :: nat
  df_pipeline :: rat
  df_weighted :: rat
  df_won :: rat
  df_stale :: nat
  df_due :: nat

definition dashboard :: "principal \<Rightarrow> instant \<Rightarrow> instant \<Rightarrow> ('z, dashboard_figures) crm_on" where
  "dashboard p month_start now =
     and_then (require p ''opportunity:read'') (\<lambda>_.
     and_then (or_default 0 (db_query (\<lambda>t. length (filter (\<lambda>c. cu_active c \<and> cu_merged c = None \<and> sees_customer p t c)
       (customers t))))) (\<lambda>customers.
     and_then (db_query (\<lambda>t. let os = open_deals p t in
       (length os, total op_base os, total op_weighted os,
        total op_base (filter (\<lambda>x. op_status x = ''WON'' \<and> op_updated x \<ge> month_start) (scoped_deals p t)),
        length (filter (\<lambda>x. case op_last_activity x of None \<Rightarrow> True | Some a \<Rightarrow> a < now - 30 * day_ns) os)))) (\<lambda>(n, pipe, weighted, won, stale).
     and_then (or_default 0 (db_query (\<lambda>t. length (filter (\<lambda>k. tk_status k = ''OPEN'' \<and>
       (case tk_due k of None \<Rightarrow> False | Some d \<Rightarrow> d < now + 7 * day_ns) \<and> task_in_scope p t k) (tasks t))))) (\<lambda>due.
     ret \<lparr>df_customers = customers, df_open = n, df_pipeline = pipe, df_weighted = weighted, df_won = won, df_stale = stale,
       df_due = due\<rparr>))))"

definition due_actions :: "principal \<Rightarrow> int \<Rightarrow> int \<Rightarrow> instant \<Rightarrow> ('z, task_row list) crm_on" where
  "due_actions p days limit now =
     and_then (require p ''activity:read'') (\<lambda>_.
     let days = (if days < 0 \<or> days > 365 then 7 else days); limit = (if limit < 1 \<or> limit > 200 then 50 else limit) in
     db_query (\<lambda>t. take (nat limit) (sort_key (\<lambda>k. case_option 0 id (tk_due k)) (filter (\<lambda>k. task_in_scope p t k \<and>
       tk_status k = ''OPEN'' \<and> (case tk_due k of None \<Rightarrow> False | Some d \<Rightarrow> d \<le> now + days * day_ns)) (tasks t)))))"

text \<open>\<open>GROUP BY\<close> a text column, in its order: the group, its size and two sums.\<close>

definition grouped :: "('r \<Rightarrow> string) \<Rightarrow> ('r \<Rightarrow> rat) \<Rightarrow> ('r \<Rightarrow> rat) \<Rightarrow> 'r list \<Rightarrow> (string \<times> nat \<times> rat \<times> rat) list" where
  "grouped g a b xs = map (\<lambda>k. let ys = filter (\<lambda>x. g x = k) xs in (k, length ys, total a ys, total b ys)) (sort (remdups (map g xs)))"

record forecast_figures =
  fg_categories :: "(string \<times> nat \<times> rat \<times> rat) list"
  fg_currencies :: "(string \<times> nat \<times> rat \<times> rat) list"
  fg_pipeline :: rat
  fg_weighted :: rat

definition forecast_of :: "principal \<Rightarrow> ('z, forecast_figures) crm_on" where
  "forecast_of p =
     and_then (require p ''forecast:read'') (\<lambda>_.
     and_then (db_query (\<lambda>t. grouped op_category op_base op_weighted (open_deals p t))) (\<lambda>cats.
     and_then (db_query (\<lambda>t. grouped op_currency op_amount op_base (open_deals p t))) (\<lambda>curs.
     ret \<lparr>fg_categories = cats, fg_currencies = curs, fg_pipeline = sum_list (map (\<lambda>(k, n, a, w). a) cats),
       fg_weighted = sum_list (map (\<lambda>(k, n, a, w). w) cats)\<rparr>)))"

definition win_loss :: "principal \<Rightarrow> int \<Rightarrow> (int \<Rightarrow> instant) \<Rightarrow> ('z, nat \<times> nat \<times> rat \<times> rat \<times> rat \<times> int) crm_on" where
  "win_loss p months since =
     and_then (require p ''forecast:read'') (\<lambda>_.
     let months = (if months < 1 \<or> months > 60 then 12 else months) in
     and_then (db_query (\<lambda>t. filter (\<lambda>x. op_updated x \<ge> since months) (scoped_deals p t))) (\<lambda>xs.
     let won = filter (\<lambda>x. op_status x = ''WON'') xs; lost = filter (\<lambda>x. op_status x = ''LOST'') xs;
         n = length won + length lost in
     ret (length won, length lost, total op_base won, total op_base lost,
       if n > 0 then of_nat (length won) / of_nat n * 100 else 0, months)))"

end
