(* ===== verification/Crm_Accounts.thy ===== *)
theory Crm_Accounts
  imports Crm_Deals
begin

text \<open>
  Customers and the people at them (internal/crm/service.go, contacts.go and advanced.go): creating,
  changing and merging customers, contacts, quotations, the view of everything about a customer and
  the search over all of it. A violated unique code is told apart from any other refusal, as the
  service does.
\<close>

section \<open>Customers\<close>

record customer_input =
  cc_name :: string
  cc_registration :: string
  cc_code :: string
  cc_type :: string
  cc_grade :: string
  cc_industry :: string
  cc_website :: string
  cc_phone :: string
  cc_email :: string
  cc_address :: string
  cc_owner :: string
  cc_health :: string
  cc_revenue :: rat
  cc_employees :: int
  cc_custom :: "(string \<times> json) list"
  cc_version :: int

text \<open>The index \<open>customers_customer_code_scope_key\<close>; rows without a code do not take part.\<close>

definition code_taken :: "customer_row \<Rightarrow> customer_row list \<Rightarrow> bool" where
  "code_taken c cs = (cu_code c \<noteq> [] \<and> list_ex (\<lambda>d. cu_id d \<noteq> cu_id c \<and> cu_scope d = cu_scope c \<and> cu_code d = cu_code c) cs)"

definition customer_refused :: "'z crm_tables_scheme \<Rightarrow> customer_row \<Rightarrow> bool" where
  "customer_refused t c \<longleftrightarrow>
     \<not> refers u_id (users t) (Some (cu_owner c)) \<or> \<not> refers o_id (orgs t) (cu_org c) \<or>
     \<not> refers w_id (workspaces t) (cu_home c) \<or>
     (case cu_revenue c of None \<Rightarrow> False | Some r \<Rightarrow> \<not> fits 18 r) \<or>
     (case cu_employees c of None \<Rightarrow> False | Some n \<Rightarrow> n < - (2 ^ 31) \<or> n \<ge> 2 ^ 31)"

text \<open>The result tells a row that was written from one whose code is taken.\<close>

definition insert_customer :: "('z crm_tables_scheme \<Rightarrow> customer_row) \<Rightarrow> 'z crm_tables_scheme \<Rightarrow> ('z crm_tables_scheme \<times> bool) option" where
  "insert_customer new t =
     (let c = new t in
      if cu_id c \<in> set (keys cu_id (customers t)) \<or> customer_refused t c then None
      else if code_taken c (customers t) then Some (t, False)
      else Some (t\<lparr>customers := customers t @ [c]\<rparr>, True))"

text \<open>\<open>customerCodeConflict\<close>: the customer that holds the code is looked up for the sentence only.\<close>

definition code_conflict :: "principal \<Rightarrow> string \<Rightarrow> string \<Rightarrow> ('z, 'a) crm_on" where
  "code_conflict p ws code =
     and_then (call_result (customer_by_code_in p ws code)) (\<lambda>_. raise (App Code_taken))"

definition new_customer :: "principal \<Rightarrow> customer_input \<Rightarrow> string \<Rightarrow> string \<Rightarrow> string \<Rightarrow> string \<Rightarrow> string \<Rightarrow> instant
    \<Rightarrow> 'z crm_tables_scheme \<Rightarrow> customer_row" where
  "new_customer p x cid owner org home scope now t =
     \<lparr>cu_id = cid, cu_name = trim_space (cc_name x), cu_registration = text_column (cc_registration x),
      cu_code = text_column (cc_code x), cu_home = opt_text home,
      cu_type = (if cc_type x = [] then ''PROSPECT'' else cc_type x), cu_grade = text_column (cc_grade x),
      cu_industry = text_column (cc_industry x), cu_website = text_column (cc_website x), cu_phone = text_column (cc_phone x),
      cu_email = text_column (cc_email x), cu_address = text_column (cc_address x), cu_owner = owner,
      cu_org = (case opt_text org of None \<Rightarrow> user_org owner t | Some i \<Rightarrow> Some i),
      cu_health = (if cc_health x = [] then ''NORMAL'' else cc_health x), cu_revenue = Some (numeric 2 (cc_revenue x)),
      cu_employees = Some (cc_employees x), cu_custom = cc_custom x, cu_scope = scope, cu_updated_by = user_id p,
      cu_active = True, cu_merged = None, cu_version = 1, cu_created = now, cu_updated = now\<rparr>"

definition create_customer_in :: "principal \<Rightarrow> customer_input \<Rightarrow> string \<Rightarrow> string \<Rightarrow> string \<Rightarrow> string \<Rightarrow> client_info \<Rightarrow> string
    \<Rightarrow> instant \<Rightarrow> ('z, customer_view) crm_on" where
  "create_customer_in p x org home scope channel ci cid now =
     and_then (require p ''customer:write'') (\<lambda>_.
     and_then (lift (validate_customer (cc_name x) (cc_code x))) (\<lambda>_.
     let scope = (if blank scope then ''GLOBAL'' else scope);
         owner = (if cc_owner x = [] \<or> (\<not> is_bootstrap p \<and> \<not> has p ''admin:write'') then user_id p else cc_owner x) in
     and_then (db_exec (insert_customer (new_customer p x cid owner org home scope now))) (\<lambda>written.
     and_then (if written then ret () else code_conflict p home (cc_code x)) (\<lambda>_.
     and_then (get_customer p cid) (\<lambda>out.
     and_then (crm_audit p channel ci ''CREATE'' ''customer'' cid) (\<lambda>_. ret out))))))"

definition create_customer :: "principal \<Rightarrow> customer_input \<Rightarrow> string \<Rightarrow> client_info \<Rightarrow> string \<Rightarrow> instant \<Rightarrow> ('z, customer_view) crm_on" where
  "create_customer p x channel ci cid now = create_customer_in p x [] [] ''GLOBAL'' channel ci cid now"

text \<open>The row an update writes; the organization follows the owner only when the owner changes.\<close>

definition changed_customer :: "principal \<Rightarrow> customer_row \<Rightarrow> customer_input \<Rightarrow> string \<Rightarrow> instant \<Rightarrow> 'z crm_tables_scheme
    \<Rightarrow> customer_row \<Rightarrow> customer_row" where
  "changed_customer p before x owner now t c = c
     \<lparr>cu_name := trim_space (cc_name x), cu_registration := text_column (cc_registration x),
      cu_type := (if cc_type x = [] then cu_type before else cc_type x), cu_grade := text_column (cc_grade x),
      cu_industry := text_column (cc_industry x), cu_website := text_column (cc_website x), cu_phone := text_column (cc_phone x),
      cu_email := text_column (cc_email x), cu_address := text_column (cc_address x), cu_owner := owner,
      cu_org := (if cu_owner c = owner then cu_org c else user_org owner t),
      cu_health := (if cc_health x = [] then cu_health before else cc_health x), cu_revenue := Some (numeric 2 (cc_revenue x)),
      cu_employees := Some (cc_employees x), cu_custom := cc_custom x, cu_updated_by := user_id p, cu_updated := now,
      cu_version := cu_version c + 1, cu_code := text_column (cc_code x)\<rparr>"

text \<open>\<open>None\<close> as the number of rows: the code is taken.\<close>

definition update_customer_row :: "string \<Rightarrow> int \<Rightarrow> ('z crm_tables_scheme \<Rightarrow> customer_row \<Rightarrow> customer_row)
    \<Rightarrow> 'z crm_tables_scheme \<Rightarrow> ('z crm_tables_scheme \<times> int option) option" where
  "update_customer_row cid version f t =
     (let P = (\<lambda>c. cu_id c = cid \<and> cu_version c = version) in
      if list_ex (\<lambda>c. P c \<and> customer_refused t (f t c)) (customers t) then None
      else if list_ex (\<lambda>c. P c \<and> code_taken (f t c) (customers t)) (customers t) then Some (t, None)
      else Some (t\<lparr>customers := update_where P (f t) (customers t)\<rparr>, Some (int (count_where P (customers t)))))"

definition update_customer :: "principal \<Rightarrow> string \<Rightarrow> customer_input \<Rightarrow> string \<Rightarrow> client_info \<Rightarrow> instant \<Rightarrow> ('z, customer_view) crm_on" where
  "update_customer p cid x channel ci now =
     and_then (require p ''customer:write'') (\<lambda>_.
     and_then (lift (validate_customer (cc_name x) (cc_code x))) (\<lambda>_.
     and_then (get_customer p cid) (\<lambda>b.
     let before = cv_row b; version = (if cc_version x = 0 then cu_version before else cc_version x);
         owner = (if cc_owner x = [] then cu_owner before else cc_owner x) in
     and_then (check (\<not> (owner \<noteq> cu_owner before \<and> \<not> is_bootstrap p \<and> \<not> has p ''admin:write'')) Owner_change_denied) (\<lambda>_.
     and_then (db_exec (update_customer_row cid version (changed_customer p before x owner now))) (\<lambda>r.
     and_then (case r of None \<Rightarrow> code_conflict p (case_option [] id (cu_home before)) (cc_code x) | Some n \<Rightarrow> ret n) (\<lambda>n.
     and_then (check (n \<noteq> 0) Customer_changed) (\<lambda>_.
     and_then (get_customer p cid) (\<lambda>out.
     and_then (crm_audit p channel ci ''UPDATE'' ''customer'' cid) (\<lambda>_. ret out)))))))))"

text \<open>Customers with the same name or registration number.\<close>

definition is_duplicate :: "customer_row \<Rightarrow> customer_row \<Rightarrow> bool" where
  "is_duplicate o' c \<longleftrightarrow> cu_id c \<noteq> cu_id o' \<and>
     (equal_fold (trim_space (cu_name c)) (trim_space (cu_name o')) \<or>
      cu_registration o' \<noteq> [] \<and> cu_registration c = cu_registration o')"

definition duplicate_customers :: "principal \<Rightarrow> string \<Rightarrow> customer_view list crm_op" where
  "duplicate_customers p cid =
     and_then (get_customer p cid) (\<lambda>o'.
     and_then (list_customers p (cu_name (cv_row o')) [] [] 100) (\<lambda>page.
     ret (filter (\<lambda>c. is_duplicate (cv_row o') (cv_row c)) (pg_items page))))"

section \<open>Merging\<close>

definition move_contacts :: "string \<Rightarrow> string \<Rightarrow> 'z crm_tables_scheme \<Rightarrow> 'z crm_tables_scheme" where
  "move_contacts target source t = t\<lparr>contacts := update_where (\<lambda>x. cn_customer x = source) (\<lambda>x. x\<lparr>cn_customer := target\<rparr>) (contacts t)\<rparr>"

definition move_opportunities :: "string \<Rightarrow> string \<Rightarrow> instant \<Rightarrow> 'z crm_tables_scheme \<Rightarrow> 'z crm_tables_scheme" where
  "move_opportunities target source now t = t\<lparr>opportunities := update_where (\<lambda>x. op_customer x = source)
     (\<lambda>x. x\<lparr>op_customer := target, op_updated := now, op_version := op_version x + 1\<rparr>) (opportunities t)\<rparr>"

definition move_activities :: "string \<Rightarrow> string \<Rightarrow> 'z crm_tables_scheme \<Rightarrow> 'z crm_tables_scheme" where
  "move_activities target source t = t\<lparr>activities := update_where (\<lambda>x. ac_customer x = Some source)
     (\<lambda>x. x\<lparr>ac_customer := Some target\<rparr>) (activities t)\<rparr>"

definition move_tasks :: "string \<Rightarrow> string \<Rightarrow> 'z crm_tables_scheme \<Rightarrow> 'z crm_tables_scheme" where
  "move_tasks target source t = t\<lparr>tasks := update_where (\<lambda>x. tk_customer x = Some source)
     (\<lambda>x. x\<lparr>tk_customer := Some target\<rparr>) (tasks t)\<rparr>"

definition move_quotations :: "string \<Rightarrow> string \<Rightarrow> instant \<Rightarrow> 'z crm_tables_scheme \<Rightarrow> 'z crm_tables_scheme" where
  "move_quotations target source now t = t\<lparr>quotations := update_where (\<lambda>x. qt_customer x = source)
     (\<lambda>x. x\<lparr>qt_customer := target, qt_updated := now, qt_version := qt_version x + 1\<rparr>) (quotations t)\<rparr>"

definition move_contracts :: "string \<Rightarrow> string \<Rightarrow> instant \<Rightarrow> 'z crm_tables_scheme \<Rightarrow> 'z crm_tables_scheme" where
  "move_contracts target source now t = t\<lparr>contracts := update_where (\<lambda>x. ct_customer x = source)
     (\<lambda>x. x\<lparr>ct_customer := target, ct_updated := now, ct_version := ct_version x + 1\<rparr>) (contracts t)\<rparr>"

definition move_sales :: "string \<Rightarrow> string \<Rightarrow> 'z crm_tables_scheme \<Rightarrow> 'z crm_tables_scheme" where
  "move_sales target source t = t\<lparr>sales := update_where (\<lambda>x. sl_customer x = source) (\<lambda>x. x\<lparr>sl_customer := target\<rparr>) (sales t)\<rparr>"

definition retire_customer :: "string \<Rightarrow> string \<Rightarrow> string \<Rightarrow> instant \<Rightarrow> 'z crm_tables_scheme \<Rightarrow> 'z crm_tables_scheme" where
  "retire_customer target source actor now t = t\<lparr>customers := update_where (\<lambda>c. cu_id c = source \<and> cu_active c)
     (\<lambda>c. c\<lparr>cu_active := False, cu_merged := Some target, cu_updated_by := actor, cu_updated := now,
        cu_version := cu_version c + 1\<rparr>) (customers t)\<rparr>"

definition insert_merge :: "merge_row \<Rightarrow> 'z crm_tables_scheme \<Rightarrow> ('z crm_tables_scheme \<times> unit) option" where
  "insert_merge m t =
     (if mg_id m \<in> set (keys mg_id (merges t)) \<or> \<not> refers cu_id (customers t) (Some (mg_target m)) \<or>
         \<not> refers cu_id (customers t) (Some (mg_source m)) \<or> \<not> refers u_id (users t) (Some (mg_by m)) then None
      else Some (t\<lparr>merges := merges t @ [m]\<rparr>, ()))"

text \<open>The loop over the statements; a foreign key refuses a target that is gone when a row would move to it.\<close>

definition move_statements :: "string \<Rightarrow> string \<Rightarrow> instant \<Rightarrow> ('z crm_tables_scheme \<Rightarrow> 'z crm_tables_scheme) list" where
  "move_statements target source now =
     [move_contacts target source, move_opportunities target source now, move_activities target source,
      move_tasks target source, move_quotations target source now, move_contracts target source now, move_sales target source]"

definition merge_source :: "principal \<Rightarrow> string \<Rightarrow> string \<Rightarrow> string \<Rightarrow> instant \<Rightarrow> ('z, unit) crm_on" where
  "merge_source p target source mid now =
     and_then (for_each (\<lambda>f. tx_exec (\<lambda>t. if refers cu_id (customers t) (Some target) then Some (f t, ()) else None))
        (move_statements target source now)) (\<lambda>_.
     and_then (tx_exec (writes (retire_customer target source (user_id p) now))) (\<lambda>_.
     tx_exec (insert_merge \<lparr>mg_id = mid, mg_target = target, mg_source = source, mg_by = user_id p, mg_at = now\<rparr>)))"

definition merge_customers :: "principal \<Rightarrow> string \<Rightarrow> string list \<Rightarrow> string \<Rightarrow> client_info \<Rightarrow> (nat \<Rightarrow> string) \<Rightarrow> instant
    \<Rightarrow> ('z, customer_view) crm_on" where
  "merge_customers p target sources channel ci draw now =
     and_then (require p ''customer:write'') (\<lambda>_.
     and_then (get_customer p target) (\<lambda>_.
     and_then (check (\<not> (length sources = 0 \<or> length sources > 20)) Merge_count) (\<lambda>_.
     and_then (for_each (\<lambda>i. and_then (check (sources ! i \<notin> set (target # take i sources)) Merge_not_unique) (\<lambda>_.
        and_then (with_err Source_missing (get_customer p (sources ! i))) (\<lambda>_. ret ()))) [0..<length sources]) (\<lambda>_.
     and_then (in_tx (for_each (\<lambda>i. merge_source p target (sources ! i) (draw i) now) [0..<length sources])) (\<lambda>_.
     and_then (get_customer p target) (\<lambda>out.
     and_then (crm_audit p channel ci ''MERGE'' ''customer'' target) (\<lambda>_. ret out)))))))"

section \<open>Contacts\<close>

record contact_input =
  ni_customer :: string
  ni_name :: string
  ni_title :: string
  ni_department :: string
  ni_email :: string
  ni_phone :: string
  ni_mobile :: string
  ni_decision :: bool
  ni_primary :: bool
  ni_role :: string
  ni_influence :: string
  ni_sentiment :: string
  ni_strength :: "int option"
  ni_power :: "int option"

definition or_text :: "string \<Rightarrow> string \<Rightarrow> string" where
  "or_text d v = (let u = to_upper (trim_space v) in if u = [] then d else u)"

definition normalize_contact :: "contact_input \<Rightarrow> crm_error + contact_input" where
  "normalize_contact x =
     (let y = x\<lparr>ni_name := trim_space (ni_name x), ni_role := or_text ''USER'' (ni_role x),
        ni_influence := or_text ''MEDIUM'' (ni_influence x), ni_sentiment := or_text ''NEUTRAL'' (ni_sentiment x)\<rparr> in
      if blank (ni_name x) then Inl Contact_incomplete
      else if ni_role y \<notin> {''DECISION_MAKER'', ''CHAMPION'', ''INFLUENCER'', ''USER'', ''PROCUREMENT''} then Inl Bad_contact_role
      else if ni_influence y \<notin> {''HIGH'', ''MEDIUM'', ''LOW''} then Inl Bad_influence
      else if ni_sentiment y \<notin> {''SUPPORT'', ''NEUTRAL'', ''OPPOSE''} then Inl Bad_sentiment
      else if (case ni_strength y of None \<Rightarrow> False | Some n \<Rightarrow> n < 0 \<or> n > 100) then Inl Bad_strength
      else if (case ni_power y of None \<Rightarrow> False | Some n \<Rightarrow> n < 0 \<or> n > 100) then Inl Bad_power
      else Inr y)"

text \<open>Decision makers first, then champions, then the primary contact, then by name.\<close>

definition contact_order :: "contact_row list \<Rightarrow> contact_row list" where
  "contact_order xs = sort_key (\<lambda>x. if cn_decision x then 0 else (1 :: int))
     (sort_key (\<lambda>x. if cn_role x = ''CHAMPION'' then 0 else (1 :: int))
       (sort_key (\<lambda>x. if cn_primary x then 0 else (1 :: int)) (sort_key cn_name xs)))"

text \<open>\<open>SearchContacts\<close> joins the customer under \<open>scopeSQL\<close>, not under \<open>CustomerScopeSQL\<close>.\<close>

definition finds_contact :: "principal \<Rightarrow> string \<Rightarrow> string \<Rightarrow> 'z crm_tables_scheme \<Rightarrow> contact_row \<Rightarrow> bool" where
  "finds_contact p pat customer t x \<longleftrightarrow>
     (case row_by cu_id (cn_customer x) (customers t) of None \<Rightarrow> False | Some c \<Rightarrow> in_scope p t (cu_owner c) (cu_org c)) \<and>
     (customer = [] \<or> cn_customer x = customer) \<and>
     (pat = [] \<or> like pat (to_lower (cn_name x)) \<or> like pat (to_lower (cn_email x)))"

definition search_contacts :: "principal \<Rightarrow> string \<Rightarrow> string \<Rightarrow> int \<Rightarrow> ('z, contact_row list) crm_on" where
  "search_contacts p q customer limit =
     and_then (require p ''contact:read'') (\<lambda>_.
     let limit = (if limit < 1 \<or> limit > 200 then 50 else limit) in
     db_query (\<lambda>t. take (nat limit) (contact_order (filter (finds_contact p (search_pattern q) customer t) (contacts t)))))"

definition insert_contact :: "contact_row \<Rightarrow> 'z crm_tables_scheme \<Rightarrow> ('z crm_tables_scheme \<times> unit) option" where
  "insert_contact x t =
     (if cn_id x \<in> set (keys cn_id (contacts t)) \<or> \<not> refers cu_id (customers t) (Some (cn_customer x)) \<or>
         \<not> refers u_id (users t) (Some (cn_owner x)) then None
      else Some (t\<lparr>contacts := contacts t @ [x]\<rparr>, ()))"

definition create_contact :: "principal \<Rightarrow> contact_input \<Rightarrow> string \<Rightarrow> client_info \<Rightarrow> string \<Rightarrow> instant \<Rightarrow> ('z, contact_row) crm_on" where
  "create_contact p x channel ci nid now =
     and_then (require p ''contact:write'') (\<lambda>_.
     and_then (check (ni_customer x \<noteq> []) Contact_incomplete) (\<lambda>_.
     and_then (lift (normalize_contact x)) (\<lambda>x.
     and_then (with_err Customer_missing (get_customer p (ni_customer x))) (\<lambda>_.
     and_then (db_exec (insert_contact
        \<lparr>cn_id = nid, cn_customer = ni_customer x, cn_name = trim_space (ni_name x), cn_title = text_column (ni_title x),
         cn_department = text_column (ni_department x), cn_email = text_column (ni_email x), cn_phone = text_column (ni_phone x),
         cn_mobile = text_column (ni_mobile x), cn_decision = ni_decision x, cn_primary = ni_primary x, cn_role = ni_role x,
         cn_influence = ni_influence x, cn_sentiment = ni_sentiment x, cn_strength = case_option 50 id (ni_strength x),
         cn_power = case_option 50 id (ni_power x), cn_last = None, cn_owner = user_id p, cn_updated_by = user_id p,
         cn_created = now, cn_updated = now\<rparr>)) (\<lambda>_.
     and_then (search_contacts p [] (ni_customer x) 200) (\<lambda>items.
     case List.find (\<lambda>y. cn_id y = nid) items of
       None \<Rightarrow> raise (App Contact_missing)
     | Some y \<Rightarrow> and_then (crm_audit p channel ci ''CREATE'' ''contact'' nid) (\<lambda>_. ret y)))))))"

text \<open>One contact under the caller's scope, through its customer and the first 200 contacts there.\<close>

definition contact_by :: "principal \<Rightarrow> string \<Rightarrow> ('z, contact_row) crm_on" where
  "contact_by p nid =
     and_then (call_result (db_row (\<lambda>t. map_option cn_customer (row_by cn_id nid (contacts t))))) (\<lambda>r.
     case r of
       Inl No_rows \<Rightarrow> raise (App Contact_missing)
     | Inl e \<Rightarrow> raise e
     | Inr cid \<Rightarrow>
         and_then (with_err Contact_missing (get_customer p cid)) (\<lambda>_.
         and_then (search_contacts p [] cid 200) (\<lambda>items.
         case List.find (\<lambda>y. cn_id y = nid) items of None \<Rightarrow> raise (App Contact_missing) | Some y \<Rightarrow> ret y)))"

definition get_contact :: "principal \<Rightarrow> string \<Rightarrow> ('z, contact_row) crm_on" where
  "get_contact p nid = and_then (require p ''contact:read'') (\<lambda>_. contact_by p nid)"

definition update_contact :: "principal \<Rightarrow> string \<Rightarrow> contact_input \<Rightarrow> string \<Rightarrow> client_info \<Rightarrow> instant \<Rightarrow> ('z, contact_row) crm_on" where
  "update_contact p nid x channel ci now =
     and_then (require p ''contact:write'') (\<lambda>_.
     and_then (contact_by p nid) (\<lambda>before.
     and_then (lift (normalize_contact x)) (\<lambda>x.
     and_then (db_exec (writes (\<lambda>t. t\<lparr>contacts := update_where (\<lambda>y. cn_id y = nid) (\<lambda>y. y
        \<lparr>cn_name := ni_name x, cn_title := text_column (ni_title x), cn_department := text_column (ni_department x),
         cn_email := text_column (ni_email x), cn_phone := text_column (ni_phone x), cn_mobile := text_column (ni_mobile x),
         cn_decision := ni_decision x, cn_primary := ni_primary x, cn_role := ni_role x, cn_influence := ni_influence x,
         cn_sentiment := ni_sentiment x, cn_strength := case_option (cn_strength before) id (ni_strength x),
         cn_power := case_option (cn_power before) id (ni_power x), cn_updated_by := user_id p, cn_updated := now\<rparr>)
        (contacts t)\<rparr>))) (\<lambda>_.
     and_then (contact_by p nid) (\<lambda>after.
     and_then (crm_audit p channel ci ''UPDATE'' ''contact'' nid) (\<lambda>_. ret after))))))"

end
