(* ===== verification/Voice.thy ===== *)
theory Voice
  imports Crm "HOL-Library.AList"
begin

text \<open>
  The voice of the customer, part one (internal/voice/workspace.go and the intake half of
  service.go): department workspaces and who may use them, request types, the fields a department
  defines and the check of submitted values. A JSON object is an association list of its members;
  a missing value and JSON's null are told apart as Go's maps do.
\<close>

section \<open>Tables\<close>

record category_row =
  cg_id :: string
  cg_code :: string
  cg_name :: string
  cg_type :: string
  cg_response :: int
  cg_resolution :: int
  cg_sla :: bool
  cg_workspace :: "string option"
  cg_active :: bool
  cg_order :: int

text \<open>A definition of a custom field; \<open>JNull\<close> is no default.\<close>

record field_row =
  fd_id :: string
  fd_entity :: string
  fd_workspace :: "string option"
  fd_key :: string
  fd_label :: string
  fd_type :: string
  fd_required :: bool
  fd_options :: "string list"
  fd_labels :: "(string \<times> string) list"
  fd_default :: json
  fd_phase :: string
  fd_order :: int
  fd_active :: bool

record voice_row =
  v_id :: string
  v_no :: string
  v_customer :: string
  v_contact :: "string option"
  v_opportunity :: "string option"
  v_contract :: "string option"
  v_category :: "string option"
  v_type :: string
  v_channel :: string
  v_title :: string
  v_body :: string
  v_severity :: string
  v_status :: string
  v_owner :: string
  v_org :: "string option"
  v_occurred :: instant
  v_response_due :: "instant option"
  v_resolution_due :: "instant option"
  v_responded :: "instant option"
  v_resolved :: "instant option"
  v_closed :: "instant option"
  v_resolution :: string
  v_cause :: string
  v_preventive :: string
  v_score :: "int option"
  v_comment :: string
  v_fields :: "(string \<times> json) list"
  v_workspace :: "string option"
  v_evidence :: string
  v_knowledge :: string
  v_reviewer :: "string option"
  v_reviewed :: "instant option"
  v_version :: int
  v_updated_by :: string
  v_created :: instant
  v_updated :: instant

record voice_event =
  ve_id :: string
  ve_voice :: string
  ve_type :: string
  ve_from :: string
  ve_to :: string
  ve_note :: string
  ve_actor :: string
  ve_at :: instant

record voice_notice =
  vn_actor :: string
  vn_voice :: string
  vn_recipient :: string

record voice_tables = crm_tables +
  categories :: "category_row list"
  field_defs :: "field_row list"
  voices :: "voice_row list"
  voice_events :: "voice_event list"
  voice_notices :: "voice_notice list"

datatype voice_error =
    Category_missing
  | Workspace_missing
  | Category_inactive
  | Category_needed
  | Voice_title_missing
  | Voice_customer_missing
  | Bad_voice_type
  | Bad_channel
  | Bad_severity
  | Bad_fields
  | Not_a_member
  | Member_only
  | Not_the_owner
  | Voice_changed
  | Bad_status
  | Bad_transition string string
  | Resolution_missing
  | Bad_evidence
  | Other_workspace
  | Evidence_needed
  | Bad_score
  | Cannot_reassign
  | Note_missing
  | Bad_event_type
  | Reviewer_must_be_person
  | Bad_knowledge
  | Not_resolved
  | Already_terminal
  | Unknown_filter
  | Bad_filter
  | No_customer_given
  | Category_invalid
  | Hours_too_small
  | Hours_crossed
  | From_crm crm_error

type_synonym 'a voice_op = "(voice_tables, voice_error, 'a) go"

section \<open>Workspaces and who may use them\<close>

text \<open>The organization argument of the queries, \<open>orgArg\<close>; unlike \<open>nullable\<close> it does not trim.\<close>

definition org_arg :: "principal \<Rightarrow> string option" where
  "org_arg p = (if organization_id p = [] then None else Some (organization_id p))"

text \<open>\<open>VisibleSQL\<close>: the data scope, and isolation of the workspace on top.\<close>

definition sees_voice :: "principal \<Rightarrow> 'z crm_tables_scheme \<Rightarrow> voice_row \<Rightarrow> bool" where
  "sees_voice p t v \<longleftrightarrow>
     in_scope p t (v_owner v) (v_org v) \<and> (is_admin p \<or> \<not> isolated_from p t (v_workspace v))"

definition sales_signal :: "'z crm_tables_scheme \<Rightarrow> voice_row \<Rightarrow> bool" where
  "sales_signal t v = (\<not> list_ex (\<lambda>w. Some (w_id w) = v_workspace v \<and> w_isolated w) (workspaces t))"

text \<open>\<open>workspaceAccessSQL\<close>: the same rule for a workspace itself.\<close>

definition may_use :: "principal \<Rightarrow> 'z crm_tables_scheme \<Rightarrow> workspace_row \<Rightarrow> bool" where
  "may_use p t w \<longleftrightarrow> is_admin p \<or> \<not> w_isolated w \<or> member_of p t (w_org w)"

definition categories_of :: "principal \<Rightarrow> bool \<Rightarrow> category_row list voice_op" where
  "categories_of p inactive =
     and_then (require p ''voice:read'') (\<lambda>_.
     db_query (\<lambda>t. sort_key cg_order (sort_key cg_name (filter (\<lambda>c. (cg_active c \<or> inactive) \<and>
       (case cg_workspace c of None \<Rightarrow> True
        | Some i \<Rightarrow> (case row_by w_id i (workspaces t) of None \<Rightarrow> False | Some w \<Rightarrow> may_use p t w))) (categories t)))))"

text \<open>The fields of a workspace; the empty id stands for requests outside any workspace.\<close>

definition fields_of :: "string \<Rightarrow> field_row list voice_op" where
  "fields_of ws =
     db_query (\<lambda>t. sort_key fd_order (sort_key fd_label (filter (\<lambda>f. fd_entity f = ''VOICE'' \<and> fd_active f \<and>
       case_option [] id (fd_workspace f) = ws) (field_defs t))))"

record workspace_view =
  wv_row :: workspace_row
  wv_fields :: "field_row list"
  wv_categories :: "category_row list"
  wv_sla :: bool

definition workspaces_of :: "principal \<Rightarrow> bool \<Rightarrow> workspace_view list voice_op" where
  "workspaces_of p inactive =
     and_then (require p ''voice:read'') (\<lambda>_.
     and_then (db_query (\<lambda>t. sort_key w_order (sort_key w_name
       (filter (\<lambda>w. (w_active w \<or> inactive) \<and> may_use p t w) (workspaces t))))) (\<lambda>ws.
     and_then (categories_of p inactive) (\<lambda>cs.
     collect (\<lambda>w. and_then (fields_of (w_id w)) (\<lambda>fs.
       let mine = filter (\<lambda>c. cg_workspace c = Some (w_id w)) cs in
       ret \<lparr>wv_row = w, wv_fields = fs, wv_categories = mine, wv_sla = list_ex cg_sla mine\<rparr>)) ws)))"

definition workspace_by :: "principal \<Rightarrow> string \<Rightarrow> workspace_view voice_op" where
  "workspace_by p i =
     and_then (workspaces_of p False) (\<lambda>ws.
     case List.find (\<lambda>v. w_id (wv_row v) = i \<or> equal_fold (w_code (wv_row v)) i) ws of
       None \<Rightarrow> raise (App Workspace_missing) | Some v \<Rightarrow> ret v)"

record field_catalog =
  fc_fields :: "field_row list"
  fc_workspaces :: "workspace_view list"

definition field_catalog_of :: "principal \<Rightarrow> field_catalog voice_op" where
  "field_catalog_of p =
     and_then (workspaces_of p False) (\<lambda>ws. and_then (fields_of []) (\<lambda>fs.
     ret \<lparr>fc_fields = fs, fc_workspaces = ws\<rparr>))"

definition category_by :: "principal \<Rightarrow> string \<Rightarrow> category_row voice_op" where
  "category_by p i =
     and_then (categories_of p True) (\<lambda>cs.
     case List.find (\<lambda>c. cg_id c = i) cs of None \<Rightarrow> raise (App Category_missing) | Some c \<Rightarrow> ret c)"

text \<open>What a request's type decides: its workspace and its field definitions.\<close>

record intake =
  in_category :: "category_row option"
  in_workspace :: "workspace_view option"
  in_fields :: "field_row list"

definition intake_for :: "principal \<Rightarrow> string \<Rightarrow> intake voice_op" where
  "intake_for p cid =
     and_then (if blank cid then ret (None, None)
       else and_then (category_by p (trim_space cid)) (\<lambda>c.
         case cg_workspace c of None \<Rightarrow> ret (Some c, None)
         | Some i \<Rightarrow> and_then (workspace_by p i) (\<lambda>w. ret (Some c, Some w)))) (\<lambda>(c, w).
     and_then (fields_of (case w of None \<Rightarrow> [] | Some v \<Rightarrow> w_id (wv_row v))) (\<lambda>fs.
     ret \<lparr>in_category = c, in_workspace = w, in_fields = fs\<rparr>))"

section \<open>Values of custom fields\<close>

text \<open>The number of runes of a valid UTF-8 text: its bytes that do not continue a rune.\<close>

definition rune_count :: "string \<Rightarrow> nat" where
  "rune_count s = length (filter (\<lambda>c. \<not> (128 \<le> (of_char c :: nat) \<and> (of_char c :: nat) < 192)) s)"

definition value_text :: "json \<Rightarrow> string option" where
  "value_text raw = (case raw of JStr s \<Rightarrow> Some (trim_space s) | JNum r \<Rightarrow> Some (show_dec r) | _ \<Rightarrow> None)"

text \<open>\<open>fieldValue\<close>: \<open>None\<close> is a problem, \<open>JNull\<close> stands for no value.\<close>

definition field_value :: "field_row \<Rightarrow> json \<Rightarrow> json option" where
  "field_value f raw =
     (if fd_type f = ''Select'' then
        (case value_text raw of None \<Rightarrow> None
         | Some v \<Rightarrow> if v = [] then Some JNull else if v \<in> set (fd_options f) then Some (JStr v) else None)
      else if fd_type f = ''Multi Select'' then
        (case raw of
           JArr items \<Rightarrow>
             if list_all (\<lambda>i. (case i of JStr v \<Rightarrow> v | _ \<Rightarrow> []) \<in> set (fd_options f)) items
             then Some (if items = [] then JNull else JArr (map (\<lambda>i. JStr (case i of JStr v \<Rightarrow> v | _ \<Rightarrow> [])) items))
             else None
         | _ \<Rightarrow> None)
      else if fd_type f \<in> {''Number'', ''Money'', ''Percent''} then
        (case raw of
           JNum r \<Rightarrow> Some (JNum r)
         | JStr s \<Rightarrow> if blank s then Some JNull else map_option JNum (parse_float (trim_space s))
         | _ \<Rightarrow> None)
      else if fd_type f = ''Boolean'' then (case raw of JBool b \<Rightarrow> Some (JBool b) | _ \<Rightarrow> None)
      else if fd_type f = ''Date'' then
        (case value_text raw of None \<Rightarrow> None
         | Some v \<Rightarrow> if v = [] then Some JNull else if parse_date v = None then None else Some (JStr v))
      else
        (case value_text raw of None \<Rightarrow> None
         | Some v \<Rightarrow> if v = [] then Some JNull else if rune_count v > 2000 then None else Some (JStr v)))"

text \<open>\<open>m[k] = v\<close> and a copy of one map over another, as the loops over Go's maps do.\<close>

definition put_all :: "(string \<times> json) list \<Rightarrow> (string \<times> json) list \<Rightarrow> (string \<times> json) list" where
  "put_all m kvs = foldl (\<lambda>m (k, v). AList.update k v m) m kvs"

definition last_with_key :: "field_row list \<Rightarrow> string \<Rightarrow> field_row option" where
  "last_with_key defs k = List.find (\<lambda>f. fd_key f = k) (rev defs)"

text \<open>The defaults of a phase for the keys that were not supplied.\<close>

definition phase_defaults :: "field_row list \<Rightarrow> string \<Rightarrow> (string \<times> json) list \<Rightarrow> (string \<times> json option) list" where
  "phase_defaults defs phase values =
     map (\<lambda>f. (fd_key f, field_value f (fd_default f)))
       (filter (\<lambda>f. fd_phase f = phase \<and> fd_default f \<noteq> JNull \<and> map_of values (fd_key f) = None) defs)"

text \<open>A submitted value: a key without definition is a problem; null clears only when not enforced.\<close>

definition checked_values :: "field_row list \<Rightarrow> (string \<times> json) list \<Rightarrow> bool \<Rightarrow> (string \<times> json option) list" where
  "checked_values defs values enforce =
     map (\<lambda>(k, raw). (k, case last_with_key defs k of
        None \<Rightarrow> None | Some f \<Rightarrow> if raw = JNull then Some JNull else field_value f raw)) values"

definition kept_values :: "bool \<Rightarrow> (string \<times> json option) list \<Rightarrow> (string \<times> json) list" where
  "kept_values nulls kvs =
     List.map_filter (\<lambda>(k, v). case v of None \<Rightarrow> None | Some x \<Rightarrow> if x \<noteq> JNull \<or> nulls then Some (k, x) else None) kvs"

definition validate_field_values :: "field_row list \<Rightarrow> string \<Rightarrow> (string \<times> json) list \<Rightarrow> bool
    \<Rightarrow> voice_error + (string \<times> json) list" where
  "validate_field_values defs phase values enforce =
     (let defaults = (if enforce then phase_defaults defs phase values else []);
          checked = checked_values defs values enforce;
          out = put_all (put_all [] (kept_values False defaults)) (kept_values (\<not> enforce) checked);
          missing = (enforce \<and> list_ex (\<lambda>f. fd_phase f = phase \<and> fd_required f \<and> map_of out (fd_key f) = None) defs)
      in if list_ex (\<lambda>(k, v). v = None) (defaults @ checked) \<or> missing then Inl Bad_fields else Inr out)"

definition has_value :: "json option \<Rightarrow> bool" where
  "has_value v =
     (case v of None \<Rightarrow> False | Some JNull \<Rightarrow> False | Some (JStr s) \<Rightarrow> \<not> blank s | Some (JArr xs) \<Rightarrow> xs \<noteq> [] | Some _ \<Rightarrow> True)"

text \<open>The default a field without a value takes, if it has one that means something.\<close>

definition default_taken :: "(string \<times> json) list \<Rightarrow> field_row \<Rightarrow> json option" where
  "default_taken values f =
     (if map_of values (fd_key f) = None \<and> fd_default f \<noteq> JNull then field_value f (fd_default f) else Some JNull)"

definition required_field_defaults :: "field_row list \<Rightarrow> string \<Rightarrow> (string \<times> json) list
    \<Rightarrow> voice_error + (string \<times> json) list" where
  "required_field_defaults defs phase values =
     (let empty = filter (\<lambda>f. fd_phase f = phase \<and> \<not> has_value (map_of values (fd_key f))) defs in
      if list_ex (\<lambda>f. default_taken values f = None) empty then Inl Bad_fields
      else if list_ex (\<lambda>f. default_taken values f = Some JNull \<and> fd_required f) empty then Inl Bad_fields
      else Inr (put_all [] (kept_values False (map (\<lambda>f. (fd_key f, default_taken values f)) empty))))"

definition phase_fields :: "field_row list \<Rightarrow> string \<Rightarrow> field_row list" where
  "phase_fields defs phase = filter (\<lambda>f. fd_phase f = phase) defs"

definition only_defined :: "field_row list \<Rightarrow> (string \<times> json) list \<Rightarrow> (string \<times> json) list" where
  "only_defined defs values =
     put_all [] (List.map_filter (\<lambda>f. map_option (\<lambda>v. (fd_key f, v)) (map_of values (fd_key f))) defs)"

end
