(* ===== verification/Voice_Cases.thy ===== *)
theory Voice_Cases
  imports Voice
begin

text \<open>
  The voice of the customer, part two (internal/voice/service.go and knowledge.go): intake, reading,
  handling and resolving a request, its history of events, and the reviewer's judgement whether the
  case is knowledge. The number of a request is built from the value drawn from the sequence, the
  ids of the events are drawn by index, and \<open>now\<close> is the time of the call.
\<close>

section \<open>Vocabulary and life cycle\<close>

definition voice_types :: "string list" where
  "voice_types = [''COMPLAINT'', ''REQUEST'', ''INQUIRY'', ''DEFECT'', ''PRAISE'', ''CHURN_RISK'']"

definition voice_channels :: "string list" where
  "voice_channels = [''PHONE'', ''EMAIL'', ''VISIT'', ''PORTAL'', ''CHAT'', ''PARTNER'', ''OTHER'']"

definition voice_severities :: "string list" where
  "voice_severities = [''LOW'', ''NORMAL'', ''HIGH'', ''CRITICAL'']"

definition voice_statuses :: "string list" where
  "voice_statuses = [''RECEIVED'', ''IN_REVIEW'', ''IN_PROGRESS'', ''PENDING_CUSTOMER'', ''RESOLVED'', ''CLOSED'', ''REJECTED'']"

definition terminal :: "string \<Rightarrow> bool" where
  "terminal s = (s \<in> {''RESOLVED'', ''CLOSED'', ''REJECTED''})"

definition allowed_transitions :: "string \<Rightarrow> string list" where
  "allowed_transitions s =
     (if s = ''RECEIVED'' then [''IN_REVIEW'', ''IN_PROGRESS'', ''REJECTED'']
      else if s = ''IN_REVIEW'' then [''IN_PROGRESS'', ''PENDING_CUSTOMER'', ''RESOLVED'', ''REJECTED'']
      else if s = ''IN_PROGRESS'' then [''PENDING_CUSTOMER'', ''RESOLVED'', ''REJECTED'']
      else if s = ''PENDING_CUSTOMER'' then [''IN_PROGRESS'', ''RESOLVED'', ''REJECTED'']
      else if s = ''RESOLVED'' then [''CLOSED'', ''IN_PROGRESS'']
      else if s = ''CLOSED'' then [''IN_PROGRESS'']
      else if s = ''REJECTED'' then [''IN_PROGRESS'']
      else [])"

definition can_transition :: "string \<Rightarrow> string \<Rightarrow> bool" where
  "can_transition a b \<longleftrightarrow> a = b \<or> b \<in> set (allowed_transitions a)"

definition cause_evidence_levels :: "string list" where
  "cause_evidence_levels = [''CONFIRMED'', ''PRESUMED'', ''UNIDENTIFIED'']"

definition knowledge_statuses :: "string list" where
  "knowledge_statuses = [''UNREVIEWED'', ''IN_REVIEW'', ''APPROVED'', ''EXCLUDED'']"

definition comment_event_types :: "string list" where
  "comment_event_types = [''CUSTOMER_CONTACT'', ''COMMENT'', ''ESCALATED'']"

fun coalesce :: "string list \<Rightarrow> string" where
  "coalesce [] = []"
| "coalesce (v # vs) = (if \<not> blank v then v else coalesce vs)"

section \<open>Reading\<close>

record voice_view =
  vv_row :: voice_row
  vv_customer :: string
  vv_code :: string
  vv_owner :: string
  vv_category :: string
  vv_sla :: bool
  vv_response_overdue :: bool
  vv_resolution_overdue :: bool
  vv_open_days :: int

definition overdue :: "instant \<Rightarrow> voice_row \<Rightarrow> instant option \<Rightarrow> instant option \<Rightarrow> bool" where
  "overdue now v due met \<longleftrightarrow>
     (case due of None \<Rightarrow> False | Some d \<Rightarrow> met = None \<and> \<not> terminal (v_status v) \<and> d < now)"

definition open_days :: "instant \<Rightarrow> voice_row \<Rightarrow> int" where
  "open_days now v = max 0 (quot ((case v_resolved v of None \<Rightarrow> now | Some r \<Rightarrow> r) - v_occurred v) day_ns)"

text \<open>The joins of \<open>voiceColumns\<close> with what \<open>decorate\<close> computes.\<close>

definition join_voice :: "instant \<Rightarrow> voice_tables \<Rightarrow> voice_row \<Rightarrow> voice_view option" where
  "join_voice now t v =
     (case row_by cu_id (v_customer v) (customers t) of None \<Rightarrow> None
      | Some c \<Rightarrow> (case row_by u_id (v_owner v) (users t) of None \<Rightarrow> None
        | Some u \<Rightarrow>
            let g = Option.bind (v_category v) (\<lambda>i. row_by cg_id i (categories t)) in
            Some \<lparr>vv_row = v, vv_customer = cu_name c, vv_code = cu_code c, vv_owner = u_display_name u,
              vv_category = case_option [] cg_name g, vv_sla = case_option True cg_sla g,
              vv_response_overdue = overdue now v (v_response_due v) (v_responded v),
              vv_resolution_overdue = overdue now v (v_resolution_due v) (v_resolved v),
              vv_open_days = open_days now v\<rparr>))"

record voice_query =
  vq_customer :: string
  vq_workspace :: string
  vq_category :: string
  vq_status :: string
  vq_type :: string
  vq_severity :: string
  vq_owner :: string
  vq_overdue :: bool
  vq_open :: bool
  vq_knowledge :: string
  vq_pending :: bool
  vq_min_days :: int
  vq_limit :: int

definition is_overdue :: "instant \<Rightarrow> voice_row \<Rightarrow> bool" where
  "is_overdue now v \<longleftrightarrow>
     overdue now v (v_response_due v) (v_responded v) \<or> overdue now v (v_resolution_due v) (v_resolved v)"

definition voice_matches :: "voice_query \<Rightarrow> instant \<Rightarrow> voice_row \<Rightarrow> bool" where
  "voice_matches q now v \<longleftrightarrow>
     (vq_customer q = [] \<or> v_customer v = vq_customer q) \<and>
     (vq_status q = [] \<or> v_status v = to_upper (vq_status q)) \<and>
     (vq_type q = [] \<or> v_type v = to_upper (vq_type q)) \<and>
     (vq_severity q = [] \<or> v_severity v = to_upper (vq_severity q)) \<and>
     (vq_owner q = [] \<or> v_owner v = vq_owner q) \<and>
     (vq_open q \<longrightarrow> \<not> terminal (v_status v)) \<and> (vq_overdue q \<longrightarrow> is_overdue now v) \<and>
     (vq_workspace q = [] \<or> v_workspace v = Some (vq_workspace q)) \<and>
     (vq_category q = [] \<or> v_category v = Some (vq_category q)) \<and>
     (vq_knowledge q = [] \<or> v_knowledge v = to_upper (vq_knowledge q)) \<and>
     (vq_pending q \<longrightarrow> v_status v \<in> {''RESOLVED'', ''CLOSED''} \<and> v_knowledge v = ''UNREVIEWED'') \<and>
     (max (vq_min_days q) 0 = 0 \<or>
        \<not> terminal (v_status v) \<and> v_occurred v \<le> now - max (vq_min_days q) 0 * day_ns)"

definition severity_order :: "string \<Rightarrow> int" where
  "severity_order s = (if s = ''CRITICAL'' then 0 else if s = ''HIGH'' then 1 else if s = ''NORMAL'' then 2 else 3)"

text \<open>Open requests first, then by severity, the latest first.\<close>

definition voice_order :: "voice_row list \<Rightarrow> voice_row list" where
  "voice_order vs = sort_key (\<lambda>v. if terminal (v_status v) then 1 else (0 :: int))
     (sort_key (\<lambda>v. severity_order (v_severity v)) (sort_desc v_occurred vs))"

text \<open>The filter by workspace and customer of a list or a summary, as both check it.\<close>

definition checked_filter :: "principal \<Rightarrow> string \<Rightarrow> string \<Rightarrow> string voice_op" where
  "checked_filter p customer ws =
     and_then (if blank ws then ret ws else and_then (workspace_by p ws) (\<lambda>w. ret (w_id (wv_row w)))) (\<lambda>ws.
     and_then (if blank customer then ret () else and_then (get_customer p customer) (\<lambda>c.
       check (\<not> (ws \<noteq> [] \<and> case_option [] id (cu_home (cv_row c)) \<noteq> ws)) Not_a_member)) (\<lambda>_. ret ws))"

definition list_voices :: "principal \<Rightarrow> voice_query \<Rightarrow> instant \<Rightarrow> voice_view list voice_op" where
  "list_voices p q now =
     and_then (require p ''voice:read'') (\<lambda>_.
     let limit = (if vq_limit q < 1 \<or> vq_limit q > 200 then 50 else vq_limit q) in
     and_then (checked_filter p (vq_customer q) (vq_workspace q)) (\<lambda>ws.
     let q = q\<lparr>vq_workspace := ws\<rparr> in
     db_query (\<lambda>t. take (nat limit) (List.map_filter (join_voice now t)
       (voice_order (filter (\<lambda>v. sees_voice p t v \<and> voice_matches q now v) (voices t)))))))"

text \<open>The events of a request with the names of their actors.\<close>

definition events_of :: "string \<Rightarrow> (voice_event \<times> string) list voice_op" where
  "events_of vid = db_query (\<lambda>t. List.map_filter
     (\<lambda>e. map_option (\<lambda>u. (e, u_display_name u)) (row_by u_id (ve_actor e) (users t)))
     (sort_key ve_at (sort_key ve_id (filter (\<lambda>e. ve_voice e = vid) (voice_events t)))))"

definition get_voice_row :: "principal \<Rightarrow> string \<Rightarrow> instant \<Rightarrow> voice_view voice_op" where
  "get_voice_row p vid now = db_row (\<lambda>t.
     Option.bind (List.find (\<lambda>v. v_id v = vid \<and> sees_voice p t v) (voices t)) (join_voice now t))"

definition get_voice :: "principal \<Rightarrow> string \<Rightarrow> instant \<Rightarrow> (voice_view \<times> (voice_event \<times> string) list) voice_op" where
  "get_voice p vid now =
     and_then (require p ''voice:read'') (\<lambda>_.
     and_then (get_voice_row p vid now) (\<lambda>x. and_then (events_of vid) (\<lambda>es. ret (x, es))))"

section \<open>Intake\<close>

record voice_input =
  vi_customer :: string
  vi_contact :: string
  vi_opportunity :: string
  vi_contract :: string
  vi_category :: string
  vi_type :: string
  vi_channel :: string
  vi_title :: string
  vi_body :: string
  vi_severity :: string
  vi_owner :: string
  vi_occurred :: "instant option"
  vi_fields :: "(string \<times> json) list"
  vi_version :: int

definition validate_voice :: "voice_input \<Rightarrow> voice_error + unit" where
  "validate_voice x =
     (if blank (vi_title x) then Inl Voice_title_missing
      else if vi_customer x = [] then Inl Voice_customer_missing
      else if to_upper (vi_type x) \<notin> set voice_types then Inl Bad_voice_type
      else if vi_channel x \<noteq> [] \<and> to_upper (vi_channel x) \<notin> set voice_channels then Inl Bad_channel
      else if vi_severity x \<noteq> [] \<and> to_upper (vi_severity x) \<notin> set voice_severities then Inl Bad_severity
      else Inr ())"

text \<open>The hours to the first response and to the resolution; a severe request is due sooner.\<close>

definition sla_hours :: "int \<times> int \<Rightarrow> string \<Rightarrow> int \<times> int" where
  "sla_hours base severity = (case base of (response, resolution) \<Rightarrow>
     if to_upper severity = ''CRITICAL'' then (min response 2, min resolution 24)
     else if to_upper severity = ''HIGH'' then (min response 4, min resolution 48)
     else (response, resolution))"

definition sla_deadlines :: "string \<Rightarrow> string \<Rightarrow> instant \<Rightarrow> (instant \<times> instant) voice_op" where
  "sla_deadlines cid severity start =
     and_then (if cid = [] then ret (8, 72) else or_default (8, 72) (db_row (\<lambda>t.
       map_option (\<lambda>c. (cg_response c, cg_resolution c)) (row_by cg_id cid (categories t))))) (\<lambda>base.
     case sla_hours base severity of (response, resolution) \<Rightarrow>
       ret (start + hours response, start + hours resolution))"

text \<open>\<open>'VOC-'||year||'-'||lpad(n,6,'0')\<close>: \<open>lpad\<close> pads on the left and cuts a longer text off.\<close>

definition lpad :: "nat \<Rightarrow> string \<Rightarrow> string" where
  "lpad n s = take n (replicate (n - length s) CHR ''0'' @ s)"

definition voice_number :: "nat \<Rightarrow> nat \<Rightarrow> string" where
  "voice_number year n = ''VOC-'' @ show_nat year @ ''-'' @ lpad 6 (show_nat n)"

definition refers_to :: "string list \<Rightarrow> string option \<Rightarrow> bool" where
  "refers_to ks r = (case r of None \<Rightarrow> True | Some k \<Rightarrow> k \<in> set ks)"

definition insert_voice :: "voice_row \<Rightarrow> voice_tables \<Rightarrow> (voice_tables \<times> unit) option" where
  "insert_voice v t =
     (if v_id v \<in> set (keys v_id (voices t)) \<or> v_no v \<in> set (keys v_no (voices t)) \<or>
         \<not> refers_to (keys cu_id (customers t)) (Some (v_customer v)) \<or>
         \<not> refers_to (keys cn_id (contacts t)) (v_contact v) \<or>
         \<not> refers_to (keys op_id (opportunities t)) (v_opportunity v) \<or>
         \<not> refers_to (keys ct_id (contracts t)) (v_contract v) \<or>
         \<not> refers_to (keys cg_id (categories t)) (v_category v) \<or>
         \<not> refers_to (keys u_id (users t)) (Some (v_owner v)) \<or> \<not> refers_to (keys o_id (orgs t)) (v_org v) \<or>
         \<not> refers_to (keys w_id (workspaces t)) (v_workspace v) then None
      else Some (t\<lparr>voices := voices t @ [v]\<rparr>, ()))"

definition append_event :: "string \<Rightarrow> string \<Rightarrow> string \<Rightarrow> string \<Rightarrow> string \<Rightarrow> string \<Rightarrow> string \<Rightarrow> instant
    \<Rightarrow> voice_tables \<Rightarrow> (voice_tables \<times> unit) option" where
  "append_event eid vid ty a b note actor now t =
     (if eid \<in> set (keys ve_id (voice_events t)) \<or> vid \<notin> set (keys v_id (voices t)) \<or>
         actor \<notin> set (keys u_id (users t)) then None
      else Some (t\<lparr>voice_events := voice_events t @ [\<lparr>ve_id = eid, ve_voice = vid, ve_type = ty, ve_from = a,
         ve_to = b, ve_note = trim_space note, ve_actor = actor, ve_at = now\<rparr>]\<rparr>, ()))"

definition notify_assigned :: "bool \<Rightarrow> principal \<Rightarrow> voice_view \<Rightarrow> unit voice_op" where
  "notify_assigned wired p x =
     (if \<not> wired \<or> v_owner (vv_row x) = [] \<or> v_owner (vv_row x) = user_id p then ret ()
      else effect (\<lambda>t. t\<lparr>voice_notices := voice_notices t @
        [\<lparr>vn_actor = user_id p, vn_voice = v_id (vv_row x), vn_recipient = v_owner (vv_row x)\<rparr>]\<rparr>))"

text \<open>The member check of an intake: a workspace's types take only its own customers.\<close>

definition intake_customer :: "intake \<Rightarrow> customer_row \<Rightarrow> voice_error + unit" where
  "intake_customer i c =
     (case in_workspace i of
        Some w \<Rightarrow> if cu_home c \<noteq> Some (w_id (wv_row w)) then Inl Not_a_member else Inr ()
      | None \<Rightarrow> if cu_home c \<noteq> None then Inl Member_only else Inr ())"

definition new_voice :: "principal \<Rightarrow> voice_input \<Rightarrow> intake \<Rightarrow> customer_row \<Rightarrow> string \<Rightarrow> string
    \<Rightarrow> (string \<times> json) list \<Rightarrow> (instant \<times> instant) option \<Rightarrow> instant \<Rightarrow> instant \<Rightarrow> voice_row" where
  "new_voice p x i c vid no values due occurred now =
     \<lparr>v_id = vid, v_no = no, v_customer = vi_customer x, v_contact = opt_text (vi_contact x),
      v_opportunity = opt_text (vi_opportunity x), v_contract = opt_text (vi_contract x),
      v_category = opt_text (vi_category x), v_type = to_upper (vi_type x),
      v_channel = (if to_upper (vi_channel x) = [] then ''PHONE'' else to_upper (vi_channel x)),
      v_title = trim_space (vi_title x), v_body = text_column (vi_body x),
      v_severity = (if to_upper (vi_severity x) = [] then ''NORMAL'' else to_upper (vi_severity x)),
      v_status = ''RECEIVED'',
      v_owner = (if vi_owner x = [] \<or> (\<not> is_bootstrap p \<and> \<not> has p ''voice:manage'') then user_id p else vi_owner x),
      v_org = (case in_workspace i of Some w \<Rightarrow> if w_isolated (wv_row w) then w_org (wv_row w) else cu_org c | None \<Rightarrow> cu_org c),
      v_occurred = occurred, v_response_due = map_option fst due, v_resolution_due = map_option snd due,
      v_responded = None, v_resolved = None, v_closed = None, v_resolution = [], v_cause = [], v_preventive = [],
      v_score = None, v_comment = [], v_fields = values,
      v_workspace = map_option (\<lambda>w. w_id (wv_row w)) (in_workspace i), v_evidence = [], v_knowledge = ''UNREVIEWED'',
      v_reviewer = None, v_reviewed = None, v_version = 1, v_updated_by = user_id p, v_created = now, v_updated = now\<rparr>"

text \<open>The type of the input, taken from the request type where it is left out.\<close>

definition intake_input :: "intake \<Rightarrow> voice_input \<Rightarrow> voice_error + voice_input" where
  "intake_input i x =
     (case in_category i of
        Some c \<Rightarrow> if \<not> cg_active c then Inl Category_inactive
          else Inr (if blank (vi_type x) then x\<lparr>vi_type := cg_type c\<rparr> else x)
      | None \<Rightarrow> if in_workspace i \<noteq> None then Inl Category_needed else Inr x)"

definition create_voice :: "bool \<Rightarrow> principal \<Rightarrow> voice_input \<Rightarrow> string \<Rightarrow> client_info \<Rightarrow> string \<Rightarrow> string \<Rightarrow> string
    \<Rightarrow> instant \<Rightarrow> voice_view voice_op" where
  "create_voice wired p x channel ci vid no eid now =
     and_then (require p ''voice:write'') (\<lambda>_.
     and_then (intake_for p (vi_category x)) (\<lambda>i.
     and_then (lift (intake_input i x)) (\<lambda>x.
     and_then (lift (validate_voice x)) (\<lambda>_.
     and_then (lift (if in_fields i = [] then Inr (vi_fields x)
        else validate_field_values (in_fields i) ''INTAKE'' (vi_fields x) True)) (\<lambda>values.
     and_then (get_customer p (vi_customer x)) (\<lambda>customer.
     and_then (lift (intake_customer i (cv_row customer))) (\<lambda>_.
     let severity = (if to_upper (vi_severity x) = [] then ''NORMAL'' else to_upper (vi_severity x));
         occurred = (case vi_occurred x of None \<Rightarrow> now | Some o' \<Rightarrow> o') in
     and_then (if case_option True cg_sla (in_category i)
        then and_then (sla_deadlines (vi_category x) severity occurred) (\<lambda>d. ret (Some d)) else ret None) (\<lambda>due.
     let v = new_voice p x i (cv_row customer) vid no values due occurred now in
     and_then (in_tx (and_then (tx_exec (insert_voice v)) (\<lambda>_.
        tx_exec (append_event eid vid ''CREATED'' [] ''RECEIVED'' (vi_body x) (user_id p) now)))) (\<lambda>_.
     and_then (record_audit (audit_event p ci channel ''VOICE_CREATE'' ''customer_voice'' vid)) (\<lambda>_.
     and_then (get_voice p vid now) (\<lambda>out.
     and_then (notify_assigned wired p (fst out)) (\<lambda>_. ret (fst out)))))))))))))"

section \<open>Handling\<close>

record voice_update = voice_input +
  vu_status :: string
  vu_resolution :: string
  vu_cause :: string
  vu_preventive :: string
  vu_score :: "int option"
  vu_comment :: string
  vu_note :: string
  vu_evidence :: string

text \<open>The patch of the custom fields, and the values the case will hold.\<close>

definition patched_phases :: "field_row list \<Rightarrow> (string \<times> json) list \<Rightarrow> string list" where
  "patched_phases defs values = remdups (map fd_phase (filter (\<lambda>f. map_of values (fd_key f) \<noteq> None) defs))"

fun fill_phases :: "field_row list \<Rightarrow> string list \<Rightarrow> (string \<times> json) list \<Rightarrow> (string \<times> json) list
    \<Rightarrow> voice_error + ((string \<times> json) list \<times> (string \<times> json) list)" where
  "fill_phases defs [] patch merged = Inr (patch, merged)"
| "fill_phases defs (ph # phs) patch merged =
     (case required_field_defaults defs ph merged of
        Inl e \<Rightarrow> Inl e
      | Inr ds \<Rightarrow> fill_phases defs phs (put_all patch ds) (put_all merged ds))"

definition field_patch :: "intake \<Rightarrow> voice_row \<Rightarrow> (string \<times> json) list
    \<Rightarrow> voice_error + ((string \<times> json) list \<times> (string \<times> json) list)" where
  "field_patch i before values =
     (if values = [] then Inr ([], v_fields before)
      else case (if in_fields i = [] \<and> v_workspace before = None then Inr values
                 else validate_field_values (in_fields i) [] values False) of
        Inl e \<Rightarrow> Inl e
      | Inr patch \<Rightarrow> fill_phases (in_fields i) (patched_phases (in_fields i) values) patch (put_all (v_fields before) patch))"

text \<open>What a resolution requires: its fields and, behind the knowledge gate, the cause evidence.\<close>

definition resolution_patch :: "intake \<Rightarrow> voice_row \<Rightarrow> string \<Rightarrow> (string \<times> json) list \<times> (string \<times> json) list
    \<Rightarrow> voice_error + (string \<times> json) list" where
  "resolution_patch i before evidence pm = (case pm of (patch, merged) \<Rightarrow>
     let defs = phase_fields (in_fields i) ''RESOLUTION'' in
     case validate_field_values defs ''RESOLUTION'' (only_defined defs merged) True of
       Inl e \<Rightarrow> Inl e
     | Inr values \<Rightarrow>
         if (case in_workspace i of None \<Rightarrow> False | Some w \<Rightarrow> w_gate (wv_row w)) \<and> coalesce [evidence, v_evidence before] = []
         then Inl Evidence_needed else Inr (put_all patch values))"

definition keep_text :: "string \<Rightarrow> string \<Rightarrow> string" where
  "keep_text given old = (if trim_space given = [] then old else trim_space given)"

text \<open>The row \<open>UPDATE customer_voices\<close> writes.\<close>

definition updated_voice :: "principal \<Rightarrow> voice_update \<Rightarrow> string \<Rightarrow> string \<Rightarrow> string \<Rightarrow> string
    \<Rightarrow> (string \<times> json) list \<Rightarrow> bool \<Rightarrow> instant \<Rightarrow> voice_row \<Rightarrow> voice_row" where
  "updated_voice p x severity status owner evidence patch reset now v = v\<lparr>
     v_title := keep_text (vi_title x) (v_title v),
     v_body := keep_text (vi_body x) (v_body v),
     v_severity := severity,
     v_status := status,
     v_owner := owner,
     v_category := (case opt_text (vi_category x) of None \<Rightarrow> v_category v | Some i \<Rightarrow> Some i),
     v_contact := (case opt_text (vi_contact x) of None \<Rightarrow> v_contact v | Some i \<Rightarrow> Some i),
     v_resolution := keep_text (vu_resolution x) (v_resolution v),
     v_cause := keep_text (vu_cause x) (v_cause v),
     v_preventive := keep_text (vu_preventive x) (v_preventive v),
     v_score := (case vu_score x of None \<Rightarrow> v_score v | Some n \<Rightarrow> Some n),
     v_comment := keep_text (vu_comment x) (v_comment v),
     v_evidence := (if evidence = [] then v_evidence v else evidence),
     v_fields := put_all (v_fields v) patch,
     v_knowledge := (if reset then ''UNREVIEWED'' else v_knowledge v),
     v_reviewer := (if reset then None else v_reviewer v),
     v_reviewed := (if reset then None else v_reviewed v),
     v_responded := (if v_responded v = None \<and> status \<noteq> ''RECEIVED'' then Some now else v_responded v),
     v_resolved := (if status \<in> {''RESOLVED'', ''CLOSED''} then (if v_resolved v = None then Some now else v_resolved v) else None),
     v_closed := (if status = ''CLOSED'' then (if v_closed v = None then Some now else v_closed v) else None),
     v_updated_by := user_id p, v_updated := now, v_version := v_version v + 1\<rparr>"

definition update_voice_row :: "string \<Rightarrow> int \<Rightarrow> (voice_row \<Rightarrow> voice_row) \<Rightarrow> voice_tables \<Rightarrow> (voice_tables \<times> int) option" where
  "update_voice_row vid version f t =
     (let P = (\<lambda>v. v_id v = vid \<and> v_version v = version) in
      if list_ex (\<lambda>v. P v \<and> (\<not> refers_to (keys u_id (users t)) (Some (v_owner (f v))) \<or>
           \<not> refers_to (keys cg_id (categories t)) (v_category (f v)) \<or>
           \<not> refers_to (keys cn_id (contacts t)) (v_contact (f v)))) (voices t) then None
      else Some (t\<lparr>voices := update_where P f (voices t)\<rparr>, int (count_where P (voices t))))"

text \<open>The events of an update, in the order they are appended: type, from, to and note.\<close>

definition update_events :: "voice_row \<Rightarrow> string \<Rightarrow> string \<Rightarrow> voice_update \<Rightarrow> (string \<times> string \<times> string \<times> string) list" where
  "update_events before status owner x =
     (if status \<noteq> v_status before then
        [(if status = ''RESOLVED'' then ''RESOLVED'' else if terminal (v_status before) then ''REOPENED'' else ''STATUS_CHANGE'',
          v_status before, status, vu_note x)]
      else if \<not> blank (vu_note x) then [(''COMMENT'', [], [], vu_note x)] else []) @
     (if terminal (v_status before) \<and> \<not> terminal status \<and> v_knowledge before \<noteq> ''UNREVIEWED''
      then [(''KNOWLEDGE_REVIEW'', [], [], v_knowledge before)] else []) @
     (if owner \<noteq> v_owner before then [(''ASSIGNED'', [], [], ''owner changed'')] else []) @
     (if vu_score x \<noteq> None then [(''SATISFACTION'', [], [], vu_comment x)] else [])"

definition update_tx :: "principal \<Rightarrow> voice_row \<Rightarrow> (voice_row \<Rightarrow> voice_row) \<Rightarrow> (string \<times> string \<times> string \<times> string) list
    \<Rightarrow> (nat \<Rightarrow> string) \<Rightarrow> instant \<Rightarrow> unit voice_op" where
  "update_tx p before f es draw now =
     and_then (tx_exec (update_voice_row (v_id before) (v_version before) f)) (\<lambda>n.
     and_then (check (n \<noteq> 0) Voice_changed) (\<lambda>_.
     for_each (\<lambda>i. case es ! i of (ty, a, b, note) \<Rightarrow>
         tx_exec (append_event (draw i) (v_id before) ty a b note (user_id p) now)) [0..<length es]))"

text \<open>The checks of an update against the case as it was read: status and evidence.\<close>

definition update_status :: "principal \<Rightarrow> voice_row \<Rightarrow> voice_update \<Rightarrow> voice_error + (string \<times> string)" where
  "update_status p before x =
     (let s = to_upper (vu_status x); status = (if s = [] then v_status before else s);
          evidence = to_upper (trim_space (vu_evidence x)) in
      if v_owner before \<noteq> user_id p \<and> \<not> is_bootstrap p \<and> \<not> has p ''voice:manage'' then Inl Not_the_owner
      else if vi_version x \<noteq> 0 \<and> vi_version x \<noteq> v_version before then Inl Voice_changed
      else if status \<notin> set voice_statuses then Inl Bad_status
      else if \<not> can_transition (v_status before) status then Inl (Bad_transition (v_status before) status)
      else if status = ''RESOLVED'' \<and> trim_space (coalesce [vu_resolution x, v_resolution before]) = [] then Inl Resolution_missing
      else if evidence \<noteq> [] \<and> evidence \<notin> set cause_evidence_levels then Inl Bad_evidence
      else Inr (status, evidence))"

text \<open>The checks after the fields: severity, score and owner.\<close>

definition update_rest :: "principal \<Rightarrow> voice_row \<Rightarrow> voice_update \<Rightarrow> voice_error + (string \<times> string)" where
  "update_rest p before x =
     (let s = to_upper (vi_severity x); severity = (if s = [] then v_severity before else s);
          owner = (if vi_owner x = [] then v_owner before else vi_owner x) in
      if severity \<notin> set voice_severities then Inl Bad_severity
      else if (case vu_score x of None \<Rightarrow> False | Some n \<Rightarrow> n < 1 \<or> n > 5) then Inl Bad_score
      else if owner \<noteq> v_owner before \<and> \<not> is_bootstrap p \<and> \<not> has p ''voice:manage'' then Inl Cannot_reassign
      else Inr (severity, owner))"

definition update_voice :: "bool \<Rightarrow> principal \<Rightarrow> string \<Rightarrow> voice_update \<Rightarrow> string \<Rightarrow> client_info \<Rightarrow> (nat \<Rightarrow> string)
    \<Rightarrow> instant \<Rightarrow> voice_view voice_op" where
  "update_voice wired p vid x channel ci draw now =
     and_then (require p ''voice:write'') (\<lambda>_.
     and_then (get_voice p vid now) (\<lambda>(b, _).
     let before = vv_row b in
     and_then (lift (update_status p before x)) (\<lambda>(status, evidence).
     and_then (if vi_category x \<noteq> [] \<and> Some (vi_category x) \<noteq> v_category before
        then and_then (category_by p (vi_category x)) (\<lambda>c. check (cg_workspace c = v_workspace before) Other_workspace)
        else ret ()) (\<lambda>_.
     and_then (intake_for p (case_option [] id (v_category before))) (\<lambda>i.
     and_then (lift (field_patch i before (vi_fields x))) (\<lambda>pm.
     and_then (lift (if status = ''RESOLVED'' \<and> v_status before \<noteq> ''RESOLVED''
        then resolution_patch i before evidence pm else Inr (fst pm))) (\<lambda>patch.
     and_then (lift (update_rest p before x)) (\<lambda>(severity, owner).
     let reset = (terminal (v_status before) \<and> \<not> terminal status \<and> v_knowledge before \<noteq> ''UNREVIEWED'') in
     and_then (in_tx (update_tx p before
        (updated_voice p x severity status owner evidence patch reset now)
        (update_events before status owner x) draw now)) (\<lambda>_.
     and_then (record_audit (audit_event p ci channel ''VOICE_UPDATE'' ''customer_voice'' vid)) (\<lambda>_.
     and_then (get_voice p vid now) (\<lambda>(out, _).
     and_then (if owner \<noteq> v_owner before then notify_assigned wired p out else ret ()) (\<lambda>_. ret out))))))))))))"

definition comment_tx :: "principal \<Rightarrow> string \<Rightarrow> string \<Rightarrow> string \<Rightarrow> string \<Rightarrow> instant \<Rightarrow> unit voice_op" where
  "comment_tx p vid ty note eid now =
     and_then (tx_exec (append_event eid vid ty [] [] note (user_id p) now)) (\<lambda>_.
     if ty = ''CUSTOMER_CONTACT'' then tx_exec (writes (\<lambda>t. t\<lparr>voices := update_where (\<lambda>v. v_id v = vid)
         (\<lambda>v. v\<lparr>v_responded := (case v_responded v of None \<Rightarrow> Some now | Some r \<Rightarrow> Some r), v_updated := now\<rparr>) (voices t)\<rparr>))
     else ret ())"

definition comment_voice :: "principal \<Rightarrow> string \<Rightarrow> string \<Rightarrow> string \<Rightarrow> string \<Rightarrow> client_info \<Rightarrow> string \<Rightarrow> instant
    \<Rightarrow> (voice_event \<times> string) list voice_op" where
  "comment_voice p vid ty note channel ci eid now =
     and_then (require p ''voice:write'') (\<lambda>_.
     and_then (check (\<not> blank note) Note_missing) (\<lambda>_.
     let ty = to_upper ty in
     and_then (check (ty \<in> set comment_event_types) Bad_event_type) (\<lambda>_.
     and_then (get_voice p vid now) (\<lambda>_.
     and_then (in_tx (comment_tx p vid ty note eid now)) (\<lambda>_.
     and_then (record_audit (audit_event p ci channel (''VOICE_'' @ ty) ''customer_voice'' vid)) (\<lambda>_.
     events_of vid))))))"

end
