(* ===== verification/Voice_Knowledge.thy ===== *)
theory Voice_Knowledge
  imports Voice_Cases
begin

text \<open>
  The voice of the customer, part three (internal/voice/knowledge.go and the end of service.go): the
  reviewer's judgement, the search for similar cases, a customer's history, resolving a case, the
  summary of the dashboard and the request types. How PostgreSQL writes the values of a JSON object
  as one text is an argument of the search.
\<close>

section \<open>The knowledge gate\<close>

definition review_update :: "string \<Rightarrow> string \<Rightarrow> string \<Rightarrow> instant \<Rightarrow> voice_tables \<Rightarrow> (voice_tables \<times> unit) option" where
  "review_update vid status reviewer now = writes (\<lambda>t. t\<lparr>voices := update_where (\<lambda>v. v_id v = vid)
     (\<lambda>v. v\<lparr>v_knowledge := status, v_reviewer := (if status = ''UNREVIEWED'' then None else Some reviewer),
        v_reviewed := (if status = ''UNREVIEWED'' then None else Some now), v_updated := now\<rparr>) (voices t)\<rparr>)"

definition review_tx :: "principal \<Rightarrow> string \<Rightarrow> string \<Rightarrow> string \<Rightarrow> string \<Rightarrow> instant \<Rightarrow> unit voice_op" where
  "review_tx p vid status note eid now =
     and_then (tx_exec (review_update vid status (user_id p) now)) (\<lambda>_.
     tx_exec (append_event eid vid ''KNOWLEDGE_REVIEW'' [] [] note (user_id p) now))"

text \<open>\<open>Review\<close>: a person, not an agent, judges; only a resolved or closed case can be approved.\<close>

definition review_voice :: "principal \<Rightarrow> string \<Rightarrow> string \<Rightarrow> string \<Rightarrow> string \<Rightarrow> client_info \<Rightarrow> string \<Rightarrow> instant
    \<Rightarrow> voice_view voice_op" where
  "review_voice p vid status note channel ci eid now =
     and_then (require p ''voice:knowledge-review'') (\<lambda>_.
     and_then (check (\<not> (auth_method p = ''PERSONAL_KEY'' \<or> auth_method p = ''OIDC_ACCESS_TOKEN'')) Reviewer_must_be_person) (\<lambda>_.
     let status = to_upper (trim_space status) in
     and_then (check (status \<in> set knowledge_statuses) Bad_knowledge) (\<lambda>_.
     and_then (get_voice p vid now) (\<lambda>(b, _).
     let before = vv_row b in
     and_then (check (\<not> (status = ''APPROVED'' \<and> v_status before \<noteq> ''RESOLVED'' \<and> v_status before \<noteq> ''CLOSED'')) Not_resolved) (\<lambda>_.
     if status = v_knowledge before \<and> blank note then ret b
     else and_then (in_tx (review_tx p vid status note eid now)) (\<lambda>_.
       and_then (record_audit (audit_event p ci channel ''VOICE_KNOWLEDGE_REVIEW'' ''customer_voice'' vid)) (\<lambda>_.
       and_then (get_voice p vid now) (\<lambda>(out, _). ret out))))))))"

section \<open>The search for similar cases\<close>

record knowledge_query =
  kq_text :: string
  kq_workspace :: string
  kq_fields :: "(string \<times> string) list"
  kq_evidence :: string
  kq_unreviewed :: bool
  kq_limit :: int

text \<open>A condition on a field: some definition with that key accepts the value.\<close>

definition field_filter :: "field_row list \<Rightarrow> string \<times> string \<Rightarrow> voice_error + (string \<times> string) option" where
  "field_filter defs kv = (case kv of (k, v) \<Rightarrow>
     let value = trim_space v; known = filter (\<lambda>f. fd_key f = k) defs in
     if value = [] then Inr None
     else if known = [] then Inl Unknown_filter
     else if \<not> list_ex (\<lambda>f. field_value f (JStr value) \<noteq> None) known then Inl Bad_filter
     else Inr (Some (k, value)))"

fun field_filters :: "field_row list \<Rightarrow> (string \<times> string) list \<Rightarrow> voice_error + (string \<times> string) list" where
  "field_filters defs [] = Inr []"
| "field_filters defs (kv # kvs) =
     (case field_filter defs kv of Inl e \<Rightarrow> Inl e
      | Inr r \<Rightarrow> (case field_filters defs kvs of Inl e \<Rightarrow> Inl e
        | Inr rs \<Rightarrow> Inr (case r of None \<Rightarrow> rs | Some x \<Rightarrow> x # rs)))"

text \<open>\<open>custom_fields @> filter\<close> for a filter of texts.\<close>

definition contains_fields :: "(string \<times> json) list \<Rightarrow> (string \<times> string) list \<Rightarrow> bool" where
  "contains_fields values fs = list_all (\<lambda>(k, v). map_of values k = Some (JStr v)) fs"

text \<open>\<open>strings.Fields\<close>: the words between white space.\<close>

fun until_space :: "string \<Rightarrow> string \<times> string" where
  "until_space [] = ([], [])"
| "until_space (c # cs) =
     (if list_ex (\<lambda>p. prefix p (c # cs)) go_spaces then ([], c # cs)
      else (case until_space cs of (w, rest) \<Rightarrow> (c # w, rest)))"

fun words_from :: "nat \<Rightarrow> string \<Rightarrow> string list" where
  "words_from 0 s = []"
| "words_from (Suc n) s =
     (let s' = strip_prefixes go_spaces s in
      if s' = [] then [] else (case until_space s' of (w, rest) \<Rightarrow> w # words_from n rest))"

definition words :: "string \<Rightarrow> string list" where
  "words s = words_from (length s) s"

text \<open>The columns a term is looked for in, with their weights.\<close>

definition knowledge_columns :: "((string \<times> json) list \<Rightarrow> string) \<Rightarrow> voice_row \<Rightarrow> (string \<times> nat) list" where
  "knowledge_columns field_text v =
     [(to_lower (v_title v), 3), (to_lower (field_text (v_fields v)), 3), (to_lower (v_cause v), 2),
      (to_lower (v_body v), 1), (to_lower (v_resolution v), 1)]"

definition term_matches :: "((string \<times> json) list \<Rightarrow> string) \<Rightarrow> voice_row \<Rightarrow> string \<Rightarrow> bool" where
  "term_matches field_text v pat = list_ex (\<lambda>(col, _). like pat col) (knowledge_columns field_text v)"

definition knowledge_score :: "((string \<times> json) list \<Rightarrow> string) \<Rightarrow> string list \<Rightarrow> voice_row \<Rightarrow> nat" where
  "knowledge_score field_text pats v =
     sum_list (concat (map (\<lambda>pat. map (\<lambda>(col, n). if like pat col then n else 0) (knowledge_columns field_text v)) pats))"

definition knowledge_states :: "bool \<Rightarrow> string list" where
  "knowledge_states unreviewed =
     (if unreviewed then [''APPROVED'', ''IN_REVIEW'', ''UNREVIEWED''] else [''APPROVED''])"

definition is_knowledge :: "((string \<times> json) list \<Rightarrow> string) \<Rightarrow> principal \<Rightarrow> knowledge_query \<Rightarrow> string \<Rightarrow> string
    \<Rightarrow> (string \<times> string) list \<Rightarrow> string list \<Rightarrow> voice_tables \<Rightarrow> voice_row \<Rightarrow> bool" where
  "is_knowledge field_text p q ws evidence fs pats t v \<longleftrightarrow>
     sees_voice p t v \<and> v_status v \<in> {''RESOLVED'', ''CLOSED''} \<and>
     v_knowledge v \<in> set (knowledge_states (kq_unreviewed q)) \<and>
     (ws = [] \<or> v_workspace v = Some ws) \<and> (evidence = [] \<or> v_evidence v = evidence) \<and>
     contains_fields (v_fields v) fs \<and> list_all (term_matches field_text v) pats"

text \<open>The best match first, then the latest resolution.\<close>

definition knowledge_order :: "((string \<times> json) list \<Rightarrow> string) \<Rightarrow> string list \<Rightarrow> voice_row list \<Rightarrow> voice_row list" where
  "knowledge_order field_text pats vs =
     sort_desc (\<lambda>v. int (knowledge_score field_text pats v))
       (sort_key (\<lambda>v. if v_resolved v = None then 1 else (0 :: int)) (sort_desc (\<lambda>v. case_option 0 id (v_resolved v)) vs))"

definition search_knowledge :: "((string \<times> json) list \<Rightarrow> string) \<Rightarrow> principal \<Rightarrow> knowledge_query
    \<Rightarrow> (voice_row \<times> string \<times> string) list voice_op" where
  "search_knowledge field_text p q =
     and_then (require p ''voice:read'') (\<lambda>_.
     let limit = (if kq_limit q < 1 \<or> kq_limit q > 50 then 10 else kq_limit q) in
     and_then (if \<not> blank (kq_workspace q)
        then and_then (workspace_by p (kq_workspace q)) (\<lambda>w. ret (w_id (wv_row w), wv_fields w))
        else if kq_fields q \<noteq> [] then and_then (field_catalog_of p) (\<lambda>c.
          ret (kq_workspace q, fc_fields c @ concat (map wv_fields (fc_workspaces c))))
        else ret (kq_workspace q, [])) (\<lambda>(ws, defs).
     let evidence = to_upper (trim_space (kq_evidence q)) in
     and_then (check (\<not> (evidence \<noteq> [] \<and> evidence \<notin> set cause_evidence_levels)) Bad_evidence) (\<lambda>_.
     and_then (lift (field_filters defs (kq_fields q))) (\<lambda>fs.
     let pats = filter (\<lambda>pat. pat \<noteq> []) (map search_pattern (take 8 (words (kq_text q)))) in
     db_query (\<lambda>t. take (nat limit) (List.map_filter
       (\<lambda>v. map_option (\<lambda>c. (v, cu_name c, cu_code c)) (row_by cu_id (v_customer v) (customers t)))
       (knowledge_order field_text pats (filter (is_knowledge field_text p q ws evidence fs pats t) (voices t)))))))))"

section \<open>The history of a customer\<close>

record customer_history =
  hs_customer :: customer_row
  hs_items :: "voice_row list"
  hs_more :: bool

definition history_of :: "principal \<Rightarrow> string \<Rightarrow> string \<Rightarrow> string \<Rightarrow> int \<Rightarrow> customer_history voice_op" where
  "history_of p customer code ws limit =
     and_then (require p ''voice:read'') (\<lambda>_.
     let limit = (if limit < 1 \<or> limit > 200 then 30 else limit) in
     and_then (if blank ws then ret ws else and_then (workspace_by p ws) (\<lambda>w. ret (w_id (wv_row w)))) (\<lambda>ws.
     and_then (if \<not> blank code then lift_err From_crm (customer_by_code_in p ws code)
       else if \<not> blank customer then get_customer p customer
       else raise (App No_customer_given)) (\<lambda>c.
     and_then (check (\<not> (ws \<noteq> [] \<and> case_option [] id (cu_home (cv_row c)) \<noteq> ws)) Not_a_member) (\<lambda>_.
     and_then (db_query (\<lambda>t. take (nat (limit + 1)) (sort_desc v_occurred (filter (\<lambda>v. sees_voice p t v \<and>
         v_customer v = cu_id (cv_row c) \<and> terminal (v_status v) \<and> (ws = [] \<or> v_workspace v = Some ws)) (voices t))))) (\<lambda>items.
     ret (if int (length items) > limit
       then \<lparr>hs_customer = cv_row c, hs_items = take (nat limit) items, hs_more = True\<rparr>
       else \<lparr>hs_customer = cv_row c, hs_items = items, hs_more = False\<rparr>))))))"

section \<open>Resolving\<close>

record resolve_input =
  ri_resolution :: string
  ri_cause :: string
  ri_evidence :: string
  ri_preventive :: string
  ri_fields :: "(string \<times> json) list"
  ri_note :: string

text \<open>An update that leaves everything out but what \<open>Resolve\<close> gives.\<close>

definition status_update :: "int \<Rightarrow> string \<Rightarrow> string \<Rightarrow> voice_update" where
  "status_update version status note =
     \<lparr>vi_customer = [], vi_contact = [], vi_opportunity = [], vi_contract = [], vi_category = [], vi_type = [],
      vi_channel = [], vi_title = [], vi_body = [], vi_severity = [], vi_owner = [], vi_occurred = None,
      vi_fields = [], vi_version = version, vu_status = status, vu_resolution = [], vu_cause = [], vu_preventive = [],
      vu_score = None, vu_comment = [], vu_note = note, vu_evidence = []\<rparr>"

definition resolve_update :: "int \<Rightarrow> resolve_input \<Rightarrow> voice_update" where
  "resolve_update version x = (status_update version ''RESOLVED'' (ri_note x))
     \<lparr>vi_fields := ri_fields x, vu_resolution := ri_resolution x, vu_cause := ri_cause x,
      vu_evidence := ri_evidence x, vu_preventive := ri_preventive x\<rparr>"

text \<open>The two steps of \<open>Resolve\<close> draw their events' ids separately.\<close>

definition resolve_voice :: "bool \<Rightarrow> principal \<Rightarrow> string \<Rightarrow> resolve_input \<Rightarrow> string \<Rightarrow> client_info
    \<Rightarrow> (nat \<Rightarrow> string) \<Rightarrow> (nat \<Rightarrow> string) \<Rightarrow> instant \<Rightarrow> voice_view voice_op" where
  "resolve_voice wired p vid x channel ci draw draw' now =
     and_then (get_voice p vid now) (\<lambda>(current, _).
     and_then (check (\<not> terminal (v_status (vv_row current))) Already_terminal) (\<lambda>_.
     and_then (check (\<not> blank (ri_resolution x)) Resolution_missing) (\<lambda>_.
     and_then (if v_status (vv_row current) = ''RECEIVED''
        then update_voice wired p vid (status_update (v_version (vv_row current)) ''IN_PROGRESS'' ''taken up to be resolved'')
          channel ci draw now
        else ret current) (\<lambda>current.
     update_voice wired p vid (resolve_update (v_version (vv_row current)) x) channel ci draw' now))))"

section \<open>The summary\<close>

record voice_summary =
  sm_open :: nat
  sm_overdue :: nat
  sm_critical :: nat
  sm_resolved30 :: nat
  sm_churn :: nat
  sm_average :: rat
  sm_satisfaction :: "rat option"
  sm_pending :: nat
  sm_by_type :: "(string \<times> nat) list"

definition average :: "rat list \<Rightarrow> rat option" where
  "average xs = (if xs = [] then None else Some (sum_list xs / of_nat (length xs)))"

definition count_types :: "voice_row list \<Rightarrow> (string \<times> nat) list" where
  "count_types vs = sort_desc (\<lambda>(_, n). int n)
     (map (\<lambda>ty. (ty, length (filter (\<lambda>v. v_type v = ty) vs))) (remdups (map v_type vs)))"

definition summary_row :: "instant \<Rightarrow> voice_row list \<Rightarrow> voice_summary" where
  "summary_row now vs =
     (let active = filter (\<lambda>v. \<not> terminal (v_status v)) vs in
      \<lparr>sm_open = length active, sm_overdue = length (filter (is_overdue now) vs),
       sm_critical = length (filter (\<lambda>v. v_severity v = ''CRITICAL'') active),
       sm_resolved30 = length (filter (\<lambda>v. case v_resolved v of None \<Rightarrow> False | Some r \<Rightarrow> r > now - 30 * day_ns) vs),
       sm_churn = length (filter (\<lambda>v. v_type v = ''CHURN_RISK'') active),
       sm_average = case_option 0 id (average (List.map_filter (\<lambda>v. map_option
         (\<lambda>r. of_int (r - v_occurred v) / of_int hour_ns) (v_resolved v)) vs)),
       sm_satisfaction = average (List.map_filter (\<lambda>v. map_option of_int (v_score v)) vs),
       sm_pending = length (filter (\<lambda>v. v_status v \<in> {''RESOLVED'', ''CLOSED''} \<and> v_knowledge v = ''UNREVIEWED'') vs),
       sm_by_type = []\<rparr>)"

definition in_summary :: "principal \<Rightarrow> string \<Rightarrow> string \<Rightarrow> voice_tables \<Rightarrow> voice_row list" where
  "in_summary p customer ws t = filter (\<lambda>v. sees_voice p t v \<and> (customer = [] \<or> v_customer v = customer) \<and>
     (ws = [] \<or> v_workspace v = Some ws)) (voices t)"

definition summary_of :: "principal \<Rightarrow> string \<Rightarrow> string \<Rightarrow> instant \<Rightarrow> voice_summary voice_op" where
  "summary_of p customer ws now =
     and_then (require p ''voice:read'') (\<lambda>_.
     and_then (checked_filter p customer ws) (\<lambda>ws.
     and_then (db_query (\<lambda>t. summary_row now (in_summary p customer ws t))) (\<lambda>s.
     and_then (db_query (\<lambda>t. count_types (in_summary p customer ws t))) (\<lambda>types.
     ret (s\<lparr>sm_by_type := types\<rparr>)))))"

section \<open>Request types\<close>

definition validate_category :: "string \<Rightarrow> string \<Rightarrow> string \<Rightarrow> int \<Rightarrow> int \<Rightarrow> voice_error + unit" where
  "validate_category code name ty response resolution =
     (if blank code \<or> blank name then Inl Category_invalid
      else if to_upper ty \<notin> set voice_types then Inl Bad_voice_type
      else if response < 1 \<or> resolution < 1 then Inl Hours_too_small
      else if response > resolution then Inl Hours_crossed
      else Inr ())"

definition insert_category :: "category_row \<Rightarrow> voice_tables \<Rightarrow> (voice_tables \<times> unit) option" where
  "insert_category c t =
     (if cg_id c \<in> set (keys cg_id (categories t)) \<or> cg_code c \<in> set (keys cg_code (categories t)) \<or>
         cg_type c \<notin> set voice_types \<or> cg_response c \<le> 0 \<or> cg_resolution c \<le> 0 \<or>
         \<not> refers_to (keys w_id (workspaces t)) (cg_workspace c) then None
      else Some (t\<lparr>categories := categories t @ [c]\<rparr>, ()))"

definition create_category :: "category_row \<Rightarrow> string \<Rightarrow> string voice_op" where
  "create_category c cid =
     and_then (db_exec (insert_category (c\<lparr>cg_id := cid, cg_code := to_upper (trim_space (cg_code c)),
         cg_name := trim_space (cg_name c), cg_type := to_upper (cg_type c),
         cg_workspace := Option.bind (cg_workspace c) opt_text, cg_active := True\<rparr>))) (\<lambda>_. ret cid)"

end
