(* ===== verification/Voice_Facts.thy ===== *)
theory Voice_Facts
  imports Voice_Knowledge Rely_Guarantee
begin

text \<open>
  What the handling of customer requests guarantees while many people work on them: the recorded
  events of a request are a path of its life cycle that ends in its status, its time stamps agree
  with the status, and what has been recorded stays.
\<close>

section \<open>The trail of a request\<close>

text \<open>The changes of status recorded for a request, and where they lead.\<close>

definition trail :: "string \<Rightarrow> voice_event list \<Rightarrow> (string \<times> string) list" where
  "trail i es = map (\<lambda>e. (ve_from e, ve_to e)) (filter (\<lambda>e. ve_voice e = i \<and> ve_to e \<noteq> []) es)"

fun leads :: "string \<Rightarrow> (string \<times> string) list \<Rightarrow> string option" where
  "leads s [] = Some s"
| "leads s ((a, b) # tr) =
     (if a = s \<and> (if s = [] then b = ''RECEIVED'' else a \<noteq> b \<and> can_transition a b) then leads b tr else None)"

lemma leads_append: "leads s (xs @ ys) = Option.bind (leads s xs) (\<lambda>s. leads s ys)"
  by (induction s xs rule: leads.induct) auto

lemma trail_append: "trail i (es @ fs) = trail i es @ trail i fs"
  by (simp add: trail_def)

text \<open>The time stamps a status allows.\<close>

definition times_ok :: "voice_row \<Rightarrow> bool" where
  "times_ok v \<longleftrightarrow> (v_resolved v \<noteq> None \<longleftrightarrow> v_status v \<in> {''RESOLVED'', ''CLOSED''}) \<and>
     (v_closed v \<noteq> None \<longleftrightarrow> v_status v = ''CLOSED'') \<and> (v_status v \<noteq> ''RECEIVED'' \<longrightarrow> v_responded v \<noteq> None)"

text \<open>What stays of a request: its number, customer and origin, and its first response.\<close>

definition voice_kept :: "voice_row \<Rightarrow> voice_row \<Rightarrow> bool" where
  "voice_kept u v \<longleftrightarrow> v_id v = v_id u \<and> v_no v = v_no u \<and> v_customer v = v_customer u \<and>
     v_occurred v = v_occurred u \<and> v_workspace v = v_workspace u \<and>
     v_response_due v = v_response_due u \<and> v_resolution_due v = v_resolution_due u \<and>
     v_version u \<le> v_version v \<and> (v_version v = v_version u \<longrightarrow> v_status v = v_status u) \<and>
     (v_responded u \<noteq> None \<longrightarrow> v_responded v = v_responded u)"

inductive voice_step :: "voice_tables \<Rightarrow> voice_tables \<Rightarrow> bool" where
  other: "voices t' = voices t \<Longrightarrow> voice_events t' = voice_events t \<Longrightarrow> voice_step t t'"
| received: "v_id v \<notin> set (keys v_id (voices t)) \<Longrightarrow> v_status v = ''RECEIVED'' \<Longrightarrow> times_ok v \<Longrightarrow>
    voices t' = voices t @ [v] \<Longrightarrow> voice_events t' = voice_events t @ [e] \<Longrightarrow> ve_voice e = v_id v \<Longrightarrow>
    ve_from e = [] \<Longrightarrow> ve_to e = ''RECEIVED'' \<Longrightarrow> voice_step t t'"
| handled: "v \<in> set (voices t) \<Longrightarrow> v_id v = i \<Longrightarrow> v_version v = n \<Longrightarrow>
    (\<And>u. voice_kept u (f u) \<and> v_version (f u) = v_version u + 1 \<and> v_status (f u) = status \<and> times_ok (f u)) \<Longrightarrow>
    voices t' = update_where (\<lambda>v. v_id v = i \<and> v_version v = n) f (voices t) \<Longrightarrow>
    voice_events t' = voice_events t @ es \<Longrightarrow> \<forall>e \<in> set es. ve_voice e = i \<Longrightarrow>
    trail i es = (if status = v_status v then [] else [(v_status v, status)]) \<Longrightarrow>
    can_transition (v_status v) status \<Longrightarrow> voice_step t t'"
| noted: "(\<And>u. voice_kept u (f u) \<and> v_version (f u) = v_version u \<and> v_status (f u) = v_status u \<and>
       v_resolved (f u) = v_resolved u \<and> v_closed (f u) = v_closed u \<and> (v_responded u \<noteq> None \<longrightarrow> v_responded (f u) \<noteq> None)) \<Longrightarrow>
    i \<in> set (keys v_id (voices t)) \<Longrightarrow> voices t' = update_where (\<lambda>v. v_id v = i) f (voices t) \<Longrightarrow>
    voice_events t' = voice_events t @ [e] \<Longrightarrow> ve_voice e = i \<Longrightarrow> ve_to e = [] \<Longrightarrow> voice_step t t'"

definition voice_ok :: "voice_event list \<Rightarrow> voice_row \<Rightarrow> bool" where
  "voice_ok es v \<longleftrightarrow> leads [] (trail (v_id v) es) = Some (v_status v) \<and> v_status v \<noteq> [] \<and> times_ok v"

definition voices_ok :: "voice_tables \<Rightarrow> bool" where
  "voices_ok t \<longleftrightarrow> distinct (keys v_id (voices t)) \<and>
     (\<forall>e \<in> set (voice_events t). ve_voice e \<in> set (keys v_id (voices t))) \<and>
     (\<forall>v \<in> set (voices t). voice_ok (voice_events t) v)"

lemma trail_other: "\<forall>e \<in> set es. ve_voice e = i \<Longrightarrow> j \<noteq> i \<Longrightarrow> trail j es = []"
  by (auto simp: trail_def filter_empty_conv)

lemma trail_none: "\<forall>e \<in> set es. ve_voice e \<in> ids \<Longrightarrow> i \<notin> ids \<Longrightarrow> trail i es = []"
  by (auto simp: trail_def filter_empty_conv)

lemma can_transition_nonempty: "can_transition a b \<Longrightarrow> a \<noteq> [] \<Longrightarrow> b \<noteq> []"
  by (auto simp: can_transition_def allowed_transitions_def split: if_splits)

lemma voice_step_ok:
  assumes "voice_step t t'" and ok: "voices_ok t"
  shows "voices_ok t'"
  using assms(1)
proof (cases rule: voice_step.cases)
  case other
  then show ?thesis using ok by (simp add: voices_ok_def)
next
  case (received v e)
  have "trail (v_id v) (voice_events t) = []"
    using ok received(1) by (intro trail_none) (auto simp: voices_ok_def)
  then have new: "voice_ok (voice_events t') v"
    using received by (simp add: voice_ok_def trail_append trail_def)
  have old: "voice_ok (voice_events t') u" if "u \<in> set (voices t)" for u
  proof -
    have "v_id u \<noteq> v_id v" using that received(1) by (metis image_eqI keys_def list.set_map)
    then have "trail (v_id u) (voice_events t') = trail (v_id u) (voice_events t)"
      using received(5,6) by (simp add: trail_append trail_def)
    then show ?thesis using ok that by (simp add: voices_ok_def voice_ok_def)
  qed
  show ?thesis using ok received(1,4-6) new old by (auto simp: voices_ok_def keys_def)
next
  case (handled v i n f status es)
  have keys: "keys v_id (voices t') = keys v_id (voices t)"
    unfolding handled(5) using handled(4) by (intro keys_update_where) (simp add: voice_kept_def)
  have inj: "inj_on v_id (set (voices t))" using ok by (simp add: voices_ok_def keys_def distinct_map)
  have row: "voice_ok (voice_events t') u" if "u \<in> set (voices t')" for u
  proof -
    from that obtain x where x: "x \<in> set (voices t)" "u = (if v_id x = i \<and> v_version x = n then f x else x)"
      unfolding handled(5) set_update_where by blast
    have okx: "voice_ok (voice_events t) x" using ok x(1) by (simp add: voices_ok_def)
    show ?thesis
    proof (cases "v_id x = i")
      case True
      have "x = v" by (rule inj_onD [OF inj _ x(1) handled(1)]) (simp add: True handled(2))
      then have u: "u = f v" using x(2) handled(2,3) by simp
      have "v_status v \<noteq> []" using okx \<open>x = v\<close> by (simp add: voice_ok_def)
      then show ?thesis
        using okx handled(2,4,6,8,9) can_transition_nonempty [OF handled(9)]
        unfolding u \<open>x = v\<close> by (simp add: voice_ok_def trail_append leads_append voice_kept_def)
    next
      case False
      then have "trail (v_id x) es = []" using handled(7) by (intro trail_other) auto
      then show ?thesis using okx x(2) False handled(6) by (simp add: voice_ok_def trail_append)
    qed
  qed
  have "i \<in> set (keys v_id (voices t))" using handled(1,2) by (auto simp: keys_def)
  then show ?thesis
    using ok row handled(6,7) unfolding voices_ok_def keys by auto
next
  case (noted f i e)
  have keys: "keys v_id (voices t') = keys v_id (voices t)"
    unfolding noted(3) using noted(1) by (intro keys_update_where) (simp add: voice_kept_def)
  have row: "voice_ok (voice_events t') u" if "u \<in> set (voices t')" for u
  proof -
    from that obtain x where x: "x \<in> set (voices t)" "u = (if v_id x = i then f x else x)"
      unfolding noted(3) set_update_where by blast
    then have okx: "voice_ok (voice_events t) x" using ok by (simp add: voices_ok_def)
    have "trail (v_id x) (voice_events t') = trail (v_id x) (voice_events t)"
      using noted(4,6) by (simp add: trail_append trail_def)
    then show ?thesis using okx x(2) noted(1) [of x] by (auto simp: voice_ok_def times_ok_def voice_kept_def)
  qed
  then show ?thesis using ok noted(2,4,5) unfolding voices_ok_def keys by auto
qed

definition voices_evolve :: "voice_tables \<Rightarrow> voice_tables \<Rightarrow> bool" where
  "voices_evolve s t \<longleftrightarrow> (\<exists>es. voice_events t = voice_events s @ es) \<and>
     (\<forall>u \<in> set (voices s). \<exists>v \<in> set (voices t). voice_kept u v)"

lemma voice_kept_refl: "voice_kept v v"
  by (simp add: voice_kept_def)

lemma voice_kept_trans: "voice_kept u v \<Longrightarrow> voice_kept v x \<Longrightarrow> voice_kept u x"
  by (auto simp: voice_kept_def)

lemma voices_evolve_refl: "voices_evolve s s"
  unfolding voices_evolve_def using voice_kept_refl by blast

lemma voices_evolve_trans: "voices_evolve s t \<Longrightarrow> voices_evolve t u \<Longrightarrow> voices_evolve s u"
  unfolding voices_evolve_def by (elim conjE, intro conjI) (metis append_assoc, blast intro: voice_kept_trans)

lemma update_where_kept:
  assumes "\<And>u. voice_kept u (f u)" and "u \<in> set vs"
  shows "\<exists>v \<in> set (update_where P f vs). voice_kept u v"
  using assms voice_kept_refl [of u] by (cases "P u") (auto simp: set_update_where)

lemma voice_step_evolves:
  assumes "voice_step s t"
  shows "voices_evolve s t"
  using assms
proof (cases rule: voice_step.cases)
  case other
  then show ?thesis using voices_evolve_refl [of s] by (simp add: voices_evolve_def)
next
  case (received v e)
  then show ?thesis unfolding voices_evolve_def using voice_kept_refl by auto
next
  case (handled v i n f status es)
  then show ?thesis unfolding voices_evolve_def handled(5) using update_where_kept [of f] by blast
next
  case (noted f i e)
  then show ?thesis unfolding voices_evolve_def noted(3) using update_where_kept [of f] by blast
qed

interpretation vi: shared_invariant voice_step voice_step voices_ok
  by unfold_locales (auto intro: voice_step_ok)

interpretation vh: shared_history voice_step voice_step voices_evolve
  by unfold_locales (auto intro: voices_evolve_refl voices_evolve_trans voice_step_evolves)

section \<open>Every operation takes only such steps\<close>

lemma keeps_voice_audit: "keeps R voice_step (record_audit e)"
  unfolding record_audit_def by (intro keeps_rules) (auto intro: voice_step.other)

lemma keeps_assigned: "keeps R voice_step (notify_assigned wired p x)"
  unfolding notify_assigned_def by (intro keeps_rules) (auto intro: voice_step.other)

lemma keeps_voice_reads:
  "keeps R G (categories_of p b)" "keeps R G (fields_of i)" "keeps R G (workspaces_of p b)" "keeps R G (workspace_by p i)"
  "keeps R G (category_by p i)" "keeps R G (intake_for p i)" "keeps R G (events_of i)" "keeps R G (get_voice p i now)"
  "keeps R G (get_customer p i :: customer_view voice_op)" "keeps R G (sla_deadlines i severity now)"
proof -
  show c: "keeps R G (categories_of p b)" for p b
    unfolding categories_of_def require_then by (intro keeps_rules)
  show f: "keeps R G (fields_of i)" for i
    unfolding fields_of_def by (intro keeps_rules)
  show ws: "keeps R G (workspaces_of p b)" for b
    unfolding workspaces_of_def require_then Let_def by (intro keeps_rules keeps_then c f)
  show w: "keeps R G (workspace_by p i)" for i
    unfolding workspace_by_def by (intro keeps_rules keeps_then ws)
  show k: "keeps R G (category_by p i)" for i
    unfolding category_by_def by (intro keeps_rules keeps_then c)
  show "keeps R G (intake_for p i)"
    unfolding intake_for_def by (intro keeps_rules keeps_then k w f)
  show e: "keeps R G (events_of i)" for i
    unfolding events_of_def by (intro keeps_rules)
  show "keeps R G (get_voice p i now)"
    unfolding get_voice_def get_voice_row_def require_then by (intro keeps_rules keeps_then e)
  show "keeps R G (get_customer p i :: customer_view voice_op)"
    unfolding get_customer_def require_then by (intro keeps_rules)
  show "keeps R G (sla_deadlines i severity now)"
    unfolding sla_deadlines_def by (intro keeps_rules keeps_then)
qed

lemma append_event_Some:
  assumes "append_event eid vid ty a b note actor now t = Some (t', x)"
  shows "voices t' = voices t" and "vid \<in> set (keys v_id (voices t))"
    and "voice_events t' = voice_events t @ [\<lparr>ve_id = eid, ve_voice = vid, ve_type = ty, ve_from = a, ve_to = b,
       ve_note = trim_space note, ve_actor = actor, ve_at = now\<rparr>]"
  using assms by (auto simp: append_event_def split: if_splits)

definition event_row :: "string \<Rightarrow> string \<Rightarrow> string \<Rightarrow> instant \<Rightarrow> string \<times> string \<times> string \<times> string \<Rightarrow> voice_event" where
  "event_row eid vid actor now e = (case e of (ty, a, b, note) \<Rightarrow>
     \<lparr>ve_id = eid, ve_voice = vid, ve_type = ty, ve_from = a, ve_to = b, ve_note = trim_space note, ve_actor = actor, ve_at = now\<rparr>)"

lemma append_event_E:
  "append_event eid vid ty a b note actor now t = Some (t', x) \<Longrightarrow> voices t' = voices t \<and>
     voice_events t' = voice_events t @ [event_row eid vid actor now (ty, a, b, note)]"
  by (simp add: append_event_Some event_row_def)

lemma tx_create_voice:
  assumes "v_status v = ''RECEIVED''" and "times_ok v"
  shows "tx_triple (\<lambda>t. t = s) (and_then (tx_exec (insert_voice v)) (\<lambda>_.
      tx_exec (append_event eid (v_id v) ''CREATED'' [] ''RECEIVED'' note actor now))) (\<lambda>_ t. voice_step s t)"
proof (rule tx_then)
  let ?M = "\<lambda>(_ :: unit) t. v_id v \<notin> set (keys v_id (voices s)) \<and> t = s\<lparr>voices := voices s @ [v]\<rparr>"
  show "tx_triple (\<lambda>t. t = s) (tx_exec (insert_voice v)) ?M"
    by (rule tx_exec_rule) (auto simp: insert_voice_def split: if_splits)
  show "tx_triple (?M x) (tx_exec (append_event eid (v_id v) ''CREATED'' [] ''RECEIVED'' note actor now))
      (\<lambda>_ t. voice_step s t)" for x :: unit
  proof (rule tx_exec_rule)
    fix u t and y :: unit assume u: "?M x u"
      and "append_event eid (v_id v) ''CREATED'' [] ''RECEIVED'' note actor now u = Some (t, y)"
    note e = append_event_Some [OF this(2)]
    show "voice_step s t"
      by (rule voice_step.received [OF _ assms]) (use u e in auto)
  qed
qed

lemma keeps_create_voice: "keeps R voice_step (create_voice wired p x channel ci vid no eid now)"
proof -
  have new: "v_status (new_voice p x i c vid no vals due occurred now) = ''RECEIVED''"
    "times_ok (new_voice p x i c vid no vals due occurred now)" "v_id (new_voice p x i c vid no vals due occurred now) = vid"
    for x i c vals due occurred by (simp_all add: new_voice_def times_ok_def)
  have commit: "keeps R voice_step (in_tx (and_then (tx_exec (insert_voice (new_voice p x i c vid no vals due occurred now))) (\<lambda>_.
      tx_exec (append_event eid vid ''CREATED'' [] ''RECEIVED'' (vi_body x) (user_id p) now))))"
    for x i c vals due occurred
    using tx_create_voice [OF new(1,2), unfolded new(3)] by (intro keeps_in_tx)
  show ?thesis
    unfolding create_voice_def require_then Let_def
    by (intro keeps_rules keeps_then commit keeps_voice_reads keeps_voice_audit keeps_assigned)
qed

lemma tx_comment: "tx_triple (\<lambda>t. t = s) (comment_tx p vid ty note eid now) (\<lambda>_ t. voice_step s t)"
  unfolding comment_tx_def
proof (rule tx_then)
  let ?M = "\<lambda>(_ :: unit) t. voices t = voices s \<and> vid \<in> set (keys v_id (voices s)) \<and>
    (\<exists>e. voice_events t = voice_events s @ [e] \<and> ve_voice e = vid \<and> ve_to e = [])"
  show "tx_triple (\<lambda>t. t = s) (tx_exec (append_event eid vid ty [] [] note (user_id p) now)) ?M"
    by (rule tx_exec_rule) (auto dest: append_event_Some)
  fix x :: unit
  let ?f = "\<lambda>v. v\<lparr>v_responded := (case v_responded v of None \<Rightarrow> Some now | Some r \<Rightarrow> Some r), v_updated := now\<rparr>"
  have step: "voice_step s t" if t: "?M x u" "voice_events t = voice_events u"
    and f: "voices t = update_where (\<lambda>v. v_id v = vid) f (voices s)" "f = ?f \<or> f = (\<lambda>v. v)" for u t :: voice_tables and f
  proof -
    from t obtain e where e: "voice_events t = voice_events s @ [e]" "ve_voice e = vid" "ve_to e = []" by auto
    show ?thesis
      by (rule voice_step.noted [OF _ _ f(1) e]) (use f(2) t(1) in \<open>auto simp: voice_kept_def split: option.splits\<close>)
  qed
  show "tx_triple (?M x) (if ty = ''CUSTOMER_CONTACT'' then tx_exec (writes (\<lambda>t. t\<lparr>voices := update_where (\<lambda>v. v_id v = vid)
         ?f (voices t)\<rparr>)) else ret ()) (\<lambda>_ t. voice_step s t)"
  proof (rule tx_if)
    show "tx_triple (?M x) (tx_exec (writes (\<lambda>t. t\<lparr>voices := update_where (\<lambda>v. v_id v = vid) ?f (voices t)\<rparr>))) (\<lambda>_ t. voice_step s t)"
    proof (rule tx_exec_rule)
      fix u t :: voice_tables and y :: unit assume u: "?M x u" and t: "writes (\<lambda>t. t\<lparr>voices := update_where (\<lambda>v. v_id v = vid) ?f (voices t)\<rparr>) u = Some (t, y)"
      from u t have "voices t = update_where (\<lambda>v. v_id v = vid) ?f (voices s)" "voice_events t = voice_events u" by auto
      with step [OF u this(2,1)] show "voice_step s t" by blast
    qed
    show "tx_triple (?M x) (ret ()) (\<lambda>_ t. voice_step s t)"
    proof (rule tx_ret)
      fix u :: voice_tables assume u: "?M x u"
      then have "voices u = update_where (\<lambda>v. v_id v = vid) (\<lambda>v. v) (voices s)" by (simp add: update_where_def)
      with step [OF u refl this] show "voice_step s u" by blast
    qed
  qed
qed

lemma keeps_comment: "keeps R voice_step (comment_voice p vid ty note channel ci eid now)"
  unfolding comment_voice_def require_then Let_def
  by (intro keeps_rules keeps_then keeps_in_tx tx_comment keeps_voice_reads keeps_voice_audit)

lemma tx_review: "tx_triple (\<lambda>t. t = s) (review_tx p vid status note eid now) (\<lambda>_ t. voice_step s t)"
  unfolding review_tx_def
proof (rule tx_then)
  let ?f = "\<lambda>v. v\<lparr>v_knowledge := status, v_reviewer := (if status = ''UNREVIEWED'' then None else Some (user_id p)),
        v_reviewed := (if status = ''UNREVIEWED'' then None else Some now), v_updated := now\<rparr>"
  let ?M = "\<lambda>(_ :: unit) t. voices t = update_where (\<lambda>v. v_id v = vid) ?f (voices s) \<and> voice_events t = voice_events s"
  have keys: "keys v_id (update_where (\<lambda>v. v_id v = vid) ?f (voices s)) = keys v_id (voices s)"
    by (rule keys_update_where) simp
  show "tx_triple (\<lambda>t. t = s) (tx_exec (review_update vid status (user_id p) now)) ?M"
    by (rule tx_exec_rule) (auto simp: review_update_def)
  show "tx_triple (?M x) (tx_exec (append_event eid vid ''KNOWLEDGE_REVIEW'' [] [] note (user_id p) now)) (\<lambda>_ t. voice_step s t)"
    for x :: unit
  proof (rule tx_exec_rule)
    fix u t and y :: unit assume u: "?M x u" and "append_event eid vid ''KNOWLEDGE_REVIEW'' [] [] note (user_id p) now u = Some (t, y)"
    note e = append_event_Some [OF this(2)] and u' = conjunct2 [OF u]
    show "voice_step s t"
      by (rule voice_step.noted [where f = ?f and i = vid, OF _ _ _ e(3) [unfolded u']]) (use u e(1,2) keys in \<open>auto simp: voice_kept_def\<close>)
  qed
qed

lemma keeps_review: "keeps R voice_step (review_voice p vid status note channel ci eid now)"
  unfolding review_voice_def require_then Let_def
  by (intro keeps_rules keeps_then keeps_in_tx tx_review keeps_voice_reads keeps_voice_audit)

text \<open>Updating: the case may have been changed since it was read, which the version tells.\<close>

definition case_read :: "voice_row \<Rightarrow> voice_tables \<Rightarrow> bool" where
  "case_read b t \<longleftrightarrow> voices_ok t \<and> (\<exists>v \<in> set (voices t). voice_kept b v)"

lemma stable_case: "stable voice_step (case_read b)"
proof (rule stableI)
  fix s t assume s: "case_read b s" and step: "voice_step s t"
  then obtain v where "v \<in> set (voices s)" "voice_kept b v" by (auto simp: case_read_def)
  with voice_step_evolves [OF step] obtain u where "u \<in> set (voices t)" "voice_kept b u"
    unfolding voices_evolve_def by (blast intro: voice_kept_trans)
  with voice_step_ok [OF step] s show "case_read b t" by (auto simp: case_read_def)
qed

lemma trail_rows:
  "trail vid (map (\<lambda>i. event_row (draw i) vid actor now (es ! i)) [0..<length es]) =
     map (\<lambda>(ty, a, b, note). (a, b)) (filter (\<lambda>(ty, a, b, note). b \<noteq> []) es)"
proof (induction es rule: rev_induct)
  case (snoc e es)
  have "map (\<lambda>i. event_row (draw i) vid actor now ((es @ [e]) ! i)) [0..<length (es @ [e])] =
      map (\<lambda>i. event_row (draw i) vid actor now (es ! i)) [0..<length es] @ [event_row (draw (length es)) vid actor now e]"
    by (simp add: nth_append)
  then show ?case
    unfolding trail_append by (simp only: trail_append snoc.IH) (auto simp: trail_def event_row_def split: prod.splits)
qed (simp add: trail_def)

lemma tx_update_voice:
  assumes read: "case_read b s"
    and f: "\<And>u. voice_kept u (f u) \<and> v_version (f u) = v_version u + 1 \<and> v_status (f u) = status \<and> times_ok (f u)"
    and es: "map (\<lambda>(ty, a, b, note). (a, b)) (filter (\<lambda>(ty, a, b, note). b \<noteq> []) es) =
      (if status = v_status b then [] else [(v_status b, status)])"
    and can: "can_transition (v_status b) status"
  shows "tx_triple (\<lambda>t. t = s) (update_tx p b f es draw now) (\<lambda>_ t. voice_step s t)"
proof -
  let ?P = "\<lambda>v. v_id v = v_id b \<and> v_version v = v_version b"
  let ?ev = "\<lambda>i. event_row (draw i) (v_id b) (user_id p) now (es ! i)"
  define I where "I i t \<longleftrightarrow> voices t = update_where ?P f (voices s) \<and>
    voice_events t = voice_events s @ map ?ev [0..<i]" for i and t :: voice_tables
  from read obtain v where v: "v \<in> set (voices s)" "voice_kept b v" by (auto simp: case_read_def)
  have inj: "inj_on v_id (set (voices s))" using read by (simp add: case_read_def voices_ok_def keys_def distinct_map)
  have upd: "tx_triple (\<lambda>t. t = s) (tx_exec (update_voice_row (v_id b) (v_version b) f))
      (\<lambda>n t. n = int (count_where ?P (voices s)) \<and> I 0 t)"
    by (rule tx_exec_rule) (auto simp: update_voice_row_def I_def Let_def split: if_splits)
  have loop: "tx_triple (I 0) (for_each (\<lambda>i. case es ! i of (ty, a, c, note) \<Rightarrow>
      tx_exec (append_event (draw i) (v_id b) ty a c note (user_id p) now)) [0..<length es]) (\<lambda>_. I (length es))"
  proof (rule tx_for_upt)
    fix i assume "i < length es"
    obtain ty a c nt where e: "es ! i = (ty, a, c, nt)" by (cases "es ! i")
    show "tx_triple (I i) (case es ! i of (ty, a, c, note) \<Rightarrow>
      tx_exec (append_event (draw i) (v_id b) ty a c note (user_id p) now)) (\<lambda>_. I (Suc i))"
      unfolding e prod.case
      by (rule tx_exec_rule) (auto simp: I_def e dest!: append_event_E)
  qed simp
  have step: "voice_step s t" if n: "count_where ?P (voices s) \<noteq> 0" and t: "I (length es) t" for t
  proof -
    from n obtain u where u: "u \<in> set (voices s)" "?P u" unfolding count_where_zero_iff by blast
    have "u = v" by (rule inj_onD [OF inj _ u(1) v(1)]) (use u(2) v(2) in \<open>simp add: voice_kept_def\<close>)
    then have status: "v_status u = v_status b" using u(2) v(2) by (simp add: voice_kept_def)
    have tr: "trail (v_id b) (map ?ev [0..<length es]) = (if status = v_status b then [] else [(v_status b, status)])"
      by (simp only: trail_rows es)
    have ev: "\<forall>e \<in> set (map ?ev [0..<length es]). ve_voice e = v_id b"
      by (auto simp: event_row_def split: prod.splits)
    show ?thesis
      by (rule voice_step.handled [where v = u and i = "v_id b" and n = "v_version b" and f = f and status = status
            and es = "map ?ev [0..<length es]"])
        (use u f t tr ev can status in \<open>simp_all add: I_def\<close>)
  qed
  show ?thesis
    unfolding update_tx_def
    by (rule tx_then [OF upd], rule tx_pre_conj, rule tx_check_then, rule tx_post [OF loop], rule step) auto
qed

lemma updated_facts:
  "voice_kept u (updated_voice p x severity status owner evidence patch reset now u) \<and>
   v_version (updated_voice p x severity status owner evidence patch reset now u) = v_version u + 1 \<and>
   v_status (updated_voice p x severity status owner evidence patch reset now u) = status \<and>
   times_ok (updated_voice p x severity status owner evidence patch reset now u)"
  by (auto simp: updated_voice_def voice_kept_def times_ok_def)

lemma update_events_trail:
  "status \<noteq> [] \<Longrightarrow> map (\<lambda>(ty, a, b, note). (a, b)) (filter (\<lambda>(ty, a, b, note). b \<noteq> []) (update_events before status owner x)) =
     (if status = v_status before then [] else [(v_status before, status)])"
  by (simp add: update_events_def)

lemma update_status_Inr:
  "update_status p before x = Inr (status, evidence) \<Longrightarrow> status \<noteq> [] \<and> can_transition (v_status before) status"
  by (auto simp: update_status_def Let_def voice_statuses_def split: if_splits)

lemma rg_get_voice:
  "rg voice_step voice_step voices_ok (get_voice p vid now) (\<lambda>(b, _). case_read (vv_row b))"
proof -
  have row: "join_voice now t v = Some b \<Longrightarrow> vv_row b = v" for t v b
    by (auto simp: join_voice_def Let_def split: option.splits)
  have "rg voice_step voice_step voices_ok (get_voice_row p vid now) (\<lambda>b. case_read (vv_row b))"
    unfolding get_voice_row_def
    by (rule rg_db_row [OF vi.invariant_stable])
      (auto simp: bind_eq_Some_conv case_read_def dest!: find_Some_mem row intro: voice_kept_refl)
  moreover have "rg voice_step voice_step (case_read (vv_row b)) (events_of vid) (\<lambda>_. case_read (vv_row b))" for b
    by (rule rg_keeps_stable [OF keeps_voice_reads(7) stable_case stable_case])
  ultimately show ?thesis
    unfolding get_voice_def require_then by (intro rg_if rg_raise rg_then) (auto intro: rg_ret)
qed


lemma reads_keep_case: "keeps voice_step voice_step m \<Longrightarrow> rg voice_step voice_step (case_read b) m (\<lambda>_. case_read b)"
  by (rule rg_keeps_stable [OF _ stable_case stable_case])

lemma rg_update: "rg voice_step voice_step voices_ok (update_voice wired p vid x channel ci draw now) (\<lambda>_ _. True)"
proof -
  have commit: "rg voice_step voice_step (case_read b) (in_tx (update_tx p b
        (updated_voice p x severity status owner evidence patch reset now) (update_events b status owner x) draw now)) (\<lambda>_ _. True)"
    if "update_status p b x = Inr (status, evidence)" for b severity status owner evidence patch reset
    using update_status_Inr [OF that] updated_facts
    by (intro rg_in_tx [OF stable_case] tx_post [OF tx_update_voice [OF _ _ update_events_trail]]) simp_all
  have check: "keeps voice_step voice_step (if vi_category x \<noteq> [] \<and> Some (vi_category x) \<noteq> v_category b
        then and_then (category_by p (vi_category x)) (\<lambda>c. check (cg_workspace c = v_workspace b) Other_workspace)
        else ret ())" for b
    by (intro keeps_rules keeps_then keeps_voice_reads)
  have after: "rg voice_step voice_step (\<lambda>_. True)
     (and_then (record_audit (audit_event p ci channel ''VOICE_UPDATE'' ''customer_voice'' vid)) (\<lambda>_.
      and_then (get_voice p vid now) (\<lambda>(out, _).
      and_then (if owner \<noteq> v_owner b then notify_assigned wired p out else ret ()) (\<lambda>_. ret out)))) (\<lambda>_ _. True)" for owner b
    unfolding keeps_def [symmetric] by (intro keeps_rules keeps_then keeps_voice_reads keeps_voice_audit keeps_assigned)
  show ?thesis
    unfolding update_voice_def Let_def require_then
    by (intro rg_if rg_raise rg_then [OF rg_get_voice] rg_case_prod_pre rg_lift_then rg_case_prod
        rg_then [OF reads_keep_case [OF check]] rg_then [OF reads_keep_case [OF keeps_voice_reads(6)]]
        rg_then [OF commit after]) auto
qed

lemma rg_resolve: "rg voice_step voice_step voices_ok (resolve_voice wired p vid x channel ci draw draw' now) (\<lambda>_ _. True)"
proof -
  have get: "rg voice_step voice_step voices_ok (get_voice p vid now) (\<lambda>_. voices_ok)"
    by (rule rg_keeps_stable [OF keeps_voice_reads(8) vi.invariant_stable vi.invariant_stable])
  have update: "rg voice_step voice_step voices_ok (update_voice wired p vid y channel ci draw now) (\<lambda>_. voices_ok)" for y draw
    by (rule rg_post [OF rg_invariant [OF rg_update vi.invariant_stable vi.invariant_stable]]) auto
  show ?thesis
    unfolding resolve_voice_def
    by (intro rg_then [OF get] rg_case_prod rg_check_then rg_post [OF update]
       rg_then [where M = "\<lambda>_. voices_ok"] rg_if rg_ret update) auto
qed

end
