(* ===== verification/Voice_Props.thy ===== *)
theory Voice_Props
  imports Voice_Facts Samples Crm_Facts
begin

text \<open>
  The properties of the voice of the customer: the recorded history, the knowledge gate, the search
  for similar cases, the numbering of requests and the check of submitted fields.
\<close>

section \<open>The history\<close>

text \<open>
  C16: Whatever fails and whatever other sessions do in between, creating, updating, commenting,
  reviewing and resolving requests keep the history true: the recorded changes of status of every
  request are a path of the life cycle that starts with its receipt and ends in its status, a request
  has a resolution time exactly while it is resolved or closed, a closing time exactly while it is
  closed, and a first response once it left the received state.
\<close>

theorem history_tells_status:
  assumes "voices_ok (tabs w)" and "rely_ok voice_step w"
  shows "voices_ok (tabs (snd (create_voice wired p x channel ci vid no eid now w))) \<and>
    voices_ok (tabs (snd (update_voice wired p vid y channel ci draw now w))) \<and>
    voices_ok (tabs (snd (comment_voice p vid ty note channel ci eid now w))) \<and>
    voices_ok (tabs (snd (review_voice p vid status note channel ci eid now w))) \<and>
    voices_ok (tabs (snd (resolve_voice wired p vid z channel ci draw draw' now w)))"
  using assms by (intro conjI vi.keeps_invariant keeps_create_voice keeps_comment keeps_review
      vi.method_keeps [OF rg_update] vi.method_keeps [OF rg_resolve])

text \<open>
  C19: What was recorded of a request is final: events are only appended, and every request keeps its
  number, customer, workspace, time of occurrence, both deadlines and, once given, its first response.
\<close>

theorem handling_is_final:
  assumes "voices_ok (tabs w)" and "rely_ok voice_step w"
  shows "voices_evolve (tabs w) (tabs (snd (create_voice wired p x channel ci vid no eid now w))) \<and>
    voices_evolve (tabs w) (tabs (snd (update_voice wired p vid y channel ci draw now w))) \<and>
    voices_evolve (tabs w) (tabs (snd (comment_voice p vid ty note channel ci eid now w))) \<and>
    voices_evolve (tabs w) (tabs (snd (review_voice p vid status note channel ci eid now w))) \<and>
    voices_evolve (tabs w) (tabs (snd (resolve_voice wired p vid z channel ci draw draw' now w)))"
  using assms by (intro conjI vh.keeps_history keeps_create_voice keeps_comment keeps_review
      vh.method_history [OF rg_update] vh.method_history [OF rg_resolve])

definition toy_desk :: voice_tables where
  "toy_desk = crm_tables.extend toy_crm (voice_tables.fields [] [] [] [] [])"

definition toy_agent :: principal where
  "toy_agent = acting [''voice:read'', ''voice:write'', ''voice:knowledge-review'', ''customer:read'']"

definition toy_request :: voice_input where
  "toy_request = \<lparr>vi_customer = ''c1'', vi_contact = [], vi_opportunity = [], vi_contract = [], vi_category = [],
     vi_type = ''INQUIRY'', vi_channel = [], vi_title = ''Printer'', vi_body = [], vi_severity = ''HIGH'',
     vi_owner = [], vi_occurred = None, vi_fields = [], vi_version = 0\<rparr>"

definition toy_received :: voice_tables where
  "toy_received = tabs (snd (create_voice False toy_agent toy_request ''WEB'' toy_ci ''v1'' ''VOC-1'' ''e1'' 0 (calm toy_desk)))"

definition toy_resolution :: resolve_input where
  "toy_resolution = \<lparr>ri_resolution = ''new toner'', ri_cause = [], ri_evidence = [], ri_preventive = [], ri_fields = [], ri_note = []\<rparr>"

definition toy_resolved :: voice_tables where
  "toy_resolved = tabs (snd (resolve_voice False toy_agent ''v1'' toy_resolution ''WEB'' toy_ci
     (\<lambda>i. ''e2'') (\<lambda>i. ''e3'') (2 * hour_ns) (calm toy_received)))"

lemma toy_desk_ok: "voices_ok toy_desk"
  by (simp add: voices_ok_def toy_desk_def voice_tables.defs crm_tables.defs keys_def)

lemma calm_serves: "rely_ok voice_step (calm s)"
  by (simp add: rely_ok_def)

lemma toy_resolved_trail:
  "trail ''v1'' (voice_events toy_resolved) =
     [([], ''RECEIVED''), (''RECEIVED'', ''IN_PROGRESS''), (''IN_PROGRESS'', ''RESOLVED'')] \<and>
   map (\<lambda>v. (v_status v, v_response_due v, v_responded v, v_resolved v)) (voices toy_resolved) =
     [(''RESOLVED'', Some (4 * hour_ns), Some (2 * hour_ns), Some (2 * hour_ns))]"
  by code_simp

lemma toy_received_ok: "voices_ok toy_received"
  using vi.keeps_invariant [OF keeps_create_voice _ calm_serves] toy_desk_ok unfolding toy_received_def by simp

theorem history_tells_status_witness:
  "voices_ok toy_resolved \<and> trail ''v1'' (voice_events toy_resolved) =
     [([], ''RECEIVED''), (''RECEIVED'', ''IN_PROGRESS''), (''IN_PROGRESS'', ''RESOLVED'')]"
  using history_tells_status [of "calm toy_received"] toy_received_ok calm_serves toy_resolved_trail
  unfolding toy_resolved_def by simp

theorem handling_is_final_witness:
  "voices_evolve toy_received toy_resolved \<and>
   map (\<lambda>v. (v_response_due v, v_responded v)) (voices toy_resolved) = [(Some (4 * hour_ns), Some (2 * hour_ns))]"
proof -
  have "map (\<lambda>v. (v_response_due v, v_responded v)) (voices toy_resolved) = [(Some (4 * hour_ns), Some (2 * hour_ns))]"
    by code_simp
  then show ?thesis
    using handling_is_final [of "calm toy_received"] toy_received_ok calm_serves unfolding toy_resolved_def by simp
qed

section \<open>The knowledge gate\<close>

text \<open>Approved knowledge comes from a case that is resolved or closed.\<close>

definition gate_ok :: "voice_tables \<Rightarrow> bool" where
  "gate_ok t \<longleftrightarrow> distinct (keys v_id (voices t)) \<and>
     (\<forall>v \<in> set (voices t). v_knowledge v = ''APPROVED'' \<longrightarrow> v_status v \<in> {''RESOLVED'', ''CLOSED''})"

text \<open>A session that works alone: nobody commits in between, and the gate holds after each step.\<close>

definition gate_step :: "voice_tables \<Rightarrow> voice_tables \<Rightarrow> bool" where
  "gate_step s t \<longleftrightarrow> (gate_ok s \<longrightarrow> gate_ok t)"

interpretation vg: shared_invariant "(=)" gate_step gate_ok
  by unfold_locales (auto simp: gate_step_def)

lemma gate_same: "voices t = voices s \<Longrightarrow> gate_step s t"
  by (simp add: gate_step_def gate_ok_def)

text \<open>Changing the rows of one request: only the row as it becomes matters.\<close>

lemma gate_update:
  assumes "\<And>v. v_id (f v) = v_id v" and "voices t = update_where P f (voices s)"
    and "\<And>v. v \<in> set (voices s) \<Longrightarrow> P v \<Longrightarrow> gate_ok s \<Longrightarrow> v_knowledge (f v) = ''APPROVED'' \<Longrightarrow> v_status (f v) \<in> {''RESOLVED'', ''CLOSED''}"
  shows "gate_step s t"
  unfolding gate_step_def
proof
  assume ok: "gate_ok s"
  have "keys v_id (voices t) = keys v_id (voices s)"
    unfolding assms(2) using assms(1) by (intro keys_update_where) simp
  moreover have "v_status v \<in> {''RESOLVED'', ''CLOSED''}" if v: "v \<in> set (voices t)" "v_knowledge v = ''APPROVED''" for v
  proof -
    from v(1) obtain u where u: "u \<in> set (voices s)" "v = (if P u then f u else u)"
      unfolding assms(2) set_update_where by blast
    with assms(3) [OF u(1) _ ok] v(2) ok show ?thesis by (cases "P u") (auto simp: gate_ok_def)
  qed
  ultimately show "gate_ok t" using ok by (simp add: gate_ok_def)
qed

lemma gate_audit: "keeps (=) gate_step (record_audit e)" "keeps (=) gate_step (notify_assigned wired p x)"
  unfolding record_audit_def notify_assigned_def by (intro keeps_rules; auto intro: gate_same)+

lemma gate_create: "keeps (=) gate_step (create_voice wired p x channel ci vid no eid now)"
proof -
  have "keeps (=) gate_step (in_tx (and_then (tx_exec (insert_voice (new_voice p y i c vid no vals due occurred now))) (\<lambda>_.
      tx_exec (append_event eid vid ''CREATED'' [] ''RECEIVED'' (vi_body y) (user_id p) now))))" (is "keeps _ _ (in_tx ?tx)")
    for y i c vals due occurred
  proof (rule keeps_in_tx)
    fix s :: voice_tables
    let ?v = "new_voice p y i c vid no vals due occurred now"
    have "tx_triple (\<lambda>t. t = s) ?tx (\<lambda>_ t. v_id ?v \<notin> set (keys v_id (voices s)) \<and> voices t = voices s @ [?v])"
      by (rule tx_then [where M = "\<lambda>_ t. v_id ?v \<notin> set (keys v_id (voices s)) \<and> voices t = voices s @ [?v]"]; rule tx_exec_rule)
        (auto simp: insert_voice_def append_event_def split: if_splits)
    then show "tx_triple (\<lambda>t. t = s) ?tx (\<lambda>_ t. gate_step s t)"
      by (rule tx_post) (auto simp: gate_step_def gate_ok_def keys_def new_voice_def)
  qed
  then show ?thesis
    unfolding create_voice_def require_then Let_def
    by (intro keeps_rules keeps_then keeps_voice_reads gate_audit)
qed

lemma gate_comment: "keeps (=) gate_step (comment_voice p vid ty note channel ci eid now)"
proof -
  have contact: "gate_step s t" if "voices t = update_where (\<lambda>v. v_id v = vid)
      (\<lambda>v. v\<lparr>v_responded := (case v_responded v of None \<Rightarrow> Some now | Some r \<Rightarrow> Some r), v_updated := now\<rparr>) (voices s)" for s t
    by (rule gate_update [OF _ that]) (auto simp: gate_ok_def)
  have "tx_triple (\<lambda>t. t = s) (comment_tx p vid ty note eid now) (\<lambda>_ t. gate_step s t)" for s ty
    unfolding comment_tx_def
    by (rule tx_then [where M = "\<lambda>_ t. voices t = voices s"], (rule tx_exec_rule, auto simp: append_event_def split: if_splits)[1],
        rule tx_if; (rule tx_exec_rule | rule tx_ret)) (auto intro: gate_same contact)
  then show ?thesis
    unfolding comment_voice_def require_then Let_def
    by (intro keeps_rules keeps_then keeps_in_tx keeps_voice_reads gate_audit)
qed

definition alone_read :: "voice_row \<Rightarrow> voice_tables \<Rightarrow> bool" where
  "alone_read b t \<longleftrightarrow> gate_ok t \<and> b \<in> set (voices t)"

lemma alone_get_voice: "rg (=) gate_step gate_ok (get_voice p vid now) (\<lambda>(b, _). \<lambda>t. alone_read (vv_row b) t \<and> v_id (vv_row b) = vid)"
proof -
  have row: "join_voice now t v = Some b \<Longrightarrow> vv_row b = v" for t v b
    by (auto simp: join_voice_def Let_def split: option.splits)
  have "rg (=) gate_step gate_ok (get_voice_row p vid now) (\<lambda>b t. alone_read (vv_row b) t \<and> v_id (vv_row b) = vid)"
    unfolding get_voice_row_def
    by (rule rg_db_row) (auto simp: stable_def bind_eq_Some_conv alone_read_def dest!: find_Some_mem row)
  moreover have "rg (=) gate_step P (events_of vid) (\<lambda>_. P)" for P
    by (intro rg_reads_alone keeps_voice_reads) (simp add: gate_step_def)
  ultimately show ?thesis
    unfolding get_voice_def require_then by (intro rg_if rg_raise rg_then) (auto intro: rg_ret)
qed

lemma alone_in_tx:
  assumes "\<And>s. P s \<Longrightarrow> tx_triple (\<lambda>t. t = s) m (\<lambda>_ t. gate_step s t)"
  shows "rg (=) gate_step P (in_tx m) (\<lambda>_ _. True)"
  by (rule rg_in_tx) (use assms in \<open>auto simp: stable_def\<close>)

lemma gate_review: "rg (=) gate_step gate_ok (review_voice p vid status note channel ci eid now) (\<lambda>_ _. True)"
proof -
  have tx: "tx_triple (\<lambda>t. t = s) (review_tx p vid k note eid now) (\<lambda>_ t. gate_step s t)"
    if b: "alone_read b s \<and> v_id b = vid" and k: "\<not> (k = ''APPROVED'' \<and> v_status b \<noteq> ''RESOLVED'' \<and> v_status b \<noteq> ''CLOSED'')"
    for s k b
  proof -
    let ?f = "\<lambda>v. v\<lparr>v_knowledge := k, v_reviewer := (if k = ''UNREVIEWED'' then None else Some (user_id p)),
        v_reviewed := (if k = ''UNREVIEWED'' then None else Some now), v_updated := now\<rparr>"
    have step: "gate_step s t" if t: "voices t = update_where (\<lambda>v. v_id v = vid) ?f (voices s)" for t
    proof (rule gate_update [OF _ t])
      fix v assume v: "v \<in> set (voices s)" "v_id v = vid" "gate_ok s" "v_knowledge (?f v) = ''APPROVED''"
      have "inj_on v_id (set (voices s))" using v(3) by (simp add: gate_ok_def keys_def distinct_map)
      then have "v = b" by (rule inj_onD) (use v b in \<open>auto simp: alone_read_def\<close>)
      then show "v_status (?f v) \<in> {''RESOLVED'', ''CLOSED''}" using k v(4) by auto
    qed simp
    show ?thesis
      unfolding review_tx_def
      by (rule tx_then [where M = "\<lambda>_ t. voices t = update_where (\<lambda>v. v_id v = vid) ?f (voices s)"]; rule tx_exec_rule)
        (auto simp: review_update_def append_event_def split: if_splits intro: step)
  qed
  have after: "rg (=) gate_step (\<lambda>_. True) (and_then (record_audit (audit_event p ci channel ''VOICE_KNOWLEDGE_REVIEW'' ''customer_voice'' vid)) (\<lambda>_.
       and_then (get_voice p vid now) (\<lambda>(out, _). ret out))) (\<lambda>_ _. True)"
    unfolding keeps_def [symmetric] by (intro keeps_rules keeps_then keeps_voice_reads gate_audit)
  show ?thesis
    unfolding review_voice_def Let_def require_then
    by (intro rg_if rg_raise rg_check_then rg_then [OF alone_get_voice] rg_case_prod_pre rg_ret
        rg_then [OF alone_in_tx after] tx) auto
qed

lemma gate_update_tx:
  assumes b: "alone_read b s" and status: "update_status p b x = Inr (status, evidence)"
    and reset: "reset = (terminal (v_status b) \<and> \<not> terminal status \<and> v_knowledge b \<noteq> ''UNREVIEWED'')"
  shows "tx_triple (\<lambda>t. t = s) (update_tx p b (updated_voice p x severity status owner evidence patch reset now) es draw now)
      (\<lambda>_ t. gate_step s t)"
proof -
  let ?f = "updated_voice p x severity status owner evidence patch reset now"
  let ?P = "\<lambda>v. v_id v = v_id b \<and> v_version v = v_version b"
  have step: "gate_step s t" if t: "voices t = update_where ?P ?f (voices s)" for t
  proof (rule gate_update [OF _ t])
    fix v assume v: "v \<in> set (voices s)" "?P v" "gate_ok s" "v_knowledge (?f v) = ''APPROVED''"
    have "inj_on v_id (set (voices s))" using v(3) by (simp add: gate_ok_def keys_def distinct_map)
    then have "v = b" by (rule inj_onD) (use v b in \<open>auto simp: alone_read_def\<close>)
    with v have "v_knowledge b = ''APPROVED''" "\<not> reset" by (auto simp: updated_voice_def split: if_splits)
    moreover from this have "v_status b \<in> {''RESOLVED'', ''CLOSED''}" using v \<open>v = b\<close> by (auto simp: gate_ok_def)
    ultimately have "status \<in> {''RESOLVED'', ''CLOSED''}"
      using update_status_Inr [OF status] reset by (auto simp: can_transition_def allowed_transitions_def terminal_def)
    then show "v_status (?f v) \<in> {''RESOLVED'', ''CLOSED''}" by (auto simp: updated_voice_def)
  qed (simp add: updated_voice_def)
  let ?I = "\<lambda>t. voices t = update_where ?P ?f (voices s)"
  have "tx_triple (\<lambda>t. t = s) (update_tx p b ?f es draw now) (\<lambda>_. ?I)"
    unfolding update_tx_def
    by (rule tx_then [where M = "\<lambda>_. ?I"], (rule tx_exec_rule, auto simp: update_voice_row_def Let_def split: if_splits)[1],
        rule tx_check_then, rule tx_for_each, simp split: prod.split, intro allI impI, rule tx_exec_rule)
      (auto simp: append_event_def split: if_splits)
  then show ?thesis by (rule tx_post) (rule step)
qed

lemma gate_update_voice: "rg (=) gate_step gate_ok (update_voice wired p vid x channel ci draw now) (\<lambda>_ _. True)"
proof -
  have reads: "rg (=) gate_step P (intake_for p cid) (\<lambda>_. P)" for P cid
    by (intro rg_reads_alone keeps_voice_reads) (simp add: gate_step_def)
  have check: "rg (=) gate_step P (if vi_category x \<noteq> [] \<and> Some (vi_category x) \<noteq> v_category b
        then and_then (category_by p (vi_category x)) (\<lambda>c. check (cg_workspace c = v_workspace b) Other_workspace)
        else ret ()) (\<lambda>_. P)" for b P
    by (rule rg_reads_alone) (auto intro!: keeps_rules keeps_then keeps_voice_reads simp: gate_step_def)
  have after: "rg (=) gate_step (\<lambda>_. True)
     (and_then (record_audit (audit_event p ci channel ''VOICE_UPDATE'' ''customer_voice'' vid)) (\<lambda>_.
      and_then (get_voice p vid now) (\<lambda>(out, _).
      and_then (if owner \<noteq> v_owner b then notify_assigned wired p out else ret ()) (\<lambda>_. ret out)))) (\<lambda>_ _. True)" for owner b
    unfolding keeps_def [symmetric] by (intro keeps_rules keeps_then keeps_voice_reads gate_audit)
  show ?thesis
    unfolding update_voice_def Let_def require_then
    by (intro rg_if rg_raise rg_then [OF alone_get_voice] rg_case_prod_pre rg_lift_then rg_case_prod
        rg_then [OF check] rg_then [OF reads] rg_then [OF alone_in_tx after] gate_update_tx) auto
qed

lemma gate_resolve: "rg (=) gate_step gate_ok (resolve_voice wired p vid x channel ci draw draw' now) (\<lambda>_ _. True)"
proof -
  have st: "stable (=) gate_ok" "stable gate_step gate_ok" by (auto simp: stable_def gate_step_def)
  have get: "rg (=) gate_step gate_ok (get_voice p vid now) (\<lambda>_. gate_ok)"
    by (rule rg_keeps_stable [OF keeps_voice_reads(8) st])
  have update: "rg (=) gate_step gate_ok (update_voice wired p vid y channel ci draw now) (\<lambda>_. gate_ok)" for y draw
    by (rule rg_post [OF rg_invariant [OF gate_update_voice st]]) auto
  show ?thesis
    unfolding resolve_voice_def
    by (intro rg_then [OF get] rg_case_prod rg_check_then rg_post [OF update]
       rg_then [where M = "\<lambda>_. gate_ok"] rg_if rg_ret update) auto
qed

lemma calm_alone: "rely_ok (=) (calm s)"
  by (simp add: rely_ok_def)

text \<open>
  C33: As long as no other session commits in between, only resolved and closed cases are ever approved
  as knowledge: every operation keeps this, and an update that reopens an approved case withdraws
  the approval.
\<close>

theorem knowledge_gate_alone:
  assumes "gate_ok t"
  shows "gate_ok (tabs (snd (create_voice wired p x channel ci vid no eid now (calm t)))) \<and>
    gate_ok (tabs (snd (update_voice wired p vid y channel ci draw now (calm t)))) \<and>
    gate_ok (tabs (snd (comment_voice p vid ty note channel ci eid now (calm t)))) \<and>
    gate_ok (tabs (snd (review_voice p vid status note channel ci eid now (calm t)))) \<and>
    gate_ok (tabs (snd (resolve_voice wired p vid z channel ci draw draw' now (calm t))))"
  using assms calm_alone [of t] by (intro conjI vg.keeps_invariant gate_create gate_comment
      vg.method_keeps [OF gate_review] vg.method_keeps [OF gate_update_voice] vg.method_keeps [OF gate_resolve]) auto

definition toy_case :: "string \<Rightarrow> voice_row" where
  "toy_case knowledge = \<lparr>v_id = ''v1'', v_no = ''VOC-1'', v_customer = ''c1'', v_contact = None, v_opportunity = None,
     v_contract = None, v_category = None, v_type = ''INQUIRY'', v_channel = ''EMAIL'', v_title = ''Printer'', v_body = [],
     v_severity = ''LOW'', v_status = ''RESOLVED'', v_owner = ''u1'', v_org = None, v_occurred = 0, v_response_due = None,
     v_resolution_due = None, v_responded = Some 1, v_resolved = Some 2, v_closed = None, v_resolution = ''new toner'',
     v_cause = [], v_preventive = [], v_score = None, v_comment = [], v_fields = [], v_workspace = None, v_evidence = [],
     v_knowledge = knowledge, v_reviewer = None, v_reviewed = None, v_version = 3, v_updated_by = ''u1'', v_created = 0,
     v_updated = 0\<rparr>"

definition toy_shelf :: "string \<Rightarrow> voice_tables" where
  "toy_shelf knowledge = toy_desk\<lparr>voices := [toy_case knowledge]\<rparr>"

definition toy_approved :: voice_tables where
  "toy_approved = toy_shelf ''APPROVED''"

lemma toy_shelf_ok: "gate_ok (toy_shelf knowledge)"
  by (simp add: gate_ok_def keys_def toy_shelf_def toy_case_def)

definition toy_reopening :: voice_update where
  "toy_reopening = status_update 0 ''IN_PROGRESS'' []"

lemma toy_reopened:
  "map (\<lambda>v. (v_status v, v_knowledge v)) (voices (tabs (snd (update_voice False toy_agent ''v1'' toy_reopening
     ''WEB'' toy_ci (\<lambda>i. [char_of i]) 9 (calm toy_approved))))) = [(''IN_PROGRESS'', ''UNREVIEWED'')]"
  by code_simp

theorem knowledge_gate_alone_witness:
  "gate_ok (tabs (snd (update_voice False toy_agent ''v1'' toy_reopening ''WEB'' toy_ci (\<lambda>i. [char_of i]) 9 (calm toy_approved)))) \<and>
   map (\<lambda>v. (v_status v, v_knowledge v)) (voices toy_approved) = [(''RESOLVED'', ''APPROVED'')] \<and>
   map (\<lambda>v. (v_status v, v_knowledge v)) (voices (tabs (snd (update_voice False toy_agent ''v1'' toy_reopening
     ''WEB'' toy_ci (\<lambda>i. [char_of i]) 9 (calm toy_approved))))) = [(''IN_PROGRESS'', ''UNREVIEWED'')]"
proof -
  have "map (\<lambda>v. (v_status v, v_knowledge v)) (voices toy_approved) = [(''RESOLVED'', ''APPROVED'')]"
    by (simp add: toy_approved_def toy_shelf_def toy_case_def)
  then show ?thesis
    using knowledge_gate_alone [of toy_approved] toy_shelf_ok toy_reopened unfolding toy_approved_def by blast
qed

definition toy_race :: "voice_tables world" where
  "toy_race = (calm (toy_shelf ''UNREVIEWED''))\<lparr>others := [\<lambda>t. t, \<lambda>t. t, \<lambda>t. t,
     \<lambda>t. tabs (snd (review_voice toy_agent ''v1'' ''APPROVED'' [] ''WEB'' toy_ci ''e9'' 8 (calm t)))]\<rparr>"

text \<open>
  The gate does not hold between sessions: the review neither checks that the case is still in
  the status it read nor raises the version an update compares, so a review that commits while another
  session reopens the case leaves an open case approved as knowledge.
\<close>

theorem review_race_breaks_gate:
  "gate_ok (tabs toy_race) \<and>
   map (\<lambda>v. (v_status v, v_knowledge v)) (voices (tabs (snd (update_voice False toy_agent ''v1'' toy_reopening
     ''WEB'' toy_ci (\<lambda>i. [char_of i]) 9 toy_race)))) = [(''IN_PROGRESS'', ''APPROVED'')]"
proof
  show "gate_ok (tabs toy_race)"
    using toy_shelf_ok by (simp add: toy_race_def)
  show "map (\<lambda>v. (v_status v, v_knowledge v)) (voices (tabs (snd (update_voice False toy_agent ''v1'' toy_reopening
     ''WEB'' toy_ci (\<lambda>i. [char_of i]) 9 toy_race)))) = [(''IN_PROGRESS'', ''APPROVED'')]"
    by code_simp
qed

text \<open>Closing a resolved request is recorded as reopening it: the type of the event only asks where the request comes from.\<close>

lemma closing_recorded_as_reopening:
  assumes "v_status before = ''RESOLVED''"
  shows "hd (update_events before ''CLOSED'' owner x) = (''REOPENED'', ''RESOLVED'', ''CLOSED'', vu_note x)"
  using assms by (simp add: update_events_def terminal_def)

section \<open>The search for similar cases\<close>

lemma set_knowledge_order [simp]: "set (knowledge_order ft pats vs) = set vs"
  by (simp add: knowledge_order_def)

lemma to_upper_Nil_iff: "to_upper s = [] \<longleftrightarrow> s = []"
  by (cases s rule: to_upper.cases) (auto simp: to_upper.simps)

lemma pattern_empty: "search_pattern x = [] \<longleftrightarrow> trim_space x = []"
  by (simp add: search_pattern_def Let_def)

definition found_by :: "((string \<times> json) list \<Rightarrow> string) \<Rightarrow> principal \<Rightarrow> knowledge_query \<Rightarrow> voice_tables \<Rightarrow> voice_row \<Rightarrow> bool" where
  "found_by ft p q t v \<longleftrightarrow> v \<in> set (voices t) \<and> sees_voice p t v \<and> v_status v \<in> {''RESOLVED'', ''CLOSED''} \<and>
    (v_knowledge v = ''APPROVED'' \<or> kq_unreviewed q \<and> v_knowledge v \<in> {''IN_REVIEW'', ''UNREVIEWED''}) \<and>
    (blank (kq_evidence q) \<or> v_evidence v = to_upper (trim_space (kq_evidence q))) \<and>
    (\<forall>x \<in> set (take 8 (words (kq_text q))). trim_space x \<noteq> [] \<longrightarrow>
       (\<exists>col \<in> {v_title v, ft (v_fields v), v_cause v, v_body v, v_resolution v}.
          contains_sub (to_lower col) (to_lower (trim_space x))))"

lemma is_knowledge_found:
  assumes "is_knowledge ft p q ws (to_upper (trim_space (kq_evidence q))) fs
      (filter (\<lambda>pat. pat \<noteq> []) (map search_pattern (take 8 (words (kq_text q))))) t v" and "v \<in> set (voices t)"
  shows "found_by ft p q t v"
proof -
  have found: "\<exists>col \<in> {v_title v, ft (v_fields v), v_cause v, v_body v, v_resolution v}.
      contains_sub (to_lower col) (to_lower (trim_space x))"
    if x: "x \<in> set (take 8 (words (kq_text q)))" "trim_space x \<noteq> []" for x
  proof -
    have "term_matches ft v (search_pattern x)"
      using assms(1) x unfolding is_knowledge_def list_all_iff by (auto simp: pattern_empty)
    then show ?thesis by (auto simp: term_matches_def knowledge_columns_def like_pattern [OF x(2)])
  qed
  have evidence: "blank (kq_evidence q) \<or> v_evidence v = to_upper (trim_space (kq_evidence q))"
    using assms(1) by (auto simp: is_knowledge_def blank_def to_upper_Nil_iff)
  show ?thesis
    using assms found evidence by (auto simp: found_by_def is_knowledge_def knowledge_states_def split: if_splits)
qed

lemma rg_search:
  "rg (\<lambda>_ _. True) (=) (\<lambda>_. True) (search_knowledge ft p q)
     (\<lambda>r t. length r \<le> 50 \<and> (\<forall>(v, name, code) \<in> set r. found_by ft p q t v))"
proof -
  have reads: "keeps (\<lambda>_ _. True) (=) (if \<not> blank (kq_workspace q)
        then and_then (workspace_by p (kq_workspace q)) (\<lambda>w. ret (w_id (wv_row w), wv_fields w))
        else if kq_fields q \<noteq> [] then and_then (field_catalog_of p) (\<lambda>c.
          ret (kq_workspace q, fc_fields c @ concat (map wv_fields (fc_workspaces c))))
        else ret (kq_workspace q, []))"
    unfolding field_catalog_of_def by (intro keeps_rules keeps_then keeps_voice_reads)
  show ?thesis
    unfolding search_knowledge_def require_then Let_def
    by (intro rg_if rg_raise rg_then [OF reads [unfolded keeps_def]] rg_case_prod rg_check_then rg_lift_then rg_db_query)
      (auto simp: stable_def set_map_filter dest!: in_set_takeD intro: is_knowledge_found)
qed


definition toy_query :: knowledge_query where
  "toy_query = \<lparr>kq_text = ''TO'', kq_workspace = [], kq_fields = [], kq_evidence = [], kq_unreviewed = False, kq_limit = 0\<rparr>"

lemma toy_query_words: "words ''TO'' = [''TO'']" "search_pattern ''TO'' = ''%to%''"
  by code_simp+

lemma toy_query_hit: "is_knowledge (\<lambda>_. []) toy_agent toy_query [] [] [] [''%to%''] toy_approved (toy_case ''APPROVED'')"
  by code_simp

lemma toy_query_result:
  "search_knowledge (\<lambda>_. []) toy_agent toy_query (calm toy_approved) = (Inr [(toy_case ''APPROVED'', ''Acme'', [])], calm toy_approved)"
proof -
  have "has toy_agent ''voice:read''" by code_simp
  moreover have "voices toy_approved = [toy_case ''APPROVED'']" by (simp add: toy_approved_def toy_shelf_def)
  moreover have "row_by cu_id (v_customer (toy_case ''APPROVED'')) (customers toy_approved) = Some toy_customer" by code_simp
  moreover have "cu_name toy_customer = ''Acme''" "cu_code toy_customer = []" by (simp_all add: toy_customer_def)
  ultimately show ?thesis
    using toy_query_hit
    by (simp add: search_knowledge_def require_then calm_simps toy_query_words toy_query_def Let_def
        knowledge_order_def sort_desc_def map_filter_simps to_upper.simps)
qed


section \<open>The numbering of requests\<close>

lemma length_show_nat: "n < 10 ^ Suc k \<Longrightarrow> length (show_nat n) \<le> Suc k"
proof (induction k arbitrary: n)
  case 0
  then show ?case by (subst show_nat.simps) simp
next
  case (Suc k)
  then show ?case by (subst show_nat.simps) (auto intro: order_trans [OF Suc.IH])
qed

lemma read_zeros: "read_digits (replicate k CHR ''0'' @ s) = read_digits s"
  by (induction k) (simp_all add: read_digits_def digit_val_def)

lemma read_lpad: "n < 1000000 \<Longrightarrow> read_digits (lpad 6 (show_nat n)) = n"
  using length_show_nat [of n 5] by (simp add: lpad_def read_zeros read_show_nat)

text \<open>
  The numbers drawn in a year differ as long as fewer than a million requests were received; the
  millionth gets the number of the hundred thousandth, because \<open>lpad\<close> cuts the seventh digit off.
\<close>

theorem voice_numbers_differ:
  assumes "m < 1000000" and "n < 1000000"
  shows "(voice_number y m = voice_number y n \<longleftrightarrow> m = n) \<and> voice_number y 1000000 = voice_number y 100000"
proof -
  have "m = n" if "voice_number y m = voice_number y n"
  proof -
    have "lpad 6 (show_nat m) = lpad 6 (show_nat n)" using that by (simp add: voice_number_def)
    with read_lpad [OF assms(1)] show "m = n" by (simp only: read_lpad [OF assms(2)])
  qed
  have "show_nat 1000000 = show_nat 100000 @ [digit_char 0]"
    by (subst show_nat.simps) simp
  moreover have "length (show_nat 100000) = 6"
    by (simp add: show_nat.simps)
  ultimately have "voice_number y 1000000 = voice_number y 100000"
    by (simp add: voice_number_def lpad_def)
  with \<open>voice_number y m = voice_number y n \<Longrightarrow> m = n\<close> show ?thesis by blast
qed

theorem voice_numbers_differ_witness: "voice_number 2024 7 \<noteq> voice_number 2024 70"
  using voice_numbers_differ [of 7 70 2024] by simp

section \<open>Submitted fields\<close>

text \<open>What a stored value of a field looks like.\<close>

definition fits :: "field_row \<Rightarrow> json \<Rightarrow> bool" where
  "fits f v \<longleftrightarrow>
     (if fd_type f = ''Select'' then (\<exists>s \<in> set (fd_options f). v = JStr s)
      else if fd_type f = ''Multi Select'' then (\<exists>ss. ss \<noteq> [] \<and> set ss \<subseteq> set (fd_options f) \<and> v = JArr (map JStr ss))
      else if fd_type f \<in> {''Number'', ''Money'', ''Percent''} then (\<exists>r. v = JNum r)
      else if fd_type f = ''Boolean'' then (\<exists>b. v = JBool b)
      else if fd_type f = ''Date'' then (\<exists>s. v = JStr s \<and> parse_date s \<noteq> None)
      else (\<exists>s. v = JStr s \<and> s \<noteq> [] \<and> rune_count s \<le> 2000))"

lemma field_value_fits:
  assumes "field_value f raw = Some v" and "v \<noteq> JNull"
  shows "fits f v"
proof (cases "fd_type f = ''Multi Select''")
  case True
  let ?ok = "\<lambda>i. (case i of JStr v \<Rightarrow> v | _ \<Rightarrow> []) \<in> set (fd_options f)"
  obtain items where items: "list_all ?ok items" "items \<noteq> []" "v = JArr (map (\<lambda>i. JStr (case i of JStr v \<Rightarrow> v | _ \<Rightarrow> [])) items)"
  proof (cases raw)
    case (JArr items)
    with assms True have "list_all ?ok items" "items \<noteq> []" "v = JArr (map (\<lambda>i. JStr (case i of JStr v \<Rightarrow> v | _ \<Rightarrow> [])) items)"
      by (simp_all add: field_value_def split: if_splits)
    then show thesis by (rule that)
  qed (use assms True in \<open>simp_all add: field_value_def\<close>)
  then have "v = JArr (map JStr (map (\<lambda>i. case i of JStr v \<Rightarrow> v | _ \<Rightarrow> []) items))" by simp
  moreover have "set (map (\<lambda>i. case i of JStr v \<Rightarrow> v | _ \<Rightarrow> []) items) \<subseteq> set (fd_options f)"
    using items(1) by (auto simp: list_all_iff)
  moreover have "map (\<lambda>i. case i of JStr v \<Rightarrow> v | _ \<Rightarrow> []) items \<noteq> []" using items(2) by simp
  ultimately obtain ss where "v = JArr (map JStr ss)" "set ss \<subseteq> set (fd_options f)" "ss \<noteq> []" by blast
  then show ?thesis unfolding fits_def using True by auto
next
  case False
  with assms show ?thesis
    by (auto simp: field_value_def fits_def not_less split: json.splits if_splits option.splits)
qed

lemma some_field_fits:
  "Some v = field_value f raw \<Longrightarrow> v \<noteq> JNull \<Longrightarrow> f \<in> set defs \<Longrightarrow> \<exists>g \<in> set defs. fd_key g = fd_key f \<and> fits g v"
  by (rule bexI [of _ f]) (auto intro: field_value_fits [OF sym])

lemma map_of_put_all: "map_of (put_all m kvs) k = Some v \<Longrightarrow> map_of m k = Some v \<or> (k, v) \<in> set kvs"
proof (induction kvs rule: rev_induct)
  case (snoc kv kvs)
  then show ?case by (cases kv) (auto simp: put_all_def update_conv' split: if_splits)
qed (simp add: put_all_def)

lemma map_of_put_all_Nil: "map_of (put_all [] kvs) k = Some v \<Longrightarrow> (k, v) \<in> set kvs"
  using map_of_put_all [of "[]"] by fastforce

lemma kept_values_mem: "(k, v) \<in> set (kept_values nulls kvs) \<Longrightarrow> (k, Some v) \<in> set kvs \<and> (v \<noteq> JNull \<or> nulls)"
  by (auto simp: kept_values_def set_map_filter split: option.splits if_splits)


definition toy_field :: field_row where
  "toy_field = \<lparr>fd_id = ''f1'', fd_entity = ''VOICE'', fd_workspace = None, fd_key = ''model'', fd_label = ''Model'', fd_type = ''Select'',
     fd_required = True, fd_options = [''A1'', ''B2''], fd_labels = [], fd_default = JNull, fd_phase = ''INTAKE'', fd_order = 0, fd_active = True\<rparr>"


text \<open>
  A condition on a number field of the search never holds: the query compares a text with the stored
  number.
\<close>

lemma number_filter_misses:
  assumes "fits f v" and "fd_type f \<in> {''Number'', ''Money'', ''Percent''}" and "map_of values (fd_key f) = Some v"
  shows "\<not> contains_fields values [(fd_key f, x)]"
  using assms by (auto simp: fits_def contains_fields_def)

end
