(* ===== verification/Voice_Members.thy ===== *)
theory Voice_Members
  imports Voice_Knowledge Crm_Accounts
begin

text \<open>
  The members of a department workspace (internal/voice/members.go): searching them, registering one with
  a name and a code, and importing a list of them. Regular expressions are compiled by the argument \<open>rx\<close>,
  the regexp package: no result for a bad pattern, otherwise the predicate of matching texts.
\<close>

record quick_customer =
  qc_name :: string
  qc_code :: string

definition member_code_scope :: "workspace_row \<Rightarrow> string" where
  "member_code_scope w = (if w_code_scope w = ''WORKSPACE'' then w_id w else ''GLOBAL'')"

section \<open>Searching\<close>

definition finds_member :: "principal \<Rightarrow> string \<Rightarrow> string \<Rightarrow> 'z crm_tables_scheme \<Rightarrow> customer_row \<Rightarrow> bool" where
  "finds_member p ws pat t c \<longleftrightarrow>
     cu_home c = Some ws \<and> cu_active c \<and> cu_merged c = None \<and> sees_customer p t c \<and>
     (like pat (to_lower (cu_name c)) \<or> like pat (to_lower (cu_code c)))"

text \<open>An exact code first, then an exact name, then by name and id.\<close>

definition member_order :: "string \<Rightarrow> customer_row list \<Rightarrow> customer_row list" where
  "member_order q cs =
     sort_key (\<lambda>c. if to_lower (cu_code c) = to_lower q then 0 else (1 :: int))
       (sort_key (\<lambda>c. if to_lower (cu_name c) = to_lower q then 0 else (1 :: int)) (sort_key cu_name (sort_key cu_id cs)))"

definition search_workspace_customers :: "principal \<Rightarrow> string \<Rightarrow> string \<Rightarrow> int \<Rightarrow> customer_row list voice_op" where
  "search_workspace_customers p ws q limit =
     and_then (require p ''customer:read'') (\<lambda>_.
     and_then (workspace_by p ws) (\<lambda>w.
     let ws = w_id (wv_row w); q = trim_space q in
     and_then (check (q \<noteq> []) No_customer_given) (\<lambda>_.
     let limit = (if limit < 1 \<or> limit > 100 then 20 else limit) in
     db_query (\<lambda>t. take (nat limit) (member_order q (filter (finds_member p ws (search_pattern q) t) (customers t)))))))"

section \<open>Registering\<close>

text \<open>
  The pattern a workspace asks of codes: \<open>None\<close> for one that does not compile, no predicate where any
  code is accepted.
\<close>

definition code_rule :: "(string \<Rightarrow> (string \<Rightarrow> bool) option) \<Rightarrow> workspace_row \<Rightarrow> (string \<Rightarrow> bool) option option" where
  "code_rule rx w = (if blank (w_code_pattern w) then Some None else map_option Some (rx (w_code_pattern w)))"

datatype member_error = Bad_pattern | Member_name_missing | Member_code_missing | Member_code_format

definition check_quick_customer :: "(string \<Rightarrow> (string \<Rightarrow> bool) option) \<Rightarrow> workspace_row \<Rightarrow> quick_customer
    \<Rightarrow> member_error + quick_customer" where
  "check_quick_customer rx w x =
     (let x = \<lparr>qc_name = trim_space (qc_name x), qc_code = trim_space (qc_code x)\<rparr> in
      case code_rule rx w of
        None \<Rightarrow> Inl Bad_pattern
      | Some pat \<Rightarrow>
          if qc_name x = [] then Inl Member_name_missing
          else if (\<not> blank (w_code_label w) \<or> pat \<noteq> None) \<and> qc_code x = [] then Inl Member_code_missing
          else if (case pat of None \<Rightarrow> False | Some f \<Rightarrow> qc_code x \<noteq> [] \<and> \<not> f (qc_code x)) then Inl Member_code_format
          else Inr x)"

text \<open>The errors of registering: of the check, of the CRM, or of the workspace lookup.\<close>

datatype register_error = Bad_member member_error | In_crm crm_error | In_voice voice_error | Nothing_to_import | Too_many_rows

definition member_input_of :: "quick_customer \<Rightarrow> customer_input" where
  "member_input_of x =
     \<lparr>cc_name = qc_name x, cc_registration = [], cc_code = qc_code x, cc_type = ''CUSTOMER'', cc_grade = [], cc_industry = [],
      cc_website = [], cc_phone = [], cc_email = [], cc_address = [], cc_owner = [], cc_health = [], cc_revenue = 0,
      cc_employees = 0, cc_custom = [], cc_version = 0\<rparr>"

definition register_member :: "principal \<Rightarrow> workspace_row \<Rightarrow> quick_customer \<Rightarrow> string \<Rightarrow> client_info \<Rightarrow> string \<Rightarrow> instant
    \<Rightarrow> ('z crm_tables_scheme, register_error, customer_view) go" where
  "register_member p w x channel ci cid now =
     lift_err In_crm (create_customer_in p (member_input_of x) (case_option [] id (w_org w)) (w_id w) (member_code_scope w) channel ci cid now)"

definition quick_register :: "(string \<Rightarrow> (string \<Rightarrow> bool) option) \<Rightarrow> principal \<Rightarrow> string \<Rightarrow> quick_customer \<Rightarrow> string \<Rightarrow> client_info \<Rightarrow> string
    \<Rightarrow> instant \<Rightarrow> (voice_tables, register_error, customer_view) go" where
  "quick_register rx p ws x channel ci cid now =
     and_then (require p ''voice:write'') (\<lambda>_.
     and_then (lift_err In_voice (workspace_by p ws)) (\<lambda>v.
     let w = wv_row v in
     and_then (lift (map_sum Bad_member id (check_quick_customer rx w x))) (\<lambda>x.
     and_then (if qc_code x \<noteq> []
        then and_then (call_result (lift_err In_crm (customer_by_code_in p (w_id w) (qc_code x)))) (\<lambda>r.
          case r of Inl _ \<Rightarrow> ret () | Inr _ \<Rightarrow> raise (App (In_crm Code_taken)))
        else ret ()) (\<lambda>_.
     register_member p w x channel ci cid now))))"

section \<open>Importing\<close>

datatype import_result = Created | Updated | Unchanged | Failed

record import_outcome =
  io_line :: nat
  io_name :: string
  io_code :: string
  io_result :: import_result
  io_customer :: string

record import_report =
  ir_created :: nat
  ir_updated :: nat
  ir_unchanged :: nat
  ir_failed :: nat
  ir_items :: "import_outcome list"

definition max_import_rows :: nat where "max_import_rows = 5000"

definition empty_report :: import_report where
  "empty_report = \<lparr>ir_created = 0, ir_updated = 0, ir_unchanged = 0, ir_failed = 0, ir_items = []\<rparr>"

definition report :: "import_report \<Rightarrow> import_outcome \<Rightarrow> import_report" where
  "report r i = (let r = r\<lparr>ir_items := ir_items r @ [i]\<rparr> in
     case io_result i of
       Created \<Rightarrow> r\<lparr>ir_created := ir_created r + 1\<rparr>
     | Updated \<Rightarrow> r\<lparr>ir_updated := ir_updated r + 1\<rparr>
     | Unchanged \<Rightarrow> r\<lparr>ir_unchanged := ir_unchanged r + 1\<rparr>
     | Failed \<Rightarrow> r\<lparr>ir_failed := ir_failed r + 1\<rparr>)"

text \<open>The input that renames a customer and repeats everything else.\<close>

definition renaming :: "customer_row \<Rightarrow> string \<Rightarrow> customer_input" where
  "renaming c name =
     \<lparr>cc_name = name, cc_registration = cu_registration c, cc_code = cu_code c, cc_type = cu_type c, cc_grade = cu_grade c,
      cc_industry = cu_industry c, cc_website = cu_website c, cc_phone = cu_phone c, cc_email = cu_email c,
      cc_address = cu_address c, cc_owner = cu_owner c, cc_health = cu_health c, cc_revenue = case_option 0 id (cu_revenue c),
      cc_employees = case_option 0 id (cu_employees c), cc_custom = cu_custom c, cc_version = cu_version c\<rparr>"

text \<open>A row with a known code: left alone, or renamed. No result for a code the caller finds at no member.\<close>

definition import_known :: "principal \<Rightarrow> workspace_row \<Rightarrow> bool \<Rightarrow> string \<Rightarrow> client_info \<Rightarrow> instant \<Rightarrow> import_outcome \<Rightarrow> quick_customer
    \<Rightarrow> (voice_tables, register_error, import_outcome option) go" where
  "import_known p w rename channel ci now i x =
     and_then (call_result (lift_err In_crm (customer_by_code_in p (w_id w) (qc_code x)))) (\<lambda>r.
     case r of
       Inl _ \<Rightarrow> ret None
     | Inr v \<Rightarrow>
         let c = cv_row v; i = i\<lparr>io_customer := cu_id c\<rparr> in
         if rename \<and> cu_name c \<noteq> qc_name x then
           and_then (call_result (lift_err In_crm (update_customer p (cu_id c) (renaming c (qc_name x)) channel ci now))) (\<lambda>u.
           ret (Some (i\<lparr>io_result := (case u of Inl _ \<Rightarrow> Failed | Inr _ \<Rightarrow> Updated)\<rparr>)))
         else ret (Some (i\<lparr>io_result := Unchanged\<rparr>)))"

definition import_new :: "principal \<Rightarrow> workspace_row \<Rightarrow> string \<Rightarrow> client_info \<Rightarrow> string \<Rightarrow> instant \<Rightarrow> import_outcome \<Rightarrow> quick_customer
    \<Rightarrow> (voice_tables, register_error, import_outcome) go" where
  "import_new p w channel ci cid now i x =
     and_then (call_result (register_member p w x channel ci cid now)) (\<lambda>r.
     ret (case r of Inl _ \<Rightarrow> i\<lparr>io_result := Failed\<rparr> | Inr v \<Rightarrow> i\<lparr>io_result := Created, io_customer := cu_id (cv_row v)\<rparr>))"

text \<open>One row: its outcome, and whether its code counts as seen.\<close>

definition import_row :: "(string \<Rightarrow> (string \<Rightarrow> bool) option) \<Rightarrow> principal \<Rightarrow> workspace_row \<Rightarrow> bool \<Rightarrow> string \<Rightarrow> client_info \<Rightarrow> string
    \<Rightarrow> instant \<Rightarrow> string list \<Rightarrow> nat \<Rightarrow> quick_customer \<Rightarrow> (voice_tables, register_error, import_outcome \<times> string list) go" where
  "import_row rx p w rename channel ci cid now seen line x =
     (let i = \<lparr>io_line = line, io_name = trim_space (qc_name x), io_code = trim_space (qc_code x), io_result = Failed, io_customer = []\<rparr> in
      case check_quick_customer rx w x of
        Inl _ \<Rightarrow> ret (i, seen)
      | Inr x \<Rightarrow>
          if qc_code x = [] then and_then (import_new p w channel ci cid now i x) (\<lambda>i. ret (i, seen))
          else if qc_code x \<in> set seen then ret (i, seen)
          else
            and_then (import_known p w rename channel ci now i x) (\<lambda>known.
            case known of
              Some i \<Rightarrow> ret (i, seen @ [qc_code x])
            | None \<Rightarrow> and_then (import_new p w channel ci cid now i x) (\<lambda>i. ret (i, seen @ [qc_code x]))))"

fun import_rows :: "(string \<Rightarrow> (string \<Rightarrow> bool) option) \<Rightarrow> principal \<Rightarrow> workspace_row \<Rightarrow> bool \<Rightarrow> string \<Rightarrow> client_info \<Rightarrow> (nat \<Rightarrow> string)
    \<Rightarrow> instant \<Rightarrow> string list \<Rightarrow> nat \<Rightarrow> quick_customer list \<Rightarrow> import_report \<Rightarrow> (voice_tables, register_error, import_report) go" where
  "import_rows rx p w rename channel ci draw now seen line [] r = ret r"
| "import_rows rx p w rename channel ci draw now seen line (x # xs) r =
     and_then (import_row rx p w rename channel ci (draw line) now seen line x) (\<lambda>(i, seen).
     import_rows rx p w rename channel ci draw now seen (Suc line) xs (report r i))"

definition import_customers :: "(string \<Rightarrow> (string \<Rightarrow> bool) option) \<Rightarrow> principal \<Rightarrow> string \<Rightarrow> quick_customer list \<Rightarrow> bool \<Rightarrow> string
    \<Rightarrow> client_info \<Rightarrow> (nat \<Rightarrow> string) \<Rightarrow> instant \<Rightarrow> (voice_tables, register_error, import_report) go" where
  "import_customers rx p ws rows rename channel ci draw now =
     and_then (require p ''voice:write'') (\<lambda>_.
     and_then (require p ''customer:write'') (\<lambda>_.
     and_then (check (rows \<noteq> []) Nothing_to_import) (\<lambda>_.
     and_then (check (length rows \<le> max_import_rows) Too_many_rows) (\<lambda>_.
     and_then (lift_err In_voice (workspace_by p ws)) (\<lambda>v.
     and_then (import_rows rx p (wv_row v) rename channel ci draw now [] 1 rows empty_report) (\<lambda>r.
     and_then (crm_audit p channel ci ''CUSTOMER_IMPORT'' ''voice_workspace'' (w_id (wv_row v))) (\<lambda>_. ret r)))))))"

text \<open>Every row is reported, in its order, whatever becomes of the others.\<close>

definition tallied :: "import_report \<Rightarrow> bool" where
  "tallied r \<longleftrightarrow> ir_created r = count_where (\<lambda>i. io_result i = Created) (ir_items r) \<and>
     ir_updated r = count_where (\<lambda>i. io_result i = Updated) (ir_items r) \<and>
     ir_unchanged r = count_where (\<lambda>i. io_result i = Unchanged) (ir_items r) \<and>
     ir_failed r = count_where (\<lambda>i. io_result i = Failed) (ir_items r)"

lemma tallied_report: "tallied r \<Longrightarrow> tallied (report r i)"
  by (cases "io_result i") (simp_all add: tallied_def report_def Let_def count_where_def)

lemma report_items [simp]: "ir_items (report r i) = ir_items r @ [i]"
  by (simp add: report_def Let_def split: import_result.split)

lemma import_new_line: "import_new p w channel ci cid now i x v = (Inr j, u) \<Longrightarrow> io_line j = io_line i"
  by (auto simp: import_new_def and_then_def call_result_def ret_def split: prod.splits sum.splits)

lemma import_known_line: "import_known p w rename channel ci now i x v = (Inr (Some j), u) \<Longrightarrow> io_line j = io_line i"
  unfolding import_known_def and_then_run
proof (elim exE conjE, goal_cases)
  case (1 r z)
  show ?case
  proof (cases r)
    case (Inr c)
    show ?thesis
    proof (cases "rename \<and> cu_name (cv_row c) \<noteq> qc_name x")
      case True
      with 1(2) Inr show ?thesis by (simp add: Let_def and_then_run ret_run) (elim exE conjE, simp)
    next
      case False
      with 1(2) Inr show ?thesis by (simp add: Let_def ret_run)
    qed
  qed (use 1(2) in \<open>simp add: ret_run\<close>)
qed

lemma import_row_line:
  assumes "import_row rx p w rename channel ci cid now seen line x v = (Inr (i, seen'), u)"
  shows "io_line i = line"
proof (cases "check_quick_customer rx w x")
  case (Inr y)
  let ?i = "\<lparr>io_line = line, io_name = trim_space (qc_name x), io_code = trim_space (qc_code x), io_result = Failed, io_customer = []\<rparr>"
  show ?thesis
  proof (cases "qc_code y = [] \<or> qc_code y \<in> set seen")
    case True
    then show ?thesis using assms Inr
      by (auto simp: import_row_def Let_def and_then_run ret_run split: if_splits) (drule import_new_line, simp)+
  next
    case False
    obtain known z where k: "import_known p w rename channel ci now ?i y v = (Inr known, z)"
      and rest: "(case known of Some i \<Rightarrow> ret (i, seen @ [qc_code y])
        | None \<Rightarrow> and_then (import_new p w channel ci cid now ?i y) (\<lambda>i. ret (i, seen @ [qc_code y]))) z = (Inr (i, seen'), u)"
      using assms Inr False by (auto simp: import_row_def Let_def and_then_run)
    show ?thesis
    proof (cases known)
      case None
      then show ?thesis using rest by (auto simp: and_then_run ret_run) (drule import_new_line, simp)
    next
      case (Some j)
      then show ?thesis using rest import_known_line [OF k [unfolded Some]] by (simp add: ret_run)
    qed
  qed
qed (use assms in \<open>auto simp: import_row_def Let_def ret_run\<close>)

lemma import_rows_report:
  "import_rows rx p w rename channel ci draw now seen line xs r v = (Inr r', u) \<Longrightarrow> tallied r \<Longrightarrow>
    tallied r' \<and> map io_line (ir_items r') = map io_line (ir_items r) @ [line..<line + length xs]"
proof (induction xs arbitrary: seen line r v)
  case (Cons x xs)
  from Cons.prems(1) obtain i seen' z where row: "import_row rx p w rename channel ci (draw line) now seen line x v = (Inr (i, seen'), z)"
    and rest: "import_rows rx p w rename channel ci draw now seen' (Suc line) xs (report r i) z = (Inr r', u)"
    by (auto simp: and_then_run)
  show ?case
    using Cons.IH [OF rest tallied_report [OF Cons.prems(2)]] import_row_line [OF row] by (simp add: upt_conv_Cons del: upt_Suc)
qed (simp add: run_simps)

end
