(* ===== verification/Voice_Risk.thy ===== *)
theory Voice_Risk
  imports Voice_Knowledge Contracts
begin

text \<open>
  The risk of losing a customer and the export of requests (internal/voice/risk.go): the evidence about a
  customer, the points each piece of it is worth, the ranking of customers, and the CSV a spreadsheet
  opens. Korean texts of the export are given by the hexadecimal digits of their encoding; the texts that
  explain a factor are left out.
\<close>

section \<open>Scores\<close>

record loss_factor =
  lf_code :: string
  lf_points :: int

record customer_risk =
  cr_customer :: string
  cr_name :: string
  cr_score :: int
  cr_level :: string
  cr_factors :: "loss_factor list"
  cr_advice :: "(string \<times> bool) option"

record risk_inputs =
  ra_name :: string
  ra_churn :: nat
  ra_overdue :: nat
  ra_complaints :: nat
  ra_satisfaction :: "rat option"
  ra_silence :: "int option"
  ra_expiring :: nat
  ra_not_started :: nat
  ra_pipeline :: rat

definition loss_level :: "int \<Rightarrow> string" where
  "loss_level score =
     (if score \<ge> 70 then ''CRITICAL'' else if score \<ge> 45 then ''HIGH'' else if score \<ge> 20 then ''WATCH'' else ''HEALTHY'')"

text \<open>The requests of a customer that count for sales, and the contracts in their notice period.\<close>

definition signals_of :: "string \<Rightarrow> voice_tables \<Rightarrow> voice_row list" where
  "signals_of cid t = filter (\<lambda>v. v_customer v = cid \<and> sales_signal t v) (voices t)"

definition past_due :: "instant \<Rightarrow> voice_row \<Rightarrow> bool" where
  "past_due now v \<longleftrightarrow> \<not> terminal (v_status v) \<and>
     ((case v_response_due v of None \<Rightarrow> False | Some d \<Rightarrow> v_responded v = None \<and> d < now) \<or>
      (case v_resolution_due v of None \<Rightarrow> False | Some d \<Rightarrow> v_resolved v = None \<and> d < now))"

definition in_notice :: "instant \<Rightarrow> contract_row \<Rightarrow> bool" where
  "in_notice now k \<longleftrightarrow> ct_status k = ''ACTIVE'' \<and>
     (case ct_end k of None \<Rightarrow> False | Some d \<Rightarrow> day_number d \<le> now div day_ns + ct_notice_days k)"

definition last_touch :: "string \<Rightarrow> 'z crm_tables_scheme \<Rightarrow> instant option" where
  "last_touch cid t =
     (case map ac_occurred (filter (\<lambda>a. ac_customer a = Some cid) (activities t)) of
        [] \<Rightarrow> None | a # as \<Rightarrow> Some (foldl max a as))"

definition risk_inputs_of :: "instant \<Rightarrow> string \<Rightarrow> voice_tables \<Rightarrow> customer_row \<Rightarrow> risk_inputs" where
  "risk_inputs_of now cid t c =
     (let vs = signals_of cid t; active = filter (\<lambda>v. \<not> terminal (v_status v)) vs;
          ks = filter (\<lambda>k. ct_customer k = cid \<and> in_notice now k) (contracts t) in
      \<lparr>ra_name = cu_name c, ra_churn = count_where (\<lambda>v. v_type v = ''CHURN_RISK'') active,
       ra_overdue = count_where (past_due now) vs,
       ra_complaints = count_where (\<lambda>v. v_type v \<in> {''COMPLAINT'', ''DEFECT''}) active,
       ra_satisfaction = average (List.map_filter (\<lambda>v. map_option of_int (v_score v)) vs),
       ra_silence = map_option (\<lambda>a. quot (now - a) day_ns) (last_touch cid t),
       ra_expiring = length ks, ra_not_started = count_where (\<lambda>k. ct_renewal k = ''NOT_STARTED'') ks,
       ra_pipeline = sum_list (map (\<lambda>x. base_amount (op_amount x) (op_rate x))
         (filter (\<lambda>x. op_customer x = cid \<and> op_status x = ''OPEN'') (opportunities t)))\<rparr>)"

definition gather_risk :: "principal \<Rightarrow> string \<Rightarrow> instant \<Rightarrow> risk_inputs voice_op" where
  "gather_risk p cid now =
     db_row (\<lambda>t. map_option (risk_inputs_of now cid t) (List.find (\<lambda>c. cu_id c = cid \<and> sees_customer p t c) (customers t)))"

definition loss :: "string \<Rightarrow> int \<Rightarrow> loss_factor list" where
  "loss code points = [\<lparr>lf_code = code, lf_points = points\<rparr>]"

definition silence_factor :: "int option \<Rightarrow> loss_factor list" where
  "silence_factor silence =
     (case silence of
        None \<Rightarrow> loss ''NO_ACTIVITY'' 12
      | Some n \<Rightarrow> if n \<ge> 60 then loss ''CONTACT_GAP'' 18 else if n \<ge> 30 then loss ''CONTACT_GAP'' 9 else [])"

definition loss_factors :: "risk_inputs \<Rightarrow> loss_factor list" where
  "loss_factors x =
     (if ra_churn x > 0 then loss ''CHURN_SIGNAL'' (min 40 (30 + 5 * (int (ra_churn x) - 1))) else []) @
     (if ra_overdue x > 0 then loss ''VOICE_OVERDUE'' (min 25 (12 * int (ra_overdue x))) else []) @
     (if ra_complaints x > 0 then loss ''OPEN_COMPLAINT'' (min 18 (6 * int (ra_complaints x))) else []) @
     (case ra_satisfaction x of None \<Rightarrow> [] | Some r \<Rightarrow> if r < 3 then loss ''LOW_SATISFACTION'' 15 else []) @
     (if ra_not_started x > 0 then loss ''RENEWAL_NOT_STARTED'' 20
      else if ra_expiring x > 0 then loss ''RENEWAL_WINDOW'' 8 else []) @
     silence_factor (ra_silence x)"

text \<open>
  The advice follows from the weightiest factor and, for a churn signal, from whether there is an open
  pipeline; a renewal window has none.
\<close>

definition loss_advice :: "string \<Rightarrow> rat \<Rightarrow> (string \<times> bool) option" where
  "loss_advice code pipeline =
     (if code = ''CHURN_SIGNAL'' then Some (code, pipeline > 0)
      else if code \<in> {''VOICE_OVERDUE'', ''OPEN_COMPLAINT'', ''LOW_SATISFACTION'', ''RENEWAL_NOT_STARTED''} then Some (code, False)
      else if code \<in> {''CONTACT_GAP'', ''NO_ACTIVITY''} then Some (''CONTACT_GAP'', False)
      else None)"

definition score_risk :: "string \<Rightarrow> risk_inputs \<Rightarrow> customer_risk" where
  "score_risk cid x =
     (let fs = loss_factors x; score = min 100 (sum_list (map lf_points fs)); ranked = sort_desc lf_points fs in
      \<lparr>cr_customer = cid, cr_name = ra_name x, cr_score = score, cr_level = loss_level score, cr_factors = ranked,
       cr_advice = (case ranked of [] \<Rightarrow> None | f # _ \<Rightarrow> loss_advice (lf_code f) (ra_pipeline x))\<rparr>)"

definition customer_risk_of :: "principal \<Rightarrow> string \<Rightarrow> instant \<Rightarrow> customer_risk voice_op" where
  "customer_risk_of p cid now =
     and_then (require p ''voice:read'') (\<lambda>_. and_then (gather_risk p cid now) (\<lambda>x. ret (score_risk cid x)))"

section \<open>Ranking\<close>

definition shows_signal :: "instant \<Rightarrow> voice_tables \<Rightarrow> customer_row \<Rightarrow> bool" where
  "shows_signal now t c \<longleftrightarrow>
     list_ex (\<lambda>v. \<not> terminal (v_status v)) (signals_of (cu_id c) t) \<or>
     list_ex (\<lambda>k. ct_customer k = cu_id c \<and> in_notice now k) (contracts t) \<or>
     \<not> list_ex (\<lambda>a. ac_customer a = Some (cu_id c) \<and> ac_occurred a > now - 30 * day_ns) (activities t)"

text \<open>\<open>SELECT DISTINCT \<dots> LIMIT 200\<close> in the order the database happens to choose.\<close>

definition risk_candidates :: "(string list \<Rightarrow> string list) \<Rightarrow> principal \<Rightarrow> instant \<Rightarrow> voice_tables \<Rightarrow> string list" where
  "risk_candidates order p now t =
     take 200 (order (remdups (map cu_id (filter (\<lambda>c. cu_active c \<and> cu_merged c = None \<and> sees_customer p t c \<and>
       sales_account t c \<and> shows_signal now t c) (customers t)))))"

fun risks_of :: "principal \<Rightarrow> instant \<Rightarrow> string list \<Rightarrow> customer_risk list voice_op" where
  "risks_of p now [] = ret []"
| "risks_of p now (cid # cids) =
     and_then (call_result (customer_risk_of p cid now)) (\<lambda>r.
     and_then (risks_of p now cids) (\<lambda>rs. ret (case r of Inl _ \<Rightarrow> rs | Inr x \<Rightarrow> if cr_score x \<ge> 20 then x # rs else rs)))"

definition top_risks :: "(string list \<Rightarrow> string list) \<Rightarrow> principal \<Rightarrow> int \<Rightarrow> instant \<Rightarrow> customer_risk list voice_op" where
  "top_risks order p limit now =
     and_then (require p ''voice:read'') (\<lambda>_.
     let limit = (if limit < 1 \<or> limit > 50 then 5 else limit) in
     and_then (db_query (risk_candidates order p now)) (\<lambda>cids.
     and_then (risks_of p now cids) (\<lambda>rs. ret (take (nat limit) (sort_desc cr_score rs)))))"

section \<open>Export\<close>

text \<open>The bits of a hexadecimal digit, lowest first, and the bytes of pairs of digits.\<close>

fun nibble :: "char \<Rightarrow> bool \<times> bool \<times> bool \<times> bool" where
  "nibble (Char b0 b1 b2 b3 b4 b5 b6 b7) =
     (if b6 then (\<not> b0, b1 \<noteq> b0, b2 \<noteq> (b1 \<and> b0), True) else (b0, b1, b2, b3))"

fun unhex :: "string \<Rightarrow> string" where
  "unhex (a # b # s) =
     (case (nibble a, nibble b) of ((h0, h1, h2, h3), (l0, l1, l2, l3)) \<Rightarrow> Char l0 l1 l2 l3 h0 h1 h2 h3 # unhex s)"
| "unhex s = []"

definition csv_labels :: "(string \<times> string) list" where
  "csv_labels = map (\<lambda>(code, text). (code, unhex text))
    [
     (''COMPLAINT'', ''ebb688eba78c''), (''REQUEST'', ''ec9a94ecb2ad''), (''INQUIRY'', ''ebacb8ec9d98''),
     (''DEFECT'', ''ed9288eca78820ec9db4ec8a88''), (''PRAISE'', ''eab090ec82acc2b7ecb9adecb0ac''),
     (''CHURN_RISK'', ''ec9db4ed838820eca795ed9b84''), (''PHONE'', ''eca084ed9994''),
     (''EMAIL'', ''ec9db4eba994ec9dbc''), (''VISIT'', ''ebb0a9ebacb8''), (''PORTAL'', ''eab3a0eab09ded8faced84b8''),
     (''CHAT'', ''ecb184ed8c85''), (''PARTNER'', ''ed8c8ced8ab8eb848820eab2bdec9ca0''),
     (''OTHER'', ''eab8b0ed8380''), (''LOW'', ''eb82aeec9d8c''), (''NORMAL'', ''ebb3b4ed86b5''),
     (''HIGH'', ''eb8692ec9d8c''), (''CRITICAL'', ''eab8b4eab889''), (''RECEIVED'', ''eca091ec8898''),
     (''IN_REVIEW'', ''eb82b4ec9aa920ed9995ec9db8''), (''IN_PROGRESS'', ''eca784ed968920eca491''),
     (''PENDING_CUSTOMER'', ''eab3a0eab09d20ed9a8cec8ba020eb8c80eab8b0''), (''RESOLVED'', ''ed95b4eab2b0''),
     (''CLOSED'', ''eca285eab2b0''), (''REJECTED'', ''ebb098eba0a4'')
    ]"

definition csv_label :: "string \<Rightarrow> string" where
  "csv_label code = (case map_of csv_labels code of Some text \<Rightarrow> text | None \<Rightarrow> code)"

definition csv_header :: "string list" where
  "csv_header = map unhex
    [
     ''eca091ec8898ebb288ed98b8'', ''eab3a0eab09d'', ''ec9a94ecb2ad20eb8bb4eb8bb9ec9e90'', ''ec9ca0ed9895'',
     ''ec84b8ebb68020ebb684eba598'', ''eca091ec889820eab2bdeba19c'', ''eca09cebaaa9'', ''ec8baceab081eb8f84'',
     ''ec8381ed839c'', ''eb8bb4eb8bb9ec9e90'', ''eca091ec889820ec8b9ceab081'', ''ec9d91eb8bb520eab8b0ed959c'',
     ''ec9d91eb8bb520ec9984eba38c'', ''ed95b4eab2b020eab8b0ed959c'', ''ed95b4eab2b020ec8b9ceab081'',
     ''eab2bdeab3bcec9dbc'', ''eab8b0ed959c20ecb488eab3bc'', ''ed95b4eab2b020eb82b4ec9aa9'',
     ''eab7bcebb3b820ec9b90ec9db8'', ''ec9eacebb09c20ebb0a9eca780'', ''eba78ceca1b1eb8f84''
    ]"

text \<open>Line breaks become spaces, a pair of them one space.\<close>

definition blank_break :: "char \<Rightarrow> char" where
  "blank_break c = (if c = CHR 0x0D \<or> c = CHR 0x0A then CHR '' '' else c)"

fun one_line :: "string \<Rightarrow> string" where
  "one_line (c # d # s) = (if c = CHR 0x0D \<and> d = CHR 0x0A then CHR '' '' # one_line s else blank_break c # one_line (d # s))"
| "one_line s = map blank_break s"

definition formula_chars :: string where "formula_chars = ''=+-@'' @ [CHR 0x09]"

text \<open>What a spreadsheet shows of a value: in one line, and marked as a text where it could be a formula.\<close>

definition plain_cell :: "string \<Rightarrow> string" where
  "plain_cell v = (case one_line v of c # s \<Rightarrow> if c \<in> set formula_chars then CHR 0x27 # c # s else c # s | [] \<Rightarrow> [])"

definition double_quotes :: "string \<Rightarrow> string" where
  "double_quotes v = concat (map (\<lambda>c. if c = CHR 0x22 then [c, c] else [c]) v)"

definition csv_cell :: "string \<Rightarrow> string" where
  "csv_cell v =
     (let w = plain_cell v in
      if CHR 0x22 \<in> set w \<or> CHR '','' \<in> set w then CHR 0x22 # double_quotes w @ [CHR 0x22] else w)"

definition csv_row :: "string list \<Rightarrow> string" where
  "csv_row cells = join_with '','' (map csv_cell cells)"

definition stamp :: "instant option \<Rightarrow> string" where
  "stamp t = (case t of None \<Rightarrow> [] | Some a \<Rightarrow>
     let d = date_of_day (a div day_ns); m = nat (a mod day_ns div minute_ns) in
     pad_zeros 4 (show_nat (nat (yr d))) @ ''-'' @ pad_zeros 2 (show_nat (nat (mo d))) @ ''-'' @ pad_zeros 2 (show_nat (nat (dy d))) @
     '' '' @ pad_zeros 2 (show_nat (m div 60)) @ '':'' @ pad_zeros 2 (show_nat (m mod 60)))"

definition overdue_text :: "voice_view \<Rightarrow> string" where
  "overdue_text x = join_with '' / ''
     ((if vv_response_overdue x then [unhex ''ec9d91eb8bb520ecb488eab3bc''] else []) @
      (if vv_resolution_overdue x then [unhex ''ed95b4eab2b020ecb488eab3bc''] else []))"

text \<open>The names of the contacts, which a listing joins, are an argument.\<close>

definition csv_cells :: "(string option \<Rightarrow> string) \<Rightarrow> voice_view \<Rightarrow> string list" where
  "csv_cells names x =
     (let v = vv_row x in
      [v_no v, vv_customer x, names (v_contact v), csv_label (v_type v), vv_category x, csv_label (v_channel v), v_title v,
       csv_label (v_severity v), csv_label (v_status v), vv_owner x, stamp (Some (v_occurred v)), stamp (v_response_due v),
       stamp (v_responded v), stamp (v_resolution_due v), stamp (v_resolved v), show_int (vv_open_days x), overdue_text x,
       v_resolution v, v_cause v, v_preventive v, case_option [] show_int (v_score v)])"

definition line_end :: string where "line_end = [CHR 0x0D, CHR 0x0A]"

definition csv_of :: "(string option \<Rightarrow> string) \<Rightarrow> voice_view list \<Rightarrow> string" where
  "csv_of names xs = join_with '','' csv_header @ line_end @ concat (map (\<lambda>x. csv_row (csv_cells names x) @ line_end) xs)"

definition export_csv :: "(string option \<Rightarrow> string) \<Rightarrow> principal \<Rightarrow> voice_query \<Rightarrow> instant \<Rightarrow> (string \<times> nat) voice_op" where
  "export_csv names p q now = and_then (list_voices p q now) (\<lambda>xs. ret (csv_of names xs, length xs))"

section \<open>Reading an export back\<close>

text \<open>
  A reader of comma-separated values: a cell is bare or quoted, a quoted one writes a quote twice, and a
  line ends with a carriage return and a line feed.
\<close>

datatype cell_mode = At_start | In_bare | In_quoted | After_quote

fun csv_read :: "cell_mode \<Rightarrow> string \<Rightarrow> string \<Rightarrow> string list" where
  "csv_read m cell [] = [cell]"
| "csv_read At_start cell (c # s) =
     (if c = CHR 0x22 then csv_read In_quoted [] s else if c = CHR '','' then [] # csv_read At_start [] s
      else csv_read In_bare [c] s)"
| "csv_read In_bare cell (c # s) =
     (if c = CHR '','' then cell # csv_read At_start [] s else csv_read In_bare (cell @ [c]) s)"
| "csv_read In_quoted cell (c # s) =
     (if c = CHR 0x22 then csv_read After_quote cell s else csv_read In_quoted (cell @ [c]) s)"
| "csv_read After_quote cell (c # s) =
     (if c = CHR 0x22 then csv_read In_quoted (cell @ [c]) s else if c = CHR '','' then cell # csv_read At_start [] s
      else csv_read In_bare (cell @ [c]) s)"

fun sheet_lines :: "string \<Rightarrow> string \<Rightarrow> string list" where
  "sheet_lines l (c # d # s) = (if c = CHR 0x0D \<and> d = CHR 0x0A then l # sheet_lines [] s else sheet_lines (l @ [c]) (d # s))"
| "sheet_lines l s = (if l @ s = [] then [] else [l @ s])"

definition read_sheet :: "string \<Rightarrow> string list list" where
  "read_sheet s = map (csv_read At_start []) (sheet_lines [] s)"

lemma read_bare: "CHR '','' \<notin> set w \<Longrightarrow> csv_read In_bare cell (w @ s) = csv_read In_bare (cell @ w) s"
proof (induction w arbitrary: cell)
  case (Cons c w)
  then have "c \<noteq> CHR '',''" by auto
  with Cons show ?case by simp
qed simp

lemma read_bare_cell:
  assumes "CHR '','' \<notin> set w" and "CHR 0x22 \<notin> set w"
  shows "csv_read At_start [] (w @ CHR '','' # s) = w # csv_read At_start [] s \<and> csv_read At_start [] w = [w]"
proof (cases w)
  case (Cons c v)
  then have "c \<noteq> CHR '',''" "c \<noteq> CHR 0x22" "CHR '','' \<notin> set v" using assms by auto
  then show ?thesis using Cons read_bare [of v "[c]" "CHR '','' # s"] read_bare [of v "[c]" "[]"] by simp
qed simp

lemma read_quoted: "csv_read In_quoted cell (double_quotes w @ s) = csv_read In_quoted (cell @ w) s"
  by (induction w arbitrary: cell) (simp_all add: double_quotes_def)

lemma read_cell:
  "csv_read At_start [] (csv_cell v @ CHR '','' # s) = plain_cell v # csv_read At_start [] s"
  "csv_read At_start [] (csv_cell v) = [plain_cell v]"
proof -
  let ?w = "plain_cell v"
  have q: "csv_read In_quoted [] (double_quotes ?w @ s) = csv_read In_quoted ?w s" for s
    using read_quoted [of "[]" ?w s] by simp
  show "csv_read At_start [] (csv_cell v @ CHR '','' # s) = ?w # csv_read At_start [] s"
    "csv_read At_start [] (csv_cell v) = [?w]"
    using read_bare_cell [of ?w s] q by (simp_all add: csv_cell_def Let_def)
qed

lemma read_row: "cells \<noteq> [] \<Longrightarrow> csv_read At_start [] (csv_row cells) = map plain_cell cells"
proof (induction cells)
  case (Cons v cells)
  then show ?case by (cases cells) (simp_all add: csv_row_def read_cell)
qed simp

lemma one_line_breaks: "CHR 0x0D \<notin> set (one_line s) \<and> CHR 0x0A \<notin> set (one_line s)"
  by (induction s rule: one_line.induct) (auto simp: blank_break_def)

lemma plain_cell_breaks: "CHR 0x0D \<notin> set (plain_cell v)"
  using one_line_breaks [of v] by (auto simp: plain_cell_def split: list.split)

lemma csv_row_breaks: "CHR 0x0D \<notin> set (csv_row cells)"
proof (induction cells)
  case (Cons v cells)
  have "CHR 0x0D \<notin> set (csv_cell v)"
    using plain_cell_breaks [of v] by (auto simp: csv_cell_def Let_def double_quotes_def split: if_splits)
  with Cons show ?case by (cases cells) (simp_all add: csv_row_def)
qed (simp add: csv_row_def)

lemma line_read: "CHR 0x0D \<notin> set w \<Longrightarrow> sheet_lines l (w @ line_end @ s) = (l @ w) # sheet_lines [] s"
proof (induction w arbitrary: l)
  case (Cons c w)
  then have "c \<noteq> CHR 0x0D" by auto
  with Cons show ?case by (cases w) (simp_all add: line_end_def)
qed (simp add: line_end_def)

lemma lines_read: "sheet_lines [] (concat (map (\<lambda>x. csv_row (f x) @ line_end) xs)) = map (\<lambda>x. csv_row (f x)) xs"
  by (induction xs) (simp_all add: line_read csv_row_breaks)

lemma header_plain: "csv_header \<noteq> [] \<and> map csv_cell csv_header = csv_header \<and> map plain_cell csv_header = csv_header"
  by code_simp

lemma header_row: "join_with '','' csv_header = csv_row csv_header"
  using header_plain by (simp add: csv_row_def)

definition harmless :: "string \<Rightarrow> bool" where
  "harmless cell = (case cell of [] \<Rightarrow> True | c # _ \<Rightarrow> c \<notin> set formula_chars)"

lemma no_formula: "harmless (plain_cell v)"
  by (auto simp: harmless_def plain_cell_def formula_chars_def split: list.split)

text \<open>
  C40: An export reads back. A reader of comma-separated values finds in it the header and, for every listed
  request, its cells as one line of text each, whatever quotes, commas and line breaks they hold, and no
  cell a spreadsheet would evaluate as a formula.
\<close>

theorem export_reads_back:
  "read_sheet (csv_of names xs) = csv_header # map (\<lambda>x. map plain_cell (csv_cells names x)) xs \<and>
   list_all (list_all harmless) (tl (read_sheet (csv_of names xs)))"
proof -
  have "csv_cells names x \<noteq> []" for x by (simp add: csv_cells_def Let_def)
  then have "read_sheet (csv_of names xs) = csv_header # map (\<lambda>x. map plain_cell (csv_cells names x)) xs"
    using header_plain by (simp add: read_sheet_def csv_of_def header_row line_read csv_row_breaks lines_read read_row)
  then show ?thesis using no_formula by (simp add: list_all_iff)
qed

end
