(* ===== verification/Voice_Admin.thy ===== *)
theory Voice_Admin
  imports Voice_Members Voice_Risk Samples
begin

text \<open>
  The administration of department workspaces (internal/voice/admin.go): creating and changing a workspace,
  which takes its requests and customers along when its department changes, and applying the preset of
  types, fields and roles for member support. Descriptions are left out; names that are stored are given
  by the hexadecimal digits of their encoding. What a preset reports as created or skipped is a list of
  items instead of sentences.
\<close>

section \<open>Workspaces\<close>

record workspace_input =
  wi_code :: string
  wi_name :: string
  wi_org :: string
  wi_isolated :: bool
  wi_gate :: bool
  wi_label :: string
  wi_pattern :: string
  wi_scope :: string
  wi_active :: "bool option"
  wi_order :: int

datatype setup_error =
    Bad_workspace_code
  | Workspace_name_missing
  | Owner_missing
  | Bad_code_pattern
  | Bad_code_scope
  | Scope_in_use
  | Unknown_preset
  | Department_missing
  | Category_count
  | Category_malformed nat
  | Category_twice string
  | Value_count string
  | Value_malformed string nat
  | Value_twice string string
  | Default_unknown string
  | Code_list_for_text
  | Account_missing
  | Both_roles
  | Account_elsewhere string

text \<open>\<open>^[A-Z][A-Z0-9_]{1,39}$\<close>\<close>

definition upper_letter :: "char \<Rightarrow> bool" where
  "upper_letter c \<longleftrightarrow> CHR ''A'' \<le> c \<and> c \<le> CHR ''Z''"

definition code_word :: "string \<Rightarrow> bool" where
  "code_word s \<longleftrightarrow> 2 \<le> length s \<and> length s \<le> 40 \<and> upper_letter (hd s) \<and>
     list_all (\<lambda>c. upper_letter c \<or> is_digit c \<or> c = CHR ''_'') s"

definition code_scope :: "string \<Rightarrow> string" where
  "code_scope v = or_text ''GLOBAL'' v"

definition validate_workspace :: "(string \<Rightarrow> (string \<Rightarrow> bool) option) \<Rightarrow> workspace_input \<Rightarrow> setup_error + unit" where
  "validate_workspace rx x =
     (if \<not> code_word (to_upper (trim_space (wi_code x))) then Inl Bad_workspace_code
      else if blank (wi_name x) then Inl Workspace_name_missing
      else if wi_isolated x \<and> blank (wi_org x) then Inl Owner_missing
      else if \<not> blank (wi_pattern x) \<and> rx (trim_space (wi_pattern x)) = None then Inl Bad_code_pattern
      else if code_scope (wi_scope x) \<noteq> ''GLOBAL'' \<and> code_scope (wi_scope x) \<noteq> ''WORKSPACE'' then Inl Bad_code_scope
      else Inr ())"

definition workspace_refused :: "'z crm_tables_scheme \<Rightarrow> workspace_row \<Rightarrow> bool" where
  "workspace_refused t w \<longleftrightarrow>
     \<not> refers o_id (orgs t) (w_org w) \<or> w_isolated w \<and> w_org w = None \<or> w_code_scope w \<notin> {''GLOBAL'', ''WORKSPACE''} \<or>
     w_order w < - (2 ^ 31) \<or> w_order w \<ge> 2 ^ 31"

definition insert_workspace :: "workspace_row \<Rightarrow> 'z crm_tables_scheme \<Rightarrow> ('z crm_tables_scheme \<times> unit) option" where
  "insert_workspace w t =
     (if w_id w \<in> set (keys w_id (workspaces t)) \<or> w_code w \<in> set (keys w_code (workspaces t)) \<or> workspace_refused t w
      then None else Some (t\<lparr>workspaces := workspaces t @ [w]\<rparr>, ()))"

definition new_workspace :: "string \<Rightarrow> workspace_input \<Rightarrow> workspace_row" where
  "new_workspace wid x =
     \<lparr>w_id = wid, w_code = to_upper (trim_space (wi_code x)), w_name = trim_space (wi_name x), w_org = opt_text (wi_org x),
      w_isolated = wi_isolated x, w_gate = wi_gate x, w_code_label = text_column (wi_label x),
      w_code_pattern = text_column (wi_pattern x), w_code_scope = code_scope (wi_scope x), w_active = True, w_order = wi_order x\<rparr>"

definition create_workspace :: "(string \<Rightarrow> (string \<Rightarrow> bool) option) \<Rightarrow> workspace_input \<Rightarrow> string
    \<Rightarrow> ('z crm_tables_scheme, setup_error, string) go" where
  "create_workspace rx x wid =
     and_then (lift (validate_workspace rx x)) (\<lambda>_.
     and_then (db_exec (insert_workspace (new_workspace wid x))) (\<lambda>_. ret wid))"

definition changed_workspace :: "workspace_input \<Rightarrow> workspace_row \<Rightarrow> workspace_row" where
  "changed_workspace x w = w
     \<lparr>w_name := trim_space (wi_name x), w_org := opt_text (wi_org x), w_isolated := wi_isolated x, w_gate := wi_gate x,
      w_code_label := text_column (wi_label x), w_code_pattern := text_column (wi_pattern x),
      w_code_scope := code_scope (wi_scope x), w_active := case_option True id (wi_active x), w_order := wi_order x\<rparr>"

definition update_workspace_row :: "string \<Rightarrow> workspace_input \<Rightarrow> 'z crm_tables_scheme \<Rightarrow> ('z crm_tables_scheme \<times> nat) option" where
  "update_workspace_row wid x t =
     (let P = (\<lambda>w. w_id w = wid) in
      if list_ex (\<lambda>w. P w \<and> workspace_refused t (changed_workspace x w)) (workspaces t) then None
      else Some (t\<lparr>workspaces := update_where P (changed_workspace x) (workspaces t)\<rparr>, count_where P (workspaces t)))"

text \<open>The requests and the customers of a workspace follow it to its department.\<close>

definition move_requests :: "string \<Rightarrow> string \<Rightarrow> voice_tables \<Rightarrow> (voice_tables \<times> unit) option" where
  "move_requests wid org t =
     (let P = (\<lambda>v. v_workspace v = Some wid) in
      if list_ex P (voices t) \<and> org \<notin> set (keys o_id (orgs t)) then None
      else Some (t\<lparr>voices := update_where P (\<lambda>v. v\<lparr>v_org := Some org\<rparr>) (voices t)\<rparr>, ()))"

definition move_customers :: "string \<Rightarrow> string \<Rightarrow> instant \<Rightarrow> 'z crm_tables_scheme \<Rightarrow> ('z crm_tables_scheme \<times> unit) option" where
  "move_customers wid org now t =
     (let P = (\<lambda>c. cu_home c = Some wid) in
      if list_ex P (customers t) \<and> org \<notin> set (keys o_id (orgs t)) then None
      else Some (t\<lparr>customers := update_where P (\<lambda>c. c\<lparr>cu_org := Some org, cu_updated := now, cu_version := cu_version c + 1\<rparr>)
        (customers t)\<rparr>, ()))"

definition update_workspace_tx :: "string \<Rightarrow> workspace_input \<Rightarrow> instant \<Rightarrow> (voice_tables, setup_error, unit) go" where
  "update_workspace_tx wid x now =
     and_then (tx_row (\<lambda>t. map_option (\<lambda>w. (w_code_scope w, count_where (\<lambda>c. cu_home c = Some wid) (customers t)))
        (row_by w_id wid (workspaces t)))) (\<lambda>(scope, n).
     and_then (check (\<not> (n > 0 \<and> scope \<noteq> code_scope (wi_scope x))) Scope_in_use) (\<lambda>_.
     and_then (tx_exec (update_workspace_row wid x)) (\<lambda>k.
     and_then (if k = 0 then raise No_rows else ret ()) (\<lambda>_.
     if wi_isolated x
     then and_then (tx_exec (move_requests wid (wi_org x))) (\<lambda>_. tx_exec (move_customers wid (wi_org x) now))
     else ret ()))))"

definition update_workspace :: "(string \<Rightarrow> (string \<Rightarrow> bool) option) \<Rightarrow> string \<Rightarrow> workspace_input \<Rightarrow> instant
    \<Rightarrow> (voice_tables, setup_error, unit) go" where
  "update_workspace rx wid x now =
     and_then (lift (validate_workspace rx x)) (\<lambda>_. in_tx (update_workspace_tx wid x now))"

section \<open>The preset\<close>

record coded_value =
  cv_code :: string
  cv_name :: string

record preset_category =
  pc_code :: string
  pc_name :: string
  pc_type :: string

record preset_field_input =
  pf_required :: bool
  pf_default :: string
  pf_values :: "coded_value list"

record preset_application =
  pa_org :: string
  pa_pattern :: string
  pa_scope :: string
  pa_categories :: "preset_category list"
  pa_service :: preset_field_input
  pa_method :: preset_field_input
  pa_error :: preset_field_input
  pa_resolver :: preset_field_input
  pa_agents :: "string list"
  pa_reviewers :: "string list"

record preset_role =
  pr_code :: string
  pr_scope :: string
  pr_perms :: "string list"

definition member_support :: workspace_input where
  "member_support = \<lparr>wi_code = ''MEMBER_SUPPORT'', wi_name = unhex ''ed9a8cec9b90ec82ac20ebafbcec9b90'', wi_org = [],
     wi_isolated = True, wi_gate = True, wi_label = unhex ''ed9a8cec9b90ec82acecbd94eb939c'', wi_pattern = [],
     wi_scope = ''GLOBAL'', wi_active = None, wi_order = 0\<rparr>"

definition agent_role :: string where "agent_role = ''MEMBER_SUPPORT_AGENT''"
definition reviewer_role :: string where "reviewer_role = ''MEMBER_SUPPORT_REVIEWER''"

definition support_roles :: "preset_role list" where
  "support_roles =
     [\<lparr>pr_code = agent_role, pr_scope = ''DEPARTMENT'',
       pr_perms = [''voice:read'', ''voice:write'', ''customer:read'', ''customer:write'', ''contact:read'', ''contact:write'',
         ''mcp:use'']\<rparr>,
      \<lparr>pr_code = reviewer_role, pr_scope = ''DEPARTMENT'',
       pr_perms = [''voice:read'', ''voice:write'', ''voice:knowledge-review'', ''customer:read'', ''customer:write'', ''contact:read'',
         ''contact:write'', ''mcp:use'']\<rparr>]"

text \<open>Values are checked in their order, each against the codes before it.\<close>

fun coded_values_checked :: "string \<Rightarrow> nat \<Rightarrow> string list \<Rightarrow> coded_value list \<Rightarrow> setup_error + string list" where
  "coded_values_checked label i seen [] = Inr seen"
| "coded_values_checked label i seen (v # vs) =
     (let code = trim_space (cv_code v) in
      if \<not> code_word code \<or> blank (cv_name v) then Inl (Value_malformed label (i + 1))
      else if code \<in> set seen then Inl (Value_twice label code)
      else coded_values_checked label (Suc i) (seen @ [code]) vs)"

definition validate_coded_values :: "string \<Rightarrow> preset_field_input \<Rightarrow> nat \<Rightarrow> setup_error + unit" where
  "validate_coded_values label x exact =
     (if exact > 0 \<and> length (pf_values x) \<noteq> exact \<or> exact = 0 \<and> pf_values x = [] then Inl (Value_count label)
      else case coded_values_checked label 0 [] (pf_values x) of
        Inl e \<Rightarrow> Inl e
      | Inr seen \<Rightarrow> if pf_default x \<noteq> [] \<and> trim_space (pf_default x) \<notin> set seen then Inl (Default_unknown label) else Inr ())"

fun preset_categories_checked :: "nat \<Rightarrow> string list \<Rightarrow> preset_category list \<Rightarrow> setup_error + unit" where
  "preset_categories_checked i seen [] = Inr ()"
| "preset_categories_checked i seen (c # cs) =
     (let code = to_upper (trim_space (pc_code c)) in
      if \<not> code_word code \<or> blank (pc_name c) \<or> to_upper (trim_space (pc_type c)) \<notin> set voice_types
      then Inl (Category_malformed (i + 1))
      else if code \<in> set seen then Inl (Category_twice code)
      else preset_categories_checked (Suc i) (seen @ [code]) cs)"

definition preset_workspace :: "preset_application \<Rightarrow> workspace_input" where
  "preset_workspace x = member_support\<lparr>wi_org := pa_org x, wi_pattern := pa_pattern x, wi_scope := pa_scope x\<rparr>"

definition first_error :: "('e + unit) list \<Rightarrow> 'e + unit" where
  "first_error rs = (case List.find (\<lambda>r. r \<noteq> Inr ()) rs of None \<Rightarrow> Inr () | Some r \<Rightarrow> r)"

definition unless_error :: "bool \<Rightarrow> 'e \<Rightarrow> 'e + unit" where
  "unless_error b e = (if b then Inl e else Inr ())"

definition validate_preset :: "(string \<Rightarrow> (string \<Rightarrow> bool) option) \<Rightarrow> preset_application \<Rightarrow> setup_error + unit" where
  "validate_preset rx x = first_error
     [unless_error (blank (pa_org x)) Department_missing,
      unless_error (length (pa_categories x) \<noteq> 8) Category_count,
      preset_categories_checked 0 [] (pa_categories x),
      validate_coded_values ''service_type'' (pa_service x) 0,
      validate_coded_values ''dev_method'' (pa_method x) 0,
      validate_coded_values ''resolver'' (pa_resolver x) 4,
      unless_error (pf_values (pa_error x) \<noteq> []) Code_list_for_text,
      unless_error (list_ex blank (pa_agents x @ pa_reviewers x)) Account_missing,
      unless_error (list_ex (\<lambda>i. i \<in> set (pa_agents x)) (pa_reviewers x)) Both_roles,
      validate_workspace rx (preset_workspace x)]"

text \<open>A field as it is stored; the map of labels keeps the last label of a code.\<close>

definition configured_field :: "string \<Rightarrow> string \<Rightarrow> string \<Rightarrow> string \<Rightarrow> preset_field_input \<Rightarrow> field_row" where
  "configured_field key label phase ty x =
     \<lparr>fd_id = [], fd_entity = ''VOICE'', fd_workspace = None, fd_key = key, fd_label = label, fd_type = ty,
      fd_required = pf_required x, fd_options = map (\<lambda>v. trim_space (cv_code v)) (pf_values x),
      fd_labels = foldl (\<lambda>m v. AList.update (trim_space (cv_code v)) (trim_space (cv_name v)) m) [] (pf_values x),
      fd_default = (if trim_space (pf_default x) = [] then JNull else JStr (trim_space (pf_default x))), fd_phase = phase,
      fd_order = 0, fd_active = True\<rparr>"

definition preset_fields :: "preset_application \<Rightarrow> field_row list" where
  "preset_fields x =
     [configured_field ''service_type'' (unhex ''ec849cebb984ec8aa420eab5acebb684'') ''INTAKE'' ''Select'' (pa_service x),
      configured_field ''dev_method'' (unhex ''eab09cebb09cebb0a9ec8b9d'') ''INTAKE'' ''Select'' (pa_method x),
      configured_field ''error_code'' (unhex ''ec98a4eba598ecbd94eb939c'') ''INTAKE'' ''Text'' (pa_error x),
      configured_field ''resolver'' (unhex ''ed95b4eab2b020eca3bcecb2b4'') ''RESOLUTION'' ''Select'' (pa_resolver x)]"

datatype preset_item = Workspace_item | Category_item string | Field_item string | Role_item string | Account_item string

record preset_result =
  ps_workspace :: string
  ps_created :: "preset_item list"
  ps_skipped :: "preset_item list"
  ps_pending :: "string list"

definition noted :: "bool \<Rightarrow> preset_item \<Rightarrow> preset_result \<Rightarrow> preset_result" where
  "noted new i r = (if new then r\<lparr>ps_created := ps_created r @ [i]\<rparr> else r\<lparr>ps_skipped := ps_skipped r @ [i]\<rparr>)"

text \<open>\<open>INSERT \<dots> ON CONFLICT DO NOTHING\<close> statements; the result tells whether a row was inserted.\<close>

definition ensure_category :: "category_row \<Rightarrow> voice_tables \<Rightarrow> (voice_tables \<times> bool) option" where
  "ensure_category c t =
     (if cg_code c \<in> set (keys cg_code (categories t)) then Some (t, False)
      else map_option (\<lambda>(u, _). (u, True)) (insert_category c t))"

definition ensure_field :: "string \<Rightarrow> field_row \<Rightarrow> voice_tables \<Rightarrow> (voice_tables \<times> bool) option" where
  "ensure_field actor f t =
     (if list_ex (\<lambda>g. fd_id g = fd_id f \<or> fd_entity g = fd_entity f \<and> fd_workspace g = fd_workspace f \<and> fd_key g = fd_key f)
        (field_defs t) then Some (t, False)
      else if \<not> refers w_id (workspaces t) (fd_workspace f) \<or> \<not> refers u_id (users t) (Some actor) then None
      else Some (t\<lparr>field_defs := field_defs t @ [f]\<rparr>, True))"

definition ensure_role :: "role_row \<Rightarrow> 'z account_tables_scheme \<Rightarrow> ('z account_tables_scheme \<times> bool) option" where
  "ensure_role r t =
     (if r_code r \<in> set (keys r_code (roles t)) then Some (t, False)
      else if r_id r \<in> set (keys r_id (roles t)) then None
      else Some (t\<lparr>roles := roles t @ [r]\<rparr>, True))"

definition ensure_permission :: "string \<Rightarrow> string \<Rightarrow> 'z account_tables_scheme \<Rightarrow> ('z account_tables_scheme \<times> unit) option" where
  "ensure_permission rid x t =
     (if (rid, x) \<in> set (role_perms t) then Some (t, ())
      else if rid \<notin> set (keys r_id (roles t)) then None
      else Some (t\<lparr>role_perms := role_perms t @ [(rid, x)]\<rparr>, ()))"

definition ensure_user_role :: "string \<Rightarrow> string \<Rightarrow> 'z account_tables_scheme \<Rightarrow> ('z account_tables_scheme \<times> bool) option" where
  "ensure_user_role uid rid t =
     (if (uid, rid) \<in> set (user_roles t) then Some (t, False)
      else if uid \<notin> set (keys u_id (users t)) \<or> rid \<notin> set (keys r_id (roles t)) then None
      else Some (t\<lparr>user_roles := user_roles t @ [(uid, rid)]\<rparr>, True))"

definition preset_space :: "preset_application \<Rightarrow> string \<Rightarrow> preset_result \<Rightarrow> (voice_tables, setup_error, preset_result) go" where
  "preset_space x wid r =
     and_then (tx_query (\<lambda>t. map_option w_id (row_by w_code (wi_code member_support) (workspaces t)))) (\<lambda>found.
     case found of
       Some i \<Rightarrow> ret (noted False Workspace_item (r\<lparr>ps_workspace := i\<rparr>))
     | None \<Rightarrow>
         and_then (tx_exec (insert_workspace
           \<lparr>w_id = wid, w_code = wi_code member_support, w_name = wi_name member_support, w_org = Some (trim_space (pa_org x)),
            w_isolated = True, w_gate = True, w_code_label = wi_label member_support, w_code_pattern = text_column (pa_pattern x),
            w_code_scope = code_scope (pa_scope x), w_active = True, w_order = 100\<rparr>)) (\<lambda>_.
         ret (noted True Workspace_item (r\<lparr>ps_workspace := wid\<rparr>))))"

fun preset_types :: "(nat \<Rightarrow> string) \<Rightarrow> nat \<Rightarrow> preset_category list \<Rightarrow> preset_result \<Rightarrow> (voice_tables, setup_error, preset_result) go" where
  "preset_types draw i [] r = ret r"
| "preset_types draw i (c # cs) r =
     and_then (tx_exec (ensure_category
       \<lparr>cg_id = draw i, cg_code = to_upper (trim_space (pc_code c)), cg_name = trim_space (pc_name c),
        cg_type = to_upper (trim_space (pc_type c)), cg_response = 8, cg_resolution = 72, cg_sla = False,
        cg_workspace = Some (ps_workspace r), cg_active = True, cg_order = (int i + 1) * 10\<rparr>)) (\<lambda>new.
     preset_types draw (Suc i) cs (noted new (Category_item (pc_name c)) r))"

fun preset_defs :: "(nat \<Rightarrow> string) \<Rightarrow> string \<Rightarrow> nat \<Rightarrow> field_row list \<Rightarrow> preset_result \<Rightarrow> (voice_tables, setup_error, preset_result) go" where
  "preset_defs draw actor i [] r = ret r"
| "preset_defs draw actor i (f # fs) r =
     and_then (tx_exec (ensure_field actor (f\<lparr>fd_id := draw i, fd_workspace := Some (ps_workspace r), fd_order := (int i + 1) * 10\<rparr>))) (\<lambda>new.
     preset_defs draw actor (Suc i) fs (noted new (Field_item (fd_key f)) r))"

fun preset_roles :: "(nat \<Rightarrow> string) \<Rightarrow> nat \<Rightarrow> preset_role list \<Rightarrow> (string \<times> string) list \<Rightarrow> preset_result
    \<Rightarrow> (voice_tables, setup_error, (string \<times> string) list \<times> preset_result) go" where
  "preset_roles draw i [] ids r = ret (ids, r)"
| "preset_roles draw i (x # xs) ids r =
     and_then (tx_exec (ensure_role \<lparr>r_id = draw i, r_code = pr_code x, r_scope = pr_scope x\<rparr>)) (\<lambda>new.
     and_then (if new then ret (draw i) else tx_row (\<lambda>t. map_option r_id (row_by r_code (pr_code x) (roles t)))) (\<lambda>rid.
     and_then (for_each (\<lambda>p. tx_exec (ensure_permission rid p)) (pr_perms x)) (\<lambda>_.
     preset_roles draw (Suc i) xs (ids @ [(pr_code x, rid)]) (noted new (Role_item (pr_code x)) r))))"

text \<open>An account is connected to a role only if it is active and belongs to the department's tree.\<close>

definition in_department :: "string \<Rightarrow> string \<Rightarrow> 'z crm_tables_scheme \<Rightarrow> bool" where
  "in_department org uid t \<longleftrightarrow> org \<in> set (keys o_id (orgs t)) \<and>
     list_ex (\<lambda>u. u_id u = uid \<and> u_active u \<and>
       (case u_org u of None \<Rightarrow> False | Some i \<Rightarrow> i \<in> set (org_tree (length (orgs t)) (orgs t) org))) (users t)"

fun preset_accounts :: "string \<Rightarrow> string \<Rightarrow> string list \<Rightarrow> preset_result \<Rightarrow> (voice_tables, setup_error, preset_result) go" where
  "preset_accounts org rid [] r = ret r"
| "preset_accounts org rid (uid # uids) r =
     and_then (tx_query (in_department org uid)) (\<lambda>allowed.
     and_then (check allowed (Account_elsewhere uid)) (\<lambda>_.
     and_then (tx_exec (ensure_user_role uid rid)) (\<lambda>new.
     preset_accounts org rid uids (noted new (Account_item uid) r))))"

definition role_of :: "(string \<times> string) list \<Rightarrow> string \<Rightarrow> string" where
  "role_of ids code = case_option [] id (map_of ids code)"

text \<open>The two roles are connected in the order of a map: \<open>swap\<close> is the other order.\<close>

definition preset_tx :: "bool \<Rightarrow> (nat \<Rightarrow> nat \<Rightarrow> string) \<Rightarrow> string \<Rightarrow> preset_application \<Rightarrow> (voice_tables, setup_error, preset_result) go" where
  "preset_tx swap draw actor x =
     (let org = trim_space (pa_org x);
          pairs = (if swap then [(reviewer_role, pa_reviewers x), (agent_role, pa_agents x)]
            else [(agent_role, pa_agents x), (reviewer_role, pa_reviewers x)]) in
      and_then (preset_space x (draw 0 0) \<lparr>ps_workspace = [], ps_created = [], ps_skipped = [], ps_pending = []\<rparr>) (\<lambda>r.
      and_then (preset_types (draw 1) 0 (pa_categories x) r) (\<lambda>r.
      and_then (preset_defs (draw 2) actor 0 (preset_fields x) r) (\<lambda>r.
      and_then (preset_roles (draw 3) 0 support_roles [] r) (\<lambda>(ids, r).
      and_then (preset_accounts org (role_of ids (fst (pairs ! 0))) (snd (pairs ! 0)) r) (\<lambda>r.
      and_then (preset_accounts org (role_of ids (fst (pairs ! 1))) (snd (pairs ! 1)) r) (\<lambda>r.
      ret (r\<lparr>ps_pending := (if pa_agents x = [] then [agent_role] else []) @
        (if pa_reviewers x = [] then [reviewer_role] else [])\<rparr>))))))))"

definition apply_preset :: "(string \<Rightarrow> (string \<Rightarrow> bool) option) \<Rightarrow> bool \<Rightarrow> (nat \<Rightarrow> nat \<Rightarrow> string) \<Rightarrow> principal \<Rightarrow> string \<Rightarrow> preset_application
    \<Rightarrow> (voice_tables, setup_error, preset_result) go" where
  "apply_preset rx swap draw p code x =
     and_then (check (to_upper (trim_space code) = ''MEMBER_SUPPORT'') Unknown_preset) (\<lambda>_.
     and_then (lift (validate_preset rx x)) (\<lambda>_. in_tx (preset_tx swap draw (user_id p) x)))"

section \<open>A workspace and what is in it\<close>

text \<open>A workspace, its requests and its customers belong to one department.\<close>

definition together :: "string \<Rightarrow> string \<Rightarrow> voice_tables \<Rightarrow> bool" where
  "together wid org t \<longleftrightarrow>
     list_all (\<lambda>w. w_id w = wid \<longrightarrow> w_org w = opt_text org) (workspaces t) \<and>
     list_all (\<lambda>v. v_workspace v = Some wid \<longrightarrow> v_org v = Some org) (voices t) \<and>
     list_all (\<lambda>c. cu_home c = Some wid \<longrightarrow> cu_org c = Some org) (customers t)"

lemma tx_exec_success: "tx_exec f w = (Inr y, v) \<longleftrightarrow> (\<exists>u. take_fault w = (False, u) \<and> (\<exists>t. f (tabs u) = Some (t, y) \<and> v = u\<lparr>tabs := t\<rparr>))"
  by (auto simp: tx_exec_def split: prod.split bool.split option.split)

lemma take_fault_tabs: "take_fault w = (b, v) \<Longrightarrow> tabs v = tabs w"
  by (auto simp: take_fault_def split: list.splits)

lemma tx_exec_tabs: "tx_exec f w = (Inr y, v) \<Longrightarrow> f (tabs w) = Some (tabs v, y)"
  by (auto simp: tx_exec_success dest: take_fault_tabs)

text \<open>A transaction that fails leaves what it started from; one that commits leaves what its body left.\<close>

lemma in_tx_outcome:
  assumes "in_tx body w = (r, v)"
  shows "(\<exists>e. r = Inl e \<and> tabs v = tabs (interfere w)) \<or> (\<exists>x u u'. r = Inr x \<and> body u = (Inr x, u') \<and> tabs v = tabs u')"
proof -
  obtain b u where started: "take_fault (interfere w) = (b, u)" by fastforce
  obtain q u' where ran: "body u = (q, u')" by fastforce
  obtain b' u'' where ended: "take_fault u' = (b', u'')" by fastforce
  have result: "(r, v) = (if b then (Inl Db_failed, u) else case q of Inl e \<Rightarrow> (Inl e, u'\<lparr>tabs := tabs u\<rparr>)
      | Inr x \<Rightarrow> if b' then (Inl Db_failed, u''\<lparr>tabs := tabs u\<rparr>) else (Inr x, u''))"
    unfolding assms [symmetric] in_tx_def started by (simp add: ran ended split: sum.split)
  show ?thesis
  proof (cases r)
    case (Inl e)
    have "tabs v = tabs u"
    proof (cases b)
      case False
      with result Inl show ?thesis by (cases q; cases b') simp_all
    qed (use result in simp)
    then show ?thesis using Inl take_fault_tabs [OF started] by simp
  next
    case (Inr x)
    with result have "q = Inr x \<and> v = u''" by (auto split: if_splits sum.splits)
    then show ?thesis using Inr ran take_fault_tabs [OF ended] by blast
  qed
qed

lemma update_workspace_row_org:
  fixes t u :: voice_tables
  assumes "update_workspace_row wid x t = Some (u, k)"
  shows "list_all (\<lambda>w. w_id w = wid \<longrightarrow> w_org w = opt_text (wi_org x)) (workspaces u)"
proof -
  have "u = t\<lparr>workspaces := update_where (\<lambda>w. w_id w = wid) (changed_workspace x) (workspaces t)\<rparr>"
    using assms by (simp add: update_workspace_row_def Let_def split: if_splits)
  then have "workspaces u = update_where (\<lambda>w. w_id w = wid) (changed_workspace x) (workspaces t)" by simp
  moreover have "w_org (changed_workspace x w) = opt_text (wi_org x)" for w by (simp add: changed_workspace_def)
  ultimately show ?thesis by (auto simp: list_all_iff set_update_where)
qed

lemma moved_requests:
  "move_requests wid org t = Some (u, x) \<Longrightarrow> workspaces u = workspaces t \<and> customers u = customers t \<and>
    list_all (\<lambda>v. v_workspace v = Some wid \<longrightarrow> v_org v = Some org) (voices u)"
  by (auto simp: move_requests_def Let_def list_all_iff set_update_where split: if_splits)

lemma moved_customers:
  fixes t :: voice_tables
  shows "move_customers wid org now t = Some (u, x) \<Longrightarrow> workspaces u = workspaces t \<and> voices u = voices t \<and>
    list_all (\<lambda>c. cu_home c = Some wid \<longrightarrow> cu_org c = Some org) (customers u)"
  by (auto simp: move_customers_def Let_def list_all_iff set_update_where split: if_splits)

lemma workspace_tx_moves:
  assumes "update_workspace_tx wid x now w = (Inr y, v)" and "wi_isolated x"
  shows "together wid (wi_org x) (tabs v)"
proof -
  have "\<exists>k w0 w1 w2 z. tx_exec (update_workspace_row wid x) w0 = (Inr k :: setup_error err + nat, w1) \<and>
    tx_exec (move_requests wid (wi_org x)) w1 = (Inr z :: setup_error err + unit, w2) \<and>
    tx_exec (move_customers wid (wi_org x) now) w2 = (Inr y :: setup_error err + unit, v)"
    using assms(1) unfolding update_workspace_tx_def and_then_run case_prod_unfold
  proof (elim exE conjE, goal_cases)
    case (1 q w3 c w0 k w1 e w2)
    then have "w2 = w1" by (simp add: raise_run ret_run split: if_splits)
    moreover obtain z w4 where "tx_exec (move_requests wid (wi_org x)) w2 = (Inr z :: setup_error err + unit, w4)"
      "tx_exec (move_customers wid (wi_org x) now) w4 = (Inr y :: setup_error err + unit, v)"
      using 1(5) assms(2) by (auto simp: and_then_run)
    ultimately show ?case using 1(3) by blast
  qed
  then obtain k w0 w1 w2 z where "tx_exec (update_workspace_row wid x) w0 = (Inr k :: setup_error err + nat, w1)"
    "tx_exec (move_requests wid (wi_org x)) w1 = (Inr z :: setup_error err + unit, w2)"
    "tx_exec (move_customers wid (wi_org x) now) w2 = (Inr y :: setup_error err + unit, v)" by blast
  then have "update_workspace_row wid x (tabs w0) = Some (tabs w1, k)" "move_requests wid (wi_org x) (tabs w1) = Some (tabs w2, z)"
    "move_customers wid (wi_org x) now (tabs w2) = Some (tabs v, y)" by (auto dest: tx_exec_tabs)
  from update_workspace_row_org [OF this(1)] moved_requests [OF this(2)] moved_customers [OF this(3)]
  show ?thesis by (simp add: together_def)
qed

text \<open>
  C38: A workspace moves whole. Whatever fails and whatever other sessions commit, a change of a workspace
  leaves the tables as another session left them, or it succeeds and, for an isolated workspace, the
  workspace, all its requests and all its customers belong to the new department.
\<close>

theorem workspace_moves_whole:
  assumes "update_workspace rx wid x now w = (r, v)"
  shows "case r of Inl e \<Rightarrow> tabs v = tabs w \<or> tabs v = tabs (interfere w)
    | Inr y \<Rightarrow> wi_isolated x \<longrightarrow> together wid (wi_org x) (tabs v)"
proof (cases "validate_workspace rx x")
  case (Inl e)
  then show ?thesis using assms by (auto simp: update_workspace_def and_then_def lift_def raise_def)
next
  case (Inr y)
  then have "in_tx (update_workspace_tx wid x now) w = (r, v)" using assms by (simp add: update_workspace_def and_then_def lift_def ret_def)
  from in_tx_outcome [OF this] show ?thesis
  proof (elim disjE exE conjE)
    fix z u u' assume "r = Inr z" "update_workspace_tx wid x now u = (Inr z, u')" "tabs v = tabs u'"
    then show ?thesis using workspace_tx_moves [of wid x now u z u'] by simp
  qed simp
qed

text \<open>A request of a workspace follows it from one department to another; a failing commit undoes all of it.\<close>

definition toy_workspace :: workspace_row where
  "toy_workspace = \<lparr>w_id = ''w1'', w_code = ''CARE'', w_name = ''Care'', w_org = Some ''g1'', w_isolated = True, w_gate = False,
     w_code_label = [], w_code_pattern = [], w_code_scope = ''GLOBAL'', w_active = True, w_order = 1\<rparr>"

definition toy_member :: customer_row where
  "toy_member = toy_customer\<lparr>cu_home := Some ''w1'', cu_org := Some ''g1''\<rparr>"

definition toy_departments :: voice_tables where
  "toy_departments = crm_tables.extend (toy_crm\<lparr>orgs := [\<lparr>o_id = ''g1'', o_parent = None, o_type = ''DEPARTMENT''\<rparr>,
       \<lparr>o_id = ''g2'', o_parent = None, o_type = ''DEPARTMENT''\<rparr>], workspaces := [toy_workspace], customers := [toy_member]\<rparr>)
     (voice_tables.fields [] [] [] [] [])"

definition toy_change :: workspace_input where
  "toy_change = \<lparr>wi_code = ''CARE'', wi_name = ''Care'', wi_org = ''g2'', wi_isolated = True, wi_gate = False, wi_label = [],
     wi_pattern = [], wi_scope = [], wi_active = None, wi_order = 1\<rparr>"

definition toy_changed :: "bool list \<Rightarrow> (setup_error err + unit) \<times> voice_tables world" where
  "toy_changed fs = update_workspace (\<lambda>_. None) ''w1'' toy_change 7 \<lparr>tabs = toy_departments, faults = fs, others = []\<rparr>"

theorem workspace_moves_whole_witness:
  "together ''w1'' ''g2'' (tabs (snd (toy_changed []))) \<and> map cu_org (customers (tabs (snd (toy_changed [])))) = [Some ''g2''] \<and>
   fst (toy_changed (replicate 5 False @ [True])) = Inl Db_failed \<and> tabs (snd (toy_changed (replicate 5 False @ [True]))) = toy_departments"
proof -
  have ok: "fst (toy_changed []) = Inr ()" and bad: "fst (toy_changed (replicate 5 False @ [True])) = Inl Db_failed" by code_simp+
  have "together ''w1'' ''g2'' (tabs (snd (toy_changed [])))"
    using workspace_moves_whole [of "\<lambda>_. None" "''w1''" toy_change 7 "\<lparr>tabs = toy_departments, faults = [], others = []\<rparr>"
      "Inr ()" "snd (toy_changed [])"] ok by (simp add: toy_changed_def toy_change_def prod_eq_iff)
  moreover have "tabs (snd (toy_changed (replicate 5 False @ [True]))) = toy_departments"
    using workspace_moves_whole [of "\<lambda>_. None" "''w1''" toy_change 7 "\<lparr>tabs = toy_departments, faults = replicate 5 False @ [True], others = []\<rparr>"
      "Inl Db_failed" "snd (toy_changed (replicate 5 False @ [True]))"] bad by (simp add: toy_changed_def interfere_def prod_eq_iff)
  moreover have "map cu_org (customers (tabs (snd (toy_changed [])))) = [Some ''g2'']" by code_simp
  ultimately show ?thesis using bad by blast
qed

end
