(* ===== verification/Throttle.thy ===== *)
theory Throttle
  imports Rely_Guarantee "HOL-Library.Mapping"
begin

text \<open>
  The two rate limiters of a server process (internal/server/server.go): attempts to log in are counted
  per address in a sliding window of ten minutes, requests per caller in fixed windows of a minute. Their
  maps live in memory behind a mutex, so that a call is one step. Instants are readings of the monotonic
  clock; the saturation of \<open>Duration\<close> at 292 years is out of reach. Both limiters are interpretations of
  one contract, from which the theory derives that a refused caller is let in again.
\<close>

section \<open>State behind a mutex\<close>

text \<open>A critical section cannot fail, and other requests run before it.\<close>

definition in_memory :: "('s \<Rightarrow> 'a \<times> 's) \<Rightarrow> ('s, 'e, 'a) go" where
  "in_memory f w = (let v = interfere w in case f (tabs v) of (x, s) \<Rightarrow> (Inr x, v\<lparr>tabs := s\<rparr>))"

lemma in_memory_calm [calm_simps]: "in_memory f (calm s) = (Inr (fst (f s)), calm (snd (f s)))"
  by (simp add: in_memory_def interfere_def split: prod.split)

lemma rg_in_memory:
  assumes "stable R P" and "\<And>s. P s \<Longrightarrow> G s (snd (f s)) \<and> Q (fst (f s)) (snd (f s))"
  shows "rg R G P (in_memory f) Q"
proof (rule rgI)
  fix w r v assume w: "P (tabs w)" "rely_ok R w" "in_memory f w = (r, v)"
  then have P: "P (tabs (interfere w))" using interfere_stable assms(1) by blast
  have v: "r = Inr (fst (f (tabs (interfere w))))" "v = (interfere w)\<lparr>tabs := snd (f (tabs (interfere w)))\<rparr>"
    using w(3) by (auto simp: in_memory_def Let_def split: prod.splits)
  have "(\<lambda>s t. R s t \<or> G s t)\<^sup>*\<^sup>* (tabs w) (tabs (interfere w))" using w(2) by (rule interfere_reach)
  then have "(\<lambda>s t. R s t \<or> G s t)\<^sup>*\<^sup>* (tabs w) (tabs v)"
    using assms(2) [OF P] v by (auto intro: rtranclp.rtrancl_into_rtrancl)
  moreover have "rely_ok R v" using interfere_rely [OF w(2)] v by (simp add: rely_ok_def)
  ultimately show "rely_ok R v \<and> (\<lambda>s t. R s t \<or> G s t)\<^sup>*\<^sup>* (tabs w) (tabs v) \<and> (\<forall>x. r = Inr x \<longrightarrow> Q x (tabs v))"
    using assms(2) [OF P] v by simp
qed

lemma keeps_in_memory [keeps_rules]: "(\<And>s. G s (snd (f s))) \<Longrightarrow> keeps R G (in_memory f)"
  unfolding keeps_def by (rule rg_in_memory) auto

section \<open>Attempts to log in\<close>

definition login_window :: duration where "login_window = 10 * minute_ns"
definition login_tries :: nat where "login_tries = 10"

definition recent_tries :: "instant \<Rightarrow> instant list option \<Rightarrow> instant list" where
  "recent_tries now tries = filter (\<lambda>t. now - login_window < t) (case_option [] id tries)"

definition allow_login :: "string \<Rightarrow> instant \<Rightarrow> (string, instant list) mapping \<Rightarrow> bool \<times> (string, instant list) mapping" where
  "allow_login key now es =
     (let recent = recent_tries now (Mapping.lookup es key) in
      if length recent \<ge> login_tries then (False, Mapping.update key recent es)
      else (True, Mapping.update key (recent @ [now]) es))"

definition login_success :: "string \<Rightarrow> (string, instant list) mapping \<Rightarrow> (string, instant list) mapping" where
  "login_success key es = Mapping.delete key es"

section \<open>Requests\<close>

record bucket =
  bk_window :: instant
  bk_count :: int

definition max_buckets :: int where "max_buckets = 10000"

definition current_bucket :: "instant \<Rightarrow> bucket option \<Rightarrow> bucket" where
  "current_bucket now b = (case b of
     Some k \<Rightarrow> if now - bk_window k \<ge> minute_ns then \<lparr>bk_window = now, bk_count = 0\<rparr> else k
   | None \<Rightarrow> \<lparr>bk_window = now, bk_count = 0\<rparr>)"

definition swept :: "instant \<Rightarrow> (string, bucket) mapping \<Rightarrow> (string, bucket) mapping" where
  "swept now es =
     (if int (Mapping.size es) > max_buckets then Mapping.filter (\<lambda>_ b. \<not> bk_window b < now - 2 * minute_ns) es else es)"

definition allow_request :: "string \<times> int \<Rightarrow> instant \<Rightarrow> (string, bucket) mapping \<Rightarrow> bool \<times> (string, bucket) mapping" where
  "allow_request q now es =
     (case q of (key, limit) \<Rightarrow>
      if limit \<le> 0 then (True, es)
      else
        let b = current_bucket now (Mapping.lookup es key) in
        if bk_count b \<ge> limit then (False, Mapping.update key b es)
        else (True, swept now (Mapping.update key (b\<lparr>bk_count := bk_count b + 1\<rparr>) es)))"

section \<open>The contract of a limiter\<close>

text \<open>A limiter at work: the answers to requests at ascending instants.\<close>

fun serve :: "('q \<Rightarrow> instant \<Rightarrow> 's \<Rightarrow> bool \<times> 's) \<Rightarrow> ('q \<times> instant) list \<Rightarrow> 's \<Rightarrow> bool list \<times> 's" where
  "serve admit [] s = ([], s)"
| "serve admit ((q, now) # es) s =
     (case admit q now s of (ok, u) \<Rightarrow> case serve admit es u of (oks, v) \<Rightarrow> (ok # oks, v))"

text \<open>
  \<open>barred q t s\<close>: in the state \<open>s\<close> the request \<open>q\<close> would be refused at \<open>t\<close>; \<open>past now s\<close>: nothing in the
  state is later than \<open>now\<close>. A refusal costs nothing, other callers cannot bar a caller, and a bar set up
  to some instant is over one pause later.
\<close>

lemma serve_simps [simp]:
  "fst (serve admit [] s) = []" "snd (serve admit [] s) = s"
  "fst (serve admit ((q, now) # es) s) = fst (admit q now s) # fst (serve admit es (snd (admit q now s)))"
  "snd (serve admit ((q, now) # es) s) = snd (serve admit es (snd (admit q now s)))"
  by (simp_all split: prod.split)

declare serve.simps [simp del]

lemma serve_append:
  "snd (serve admit (xs @ ys) s) = snd (serve admit ys (snd (serve admit xs s)))"
  "fst (serve admit (xs @ ys) s) = fst (serve admit xs s) @ fst (serve admit ys (snd (serve admit xs s)))"
  by (induction xs arbitrary: s) auto

lemma serve_length: "length (fst (serve admit es s)) = length es"
  by (induction es arbitrary: s) auto

locale throttle =
  fixes admit :: "'q \<Rightarrow> instant \<Rightarrow> 's \<Rightarrow> bool \<times> 's"
    and caller :: "'q \<Rightarrow> string"
    and barred :: "'q \<Rightarrow> instant \<Rightarrow> 's \<Rightarrow> bool"
    and past :: "instant \<Rightarrow> 's \<Rightarrow> bool"
    and pause :: duration
  assumes admits: "fst (admit q now s) \<longleftrightarrow> \<not> barred q now s"
    and refusal_is_free: "\<not> fst (admit p now s) \<Longrightarrow> caller p = caller q \<Longrightarrow> now \<le> t \<Longrightarrow>
      barred q t (snd (admit p now s)) \<Longrightarrow> barred q t s"
    and others_are_free: "caller p \<noteq> caller q \<Longrightarrow> now \<le> t \<Longrightarrow> barred q t (snd (admit p now s)) \<Longrightarrow> barred q t s"
    and records_the_past: "past now s \<Longrightarrow> past now (snd (admit q now s))"
    and past_stays: "past now s \<Longrightarrow> now \<le> t \<Longrightarrow> past t s"
    and ends: "past now s \<Longrightarrow> now + pause \<le> t \<Longrightarrow> \<not> barred q t s"
begin

lemma past_serve:
  "past now s \<Longrightarrow> list_all (\<lambda>(_, t). now \<le> t \<and> t \<le> later) es \<Longrightarrow> sorted (map snd es) \<Longrightarrow> now \<le> later \<Longrightarrow>
    past later (snd (serve admit es s))"
proof (induction es arbitrary: s now)
  case Nil
  then show ?case using past_stays by simp
next
  case (Cons e es)
  obtain q t where e: "e = (q, t)" by (cases e)
  have "past t (snd (admit q t s))" using Cons.prems(1,2) e by (simp add: records_the_past past_stays [of now])
  moreover have "t \<le> u \<and> u \<le> later" if "(p, u) \<in> set es" for p u
    using that Cons.prems(2,3) e by (force simp: list_all_iff)
  then have "list_all (\<lambda>(_, u). t \<le> u \<and> u \<le> later) es" by (auto simp: list_all_iff)
  ultimately show ?case using Cons.IH [of t "snd (admit q t s)"] Cons.prems e by simp
qed

lemma refusals_are_free:
  assumes "list_all (\<lambda>((p, u), ok). u \<le> t \<and> (caller p = caller q \<longrightarrow> \<not> ok)) (zip es (fst (serve admit es s)))"
    and "barred q t (snd (serve admit es s))"
  shows "barred q t s"
  using assms
proof (induction es arbitrary: s)
  case (Cons e es)
  obtain p u where e: "e = (p, u)" by (cases e)
  with Cons have "barred q t (snd (admit p u s))" by simp
  then show ?case using refusal_is_free [of p u s q t] others_are_free [of p q u t s] Cons.prems(1) e by auto
qed simp

text \<open>
  However busy the server is with others and however often the caller is refused in between: one pause
  after any instant without an admission it is let in.
\<close>

lemma let_in_again:
  assumes "past now s" and "now + pause \<le> t"
    and "list_all (\<lambda>((p, u), ok). u \<le> t \<and> (caller p = caller q \<longrightarrow> \<not> ok)) (zip es (fst (serve admit es s)))"
  shows "fst (admit q t (snd (serve admit es s)))"
proof -
  have "\<not> barred q t (snd (serve admit es s))"
    using refusals_are_free [OF assms(3)] ends [OF assms(1,2)] by blast
  then show ?thesis by (simp add: admits)
qed

end

section \<open>Both limiters keep it\<close>

definition tries_past :: "instant \<Rightarrow> (string, instant list) mapping \<Rightarrow> bool" where
  "tries_past now es \<longleftrightarrow> (\<forall>key ts. Mapping.lookup es key = Some ts \<longrightarrow> list_all (\<lambda>t. t \<le> now) ts)"

definition login_barred :: "string \<Rightarrow> instant \<Rightarrow> (string, instant list) mapping \<Rightarrow> bool" where
  "login_barred key t es \<longleftrightarrow> login_tries \<le> length (recent_tries t (Mapping.lookup es key))"

lemma recent_of_recent: "now \<le> t \<Longrightarrow> recent_tries t (Some (recent_tries now x)) = recent_tries t x"
  unfolding recent_tries_def by (auto intro!: filter_cong)

lemma tries_of: "tries_past now es \<Longrightarrow> list_all (\<lambda>t. t \<le> now) (recent_tries u (Mapping.lookup es key))"
  by (cases "Mapping.lookup es key") (auto simp: tries_past_def list_all_iff recent_tries_def)

interpretation login_throttle: throttle allow_login "\<lambda>key. key" login_barred tries_past login_window
proof
  fix q p :: string and now t :: instant and s :: "(string, instant list) mapping"
  show "fst (allow_login q now s) \<longleftrightarrow> \<not> login_barred q now s"
    by (simp add: allow_login_def login_barred_def Let_def not_le)
  show "login_barred q t s" if "\<not> fst (allow_login p now s)" "p = q" "now \<le> t" "login_barred q t (snd (allow_login p now s))"
    using that by (simp add: allow_login_def login_barred_def Let_def lookup_update recent_of_recent split: if_splits)
  show "login_barred q t s" if "p \<noteq> q" "now \<le> t" "login_barred q t (snd (allow_login p now s))"
    using that by (simp add: allow_login_def login_barred_def Let_def lookup_update_neq split: if_splits)
  show "tries_past now (snd (allow_login q now s))" if "tries_past now s"
    using that tries_of [OF that, of now q] by (auto simp: allow_login_def Let_def tries_past_def lookup_update' split: if_splits)
  show "tries_past t s" if "tries_past now s" "now \<le> t"
    using that by (fastforce simp: tries_past_def list_all_iff)
  show "\<not> login_barred q t s" if "tries_past now s" "now + login_window \<le> t"
  proof -
    have "u \<le> now" if "u \<in> set (case_option [] id (Mapping.lookup s q))" for u
      using that \<open>tries_past now s\<close> by (cases "Mapping.lookup s q") (auto simp: tries_past_def list_all_iff)
    then have "\<not> t - login_window < u" if "u \<in> set (case_option [] id (Mapping.lookup s q))" for u
      using that \<open>now + login_window \<le> t\<close> by fastforce
    then have "recent_tries t (Mapping.lookup s q) = []" by (simp add: recent_tries_def filter_empty_conv)
    then show ?thesis by (simp add: login_barred_def login_tries_def)
  qed
qed

definition buckets_past :: "instant \<Rightarrow> (string, bucket) mapping \<Rightarrow> bool" where
  "buckets_past now es \<longleftrightarrow> (\<forall>key b. Mapping.lookup es key = Some b \<longrightarrow> bk_window b \<le> now)"

definition request_barred :: "string \<times> int \<Rightarrow> instant \<Rightarrow> (string, bucket) mapping \<Rightarrow> bool" where
  "request_barred q t es \<longleftrightarrow> 0 < snd q \<and> snd q \<le> bk_count (current_bucket t (Mapping.lookup es (fst q)))"

lemma bucket_window: "buckets_past now es \<Longrightarrow> bk_window (current_bucket now (Mapping.lookup es key)) \<le> now"
  by (auto simp: current_bucket_def buckets_past_def split: option.splits)

text \<open>Sweeping old buckets away changes no answer.\<close>

lemma swept_bucket:
  assumes "now \<le> t"
  shows "current_bucket t (Mapping.lookup (swept now es) k) = current_bucket t (Mapping.lookup es k)"
  using assms by (auto simp: swept_def lookup_filter current_bucket_def minute_ns_def split: option.splits)

interpretation request_throttle: throttle allow_request fst request_barred buckets_past minute_ns
proof
  fix q p :: "string \<times> int" and now t :: instant and s :: "(string, bucket) mapping"
  show "fst (allow_request q now s) \<longleftrightarrow> \<not> request_barred q now s"
    by (cases q) (auto simp: allow_request_def request_barred_def Let_def)
  show "request_barred q t s" if "\<not> fst (allow_request p now s)" "fst p = fst q" "now \<le> t" "request_barred q t (snd (allow_request p now s))"
    using that by (cases p; cases q) (auto simp: allow_request_def request_barred_def Let_def lookup_update current_bucket_def
      split: if_splits option.splits)
  show "request_barred q t s" if "fst p \<noteq> fst q" "now \<le> t" "request_barred q t (snd (allow_request p now s))"
    using that by (cases p) (auto simp: allow_request_def request_barred_def Let_def swept_bucket lookup_update_neq split: if_splits)
  show "buckets_past now (snd (allow_request q now s))" if "buckets_past now s"
    using that bucket_window [OF that]
    by (cases q) (auto simp: allow_request_def Let_def buckets_past_def swept_def lookup_update' lookup_filter split: if_splits option.splits)
  show "buckets_past t s" if "buckets_past now s" "now \<le> t"
    using that by (fastforce simp: buckets_past_def)
  show "\<not> request_barred q t s" if "buckets_past now s" "now + minute_ns \<le> t"
  proof (cases "Mapping.lookup s (fst q)")
    case (Some b)
    then have "bk_window b \<le> now" using that by (auto simp: buckets_past_def)
    then have "minute_ns \<le> t - bk_window b" using that by simp
    with Some show ?thesis by (simp add: request_barred_def current_bucket_def)
  qed (simp add: request_barred_def current_bucket_def)
qed

section \<open>What the limits promise\<close>

text \<open>
  C39: A caller over the limit is served again. Whatever requests came before, however busy the server is
  with others and however often the caller is refused meanwhile: a minute after any instant since which
  nothing of the caller was let through, its next request is.
\<close>

theorem refused_caller_returns:
  assumes "sorted (map snd before)" and "list_all (\<lambda>(_, u). 0 \<le> u \<and> u \<le> now) before" and "0 \<le> now" and "now + minute_ns \<le> t"
    and "list_all (\<lambda>((p, u), ok). u \<le> t \<and> (fst p = fst q \<longrightarrow> \<not> ok))
      (zip es (fst (serve allow_request es (snd (serve allow_request before Mapping.empty)))))"
  shows "fst (allow_request q t (snd (serve allow_request (before @ es) Mapping.empty)))"
proof -
  have "buckets_past 0 Mapping.empty" by (simp add: buckets_past_def)
  then have "buckets_past now (snd (serve allow_request before Mapping.empty))"
    using request_throttle.past_serve assms(1-3) by blast
  then show ?thesis using request_throttle.let_in_again assms(4,5) by (simp add: serve_append)
qed

definition toy_flood :: "((string \<times> int) \<times> instant) list" where
  "toy_flood = [((''u1'', 1), 0), ((''u1'', 1), 5), ((''u2'', 1), 6), ((''u1'', 1), 7)]"

lemma toy_flood_answers: "fst (serve allow_request toy_flood Mapping.empty) = [True, False, True, False]"
  by (simp add: toy_flood_def allow_request_def current_bucket_def swept_def max_buckets_def lookup_update lookup_update_neq Let_def minute_ns_def
      lookup_empty size_def keys_empty)

theorem refused_caller_returns_witness:
  "fst (serve allow_request toy_flood Mapping.empty) = [True, False, True, False] \<and>
   fst (allow_request (''u1'', 1) minute_ns (snd (serve allow_request toy_flood Mapping.empty)))"
proof -
  have "fst (allow_request (''u1'', 1) minute_ns (snd (serve allow_request ([hd toy_flood] @ tl toy_flood) Mapping.empty)))"
    by (rule refused_caller_returns [where now = 0])
      (use toy_flood_answers in \<open>simp_all add: toy_flood_def minute_ns_def\<close>)
  then show ?thesis using toy_flood_answers by (simp add: toy_flood_def)
qed

lemma fewer_where: "set (filter P xs) \<subseteq> {x. Q x} \<Longrightarrow> length (filter P xs) \<le> length (filter Q xs)"
proof (induction xs)
  case (Cons x xs)
  then show ?case by (cases "P x") auto
qed simp

text \<open>The attempts of one address that were let through, in order.\<close>

definition let_through :: "string \<Rightarrow> (string \<times> instant) list \<Rightarrow> bool list \<Rightarrow> instant list" where
  "let_through key es oks = map (\<lambda>((_, u), _). u) (filter (\<lambda>((p, _), ok). p = key \<and> ok) (zip es oks))"

lemma let_through_snoc:
  "length es = length oks \<Longrightarrow> let_through key (es @ [(p, u)]) (oks @ [ok]) = let_through key es oks @ (if p = key \<and> ok then [u] else [])"
  by (simp add: let_through_def)

lemma let_through_mem: "u \<in> set (let_through key es oks) \<Longrightarrow> u \<in> set (map snd es)"
  by (auto simp: let_through_def dest!: set_zip_leftD) force

abbreviation tries_after :: "(string \<times> instant) list \<Rightarrow> (string, instant list) mapping" where
  "tries_after es \<equiv> snd (serve allow_login es Mapping.empty)"

abbreviation tried :: "string \<Rightarrow> (string \<times> instant) list \<Rightarrow> instant list" where
  "tried key es \<equiv> let_through key es (fst (serve allow_login es Mapping.empty))"

lemma recent_is_let_through:
  assumes "sorted (map snd es)" and "list_all (\<lambda>(_, u). u \<le> t) es"
  shows "recent_tries t (Mapping.lookup (tries_after es) key) = filter (\<lambda>u. t - login_window < u) (tried key es)"
  using assms
proof (induction es arbitrary: t rule: rev_induct)
  case Nil
  then show ?case by (simp add: let_through_def recent_tries_def)
next
  case (snoc e es)
  obtain p u where e: "e = (p, u)" by (cases e)
  with snoc.prems have u: "u \<le> t" "sorted (map snd es)" "list_all (\<lambda>(_, x). x \<le> u) es" "list_all (\<lambda>(_, x). x \<le> t) es"
    by (auto simp: sorted_append list_all_iff)
  note IH = snoc.IH [OF u(2)]
  have again: "recent_tries t (Some (recent_tries u x @ ys)) = recent_tries t x @ filter (\<lambda>v. t - login_window < v) ys" for x ys
    using recent_of_recent [OF u(1), of x] by (simp add: recent_tries_def)
  have later: "recent_tries t (Mapping.lookup (tries_after es) key) = filter (\<lambda>x. t - login_window < x) (tried key es)"
    by (rule IH) (use u in auto)
  let ?recent = "recent_tries u (Mapping.lookup (tries_after es) p)"
  show ?case
  proof (cases "login_tries \<le> length ?recent")
    case True
    then have step: "allow_login p u (tries_after es) = (False, Mapping.update p ?recent (tries_after es))"
      by (simp add: allow_login_def Let_def)
    show ?thesis
      using later again [of _ "[]"] by (simp add: e step serve_append serve_length let_through_snoc lookup_update')
  next
    case False
    then have step: "allow_login p u (tries_after es) = (True, Mapping.update p (?recent @ [u]) (tries_after es))"
      by (simp add: allow_login_def Let_def)
    show ?thesis
      using later again [of _ "[u]"] by (simp add: e step serve_append serve_length let_through_snoc lookup_update')
  qed
qed



end
