(* ===== verification/Request_Gate.thy ===== *)
theory Request_Gate
  imports Auth_Facts Throttle
begin

text \<open>
  What stands between the network and the handlers (internal/server/server.go and the login handlers of
  internal/server/public.go): panics are recovered, the MCP endpoint answers preflights, requests are
  authenticated, held to the channels of their key, to the policies, the rate limits, the change of an
  initial password and the CSRF token, repeated requests are answered from the stored answer, and a GET may
  select fields. A handler is an argument: what it does to the tables and its answer. Bodies are JSON values
  or other text; the sentences in error bodies, the security headers and the set of origins, which the OIDC
  and MCP packages decide, are left out or arguments.
\<close>

section \<open>Requests, answers and the state of a server\<close>

record http_request = request +
  rq_method :: string
  rq_uri :: string
  rq_csrf :: string
  rq_idempotency :: string
  rq_fields :: string
  rq_origin :: string
  rq_body :: "string option"

datatype body = Json json | Plain string

record answer =
  an_status :: int
  an_headers :: "(string \<times> string) list"
  an_body :: body

definition error_body :: "string \<Rightarrow> body" where
  "error_body code = Json (JObj [(''error'', JObj [(''code'', JStr code)])])"

definition problem :: "int \<Rightarrow> string \<Rightarrow> answer" where
  "problem status code = \<lparr>an_status = status, an_headers = [], an_body = error_body code\<rparr>"

record stored_answer =
  sa_user :: string
  sa_key :: string
  sa_hash :: string
  sa_status :: int
  sa_body :: body
  sa_expires :: instant

record log_line =
  lg_actor :: string
  lg_key :: "string option"
  lg_method :: string
  lg_path :: string
  lg_status :: int
  lg_ip :: "string option"

text \<open>The tables and the two limiters, which live in the memory of the process.\<close>

record server_tables = account_tables +
  stored_answers :: "stored_answer list"
  request_log :: "log_line list"
  buckets :: "(string, bucket) mapping"
  login_log :: "(string, instant list) mapping"

type_synonym 'a served = "(server_tables, auth_error, 'a) go"
type_synonym handler = "principal \<Rightarrow> answer served"

definition take_turn :: "string \<times> int \<Rightarrow> instant \<Rightarrow> server_tables \<Rightarrow> bool \<times> server_tables" where
  "take_turn q now t = (case allow_request q now (buckets t) of (ok, bs) \<Rightarrow> (ok, t\<lparr>buckets := bs\<rparr>))"

definition try_login :: "string \<Rightarrow> instant \<Rightarrow> server_tables \<Rightarrow> bool \<times> server_tables" where
  "try_login ip now t = (case allow_login ip now (login_log t) of (ok, es) \<Rightarrow> (ok, t\<lparr>login_log := es\<rparr>))"

text \<open>The instants a request reads: for its key or session, its turn, and the stored answers.\<close>

record moments =
  mo_start :: instant
  mo_turn :: instant
  mo_lookup :: instant
  mo_stored :: instant

section \<open>Errors of the services\<close>

text \<open>
  An error as \<open>serviceError\<close> tells it apart: no row, an error of PostgreSQL with its SQLSTATE, a database
  that was not reached, a query that was cut short, or a text.
\<close>

datatype failure = No_row | Sql_error string | Unreachable | Interrupted | Said string

definition pg_error_verdict :: "string \<Rightarrow> int \<times> string" where
  "pg_error_verdict sqlstate =
     (if sqlstate \<in> {''22P02'', ''22007'', ''22008'', ''22003'', ''23502'', ''23514''} then (400, ''invalid_request'')
      else if sqlstate \<in> {''23505'', ''23503'', ''40001'', ''40P01''} then (409, ''conflict'')
      else (500, ''internal_error''))"

definition said_verdict :: "string \<Rightarrow> int \<times> string" where
  "said_verdict msg =
     (if msg = ''no rows in result set'' then (404, ''not_found'')
      else if contains_sub msg ''SQLSTATE'' then pg_error_verdict []
      else if contains_sub msg ''not found'' then (404, ''not_found'')
      else if contains_sub msg ''permission'' \<or> contains_sub msg ''access denied'' \<or> contains_sub msg ''designated approver'' then (403, ''forbidden'')
      else if contains_sub msg ''another user'' \<or> contains_sub msg ''already'' \<or> contains_sub msg ''pending'' then (409, ''conflict'')
      else (400, ''invalid_request''))"

definition service_error :: "failure \<Rightarrow> answer" where
  "service_error e =
     (let (status, code) = (case e of
        No_row \<Rightarrow> (404, ''not_found'')
      | Sql_error c \<Rightarrow> pg_error_verdict c
      | Unreachable \<Rightarrow> (500, ''internal_error'')
      | Interrupted \<Rightarrow> (500, ''internal_error'')
      | Said msg \<Rightarrow> said_verdict msg)
      in problem status code)"

section \<open>Selecting fields\<close>

definition field_char :: "char \<Rightarrow> bool" where
  "field_char c \<longleftrightarrow> c \<in> set alpha_num \<or> c = CHR ''_''"

fun checked_fields :: "string list \<Rightarrow> string list \<Rightarrow> string list option" where
  "checked_fields out [] = Some out"
| "checked_fields out (p # ps) =
     (let f = trim_space p in
      if f = [] \<or> length f > 80 \<or> \<not> list_all field_char f then None
      else checked_fields (if f \<in> set out then out else out @ [f]) ps)"

definition projection_fields :: "string \<Rightarrow> string list option" where
  "projection_fields raw =
     (let parts = split_on CHR '','' raw in
      if parts = [] \<or> length parts > 50 then None else checked_fields [] parts)"

text \<open>The order of the members of an object is not modelled.\<close>

definition project_object :: "(string \<times> json) list \<Rightarrow> string list \<Rightarrow> json" where
  "project_object obj sel = JObj (List.map_filter (\<lambda>f. map_option (Pair f) (json_field f obj)) sel)"

definition project_items :: "string list \<Rightarrow> json list \<Rightarrow> json list" where
  "project_items sel items = List.map_filter (\<lambda>x. case x of JObj obj \<Rightarrow> Some (project_object obj sel) | _ \<Rightarrow> None) items"

definition project_json :: "string list \<Rightarrow> json \<Rightarrow> json" where
  "project_json sel j = (case j of
     JObj obj \<Rightarrow> (case json_field ''items'' obj of
         Some (JArr items) \<Rightarrow> JObj (map (\<lambda>(k, v). if k = ''items'' then (k, JArr (project_items sel items)) else (k, v)) obj)
       | _ \<Rightarrow> project_object obj sel)
   | JArr items \<Rightarrow> JArr (project_items sel items)
   | _ \<Rightarrow> j)"

definition projected :: "string list \<Rightarrow> answer \<Rightarrow> answer" where
  "projected sel a =
     (if 200 \<le> an_status a \<and> an_status a < 300
      then (case an_body a of Json j \<Rightarrow> a\<lparr>an_body := Json (project_json sel j)\<rparr> | Plain _ \<Rightarrow> a) else a)
     \<lparr>an_headers := filter (\<lambda>(n, _). \<not> equal_fold n ''Content-Length'') (an_headers a)\<rparr>"

definition serve_projected :: "'r http_request_scheme \<Rightarrow> principal \<Rightarrow> handler \<Rightarrow> answer served" where
  "serve_projected r p h =
     (case projection_fields (rq_fields r) of
        None \<Rightarrow> ret (problem 400 ''invalid_fields'')
      | Some sel \<Rightarrow> and_then (h p) (\<lambda>a. ret (projected sel a)))"

section \<open>Answering a repeated request\<close>

definition is_mutation :: "string \<Rightarrow> bool" where
  "is_mutation method \<longleftrightarrow> method = ''POST'' \<or> method = ''PUT'' \<or> method = ''PATCH''"

definition max_body :: int where "max_body = 2 * 1024 * 1024"

definition request_hash :: "crypto \<Rightarrow> 'r http_request_scheme \<Rightarrow> string \<Rightarrow> string" where
  "request_hash c r content = hex_encode (sha c (rq_method r @ [CHR 0x0A] @ rq_uri r @ [CHR 0x0A] @ content))"

definition stored_answer_of :: "principal \<Rightarrow> string \<Rightarrow> instant \<Rightarrow> 'z server_tables_scheme \<Rightarrow> stored_answer option" where
  "stored_answer_of p key now t =
     List.find (\<lambda>s. sa_user s = user_id p \<and> sa_key s = key \<and> now < sa_expires s) (stored_answers t)"

text \<open>\<open>ON CONFLICT(user_id, key) DO NOTHING\<close>: a row that has expired conflicts as well.\<close>

definition store_answer :: "stored_answer \<Rightarrow> server_tables \<Rightarrow> (server_tables \<times> unit) option" where
  "store_answer s t =
     (if list_ex (\<lambda>x. sa_user x = sa_user s \<and> sa_key x = sa_key s) (stored_answers t) then Some (t, ())
      else if sa_user s \<notin> set (keys u_id (users t)) then None
      else Some (t\<lparr>stored_answers := stored_answers t @ [s]\<rparr>, ()))"

definition replayed :: "stored_answer \<Rightarrow> answer" where
  "replayed s = \<lparr>an_status = sa_status s,
     an_headers = [(''Content-Type'', ''application/json; charset=utf-8''), (''Idempotency-Replayed'', ''true'')], an_body = sa_body s\<rparr>"

text \<open>\<open>e\<close> is the error the lookup fails with where the database fails it.\<close>

definition serve_idempotent :: "crypto \<Rightarrow> failure \<Rightarrow> 'r http_request_scheme \<Rightarrow> moments \<Rightarrow> principal \<Rightarrow> handler \<Rightarrow> answer served" where
  "serve_idempotent c e r m p h =
     (let key = trim_space (rq_idempotency r) in
      if int (length key) < 8 \<or> int (length key) > 200 then ret (problem 400 ''invalid_idempotency_key'')
      else case rq_body r of
        None \<Rightarrow> ret (problem 413 ''request_too_large'')
      | Some content \<Rightarrow>
          if int (length content) > max_body then ret (problem 413 ''request_too_large'')
          else
            and_then (call_result (db_query (stored_answer_of p key (mo_lookup m)))) (\<lambda>found.
            case found of
              Inl _ \<Rightarrow> ret (service_error e)
            | Inr (Some s) \<Rightarrow> ret (if sa_hash s = request_hash c r content then replayed s else problem 409 ''idempotency_conflict'')
            | Inr None \<Rightarrow>
                and_then (h p) (\<lambda>a.
                and_then (case an_body a of
                    Json j \<Rightarrow> if an_status a < 500
                      then or_default () (db_exec (store_answer \<lparr>sa_user = user_id p, sa_key = key, sa_hash = request_hash c r content,
                        sa_status = an_status a, sa_body = Json j, sa_expires = mo_stored m + hours 24\<rparr>))
                      else ret ()
                  | Plain _ \<Rightarrow> ret ()) (\<lambda>_.
                ret a))))"

section \<open>The gate\<close>

definition policy_enabled :: "string \<Rightarrow> string \<Rightarrow> bool \<Rightarrow> bool served" where
  "policy_enabled ns key fallback = or_default fallback (db_row (\<lambda>t. Option.bind (setting ns key t) st_bool))"

definition policy_limit :: "string \<Rightarrow> string \<Rightarrow> int \<Rightarrow> int served" where
  "policy_limit ns key fallback =
     and_then (or_default fallback (db_row (\<lambda>t. Option.bind (setting ns key t) st_int))) (\<lambda>n. ret (if n < 0 then fallback else n))"

definition bearer_refusal :: "auth_error err \<Rightarrow> (string \<times> string) option" where
  "bearer_refusal e = (case e of App (Bearer_refused code description) \<Rightarrow> Some (code, description) | _ \<Rightarrow> None)"

text \<open>\<open>challenge\<close> writes the header \<open>WWW-Authenticate\<close>, which names the metadata of the OIDC package.\<close>

definition refuse_login :: "((string \<times> string) option \<Rightarrow> string) \<Rightarrow> 'r request_scheme \<Rightarrow> bool \<Rightarrow> auth_error err \<Rightarrow> answer" where
  "refuse_login challenge r mcp e =
     (let refused = bearer_refusal e;
          hs = (if mcp then [(''WWW-Authenticate'', challenge (if bearer r = [] then None else refused))] else []);
          a = (if mcp \<and> map_option fst refused = Some ''insufficient_scope'' then problem 403 ''insufficient_scope''
               else problem 401 ''authentication_required'')
      in a\<lparr>an_headers := hs\<rparr>)"

definition channel_refusal :: "bool \<Rightarrow> principal \<Rightarrow> answer option served" where
  "channel_refusal mcp p =
     (if mcp then
        if \<not> channel_allowed p ''MCP'' then ret (Some (problem 403 ''channel_denied''))
        else and_then (policy_enabled ''mcp'' ''enabled'' True) (\<lambda>on. ret (if on then None else Some (problem 403 ''mcp_disabled'')))
      else if key_id p = [] then ret None
      else if \<not> channel_allowed p ''REST'' then ret (Some (problem 403 ''channel_denied''))
      else and_then (policy_enabled ''api'' ''enabled'' True) (\<lambda>on. ret (if on then None else Some (problem 403 ''api_disabled''))))"

definition caller_identity :: "bool \<Rightarrow> principal \<Rightarrow> 'r request_scheme \<Rightarrow> string" where
  "caller_identity mcp p r =
     (if mcp then ''mcp'' else ''api'') @ '':'' @ user_id p @ '':'' @ auth_method p @ '':'' @ key_id p @ '':'' @ client_ip r"

definition must_change_first :: "principal \<Rightarrow> string \<Rightarrow> bool" where
  "must_change_first p path \<longleftrightarrow>
     must_change_password p \<and> \<not> suffix ''/me/password'' path \<and> \<not> suffix ''/auth/logout'' path \<and> \<not> suffix ''/auth/me'' path"

definition needs_csrf :: "'r http_request_scheme \<Rightarrow> principal \<Rightarrow> bool" where
  "needs_csrf r p \<longleftrightarrow> rq_method r \<notin> {''GET'', ''HEAD'', ''OPTIONS''} \<and> auth_method p \<notin> {''PERSONAL_KEY'', ''OIDC_ACCESS_TOKEN''}"

definition csrf_proven :: "'r http_request_scheme \<Rightarrow> principal \<Rightarrow> bool" where
  "csrf_proven r p \<longleftrightarrow> rq_csrf r \<noteq> [] \<and> rq_csrf r = csrf_token p"

definition dispatch :: "crypto \<Rightarrow> failure \<Rightarrow> bool \<Rightarrow> 'r http_request_scheme \<Rightarrow> moments \<Rightarrow> principal \<Rightarrow> handler \<Rightarrow> answer served" where
  "dispatch c e mcp r m p h =
     (if \<not> mcp \<and> is_mutation (rq_method r) \<and> trim_space (rq_idempotency r) \<noteq> [] then serve_idempotent c e r m p h
      else if \<not> mcp \<and> rq_method r = ''GET'' \<and> trim_space (rq_fields r) \<noteq> [] then serve_projected r p h
      else h p)"

definition insert_log :: "log_line \<Rightarrow> server_tables \<Rightarrow> (server_tables \<times> unit) option" where
  "insert_log l t =
     (if lg_actor l \<notin> set (keys u_id (users t)) \<or> (case lg_key l of None \<Rightarrow> False | Some k \<Rightarrow> k \<notin> set (keys k_id (pkeys t))) then None
      else Some (t\<lparr>request_log := request_log t @ [l]\<rparr>, ()))"

definition log_request :: "bool \<Rightarrow> 'r http_request_scheme \<Rightarrow> principal \<Rightarrow> answer \<Rightarrow> unit served" where
  "log_request mcp r p a =
     (if \<not> mcp \<and> prefix ''/api/'' (url_path r)
      then or_default () (db_exec (insert_log \<lparr>lg_actor = user_id p, lg_key = null_if_empty (key_db_id p), lg_method = rq_method r,
        lg_path = url_path r, lg_status = (if an_status a = 0 then 200 else an_status a), lg_ip = null_if_empty (client_ip r)\<rparr>))
      else ret ())"

definition admitted :: "crypto \<Rightarrow> failure \<Rightarrow> bool \<Rightarrow> 'r http_request_scheme \<Rightarrow> moments \<Rightarrow> principal \<Rightarrow> handler \<Rightarrow> answer served" where
  "admitted c e mcp r m p h =
     (if must_change_first p (url_path r) then ret (problem 403 ''password_change_required'')
      else if needs_csrf r p \<and> \<not> csrf_proven r p then ret (problem 403 ''csrf_failed'')
      else and_then (dispatch c e mcp r m p h) (\<lambda>a. and_then (log_request mcp r p a) (\<lambda>_. ret a)))"

definition in_turn :: "crypto \<Rightarrow> failure \<Rightarrow> bool \<Rightarrow> 'r http_request_scheme \<Rightarrow> moments \<Rightarrow> principal \<Rightarrow> handler \<Rightarrow> answer served" where
  "in_turn c e mcp r m p h =
     and_then (policy_limit (if mcp then ''mcp'' else ''api'') ''rate_limit_per_minute'' (if mcp then 60 else 120)) (\<lambda>limit.
     and_then (in_memory (take_turn (caller_identity mcp p r, limit) (mo_turn m))) (\<lambda>ok.
     if \<not> ok then ret ((problem 429 ''rate_limit_exceeded'')\<lparr>an_headers := [(''Retry-After'', ''60'')]\<rparr>)
     else admitted c e mcp r m p h))"

definition known_caller :: "crypto \<Rightarrow> failure \<Rightarrow> bool \<Rightarrow> 'r http_request_scheme \<Rightarrow> moments \<Rightarrow> principal \<Rightarrow> handler \<Rightarrow> answer served" where
  "known_caller c e mcp r m p h =
     and_then (channel_refusal mcp p) (\<lambda>refused. case refused of Some a \<Rightarrow> ret a | None \<Rightarrow> in_turn c e mcp r m p h)"

definition require_auth :: "crypto \<Rightarrow> oidc_validator \<Rightarrow> ((string \<times> string) option \<Rightarrow> string) \<Rightarrow> failure \<Rightarrow> bool
    \<Rightarrow> http_request \<Rightarrow> moments \<Rightarrow> handler \<Rightarrow> answer served" where
  "require_auth c oidc challenge e mcp r m h =
     and_then (call_result (authenticate c oidc r (mo_start m))) (\<lambda>who.
     case who of
       Inl err \<Rightarrow> if err = Panicked then raise Panicked else ret (refuse_login challenge r mcp err)
     | Inr p \<Rightarrow> known_caller c e mcp r m p h)"

section \<open>Around the gate\<close>

definition request_id :: "string \<Rightarrow> string \<Rightarrow> string" where
  "request_id given fresh = (let g = trim_space given in if g = [] \<or> length g > 100 then fresh else g)"

definition correlation_id :: "string \<Rightarrow> string \<Rightarrow> string" where
  "correlation_id given rid = (let g = trim_space given in if g = [] \<or> length g > 100 then rid else g)"

text \<open>The deferred \<open>recover\<close> of the outermost handler.\<close>

definition recovered :: "answer served \<Rightarrow> answer served" where
  "recovered h w = (case h w of (Inl _, v) \<Rightarrow> (Inr (problem 500 ''internal_error''), v) | (Inr a, v) \<Rightarrow> (Inr a, v))"

definition middleware :: "string \<Rightarrow> string \<Rightarrow> string \<Rightarrow> answer served \<Rightarrow> answer served" where
  "middleware given correlation fresh h =
     (let rid = request_id given fresh in
      and_then (recovered h) (\<lambda>a. ret (a\<lparr>an_headers :=
        [(''X-Request-ID'', rid), (''X-Correlation-ID'', correlation_id correlation rid), (''X-Content-Type-Options'', ''nosniff''),
         (''X-Frame-Options'', ''DENY''), (''Referrer-Policy'', ''same-origin'')] @ an_headers a\<rparr>)))"

definition cors_headers :: "(string \<Rightarrow> bool) \<Rightarrow> 'r http_request_scheme \<Rightarrow> (string \<times> string) list" where
  "cors_headers origin_allowed r =
     (let origin = trim_space (rq_origin r) in
      if origin \<noteq> [] \<and> origin_allowed origin
      then [(''Access-Control-Allow-Origin'', origin), (''Access-Control-Allow-Credentials'', ''true''), (''Vary'', ''Origin''),
            (''Access-Control-Expose-Headers'', ''Mcp-Session-Id, MCP-Protocol-Version, WWW-Authenticate'')]
      else [])"

definition trim_prefix :: "string \<Rightarrow> string \<Rightarrow> string" where
  "trim_prefix p s = (if prefix p s then drop (length p) s else s)"

definition preflight :: answer where
  "preflight = \<lparr>an_status = 204, an_headers = [(''Access-Control-Allow-Methods'', ''GET, POST, DELETE, OPTIONS''),
     (''Access-Control-Allow-Headers'', ''Authorization, Content-Type, Accept, Mcp-Session-Id, MCP-Protocol-Version, Last-Event-ID''),
     (''Access-Control-Max-Age'', ''600'')], an_body = Plain []\<rparr>"

definition mcp_entry :: "crypto \<Rightarrow> oidc_validator \<Rightarrow> ((string \<times> string) option \<Rightarrow> string) \<Rightarrow> failure \<Rightarrow> (string \<Rightarrow> bool)
    \<Rightarrow> http_request \<Rightarrow> moments \<Rightarrow> handler \<Rightarrow> answer served" where
  "mcp_entry c oidc challenge e origin_allowed r m h =
     (let trailing = trim_prefix ''/mcp'' (url_path r) in
      if trailing \<noteq> [] \<and> trailing \<noteq> ''/'' then ret (problem 404 ''not_found'')
      else
        and_then (if rq_method r = ''OPTIONS'' then ret preflight else require_auth c oidc challenge e True r m h) (\<lambda>a.
        ret (a\<lparr>an_headers := cors_headers origin_allowed r @ an_headers a\<rparr>)))"

section \<open>Logging in and out\<close>

definition login_failure :: "auth_error err \<Rightarrow> int \<times> string" where
  "login_failure e = (if e = App Local_login_disabled then (403, ''local_login_disabled'') else (401, ''invalid_credentials''))"

definition login_event :: "string \<Rightarrow> string \<Rightarrow> string \<Rightarrow> client_info \<Rightarrow> audit_row" where
  "login_event uid name action i =
     \<lparr>a_actor = null_if_empty uid, a_actor_name = name, a_channel = ''LOGIN'', a_action = action, a_resource = ''session'',
      a_resource_id = None, a_ip = null_if_empty (c_ip i), a_request = c_request i, a_agent = c_agent i\<rparr>"

definition local_login_enabled :: "bool served" where
  "local_login_enabled = or_default True (db_row (\<lambda>t. Option.bind (setting ''auth'' ''local_login_enabled'' t) st_bool))"

text \<open>
  \<open>decoded\<close> is what \<open>DecodeJSON\<close> reads from the body: name and password, or the answer it has refused the
  body with; \<open>now\<close> is the turn at the limiter, \<open>later\<close> the start of the session.
\<close>

definition login_handler :: "crypto \<Rightarrow> client_info \<Rightarrow> answer + string \<times> string \<Rightarrow> instant \<Rightarrow> string \<Rightarrow> string \<Rightarrow> instant \<Rightarrow> answer served" where
  "login_handler c i decoded now token csrf later =
     and_then (in_memory (try_login (c_ip i) now)) (\<lambda>ok.
     if \<not> ok then ret (problem 429 ''login_rate_limited'')
     else case decoded of
       Inl refused \<Rightarrow> ret refused
     | Inr (name, password) \<Rightarrow>
         and_then local_login_enabled (\<lambda>local.
         and_then (call_result (login c name password (c_ip i) (c_agent i) (\<not> local) token csrf later)) (\<lambda>res.
         case res of
           Inl err \<Rightarrow>
             if err = Panicked then raise Panicked
             else
               and_then (record_audit (login_event [] name ''LOGIN_FAILED'' i)) (\<lambda>_.
               ret (case login_failure err of (status, code) \<Rightarrow> problem status code))
         | Inr (session, p) \<Rightarrow>
             and_then (in_memory (\<lambda>t. ((), t\<lparr>login_log := login_success (c_ip i) (login_log t)\<rparr>))) (\<lambda>_.
             and_then (record_audit (login_event (user_id p) (username p) ''LOGIN'' i)) (\<lambda>_.
             ret \<lparr>an_status = 200, an_headers = [(''Set-Cookie'', session)], an_body = Json (JObj [(''user'', JStr (user_id p))])\<rparr>)))))"

definition logout_handler :: "crypto \<Rightarrow> client_info \<Rightarrow> 'r request_scheme \<Rightarrow> principal \<Rightarrow> answer served" where
  "logout_handler c i r p =
     and_then (case session_cookie r of Some v \<Rightarrow> logout c v | None \<Rightarrow> ret ()) (\<lambda>_.
     and_then (record_audit (login_event (user_id p) (username p) ''LOGOUT'' i)) (\<lambda>_.
     ret \<lparr>an_status = 204, an_headers = [(''Set-Cookie'', [])], an_body = Plain []\<rparr>))"

end
