(* ===== verification/Gate_Facts.thy ===== *)
theory Gate_Facts
  imports Request_Gate "HOL-Library.AList_Mapping"
begin

text \<open>
  What the gate of the server promises: a handler only ever runs for a caller who is entitled to it, and a
  repeated request is answered from the stored answer without running its handler again.
\<close>

section \<open>Who reaches a handler\<close>

lemma and_then_differs: "and_then m f w \<noteq> and_then m g w \<Longrightarrow> \<exists>x v. m w = (Inr x, v) \<and> f x v \<noteq> g x v"
  by (auto simp: and_then_def split: prod.splits sum.splits)

lemma channel_open:
  "channel_refusal mcp p w = (Inr None, v) \<Longrightarrow> channel_allowed p (if mcp then ''MCP'' else ''REST'')"
  by (cases "key_id p = []") (auto simp: channel_refusal_def run_simps channel_allowed_def split: if_splits)

lemma admitted_differs:
  "admitted c e mcp r m p h w \<noteq> admitted c e mcp r m p h' w \<Longrightarrow>
    \<not> must_change_first p (url_path r) \<and> (needs_csrf r p \<longrightarrow> csrf_proven r p)"
  by (auto simp: admitted_def split: if_splits)

lemma in_turn_differs:
  assumes "in_turn c e mcp r m p h w \<noteq> in_turn c e mcp r m p h' w"
  shows "\<not> must_change_first p (url_path r) \<and> (needs_csrf r p \<longrightarrow> csrf_proven r p)"
proof -
  from assms obtain u where "admitted c e mcp r m p h u \<noteq> admitted c e mcp r m p h' u"
    unfolding in_turn_def by (auto dest!: and_then_differs split: if_splits)
  then show ?thesis by (rule admitted_differs)
qed

text \<open>
  C6: The gate holds. If it makes any difference, to the answer or to the tables, which handler stands behind
  the gate, then the request was authenticated, its key may use the channel, its user does not have to change
  an initial password first, and a changing request of a browser session carried the CSRF token of the session.
\<close>

theorem handler_reached_only_through_gate:
  assumes "require_auth c oidc challenge e mcp r m h w \<noteq> require_auth c oidc challenge e mcp r m h' w"
  shows "\<exists>p v. authenticate c oidc r (mo_start m) w = (Inr p, v) \<and> channel_allowed p (if mcp then ''MCP'' else ''REST'') \<and>
    \<not> must_change_first p (url_path r) \<and> (needs_csrf r p \<longrightarrow> csrf_proven r p)"
proof -
  from assms obtain p v where who: "authenticate c oidc r (mo_start m) w = (Inr p, v)"
    and v: "known_caller c e mcp r m p h v \<noteq> known_caller c e mcp r m p h' v"
    unfolding require_auth_def by (auto dest!: and_then_differs simp: call_result_run split: sum.splits)
  from v obtain u where allowed: "channel_refusal mcp p v = (Inr None, u)"
    and u: "in_turn c e mcp r m p h u \<noteq> in_turn c e mcp r m p h' u"
    unfolding known_caller_def by (auto dest!: and_then_differs split: option.splits)
  show ?thesis using who channel_open [OF allowed] in_turn_differs [OF u] by blast
qed

text \<open>A request with a personal key, and a handler that registers a role and answers with a number.\<close>

definition gate_user :: user_row where
  "gate_user = \<lparr>u_id = ''u1'', u_username = ''kim'', u_display_name = ''Kim'', u_email = None, u_hash = None, u_source = ''OIDC'',
     u_org = None, u_manager = None, u_active = True, u_bootstrap = False, u_must_change = False, u_last_login = None,
     u_created = 0, u_updated_at = 0, u_version = 1\<rparr>"

definition gate_tables :: server_tables where
  "gate_tables = account_tables.extend (no_tables\<lparr>users := [gate_user], pkeys := [toy_key]\<rparr>)
     (server_tables.fields [] [] Mapping.empty Mapping.empty)"

definition gate_request :: http_request where
  "gate_request = request.extend \<lparr>authorization = ''Bearer relio_abc_s3cret'', url_path = ''/api/v1/roles'', session_cookie = None,
       client_ip = ''10.0.0.1''\<rparr>
     (http_request.fields ''POST'' ''/api/v1/roles'' [] ''order-0001'' [] [] (Some ''{}''))"

definition gate_moments :: moments where
  "gate_moments = \<lparr>mo_start = 7, mo_turn = 7, mo_lookup = 8, mo_stored = 9\<rparr>"

definition gate_handler :: "rat \<Rightarrow> handler" where
  "gate_handler n p =
     and_then (db_exec (writes (\<lambda>t. t\<lparr>roles := roles t @ [\<lparr>r_id = ''r1'', r_code = ''SALES'', r_scope = ''TEAM''\<rparr>]\<rparr>))) (\<lambda>_.
     ret \<lparr>an_status = 201, an_headers = [], an_body = Json (JNum n)\<rparr>)"

definition gate_answer :: "rat \<Rightarrow> auth_error err + answer" where
  "gate_answer n = fst (require_auth toy_crypto None (\<lambda>_. []) Unreachable False gate_request gate_moments (gate_handler n) (calm gate_tables))"

theorem handler_reached_only_through_gate_witness:
  "\<exists>p v. authenticate toy_crypto None gate_request 7 (calm gate_tables) = (Inr p, v) \<and> channel_allowed p ''REST'' \<and>
     gate_answer 1 = Inr \<lparr>an_status = 201, an_headers = [], an_body = Json (JNum 1)\<rparr>"
proof -
  have one: "gate_answer 1 = Inr \<lparr>an_status = 201, an_headers = [], an_body = Json (JNum 1)\<rparr>"
    and two: "gate_answer 2 = Inr \<lparr>an_status = 201, an_headers = [], an_body = Json (JNum 2)\<rparr>" by code_simp+
  then have "require_auth toy_crypto None (\<lambda>_. []) Unreachable False gate_request gate_moments (gate_handler 1) (calm gate_tables) \<noteq>
      require_auth toy_crypto None (\<lambda>_. []) Unreachable False gate_request gate_moments (gate_handler 2) (calm gate_tables)"
    unfolding gate_answer_def by force
  from handler_reached_only_through_gate [OF this] one show ?thesis by (auto simp: gate_moments_def)
qed

section \<open>Repeated requests\<close>

definition acceptable :: "'r http_request_scheme \<Rightarrow> string \<Rightarrow> string \<Rightarrow> bool" where
  "acceptable r key content \<longleftrightarrow> trim_space (rq_idempotency r) = key \<and> 8 \<le> length key \<and> length key \<le> 200 \<and>
     rq_body r = Some content \<and> int (length content) \<le> max_body"

definition answered_before :: "principal \<Rightarrow> string \<Rightarrow> 'z server_tables_scheme \<Rightarrow> bool" where
  "answered_before p key t = list_ex (\<lambda>s. sa_user s = user_id p \<and> sa_key s = key) (stored_answers t)"

lemma find_appended: "list_all (\<lambda>x. \<not> P x) xs \<Longrightarrow> P x \<Longrightarrow> List.find P (xs @ [x]) = Some x"
  by (induction xs) auto

lemma not_answered: "\<not> answered_before p key t \<Longrightarrow> stored_answer_of p key now t = None"
  by (auto simp: answered_before_def stored_answer_of_def list_ex_iff find_None_iff)

lemma serve_first:
  assumes "acceptable r key content" and "stored_answer_of p key (mo_lookup m) t = None"
    and "h p (calm t) = (Inr a, calm u)" and "an_body a = Json j" and "an_status a < 500"
  shows "serve_idempotent c e r m p h (calm t) = (Inr a, calm (case store_answer \<lparr>sa_user = user_id p, sa_key = key,
    sa_hash = request_hash c r content, sa_status = an_status a, sa_body = Json j, sa_expires = mo_stored m + hours 24\<rparr> u of
      Some (t', _) \<Rightarrow> t' | None \<Rightarrow> u))"
  using assms by (simp add: serve_idempotent_def acceptable_def Let_def calm_simps split: option.split)

lemma serve_again:
  assumes "acceptable r key content" and "stored_answer_of p key (mo_lookup m) t = Some s"
  shows "serve_idempotent c e r m p h (calm t) =
    (Inr (if sa_hash s = request_hash c r content then replayed s else problem 409 ''idempotency_conflict''), calm t)"
  using assms by (simp add: serve_idempotent_def acceptable_def Let_def calm_simps)

text \<open>
  A stored answer that has expired but is still there until the next maintenance pass takes the place of
  the new one: the handler runs, and a retry of that request would run it again.
\<close>

lemma expired_answer_blocks:
  assumes "acceptable r key content" and "stored_answer_of p key (mo_lookup m) t = None" and "answered_before p key u"
    and "h p (calm t) = (Inr a, calm u)" and "an_body a = Json j" and "an_status a < 500"
  shows "serve_idempotent c e r m p h (calm t) = (Inr a, calm u)"
  using serve_first [where h = h and m = m, OF assms(1,2,4,5,6)] assms(3) by (simp add: store_answer_def answered_before_def)


definition gate_first :: "(auth_error err + answer) \<times> server_tables world" where
  "gate_first = serve_idempotent toy_crypto Unreachable gate_request gate_moments (new_principal ''u1'') (gate_handler 1) (calm gate_tables)"


end
