(* ===== verification/Crm_Resources.thy ===== *)
theory Crm_Resources
  imports Crm_Accounts
begin

text \<open>
  The smaller records around customers and deals (internal/crm/resources.go, advanced.go): leads,
  products, targets, notifications, quotations and the list of contracts; and the views that put them
  together, the customer in full, the key figures of a month and the search over everything.
\<close>

definition bounded :: "int \<Rightarrow> int \<Rightarrow> int \<Rightarrow> int" where
  "bounded fallback most limit = (if limit < 1 \<or> limit > most then fallback else limit)"

definition custom_of :: "(string \<times> json) list option \<Rightarrow> (string \<times> json) list" where
  "custom_of m = case_option [] id m"

section \<open>Leads\<close>

record lead_input =
  li_name :: string
  li_company :: string
  li_email :: string
  li_phone :: string
  li_source :: string
  li_status :: string
  li_custom :: "(string \<times> json) list option"

definition finds_lead :: "principal \<Rightarrow> string \<Rightarrow> 'z crm_tables_scheme \<Rightarrow> lead_row \<Rightarrow> bool" where
  "finds_lead p pat t l \<longleftrightarrow>
     in_scope p t (ld_owner l) (ld_org l) \<and>
     (pat = [] \<or> like pat (to_lower (ld_name l)) \<or> like pat (to_lower (ld_company l)))"

definition list_leads :: "principal \<Rightarrow> string \<Rightarrow> int \<Rightarrow> ('z, lead_row list) crm_on" where
  "list_leads p q limit =
     and_then (require p ''lead:read'') (\<lambda>_.
     db_query (\<lambda>t. take (nat (bounded 50 200 limit)) (sort_desc ld_updated
       (filter (finds_lead p (search_pattern q) t) (lead_rows t)))))"

definition insert_lead :: "lead_row \<Rightarrow> 'z crm_tables_scheme \<Rightarrow> ('z crm_tables_scheme \<times> unit) option" where
  "insert_lead l t =
     (if ld_id l \<in> set (keys ld_id (lead_rows t)) \<or> \<not> refers u_id (users t) (Some (ld_owner l)) \<or>
         \<not> refers o_id (orgs t) (ld_org l) then None
      else Some (t\<lparr>lead_rows := lead_rows t @ [l]\<rparr>, ()))"

text \<open>The answer repeats the name as it was given; the row holds it without the surrounding spaces.\<close>

definition create_lead :: "principal \<Rightarrow> lead_input \<Rightarrow> string \<Rightarrow> client_info \<Rightarrow> string \<Rightarrow> instant
    \<Rightarrow> ('z, lead_row) crm_on" where
  "create_lead p x channel ci lid now =
     and_then (require p ''lead:write'') (\<lambda>_.
     and_then (check (\<not> blank (li_name x)) Lead_name_missing) (\<lambda>_.
     let l = \<lparr>ld_id = lid, ld_name = trim_space (li_name x), ld_company = text_column (li_company x),
           ld_email = text_column (li_email x), ld_phone = text_column (li_phone x), ld_source = text_column (li_source x),
           ld_status = to_upper (if li_status x = [] then ''NEW'' else li_status x), ld_owner = user_id p,
           ld_org = opt_text (organization_id p), ld_converted = None, ld_custom = custom_of (li_custom x),
           ld_version = 1, ld_created = now, ld_updated = now\<rparr> in
     and_then (db_exec (insert_lead l)) (\<lambda>_.
     and_then (crm_audit p channel ci ''CREATE'' ''lead'' lid) (\<lambda>_.
     ret (l\<lparr>ld_name := li_name x, ld_company := li_company x\<rparr>)))))"

section \<open>Products\<close>

record product_input =
  pi_code :: string
  pi_name :: string
  pi_text :: string
  pi_price :: rat
  pi_active :: "bool option"

definition list_products :: "principal \<Rightarrow> string \<Rightarrow> int \<Rightarrow> ('z, product_row list) crm_on" where
  "list_products p q limit =
     and_then (require p ''product:read'') (\<lambda>_.
     let pat = search_pattern q in
     db_query (\<lambda>t. take (nat (bounded 100 500 limit)) (sort_key (\<lambda>r. if pr_active r then 0 else (1 :: int))
       (sort_key pr_name (filter (\<lambda>r. pat = [] \<or> like pat (to_lower (pr_name r)) \<or> like pat (to_lower (pr_code r)))
         (products t))))))"

definition insert_product :: "product_row \<Rightarrow> 'z crm_tables_scheme \<Rightarrow> ('z crm_tables_scheme \<times> unit) option" where
  "insert_product r t =
     (if pr_id r \<in> set (keys pr_id (products t)) \<or> pr_code r \<in> set (keys pr_code (products t)) \<or>
         \<not> fits 18 (numeric 2 (pr_price r)) then None
      else Some (t\<lparr>products := products t @ [r\<lparr>pr_price := numeric 2 (pr_price r)\<rparr>]\<rparr>, ()))"

definition create_product :: "principal \<Rightarrow> product_input \<Rightarrow> string \<Rightarrow> client_info \<Rightarrow> string \<Rightarrow> instant
    \<Rightarrow> ('z, product_row) crm_on" where
  "create_product p x channel ci rid now =
     and_then (require p ''product:write'') (\<lambda>_.
     and_then (check (\<not> (pi_code x = [] \<or> pi_name x = [] \<or> pi_price x < 0)) Bad_product) (\<lambda>_.
     let r = \<lparr>pr_id = rid, pr_code = to_upper (pi_code x), pr_name = pi_name x, pr_text = text_column (pi_text x),
           pr_price = pi_price x, pr_active = case_option True id (pi_active x), pr_created = now\<rparr> in
     and_then (db_exec (insert_product r)) (\<lambda>_.
     and_then (crm_audit p channel ci ''CREATE'' ''product'' rid) (\<lambda>_. ret r))))"

section \<open>Targets\<close>

record target_input =
  ti_user :: string
  ti_org :: string
  ti_start :: string
  ti_end :: string
  ti_amount :: rat

definition sees_target :: "principal \<Rightarrow> 'z crm_tables_scheme \<Rightarrow> target_row \<Rightarrow> bool" where
  "sees_target p t g \<longleftrightarrow>
     data_scope p = ''COMPANY'' \<or> tg_user g = Some (user_id p) \<or>
     data_scope p = ''TEAM'' \<and> (case tg_user g of None \<Rightarrow> False | Some i \<Rightarrow>
        list_ex (\<lambda>u. u_id u = i \<and> u_manager u = Some (user_id p)) (users t)) \<or>
     data_scope p \<in> {''DEPARTMENT'', ''DIVISION''} \<and> opt_text (organization_id p) \<noteq> None \<and>
        tg_org g = opt_text (organization_id p)"

definition list_targets :: "principal \<Rightarrow> ('z, target_row list) crm_on" where
  "list_targets p =
     and_then (require p ''target:read'') (\<lambda>_.
     db_query (\<lambda>t. sort_by (\<lambda>a b. tg_start b \<le> tg_start a) (filter (sees_target p t) (targets t))))"

text \<open>The unique key does not bind where one of its columns is null.\<close>

definition insert_target :: "target_row \<Rightarrow> 'z crm_tables_scheme \<Rightarrow> ('z crm_tables_scheme \<times> unit) option" where
  "insert_target g t =
     (if tg_id g \<in> set (keys tg_id (targets t)) \<or> \<not> refers u_id (users t) (tg_user g) \<or>
         \<not> refers o_id (orgs t) (tg_org g) \<or> \<not> refers u_id (users t) (Some (tg_by g)) \<or>
         \<not> fits 18 (numeric 2 (tg_amount g)) \<or>
         list_ex (\<lambda>h. tg_user h \<noteq> None \<and> tg_org h \<noteq> None \<and> tg_user h = tg_user g \<and> tg_org h = tg_org g \<and>
           tg_start h = tg_start g \<and> tg_end h = tg_end g) (targets t) then None
      else Some (t\<lparr>targets := targets t @ [g\<lparr>tg_amount := numeric 2 (tg_amount g)\<rparr>]\<rparr>, ()))"

definition create_target :: "principal \<Rightarrow> target_input \<Rightarrow> string \<Rightarrow> client_info \<Rightarrow> string \<Rightarrow> instant
    \<Rightarrow> ('z, target_row) crm_on" where
  "create_target p x channel ci gid now =
     and_then (require p ''target:write'') (\<lambda>_.
     and_then (lift (case parse_date (ti_start x) of None \<Rightarrow> Inl Bad_period_start | Some d \<Rightarrow> Inr d)) (\<lambda>begins.
     and_then (lift (case parse_date (ti_end x) of None \<Rightarrow> Inl Bad_period_end
        | Some d \<Rightarrow> if d < begins then Inl Bad_period_end else Inr d)) (\<lambda>ends.
     let u = (if ti_user x = [] \<and> ti_org x = [] then user_id p else ti_user x);
         g = \<lparr>tg_id = gid, tg_user = opt_text u, tg_org = opt_text (ti_org x), tg_start = begins, tg_end = ends,
           tg_amount = ti_amount x, tg_by = user_id p, tg_created = now\<rparr> in
     and_then (db_exec (insert_target g)) (\<lambda>_.
     and_then (crm_audit p channel ci ''CREATE'' ''target'' gid) (\<lambda>_. ret g)))))"

section \<open>Notifications\<close>

definition list_notifications :: "principal \<Rightarrow> bool \<Rightarrow> int \<Rightarrow> ('z, notification_row list) crm_on" where
  "list_notifications p unread limit =
     and_then (require p ''notification:read'') (\<lambda>_.
     db_query (\<lambda>t. take (nat (bounded 100 200 limit)) (sort_desc nf_created
       (filter (\<lambda>n. nf_user n = user_id p \<and> (\<not> unread \<or> nf_read n = None)) (notifications t)))))"

definition read_notification :: "principal \<Rightarrow> string \<Rightarrow> string \<Rightarrow> client_info \<Rightarrow> instant \<Rightarrow> ('z, unit) crm_on" where
  "read_notification p nid channel ci now =
     and_then (require p ''notification:write'') (\<lambda>_.
     let P = (\<lambda>n. nf_id n = nid \<and> nf_user n = user_id p) in
     and_then (db_exec (\<lambda>t. Some (t\<lparr>notifications := update_where P
         (\<lambda>n. n\<lparr>nf_read := (case nf_read n of None \<Rightarrow> Some now | Some r \<Rightarrow> Some r)\<rparr>) (notifications t)\<rparr>,
         count_where P (notifications t)))) (\<lambda>n.
     and_then (check (n \<noteq> 0) Notification_missing) (\<lambda>_.
     crm_audit p channel ci ''READ'' ''notification'' nid)))"

section \<open>Contracts\<close>

definition max_expiring_days :: int where "max_expiring_days = 3650"

definition bound_expiring_days :: "int \<Rightarrow> int" where
  "bound_expiring_days days = (if days < 0 then 0 else if days > max_expiring_days then max_expiring_days else days)"

text \<open>What the renewal radar shows for a contract; \<open>today\<close> is \<open>current_date\<close>.\<close>

definition radar_status :: "date \<Rightarrow> contract_row \<Rightarrow> string" where
  "radar_status today c =
     (case ct_end c of
        None \<Rightarrow> ct_status c
      | Some e \<Rightarrow>
          if ct_status c = ''ACTIVE'' \<and> e < today then ''EXPIRED''
          else if ct_status c = ''ACTIVE'' \<and> day_number e \<le> day_number today + ct_notice_days c then ''EXPIRING''
          else ct_status c)"

definition lists_contract :: "principal \<Rightarrow> string \<Rightarrow> int \<Rightarrow> bool \<Rightarrow> date \<Rightarrow> 'z crm_tables_scheme \<Rightarrow> contract_row \<Rightarrow> bool" where
  "lists_contract p customer days renewing today t c \<longleftrightarrow>
     in_scope p t (ct_owner c) (ct_org c) \<and> (customer = [] \<or> ct_customer c = customer) \<and>
     (days = 0 \<or> (case ct_end c of None \<Rightarrow> False
        | Some e \<Rightarrow> today \<le> e \<and> day_number e \<le> day_number today + days)) \<and>
     (renewing \<longrightarrow> ct_auto_renew c)"

definition by_end :: "contract_row \<Rightarrow> contract_row \<Rightarrow> bool" where
  "by_end a b = (case (ct_end a, ct_end b) of (Some x, Some y) \<Rightarrow> x \<le> y | (Some _, None) \<Rightarrow> True | (None, Some _) \<Rightarrow> False
     | (None, None) \<Rightarrow> True)"

record contract_line =
  cl_row :: contract_row
  cl_radar :: string
  cl_days :: "int option"
  cl_schedules :: nat
  cl_recognized :: nat
  cl_revenue :: rat

definition contract_line_of :: "date \<Rightarrow> 'z crm_tables_scheme \<Rightarrow> contract_row \<Rightarrow> contract_line" where
  "contract_line_of today t c =
     (let ss = filter (\<lambda>s. sc_contract s = ct_id c) (schedules t); rs = filter (\<lambda>s. sc_status s = ''RECOGNIZED'') ss in
      \<lparr>cl_row = c, cl_radar = radar_status today c,
       cl_days = map_option (\<lambda>e. day_number e - day_number today) (ct_end c), cl_schedules = length ss,
       cl_recognized = length rs, cl_revenue = total (\<lambda>s. base_amount (sc_amount s) (sc_rate s)) rs\<rparr>)"

definition list_contracts :: "principal \<Rightarrow> string \<Rightarrow> int \<Rightarrow> bool \<Rightarrow> int \<Rightarrow> date \<Rightarrow> ('z, contract_line list) crm_on" where
  "list_contracts p customer days renewing limit today =
     and_then (require p ''contract:read'') (\<lambda>_.
     db_query (\<lambda>t. map (contract_line_of today t) (take (nat (bounded 50 200 limit)) (sort_by by_end
       (filter (lists_contract p customer (bound_expiring_days days) renewing today t) (contracts t))))))"

section \<open>Quotations\<close>

record quotation_input =
  qi_customer :: string
  qi_opportunity :: string
  qi_title :: string
  qi_amount :: rat
  qi_currency :: string
  qi_rate :: "rat option"
  qi_discount :: rat
  qi_valid :: "string option"
  qi_custom :: "(string \<times> json) list option"

definition stored_quotation :: "quotation_row \<Rightarrow> quotation_row" where
  "stored_quotation r = r\<lparr>qt_amount := numeric 2 (qt_amount r), qt_rate := numeric 8 (qt_rate r),
     qt_discount := numeric 2 (qt_discount r)\<rparr>"

definition insert_quotation :: "quotation_row \<Rightarrow> 'z crm_tables_scheme \<Rightarrow> ('z crm_tables_scheme \<times> unit) option" where
  "insert_quotation q t =
     (let r = stored_quotation q in
      if qt_id r \<in> set (keys qt_id (quotations t)) \<or> qt_no r \<in> set (keys qt_no (quotations t)) \<or>
         \<not> refers cu_id (customers t) (Some (qt_customer r)) \<or> \<not> refers op_id (opportunities t) (qt_opportunity r) \<or>
         \<not> refers u_id (users t) (Some (qt_owner r)) \<or> \<not> refers o_id (orgs t) (qt_org r) \<or>
         \<not> fits 18 (qt_amount r) \<or> qt_rate r \<le> 0 \<or> \<not> fits 12 (qt_rate r) \<or> \<not> fits 3 (qt_discount r) \<or>
         \<not> fits 22 (base_amount (qt_amount r) (qt_rate r)) then None
      else Some (t\<lparr>quotations := quotations t @ [r]\<rparr>, ()))"

definition quotation_number :: "string \<Rightarrow> string \<Rightarrow> string" where
  "quotation_number stamp random = ''Q-'' @ stamp @ ''-'' @ to_upper (new_token random)"

definition log_quotation :: "string \<Rightarrow> string \<Rightarrow> 'z crm_tables_scheme \<Rightarrow> ('z crm_tables_scheme \<times> unit) option" where
  "log_quotation vid qid t =
     (if vid \<in> set (keys qv_id (quotation_log t)) \<or> \<not> refers qt_id (quotations t) (Some qid) \<or>
         (qid, 1) \<in> set (map (\<lambda>v. (qv_quotation v, qv_version v)) (quotation_log t)) then None
      else Some (t\<lparr>quotation_log := quotation_log t @ [\<lparr>qv_id = vid, qv_quotation = qid, qv_version = 1\<rparr>]\<rparr>, ()))"

definition create_quotation :: "principal \<Rightarrow> quotation_input \<Rightarrow> string \<Rightarrow> client_info \<Rightarrow> string \<Rightarrow> string \<Rightarrow> string
    \<Rightarrow> string \<Rightarrow> instant \<Rightarrow> ('z, quotation_row) crm_on" where
  "create_quotation p x channel ci qid random vid stamp now =
     and_then (require p ''quotation:write'') (\<lambda>_.
     and_then (check (\<not> (qi_customer x = [] \<or> blank (qi_title x))) Bad_quotation) (\<lambda>_.
     and_then (check (\<not> (qi_amount x < 0 \<or> qi_discount x < 0 \<or> qi_discount x > 100)) Bad_quotation) (\<lambda>_.
     and_then (with_err Customer_missing (get_customer p (qi_customer x))) (\<lambda>_.
     and_then (lift (currency_and_rate (qi_currency x) (qi_rate x))) (\<lambda>(currency, rate).
     and_then (lift (date_value (qi_valid x))) (\<lambda>valid.
     let q = \<lparr>qt_id = qid, qt_no = quotation_number stamp random, qt_customer = qi_customer x,
           qt_opportunity = opt_text (qi_opportunity x), qt_owner = user_id p, qt_org = opt_text (organization_id p),
           qt_title = trim_space (qi_title x), qt_amount = qi_amount x, qt_currency = currency, qt_rate = rate,
           qt_discount = qi_discount x, qt_status = ''DRAFT'', qt_valid = valid, qt_custom = custom_of (qi_custom x),
           qt_version = 1, qt_created = now, qt_updated = now\<rparr> in
     and_then (db_exec (insert_quotation q)) (\<lambda>_.
     and_then (or_default () (db_exec (log_quotation vid qid))) (\<lambda>_.
     and_then (crm_audit p channel ci ''CREATE'' ''quotation'' qid) (\<lambda>_.
     ret (q\<lparr>qt_title := qi_title x\<rparr>))))))))))"

definition list_quotations :: "principal \<Rightarrow> string \<Rightarrow> int \<Rightarrow> ('z, (quotation_row \<times> rat) list) crm_on" where
  "list_quotations p customer limit =
     and_then (require p ''quotation:read'') (\<lambda>_.
     db_query (\<lambda>t. map (\<lambda>q. (q, base_amount (qt_amount q) (qt_rate q))) (take (nat (bounded 50 200 limit)) (sort_desc qt_updated
       (filter (\<lambda>q. in_scope p t (qt_owner q) (qt_org q) \<and> (customer = [] \<or> qt_customer q = customer)) (quotations t))))))"

section \<open>Views over everything\<close>

text \<open>This month's revenue against the targets of the day.\<close>

record sales_figures =
  sf_revenue :: rat
  sf_target :: rat
  sf_attainment :: rat
  sf_forecast :: forecast_figures

definition sales_kpi :: "principal \<Rightarrow> date \<Rightarrow> ('z, sales_figures) crm_on" where
  "sales_kpi p today =
     and_then (require p ''sales:read'') (\<lambda>_.
     and_then (or_default 0 (db_query (\<lambda>t. total (\<lambda>s. base_amount (sl_amount s) (sl_rate s)) (filter (\<lambda>s.
       Date (yr today) (mo today) 1 \<le> sl_date s \<and> in_scope p t (sl_owner s) (sl_org s)) (sales t))))) (\<lambda>revenue.
     and_then (or_default 0 (db_query (\<lambda>t. total tg_amount (filter (\<lambda>g.
       tg_start g \<le> today \<and> today \<le> tg_end g \<and> sees_target p t g) (targets t))))) (\<lambda>goal.
     and_then (forecast_of p) (\<lambda>f.
     ret \<lparr>sf_revenue = revenue, sf_target = goal, sf_attainment = (if goal > 0 then revenue / goal * 100 else 0),
       sf_forecast = f\<rparr>))))"

text \<open>A search fails for customers and deals, and finds no contact when that search fails.\<close>

definition global_search :: "principal \<Rightarrow> string \<Rightarrow> int \<Rightarrow> instant \<Rightarrow> date
    \<Rightarrow> (customer_view list \<times> (opportunity_row \<times> string list) list \<times> contact_row list) crm_op" where
  "global_search p q limit now today =
     (if blank q then ret ([], [], [])
      else
        and_then (list_customers p q [] [] limit) (\<lambda>cs.
        and_then (list_opportunities p \<lparr>of_text = q, of_customer = [], of_status = [], of_stage = [], of_category = [],
          of_cursor = [], of_sort = [], of_limit = limit, of_stale = False\<rparr> now today) (\<lambda>os.
        and_then (if has p ''contact:read'' then or_default [] (search_contacts p q [] limit) else ret []) (\<lambda>ns.
        ret (pg_items cs, pg_items os, ns)))))"

record customer_360 =
  c3_customer :: customer_view
  c3_contacts :: "contact_row list"
  c3_deals :: "(opportunity_row \<times> string list) list"
  c3_activities :: "activity_row list"
  c3_contracts :: "contract_row list"
  c3_revenue :: rat
  c3_open :: rat
  c3_last :: "instant option"

definition by_end_desc :: "contract_row \<Rightarrow> contract_row \<Rightarrow> bool" where
  "by_end_desc a b = (case (ct_end a, ct_end b) of (Some x, Some y) \<Rightarrow> y \<le> x | (Some _, None) \<Rightarrow> True | (None, Some _) \<Rightarrow> False
     | (None, None) \<Rightarrow> True)"

text \<open>Contacts and contracts are read by the customer alone, deals and activities in the caller's scope.\<close>

definition customer_360_of :: "principal \<Rightarrow> string \<Rightarrow> instant \<Rightarrow> date \<Rightarrow> ('z, customer_360) crm_on" where
  "customer_360_of p cid now today =
     and_then (get_customer p cid) (\<lambda>c.
     and_then (db_query (\<lambda>t. take 100 (contact_order (filter (\<lambda>n. cn_customer n = cid) (contacts t))))) (\<lambda>ns.
     and_then (list_opportunities p \<lparr>of_text = [], of_customer = cid, of_status = [], of_stage = [], of_category = [],
       of_cursor = [], of_sort = [], of_limit = 100, of_stale = False\<rparr> now today) (\<lambda>os.
     and_then (list_activities p cid [] [] 50) (\<lambda>acts.
     and_then (db_query (\<lambda>t. take 50 (sort_by by_end_desc (filter (\<lambda>k. ct_customer k = cid) (contracts t))))) (\<lambda>ks.
     and_then (or_default 0 (db_query (\<lambda>t. total (\<lambda>s. base_amount (sl_amount s) (sl_rate s))
       (filter (\<lambda>s. sl_customer s = cid) (sales t))))) (\<lambda>revenue.
     ret \<lparr>c3_customer = c, c3_contacts = ns, c3_deals = pg_items os, c3_activities = acts, c3_contracts = ks,
       c3_revenue = revenue, c3_open = total op_base (filter (\<lambda>x. op_status x = ''OPEN'') (map fst (pg_items os))),
       c3_last = (case acts of [] \<Rightarrow> None | a # _ \<Rightarrow> Some (ac_occurred a))\<rparr>))))))"

end
