(* ===== verification/Relationship.thy ===== *)
theory Relationship
  imports Crm_Resources
begin

text \<open>
  Relationship intelligence (internal/relationship): the graph of a customer's contacts with its score,
  the edges between contacts, the yearly account plan with its white spaces, and the team around a
  deal. The lists of an account plan are JSON columns that read back as they were written.
\<close>

section \<open>Settings\<close>

text \<open>A number from \<open>system_settings\<close>, or the fallback of the query and of a query that failed.\<close>

definition number_setting :: "string \<Rightarrow> string \<Rightarrow> int \<Rightarrow> ('z crm_tables_scheme, 'e, int) go" where
  "number_setting ns key fallback =
     or_default fallback (db_row (\<lambda>t. case setting ns key t of None \<Rightarrow> Some fallback | Some r \<Rightarrow> text_int r))"

definition graph_maximum :: "('z crm_tables_scheme, 'e, int) go" where
  "graph_maximum =
     and_then (number_setting ''relationship_intelligence'' ''graph_max_nodes'' 100) (\<lambda>n.
     ret (if n < 10 then 10 else if n > 200 then 200 else n))"

section \<open>The graph of a customer\<close>

type_synonym edge_view = "edge_row \<times> string \<times> string"

definition edge_with_names :: "'z crm_tables_scheme \<Rightarrow> edge_row \<Rightarrow> edge_view option" where
  "edge_with_names t e =
     (case (row_by cn_id (eg_source e) (contacts t), row_by cn_id (eg_target e) (contacts t)) of
        (Some a, Some b) \<Rightarrow> Some (e, cn_name a, cn_name b) | _ \<Rightarrow> None)"

record relationship_metrics =
  rm_contacts :: nat
  rm_deciders :: nat
  rm_champions :: nat
  rm_supporters :: nat
  rm_opponents :: nat
  rm_average :: rat
  rm_score :: int

definition decides :: "contact_row \<Rightarrow> bool" where
  "decides n \<longleftrightarrow> cn_decision n \<or> cn_role n = ''DECISION_MAKER''"

text \<open>\<open>int\<close> of a \<open>float64\<close> within its range.\<close>

definition toward_zero :: "rat \<Rightarrow> int" where
  "toward_zero x = (if x \<ge> 0 then \<lfloor>x\<rfloor> else - \<lfloor>- x\<rfloor>)"

definition average_strength :: "contact_row list \<Rightarrow> rat" where
  "average_strength ns =
     (if ns = [] then 0
      else of_int (round_away (of_int (sum_list (map cn_strength ns)) / of_nat (length ns) * 10)) / 10)"

definition relationship_score :: "contact_row list \<Rightarrow> nat \<Rightarrow> int" where
  "relationship_score ns edge_count =
     (let score = toward_zero (min 25 (average_strength ns / 4)) +
        (if list_ex decides ns then 30 else 0) + (if list_ex (\<lambda>n. cn_role n = ''CHAMPION'') ns then 25 else 0) +
        (if length ns \<ge> 3 then 10 else 0) + (if edge_count \<ge> 2 then 10 else 0) in
      if score > 100 then 100 else score)"

definition metrics_of :: "contact_row list \<Rightarrow> nat \<Rightarrow> relationship_metrics" where
  "metrics_of ns edge_count =
     \<lparr>rm_contacts = length ns, rm_deciders = count_where decides ns,
      rm_champions = count_where (\<lambda>n. cn_role n = ''CHAMPION'') ns,
      rm_supporters = count_where (\<lambda>n. cn_sentiment n = ''SUPPORT'') ns,
      rm_opponents = count_where (\<lambda>n. cn_sentiment n = ''OPPOSE'') ns,
      rm_average = average_strength ns, rm_score = relationship_score ns edge_count\<rparr>"

record relationship_graph =
  gr_customer :: customer_view
  gr_nodes :: "contact_row list"
  gr_edges :: "edge_view list"
  gr_metrics :: relationship_metrics
  gr_truncated :: bool
  gr_maximum :: int

definition graph_of :: "principal \<Rightarrow> string \<Rightarrow> ('z, relationship_graph) crm_on" where
  "graph_of p cid =
     and_then (get_customer p cid) (\<lambda>c.
     and_then graph_maximum (\<lambda>most.
     and_then (search_contacts p [] cid most) (\<lambda>ns.
     and_then (db_query (\<lambda>t. List.map_filter (edge_with_names t) (sort_desc eg_strength (sort_key eg_created
       (filter (\<lambda>e. eg_customer e = cid \<and> eg_active e) (edges t)))))) (\<lambda>es.
     ret \<lparr>gr_customer = c, gr_nodes = ns, gr_edges = es, gr_metrics = metrics_of ns (length es),
       gr_truncated = (int (length ns) \<ge> most), gr_maximum = most\<rparr>))))"

section \<open>Edges\<close>

record edge_input =
  ei_source :: string
  ei_target :: string
  ei_type :: string
  ei_strength :: "int option"
  ei_text :: string
  ei_active :: "bool option"
  ei_version :: int

definition valid_relationship_type :: "string \<Rightarrow> bool" where
  "valid_relationship_type v \<longleftrightarrow>
     v \<in> {''REPORTS_TO'', ''INFLUENCES'', ''WORKS_WITH'', ''BLOCKS'', ''TRUSTS'', ''ADVISES'', ''OTHER''}"

definition relationship_of :: "string \<Rightarrow> ('z crm_tables_scheme, 'e, edge_view) go" where
  "relationship_of rid = db_row (\<lambda>t. Option.bind (row_by eg_id rid (edges t)) (edge_with_names t))"

text \<open>What the schema refuses: a dangling contact or customer, a loop, the same edge twice.\<close>

definition edge_refused :: "'z crm_tables_scheme \<Rightarrow> edge_row \<Rightarrow> bool" where
  "edge_refused t e \<longleftrightarrow>
     \<not> refers cu_id (customers t) (Some (eg_customer e)) \<or> \<not> refers cn_id (contacts t) (Some (eg_source e)) \<or>
     \<not> refers cn_id (contacts t) (Some (eg_target e)) \<or> \<not> valid_relationship_type (eg_type e) \<or>
     eg_strength e < 0 \<or> eg_strength e > 100 \<or> eg_source e = eg_target e \<or>
     list_ex (\<lambda>x. eg_id x \<noteq> eg_id e \<and> eg_source x = eg_source e \<and> eg_target x = eg_target e \<and> eg_type x = eg_type e) (edges t)"

definition insert_edge :: "string \<Rightarrow> edge_row \<Rightarrow> 'z crm_tables_scheme \<Rightarrow> ('z crm_tables_scheme \<times> unit) option" where
  "insert_edge actor e t =
     (if eg_id e \<in> set (keys eg_id (edges t)) \<or> edge_refused t e \<or> \<not> refers u_id (users t) (Some actor) then None
      else Some (t\<lparr>edges := edges t @ [e]\<rparr>, ()))"

definition update_edge :: "string \<Rightarrow> string \<Rightarrow> int \<Rightarrow> (edge_row \<Rightarrow> edge_row) \<Rightarrow> 'z crm_tables_scheme \<Rightarrow> ('z crm_tables_scheme \<times> nat) option" where
  "update_edge rid cid version f t =
     (let P = (\<lambda>e. eg_id e = rid \<and> eg_customer e = cid \<and> eg_version e = version) in
      if list_ex (\<lambda>e. P e \<and> edge_refused t (f e)) (edges t) then None
      else Some (t\<lparr>edges := update_where P f (edges t)\<rparr>, count_where P (edges t)))"

definition change_edge :: "principal \<Rightarrow> string \<Rightarrow> string \<Rightarrow> edge_input \<Rightarrow> string \<Rightarrow> int \<Rightarrow> instant \<Rightarrow> ('z, unit) crm_on" where
  "change_edge p cid rid x ty strength now =
     and_then (with_err Relationship_missing (relationship_of rid)) (\<lambda>(current, _).
     and_then (check (eg_customer current = cid) Relationship_missing) (\<lambda>_.
     let active = (case ei_active x of None \<Rightarrow> eg_active current | Some b \<Rightarrow> b);
         strength = (if ei_strength x = None then eg_strength current else strength) in
     and_then (db_exec (update_edge rid cid (ei_version x) (\<lambda>e. e
       \<lparr>eg_source := ei_source x, eg_target := ei_target x, eg_type := ty, eg_strength := strength,
        eg_text := trim_space (ei_text x), eg_active := active, eg_updated := now, eg_version := eg_version e + 1\<rparr>))) (\<lambda>n.
     check (n = 1) Relationship_changed)))"

definition save_relationship :: "principal \<Rightarrow> string \<Rightarrow> string \<Rightarrow> edge_input \<Rightarrow> string \<Rightarrow> client_info \<Rightarrow> string \<Rightarrow> instant
    \<Rightarrow> ('z, edge_view) crm_on" where
  "save_relationship p cid rid x channel ci fresh now =
     and_then (require p ''contact:write'') (\<lambda>_.
     and_then (get_customer p cid) (\<lambda>_.
     let ty = to_upper (trim_space (ei_type x)); strength = case_option 50 id (ei_strength x) in
     and_then (check (\<not> (ei_source x = [] \<or> ei_target x = [] \<or> ei_source x = ei_target x)) Two_contacts) (\<lambda>_.
     and_then (check (valid_relationship_type ty) Bad_relationship) (\<lambda>_.
     and_then (check (\<not> (strength < 0 \<or> strength > 100)) Bad_strength) (\<lambda>_.
     and_then (or_default 0 (db_query (\<lambda>t. count_where (\<lambda>n. cn_customer n = cid \<and> cn_id n \<in> {ei_source x, ei_target x})
       (contacts t)))) (\<lambda>n.
     and_then (check (n = 2) Contacts_elsewhere) (\<lambda>_.
     and_then (if rid = []
       then db_exec (insert_edge (user_id p)
         \<lparr>eg_id = fresh, eg_customer = cid, eg_source = ei_source x, eg_target = ei_target x, eg_type = ty,
          eg_strength = strength, eg_text = trim_space (ei_text x), eg_active = case_option True id (ei_active x),
          eg_version = 1, eg_created = now, eg_updated = now\<rparr>)
       else change_edge p cid rid x ty strength now) (\<lambda>_.
     let saved = (if rid = [] then fresh else rid) in
     and_then (relationship_of saved) (\<lambda>after.
     and_then (crm_audit p channel ci (if rid = [] then ''CREATE_RELATIONSHIP'' else ''UPDATE_RELATIONSHIP'')
       ''contact_relationship'' saved) (\<lambda>_. ret after))))))))))"

definition delete_relationship :: "principal \<Rightarrow> string \<Rightarrow> string \<Rightarrow> int \<Rightarrow> string \<Rightarrow> client_info \<Rightarrow> ('z, unit) crm_on" where
  "delete_relationship p cid rid version channel ci =
     and_then (require p ''contact:write'') (\<lambda>_.
     and_then (get_customer p cid) (\<lambda>_.
     and_then (with_err Relationship_missing (relationship_of rid)) (\<lambda>(before, _).
     and_then (check (eg_customer before = cid) Relationship_missing) (\<lambda>_.
     let P = (\<lambda>e. eg_id e = rid \<and> eg_customer e = cid \<and> eg_version e = version) in
     and_then (db_exec (\<lambda>t. Some (t\<lparr>edges := delete_where P (edges t)\<rparr>, count_where P (edges t)))) (\<lambda>n.
     and_then (check (n = 1) Relationship_changed) (\<lambda>_.
     crm_audit p channel ci ''DELETE_RELATIONSHIP'' ''contact_relationship'' rid))))))"

section \<open>Account plans\<close>

fun normalized_strings :: "string list \<Rightarrow> string list \<Rightarrow> string list" where
  "normalized_strings seen [] = []"
| "normalized_strings seen (x # xs) =
     (let s = trim_space x in
      if s \<noteq> [] \<and> s \<notin> set seen then s # normalized_strings (s # seen) xs else normalized_strings seen xs)"

definition normal_list :: "string list \<Rightarrow> string list" where
  "normal_list = normalized_strings []"

definition valid_space_status :: "string \<Rightarrow> bool" where
  "valid_space_status v \<longleftrightarrow> v \<in> {''NOT_OFFERED'', ''DISCOVERY'', ''OPPORTUNITY'', ''CUSTOMER'', ''NOT_APPLICABLE''}"

definition normalize_space :: "string \<Rightarrow> white_space \<Rightarrow> crm_error + white_space" where
  "normalize_space fresh x =
     (let s = to_upper (trim_space (ws_status x)); status = (if s = [] then ''NOT_OFFERED'' else s) in
      if blank (ws_name x) then Inl Space_name_missing
      else if \<not> valid_space_status status then Inl Bad_space_status
      else if ws_amount x < 0 then Inl Negative_space
      else Inr (x\<lparr>ws_name := trim_space (ws_name x), ws_status := status, ws_notes := trim_space (ws_notes x),
        ws_id := (if ws_id x = [] then fresh else ws_id x)\<rparr>))"

fun normalize_spaces :: "(nat \<Rightarrow> string) \<Rightarrow> nat \<Rightarrow> white_space list \<Rightarrow> crm_error + white_space list" where
  "normalize_spaces draw n [] = Inr []"
| "normalize_spaces draw n (x # xs) =
     (case normalize_space (draw n) x of
        Inl e \<Rightarrow> Inl e
      | Inr y \<Rightarrow> map_sum id ((#) y) (normalize_spaces draw (Suc n) xs))"

definition plan_year :: "int \<Rightarrow> date \<Rightarrow> ('z crm_tables_scheme, 'e, int) go" where
  "plan_year requested today =
     (if 2000 \<le> requested \<and> requested \<le> 2200 then ret requested
      else and_then (number_setting ''relationship_intelligence'' ''default_plan_year'' 0) (\<lambda>n.
        ret (if 2000 \<le> n \<and> n \<le> 2200 then n else yr today)))"

text \<open>What is shown where no plan was saved yet: a draft without an id.\<close>

definition blank_plan :: "string \<Rightarrow> int \<Rightarrow> plan_row" where
  "blank_plan cid year =
     \<lparr>ap_id = [], ap_customer = cid, ap_year = year, ap_status = ''DRAFT'', ap_strategy = [], ap_goals = [],
      ap_initiatives = [], ap_objectives = [], ap_spaces = [], ap_competitors = [], ap_risks = [], ap_target = 0,
      ap_potential = 0, ap_owner = [], ap_org = None, ap_version = 0, ap_created = None, ap_updated = None\<rparr>"

definition get_account_plan :: "principal \<Rightarrow> string \<Rightarrow> int \<Rightarrow> date \<Rightarrow> ('z, plan_row) crm_on" where
  "get_account_plan p cid requested today =
     and_then (get_customer p cid) (\<lambda>_.
     and_then (plan_year requested today) (\<lambda>year.
     and_then (db_query (\<lambda>t. List.find (\<lambda>a. ap_customer a = cid \<and> ap_year a = year \<and>
       ap_owner a \<in> set (keys u_id (users t))) (account_plans t))) (\<lambda>r.
     ret (case r of None \<Rightarrow> blank_plan cid year | Some a \<Rightarrow> a))))"

record plan_input =
  np_year :: int
  np_status :: string
  np_strategy :: string
  np_goals :: "string list"
  np_initiatives :: "string list"
  np_objectives :: "string list"
  np_spaces :: "white_space list"
  np_competitors :: "string list"
  np_risks :: "string list"
  np_target :: rat
  np_potential :: rat
  np_version :: int

definition plan_content :: "plan_input \<Rightarrow> white_space list \<Rightarrow> string \<Rightarrow> instant \<Rightarrow> plan_row \<Rightarrow> plan_row" where
  "plan_content x spaces status now a = a
     \<lparr>ap_status := status, ap_strategy := trim_space (np_strategy x), ap_goals := normal_list (np_goals x),
      ap_initiatives := normal_list (np_initiatives x), ap_objectives := normal_list (np_objectives x), ap_spaces := spaces,
      ap_competitors := normal_list (np_competitors x), ap_risks := normal_list (np_risks x),
      ap_target := numeric 2 (np_target x), ap_potential := numeric 2 (np_potential x), ap_updated := Some now\<rparr>"

definition plan_refused :: "'z crm_tables_scheme \<Rightarrow> plan_row \<Rightarrow> bool" where
  "plan_refused t a \<longleftrightarrow>
     \<not> refers cu_id (customers t) (Some (ap_customer a)) \<or> \<not> refers u_id (users t) (Some (ap_owner a)) \<or>
     \<not> refers o_id (orgs t) (ap_org a) \<or> ap_year a < 2000 \<or> ap_year a > 2200 \<or>
     \<not> fits 18 (ap_target a) \<or> \<not> fits 18 (ap_potential a)"

definition insert_plan :: "plan_row \<Rightarrow> 'z crm_tables_scheme \<Rightarrow> ('z crm_tables_scheme \<times> unit) option" where
  "insert_plan a t =
     (if ap_id a \<in> set (keys ap_id (account_plans t)) \<or>
         (ap_customer a, ap_year a) \<in> set (map (\<lambda>x. (ap_customer x, ap_year x)) (account_plans t)) \<or> plan_refused t a then None
      else Some (t\<lparr>account_plans := account_plans t @ [a]\<rparr>, ()))"

definition update_plan :: "string \<Rightarrow> int \<Rightarrow> (plan_row \<Rightarrow> plan_row) \<Rightarrow> 'z crm_tables_scheme \<Rightarrow> ('z crm_tables_scheme \<times> nat) option" where
  "update_plan pid version f t =
     (let P = (\<lambda>a. ap_id a = pid \<and> ap_version a = version) in
      if list_ex (\<lambda>a. P a \<and> plan_refused t (f a)) (account_plans t) then None
      else Some (t\<lparr>account_plans := update_where P f (account_plans t)\<rparr>, count_where P (account_plans t)))"

definition save_account_plan :: "principal \<Rightarrow> string \<Rightarrow> plan_input \<Rightarrow> string \<Rightarrow> client_info \<Rightarrow> string \<Rightarrow> (nat \<Rightarrow> string)
    \<Rightarrow> date \<Rightarrow> instant \<Rightarrow> ('z, plan_row) crm_on" where
  "save_account_plan p cid x channel ci fresh draw today now =
     and_then (require p ''customer:write'') (\<lambda>_.
     and_then (get_customer p cid) (\<lambda>c.
     and_then (plan_year (np_year x) today) (\<lambda>year.
     let s = to_upper (trim_space (np_status x)); status = (if s = [] then ''DRAFT'' else s) in
     and_then (check (status \<in> {''DRAFT'', ''ACTIVE'', ''ARCHIVED''}) Bad_plan_status) (\<lambda>_.
     and_then (check (\<not> (np_target x < 0 \<or> np_potential x < 0)) Negative_revenue) (\<lambda>_.
     and_then (lift (normalize_spaces draw 0 (np_spaces x))) (\<lambda>spaces.
     and_then (get_account_plan p cid year today) (\<lambda>current.
     and_then (if ap_id current = []
       then and_then (check (np_version x = 0) Plan_version_not_zero) (\<lambda>_.
         db_exec (insert_plan (plan_content x spaces status now ((blank_plan cid year)
           \<lparr>ap_id := fresh, ap_owner := cu_owner (cv_row c), ap_org := cu_org (cv_row c), ap_version := 1,
            ap_created := Some now\<rparr>))))
       else and_then (db_exec (update_plan (ap_id current) (np_version x)
           (\<lambda>a. (plan_content x spaces status now a)\<lparr>ap_version := ap_version a + 1\<rparr>))) (\<lambda>n.
         check (n = 1) Plan_changed)) (\<lambda>_.
     and_then (get_account_plan p cid year today) (\<lambda>after.
     and_then (crm_audit p channel ci ''SAVE_ACCOUNT_PLAN'' ''account_plan'' (ap_id after)) (\<lambda>_. ret after))))))))))"

definition cross_sell :: "principal \<Rightarrow> string \<Rightarrow> int \<Rightarrow> date \<Rightarrow> ('z, white_space list) crm_on" where
  "cross_sell p cid year today =
     and_then (get_account_plan p cid year today) (\<lambda>a.
     ret (filter (\<lambda>x. ws_status x = ''NOT_OFFERED'' \<or> ws_status x = ''DISCOVERY'') (ap_spaces a)))"

definition account_brief :: "principal \<Rightarrow> string \<Rightarrow> int \<Rightarrow> instant \<Rightarrow> date
    \<Rightarrow> ('z, customer_360 \<times> relationship_graph \<times> plan_row) crm_on" where
  "account_brief p cid year now today =
     and_then (customer_360_of p cid now today) (\<lambda>c.
     and_then (graph_of p cid) (\<lambda>g.
     and_then (get_account_plan p cid year today) (\<lambda>a. ret (c, g, a))))"

section \<open>The team of a deal\<close>

definition default_roles :: "string list" where
  "default_roles = [''PRESALES'', ''CONSULTANT'', ''MANAGER'', ''EXECUTIVE_SPONSOR'', ''LEGAL'', ''DELIVERY'', ''OTHER'']"

text \<open>
  Unmarshalling into a slice that holds the default roles: \<open>null\<close> empties it, an array overwrites it
  element by element, an element that is no string keeping what the slice held there, and any other
  value leaves it.
\<close>

definition role_element :: "nat \<Rightarrow> json \<Rightarrow> string" where
  "role_element i v =
     (case v of JStr s \<Rightarrow> s | _ \<Rightarrow> if i < length default_roles then default_roles ! i else [])"

definition roles_setting :: "json \<Rightarrow> string list" where
  "roles_setting v =
     (case v of
        JNull \<Rightarrow> []
      | JArr vs \<Rightarrow> map (\<lambda>(i, v). role_element i v) (enumerate 0 vs)
      | _ \<Rightarrow> default_roles)"

definition allowed_roles :: "('z crm_tables_scheme, 'e, string list) go" where
  "allowed_roles =
     and_then (or_default default_roles (db_row (\<lambda>t. map_option (roles_setting \<circ> st_value)
       (setting ''relationship_intelligence'' ''allowed_opportunity_roles'' t)))) (\<lambda>roles.
     ret (map (\<lambda>r. to_upper (trim_space r)) roles))"

definition role_order :: "string \<Rightarrow> int" where
  "role_order r = (if r = ''MANAGER'' then 1 else if r = ''EXECUTIVE_SPONSOR'' then 2 else if r = ''PRESALES'' then 3 else 4)"

definition team_query :: "string \<Rightarrow> 'z crm_tables_scheme \<Rightarrow> (team_row \<times> user_row) list" where
  "team_query oid t =
     sort_key (\<lambda>(m, _). role_order (om_role m)) (sort_key (\<lambda>(_, u). u_display_name u)
       (List.map_filter (\<lambda>m. map_option (Pair m) (row_by u_id (om_user m) (users t)))
         (filter (\<lambda>m. om_opportunity m = oid) (team_rows t))))"

definition opportunity_team :: "principal \<Rightarrow> string \<Rightarrow> ('z, (team_row \<times> user_row) list) crm_on" where
  "opportunity_team p oid = and_then (get_opportunity p oid) (\<lambda>_. db_query (team_query oid))"

record member_input =
  mi_role :: string
  mi_text :: string
  mi_version :: int

definition insert_member :: "string \<Rightarrow> team_row \<Rightarrow> 'z crm_tables_scheme \<Rightarrow> ('z crm_tables_scheme \<times> unit) option" where
  "insert_member actor m t =
     (if (om_opportunity m, om_user m) \<in> set (map (\<lambda>x. (om_opportunity x, om_user x)) (team_rows t)) \<or>
         \<not> refers op_id (opportunities t) (Some (om_opportunity m)) \<or> \<not> refers u_id (users t) (Some (om_user m)) \<or>
         \<not> refers u_id (users t) (Some actor) \<or> om_role m \<notin> set default_roles then None
      else Some (t\<lparr>team_rows := team_rows t @ [m]\<rparr>, ()))"

definition update_member :: "string \<Rightarrow> string \<Rightarrow> int \<Rightarrow> string \<Rightarrow> string \<Rightarrow> instant \<Rightarrow> 'z crm_tables_scheme
    \<Rightarrow> ('z crm_tables_scheme \<times> nat) option" where
  "update_member oid uid version role text now t =
     (let P = (\<lambda>m. om_opportunity m = oid \<and> om_user m = uid \<and> om_version m = version) in
      if list_ex P (team_rows t) \<and> role \<notin> set default_roles then None
      else Some (t\<lparr>team_rows := update_where P (\<lambda>m. m\<lparr>om_role := role, om_text := text, om_updated := now,
        om_version := om_version m + 1\<rparr>) (team_rows t)\<rparr>, count_where P (team_rows t)))"

definition save_opportunity_member :: "principal \<Rightarrow> string \<Rightarrow> string \<Rightarrow> member_input \<Rightarrow> string \<Rightarrow> client_info \<Rightarrow> instant
    \<Rightarrow> ('z, team_row \<times> user_row) crm_on" where
  "save_opportunity_member p oid uid x channel ci now =
     and_then (require p ''opportunity:write'') (\<lambda>_.
     and_then (get_opportunity p oid) (\<lambda>o'.
     and_then (check (\<not> (uid = [] \<or> uid = op_owner o')) Collaborator_is_owner) (\<lambda>_.
     let role = to_upper (trim_space (mi_role x)) in
     and_then allowed_roles (\<lambda>roles.
     and_then (check (role \<in> set roles) Bad_member_role) (\<lambda>_.
     and_then (or_default False (db_row (\<lambda>t. map_option u_active (row_by u_id uid (users t))))) (\<lambda>active.
     and_then (check active Collaborator_missing) (\<lambda>_.
     and_then (db_query (\<lambda>t. List.find (\<lambda>m. om_opportunity m = oid \<and> om_user m = uid) (team_rows t))) (\<lambda>r.
     and_then (case r of
         None \<Rightarrow> and_then (check (mi_version x = 0) Member_version_not_zero) (\<lambda>_.
           db_exec (insert_member (user_id p) \<lparr>om_opportunity = oid, om_user = uid, om_role = role,
             om_text = trim_space (mi_text x), om_version = 1, om_created = now, om_updated = now\<rparr>))
       | Some _ \<Rightarrow> and_then (opportunity_team p oid) (\<lambda>_.
           and_then (db_exec (update_member oid uid (mi_version x) role (trim_space (mi_text x)) now)) (\<lambda>n.
           check (n = 1) Member_changed))) (\<lambda>_.
     and_then (opportunity_team p oid) (\<lambda>items.
     case List.find (\<lambda>(m, _). om_user m = uid) items of
       None \<Rightarrow> raise (App Member_missing)
     | Some item \<Rightarrow> and_then (crm_audit p channel ci ''SAVE_OPPORTUNITY_MEMBER'' ''opportunity_member'' (oid @ '':'' @ uid))
         (\<lambda>_. ret item)))))))))))"

definition delete_opportunity_member :: "principal \<Rightarrow> string \<Rightarrow> string \<Rightarrow> int \<Rightarrow> string \<Rightarrow> client_info \<Rightarrow> ('z, unit) crm_on" where
  "delete_opportunity_member p oid uid version channel ci =
     and_then (require p ''opportunity:write'') (\<lambda>_.
     and_then (get_opportunity p oid) (\<lambda>_.
     and_then (opportunity_team p oid) (\<lambda>items.
     and_then (check (list_ex (\<lambda>(m, _). om_user m = uid) items) Member_missing) (\<lambda>_.
     let P = (\<lambda>m. om_opportunity m = oid \<and> om_user m = uid \<and> om_version m = version) in
     and_then (db_exec (\<lambda>t. Some (t\<lparr>team_rows := delete_where P (team_rows t)\<rparr>, count_where P (team_rows t)))) (\<lambda>n.
     and_then (check (n = 1) Member_changed) (\<lambda>_.
     crm_audit p channel ci ''DELETE_OPPORTUNITY_MEMBER'' ''opportunity_member'' (oid @ '':'' @ uid)))))))"

text \<open>Who can be asked to join: the same scope as for records, over users.\<close>

definition finds_collaborator :: "principal \<Rightarrow> string \<Rightarrow> 'z crm_tables_scheme \<Rightarrow> user_row \<Rightarrow> bool" where
  "finds_collaborator p pat t u \<longleftrightarrow>
     u_active u \<and> \<not> u_bootstrap u \<and>
     (data_scope p = ''COMPANY'' \<or> u_id u = user_id p \<or>
      data_scope p = ''TEAM'' \<and> (u_id u = user_id p \<or> u_manager u = Some (user_id p)) \<or>
      data_scope p \<in> {''DEPARTMENT'', ''DIVISION''} \<and>
        (let mine = null_if_empty (organization_id p) in
         case List.find (\<lambda>o'. o_type o' = data_scope p) (org_path (Suc (length (orgs t))) (orgs t) mine) of
           None \<Rightarrow> False
         | Some o' \<Rightarrow> (case u_org u of None \<Rightarrow> False | Some x \<Rightarrow> x \<in> set (org_tree (length (orgs t)) (orgs t) (o_id o'))))) \<and>
     (pat = [] \<or> like pat (to_lower (u_display_name u)) \<or> like pat (to_lower (u_username u)))"

definition collaborators :: "principal \<Rightarrow> string \<Rightarrow> int \<Rightarrow> ('z, user_row list) crm_on" where
  "collaborators p q limit =
     and_then (require p ''opportunity:read'') (\<lambda>_.
     db_query (\<lambda>t. take (nat (bounded 100 200 limit)) (sort_key u_display_name
       (filter (finds_collaborator p (search_pattern q) t) (users t)))))"

end
