(* ===== verification/Signals.thy ===== *)
theory Signals
  imports Voice Relationship
begin

text \<open>
  The rules of the intelligence engine (internal/intelligence/engine.go, signals.go): what it observes of
  an account, a deal or a contract, how observations are scored as risks, and the insight and the
  recommendations that follow. All of it is computed from facts read beforehand. The Korean titles and
  descriptions are left out: a title is determined by the type of the observation, the name it is
  about and the evidence, which are kept.
\<close>

section \<open>Tables\<close>

datatype evidence =
    Last_contact "int option" "instant option"
  | Contact_counts nat nat
  | Voice_counts nat nat
  | Touches nat nat
  | Quote string
  | Stalled int string rat
  | Overdue int date
  | Expiry int date string bool

record signal =
  sg_type :: string
  sg_sentiment :: string
  sg_severity :: string
  sg_entity_type :: string
  sg_entity :: string
  sg_account :: string
  sg_subject :: string
  sg_evidence :: evidence
  sg_detected :: instant
  sg_source_type :: string
  sg_source :: string

record signal_row = signal +
  sg_id :: string
  sg_status :: string
  sg_resolved :: "instant option"
  sg_key :: string
  sg_updated :: instant

text \<open>A factor of a score without its text: the type of the observation and its points.\<close>

record risk_factor =
  rf_signal :: string
  rf_points :: int

record risk =
  rk_type :: string
  rk_entity_type :: string
  rk_entity :: string
  rk_account :: string
  rk_score :: int
  rk_severity :: string
  rk_subject :: string
  rk_factors :: "risk_factor list"
  rk_detected :: instant

record risk_row = risk +
  rk_id :: string
  rk_status :: string
  rk_resolved :: "instant option"
  rk_accepted_by :: "string option"
  rk_note :: string
  rk_key :: string
  rk_updated :: instant

record insight =
  in_account :: string
  in_type :: string
  in_negative :: nat
  in_worst :: int
  in_evidence :: "(string \<times> string \<times> evidence) list"
  in_confidence :: int

record insight_row = insight +
  in_id :: string
  in_generated :: instant
  in_expires :: "instant option"
  in_status :: string
  in_key :: string

record recommendation =
  rc_account :: string
  rc_type :: string
  rc_priority :: string
  rc_subject :: string
  rc_source_type :: string
  rc_source :: string
  rc_assignee :: string
  rc_due :: instant

record recommendation_row =
  ro_id :: string
  ro_account :: string
  ro_opportunity :: "string option"
  ro_type :: string
  ro_priority :: string
  ro_subject :: string
  ro_source_type :: string
  ro_source :: string
  ro_assignee :: string
  ro_due :: "date option"
  ro_status :: string
  ro_task :: "string option"
  ro_decided_by :: "string option"
  ro_decided :: "instant option"
  ro_reason :: string
  ro_generated :: instant
  ro_key :: string
  ro_updated :: instant

record run_row =
  rn_id :: string
  rn_started :: instant
  rn_finished :: "instant option"
  rn_trigger :: string
  rn_by :: "string option"
  rn_accounts :: nat
  rn_opened :: nat
  rn_resolved :: nat
  rn_risks_opened :: nat
  rn_risks_resolved :: nat
  rn_insights :: nat
  rn_recommendations :: nat
  rn_failed :: bool

record criterion_row =
  ec_id :: string
  ec_stage :: string
  ec_name :: string
  ec_type :: string
  ec_field :: string
  ec_operator :: string
  ec_expected :: json
  ec_enforcement :: string
  ec_message :: string
  ec_active :: bool
  ec_order :: int

record playbook_row =
  pb_id :: string
  pb_stage :: string
  pb_name :: string
  pb_guidance :: string
  pb_active :: bool

record playbook_item =
  pt_id :: string
  pt_playbook :: string
  pt_title :: string
  pt_text :: string
  pt_type :: string
  pt_field :: string
  pt_required :: bool
  pt_order :: int

record progress_row =
  pp_opportunity :: string
  pp_item :: string
  pp_completed :: bool
  pp_notes :: string
  pp_by :: string
  pp_at :: "instant option"

record health_rule =
  hr_id :: string
  hr_code :: string
  hr_name :: string
  hr_text :: string
  hr_type :: string
  hr_threshold :: "(string \<times> json) list"
  hr_score :: int
  hr_action :: string
  hr_active :: bool
  hr_priority :: int
  hr_version :: int

record health_snapshot =
  hs_opportunity :: string
  hs_risk :: int
  hs_health :: int
  hs_level :: string
  hs_at :: instant

record forecast_snapshot =
  fs_id :: string
  fs_date :: date
  fs_owner :: string
  fs_pipeline :: rat
  fs_weighted :: rat
  fs_commit :: rat
  fs_best :: rat
  fs_open :: nat

record snapshot_item =
  fi_snapshot :: string
  fi_opportunity :: string
  fi_owner :: string
  fi_category :: string
  fi_status :: string
  fi_stage :: string
  fi_stage_name :: string
  fi_amount :: rat
  fi_weighted :: rat
  fi_probability :: rat
  fi_close :: "date option"

record override_row =
  fo_id :: string
  fo_opportunity :: string
  fo_manager :: string
  fo_category :: "string option"
  fo_probability :: "rat option"
  fo_amount :: "rat option"
  fo_reason :: string
  fo_active :: bool
  fo_version :: int
  fo_updated :: instant

record intel_tables = voice_tables +
  signals :: "signal_row list"
  risks :: "risk_row list"
  insights :: "insight_row list"
  recommendations :: "recommendation_row list"
  runs :: "run_row list"
  criteria :: "criterion_row list"
  playbooks :: "playbook_row list"
  playbook_items :: "playbook_item list"
  progress :: "progress_row list"
  health_rules :: "health_rule list"
  health_snapshots :: "health_snapshot list"
  forecasts :: "forecast_snapshot list"
  forecast_items :: "snapshot_item list"
  overrides :: "override_row list"

datatype intel_error =
    Signal_missing
  | Risk_missing
  | Insight_missing
  | Recommendation_missing
  | Already_answered string
  | Reason_missing
  | Not_in_pipeline
  | Item_not_in_stage
  | Stage_missing
  | Item_title_missing
  | Item_elsewhere
  | Criterion_name_missing
  | Criterion_elsewhere
  | Rule_incomplete
  | Rule_score
  | Rule_missing
  | Rule_changed
  | Override_denied
  | Override_reason_missing
  | Bad_forecast_category
  | Not_the_manager
  | Bad_probability
  | Negative_override
  | Override_changed
  | Intel_crm crm_error

type_synonym 'a intel_op = "(intel_tables, intel_error, 'a) go"

section \<open>Severity\<close>

definition severity_for_score :: "int \<Rightarrow> string" where
  "severity_for_score score =
     (if score \<ge> 90 then ''CRITICAL'' else if score \<ge> 70 then ''HIGH'' else if score \<ge> 40 then ''MEDIUM'' else ''LOW'')"

definition severity_rank :: "string \<Rightarrow> int" where
  "severity_rank s = (if s = ''CRITICAL'' then 3 else if s = ''HIGH'' then 2 else if s = ''MEDIUM'' then 1 else 0)"

section \<open>Facts\<close>

definition no_contact_days :: int where "no_contact_days = 30"
definition stalled_days :: int where "stalled_days = 30"
definition renewal_days :: int where "renewal_days = 90"
definition engagement_days :: int where "engagement_days = 14"
definition quote_days :: int where "quote_days = 14"

record account_facts =
  af_id :: string
  af_owner :: string
  af_last :: "instant option"
  af_recent :: nat
  af_prior :: nat
  af_contacts :: nat
  af_deciders :: nat
  af_open :: nat
  af_critical :: nat
  af_critical_id :: string
  af_quote :: string
  af_quote_name :: string

record deal_facts =
  df_id :: string
  df_name :: string
  df_account :: string
  df_stage :: string
  df_entered :: instant
  df_probability :: int
  df_amount :: rat
  df_status :: string
  df_close :: "date option"

record contract_facts =
  kf_id :: string
  kf_title :: string
  kf_account :: string
  kf_end :: date
  kf_renewal :: string
  kf_auto :: bool

text \<open>\<open>daysSince\<close> of a time there is, and whole days between two dates.\<close>

definition days_since :: "instant option \<Rightarrow> instant \<Rightarrow> int" where
  "days_since at_time now = (case at_time of None \<Rightarrow> 2 ^ 30 | Some a \<Rightarrow> quot (now - a) day_ns)"

definition calendar_days :: "date \<Rightarrow> date \<Rightarrow> int" where
  "calendar_days a b = day_number b - day_number a"

section \<open>What is observed\<close>

text \<open>The common part of an observation about an account.\<close>

definition account_base :: "account_facts \<Rightarrow> instant \<Rightarrow> signal" where
  "account_base a now =
     \<lparr>sg_type = [], sg_sentiment = [], sg_severity = [], sg_entity_type = ''ACCOUNT'', sg_entity = af_id a,
      sg_account = af_id a, sg_subject = [], sg_evidence = Last_contact None None, sg_detected = now,
      sg_source_type = ''ACCOUNT'', sg_source = af_id a\<rparr>"

definition no_contact :: "account_facts \<Rightarrow> instant \<Rightarrow> signal list" where
  "no_contact a now =
     (let days = days_since (af_last a) now in
      if af_last a = None \<or> days \<ge> no_contact_days
      then [(account_base a now)\<lparr>sg_type := ''NO_CONTACT'', sg_sentiment := ''NEGATIVE'',
          sg_severity := (if days \<ge> no_contact_days * 2 \<or> af_last a = None then ''HIGH'' else ''MEDIUM''),
          sg_evidence := (case af_last a of None \<Rightarrow> Last_contact None None | Some l \<Rightarrow> Last_contact (Some days) (Some l))\<rparr>]
      else [])"

definition missing_decider :: "account_facts \<Rightarrow> instant \<Rightarrow> signal list" where
  "missing_decider a now =
     (if af_contacts a > 0 \<and> af_deciders a = 0
      then [(account_base a now)\<lparr>sg_type := ''DECISION_MAKER_MISSING'', sg_sentiment := ''NEGATIVE'',
        sg_severity := ''MEDIUM'', sg_evidence := Contact_counts (af_contacts a) 0\<rparr>] else []) @
     (if af_contacts a = 0
      then [(account_base a now)\<lparr>sg_type := ''DECISION_MAKER_MISSING'', sg_sentiment := ''NEGATIVE'',
        sg_severity := ''HIGH'', sg_evidence := Contact_counts 0 0\<rparr>] else [])"

definition critical_voice :: "account_facts \<Rightarrow> instant \<Rightarrow> signal list" where
  "critical_voice a now =
     (if af_critical a > 0
      then [(account_base a now)\<lparr>sg_type := ''CRITICAL_VOC'', sg_sentiment := ''NEGATIVE'', sg_severity := ''CRITICAL'',
        sg_entity_type := ''VOC'', sg_entity := af_critical_id a, sg_source_type := ''VOC'', sg_source := af_critical_id a,
        sg_evidence := Voice_counts (af_critical a) (af_open a)\<rparr>] else [])"

definition engagement :: "account_facts \<Rightarrow> instant \<Rightarrow> signal list" where
  "engagement a now =
     (if af_recent a \<ge> 3 \<and> af_recent a > af_prior a
      then [(account_base a now)\<lparr>sg_type := ''ENGAGEMENT_INCREASE'', sg_sentiment := ''POSITIVE'', sg_severity := ''LOW'',
        sg_evidence := Touches (af_recent a) (af_prior a)\<rparr>] else [])"

definition quote_requested :: "account_facts \<Rightarrow> instant \<Rightarrow> signal list" where
  "quote_requested a now =
     (if af_quote a \<noteq> []
      then [(account_base a now)\<lparr>sg_type := ''QUOTE_REQUESTED'', sg_sentiment := ''POSITIVE'', sg_severity := ''LOW'',
        sg_source_type := ''QUOTATION'', sg_source := af_quote a, sg_evidence := Quote (af_quote_name a)\<rparr>] else [])"

definition account_signals :: "account_facts \<Rightarrow> instant \<Rightarrow> signal list" where
  "account_signals a now =
     no_contact a now @ missing_decider a now @ critical_voice a now @ engagement a now @ quote_requested a now"

definition deal_signal :: "deal_facts \<Rightarrow> string \<Rightarrow> string \<Rightarrow> evidence \<Rightarrow> instant \<Rightarrow> signal" where
  "deal_signal o' ty severity e now =
     \<lparr>sg_type = ty, sg_sentiment = ''NEGATIVE'', sg_severity = severity, sg_entity_type = ''OPPORTUNITY'',
      sg_entity = df_id o', sg_account = df_account o', sg_subject = df_name o', sg_evidence = e, sg_detected = now,
      sg_source_type = ''OPPORTUNITY'', sg_source = df_id o'\<rparr>"

definition opportunity_signals :: "deal_facts \<Rightarrow> instant \<Rightarrow> date \<Rightarrow> signal list" where
  "opportunity_signals o' now today =
     (if df_status o' \<noteq> ''OPEN'' then []
      else
        let stalled = quot (now - df_entered o') day_ns in
        (if stalled \<ge> stalled_days
         then [deal_signal o' ''DEAL_STALLED'' (if stalled \<ge> stalled_days * 2 then ''HIGH'' else ''MEDIUM'')
           (Stalled stalled (df_stage o') (df_amount o')) now] else []) @
        (case df_close o' of
           None \<Rightarrow> []
         | Some d \<Rightarrow> if calendar_days d today > 0
             then [deal_signal o' ''CLOSE_DATE_PASSED'' ''HIGH'' (Overdue (calendar_days d today) d) now] else []))"

definition contract_signals :: "contract_facts \<Rightarrow> instant \<Rightarrow> date \<Rightarrow> signal list" where
  "contract_signals c now today =
     (let remaining = calendar_days today (kf_end c) in
      if remaining > renewal_days \<or> remaining < 0 then []
      else
        let severity = (if remaining \<le> 30 then ''HIGH'' else ''MEDIUM'');
            severity = (if remaining \<le> 14 \<and> kf_renewal c = ''NOT_STARTED'' \<and> \<not> kf_auto c then ''CRITICAL'' else severity) in
        [\<lparr>sg_type = ''CONTRACT_EXPIRING'', sg_sentiment = ''NEGATIVE'', sg_severity = severity, sg_entity_type = ''CONTRACT'',
          sg_entity = kf_id c, sg_account = kf_account c, sg_subject = kf_title c,
          sg_evidence = Expiry remaining (kf_end c) (kf_renewal c) (kf_auto c), sg_detected = now,
          sg_source_type = ''CONTRACT'', sg_source = kf_id c\<rparr>])"

definition signal_key :: "signal \<Rightarrow> string" where
  "signal_key s = join_with ''|'' [sg_type s, sg_entity_type s, sg_entity s]"

definition risk_key :: "risk \<Rightarrow> string" where
  "risk_key r = join_with ''|'' [rk_type r, rk_entity_type r, rk_entity r]"

section \<open>Scores\<close>

definition of_type :: "string \<Rightarrow> signal list \<Rightarrow> signal list" where
  "of_type ty ss = filter (\<lambda>s. sg_type s = ty) ss"

definition factor :: "signal \<Rightarrow> int \<Rightarrow> risk_factor" where
  "factor s points = \<lparr>rf_signal = sg_type s, rf_points = points\<rparr>"

definition score_of :: "risk_factor list \<Rightarrow> int" where
  "score_of fs = min 100 (sum_list (map rf_points fs))"

text \<open>The closure \<open>add\<close>: no risk without a positive score, and none above 100.\<close>

definition add_risk :: "string \<Rightarrow> instant \<Rightarrow> string \<Rightarrow> string \<Rightarrow> string \<Rightarrow> string \<Rightarrow> risk_factor list \<Rightarrow> risk list" where
  "add_risk account now ty entity_type entity subject fs =
     (if sum_list (map rf_points fs) \<le> 0 then []
      else [\<lparr>rk_type = ty, rk_entity_type = entity_type, rk_entity = entity, rk_account = account, rk_score = score_of fs,
        rk_severity = severity_for_score (score_of fs), rk_subject = subject, rk_factors = fs, rk_detected = now\<rparr>])"

definition relationship_factors :: "signal list \<Rightarrow> risk_factor list" where
  "relationship_factors ss =
     (let fs = map (\<lambda>s. factor s (if sg_severity s = ''HIGH'' then 50 else 35)) (of_type ''NO_CONTACT'' ss) @
          map (\<lambda>s. factor s (if sg_severity s = ''HIGH'' then 35 else 25)) (of_type ''DECISION_MAKER_MISSING'' ss) in
      fs @ (case of_type ''ENGAGEMENT_INCREASE'' ss of
              [] \<Rightarrow> [] | e # _ \<Rightarrow> if fs = [] then [] else [factor e (- 20)]))"

definition renewal_factors :: "signal \<Rightarrow> risk_factor list" where
  "renewal_factors s =
     factor s (if sg_severity s = ''HIGH'' then 60 else if sg_severity s = ''CRITICAL'' then 85 else 40) #
     (case sg_evidence s of
        Expiry _ _ status _ \<Rightarrow> if status = ''NOT_STARTED''
          then [\<lparr>rf_signal = ''RENEWAL_NOT_STARTED'', rf_points = 15\<rparr>] else []
      | _ \<Rightarrow> [])"

definition deal_points :: "signal \<Rightarrow> int" where
  "deal_points s = (if sg_type s = ''CLOSE_DATE_PASSED'' then 40 else 45) + (if sg_severity s = ''HIGH'' then 15 else 0)"

definition deal_factors :: "signal list \<Rightarrow> string \<Rightarrow> risk_factor list" where
  "deal_factors ss oid =
     map (\<lambda>s. factor s (deal_points s))
       (filter (\<lambda>s. sg_entity s = oid) (of_type ''DEAL_STALLED'' ss @ of_type ''CLOSE_DATE_PASSED'' ss))"

definition score_risks :: "string \<Rightarrow> signal list \<Rightarrow> deal_facts list \<Rightarrow> instant \<Rightarrow> risk list" where
  "score_risks account ss deals now =
     add_risk account now ''RELATIONSHIP_RISK'' ''ACCOUNT'' account [] (relationship_factors ss) @
     add_risk account now ''VOC_RISK'' ''ACCOUNT'' account [] (map (\<lambda>s. factor s 75) (of_type ''CRITICAL_VOC'' ss)) @
     concat (map (\<lambda>s. add_risk account now ''RENEWAL_RISK'' ''CONTRACT'' (sg_entity s) (sg_subject s) (renewal_factors s))
       (of_type ''CONTRACT_EXPIRING'' ss)) @
     concat (map (\<lambda>oid. add_risk account now ''DEAL_RISK'' ''OPPORTUNITY'' oid
         (case row_by df_id oid deals of None \<Rightarrow> [] | Some o' \<Rightarrow> df_name o') (deal_factors ss oid))
       (sort (remdups (map sg_entity (of_type ''DEAL_STALLED'' ss @ of_type ''CLOSE_DATE_PASSED'' ss)))))"

section \<open>Insights and recommendations\<close>

definition build_insight :: "string \<Rightarrow> signal list \<Rightarrow> risk list \<Rightarrow> insight option" where
  "build_insight account ss rs =
     (let negative = filter (\<lambda>s. sg_sentiment s = ''NEGATIVE'') ss in
      if length negative < 2 then None
      else Some \<lparr>in_account = account, in_type = ''ENGAGEMENT_DECLINE'', in_negative = length negative,
        in_worst = foldl max 0 (map rk_score rs),
        in_evidence = map (\<lambda>s. (sg_type s, sg_subject s, sg_evidence s)) (sort_desc (severity_rank \<circ> sg_severity) negative),
        in_confidence = min 95 (40 + int (length negative) * 15)\<rparr>)"

text \<open>
  The advice a risk calls for; of its title only the variant is kept. The risks were scored in this pass and carry no id yet, so the source of
  the advice is left empty.
\<close>

definition advice_type :: "string \<Rightarrow> string option" where
  "advice_type ty =
     (if ty = ''RELATIONSHIP_RISK'' then Some ''SCHEDULE_MEETING'' else if ty = ''VOC_RISK'' then Some ''RESOLVE_VOC''
      else if ty = ''RENEWAL_RISK'' then Some ''CREATE_RENEWAL'' else if ty = ''DEAL_RISK'' then Some ''ADVANCE_DEAL'' else None)"

definition risk_advice :: "account_facts \<Rightarrow> signal list \<Rightarrow> instant \<Rightarrow> risk \<Rightarrow> recommendation list" where
  "risk_advice a ss now r =
     (if rk_score r < 70 then []
      else case advice_type (rk_type r) of
        None \<Rightarrow> []
      | Some ty \<Rightarrow> [\<lparr>rc_account = af_id a, rc_type = ty, rc_priority = ''HIGH'',
          rc_subject = (if ty = ''SCHEDULE_MEETING'' \<and> of_type ''DECISION_MAKER_MISSING'' ss \<noteq> [] then ''DECISION_MAKER'' else []),
          rc_source_type = ''RISK'', rc_source = [], rc_assignee = af_owner a,
          rc_due = now + (if rk_score r \<ge> 90 then 3 else 7) * day_ns\<rparr>])"

text \<open>The closure \<open>push\<close>: only the first recommendation of a type.\<close>

fun first_of_type :: "string list \<Rightarrow> recommendation list \<Rightarrow> recommendation list" where
  "first_of_type seen [] = []"
| "first_of_type seen (r # rs) =
     (if rc_type r \<in> set seen then first_of_type seen rs else r # first_of_type (rc_type r # seen) rs)"

definition recommend :: "account_facts \<Rightarrow> signal list \<Rightarrow> risk list \<Rightarrow> instant \<Rightarrow> recommendation list" where
  "recommend a ss rs now =
     (let out = first_of_type [] (concat (map (risk_advice a ss now) rs)) in
      out @ (case of_type ''QUOTE_REQUESTED'' ss of
               [] \<Rightarrow> []
             | s # _ \<Rightarrow> if ''ADVANCE_DEAL'' \<in> set (map rc_type out) then []
                 else [\<lparr>rc_account = af_id a, rc_type = ''FOLLOW_UP_QUOTE'', rc_priority = ''MEDIUM'', rc_subject = [],
                   rc_source_type = ''SIGNAL'', rc_source = sg_source s, rc_assignee = af_owner a,
                   rc_due = now + 5 * day_ns\<rparr>]))"

end
