(* ===== verification/Engine.thy ===== *)
theory Engine
  imports Signals
begin

text \<open>
  The intelligence engine (internal/intelligence/engine.go, store.go): it reads facts of every account,
  applies the rules, writes what holds over what is stored, keyed so that nothing is stored twice,
  resolves what no longer holds and records the run. Arguments are the drawn ids, the order in which
  Go visits its maps, and how the driver reads a \<open>numeric\<close> column into an \<open>int\<close>.
\<close>

section \<open>Reading facts\<close>

definition since :: "instant \<Rightarrow> int \<Rightarrow> instant" where
  "since now days = now - days * day_ns"

definition still_open :: "voice_row \<Rightarrow> bool" where
  "still_open v \<longleftrightarrow> v_status v \<notin> {''RESOLVED'', ''CLOSED'', ''REJECTED''}"

text \<open>Aggregates and first rows of the subqueries.\<close>

definition max_of :: "('a :: linorder) list \<Rightarrow> 'a option" where
  "max_of xs = (case xs of [] \<Rightarrow> None | x # ys \<Rightarrow> Some (foldl max x ys))"

definition first_of :: "'a list \<Rightarrow> 'a option" where
  "first_of xs = (case xs of [] \<Rightarrow> None | x # _ \<Rightarrow> Some x)"

definition facts_of_account :: "instant \<Rightarrow> 'z voice_tables_scheme \<Rightarrow> customer_row \<Rightarrow> account_facts" where
  "facts_of_account now t c =
     (let acts = filter (\<lambda>a. ac_customer a = Some (cu_id c)) (activities t);
          ns = filter (\<lambda>n. cn_customer n = cu_id c) (contacts t);
          open_voices = filter (\<lambda>v. v_customer v = cu_id c \<and> sales_signal t v \<and> still_open v) (voices t);
          critical = filter (\<lambda>v. v_severity v = ''CRITICAL'') open_voices;
          quotes = filter (\<lambda>q. qt_customer q = cu_id c \<and> qt_created q \<ge> since now quote_days) (quotations t);
          latest = first_of (sort_desc qt_created quotes)
      in \<lparr>af_id = cu_id c, af_owner = cu_owner c, af_last = max_of (map ac_occurred acts),
          af_recent = count_where (\<lambda>a. ac_occurred a \<ge> since now engagement_days) acts,
          af_prior = count_where (\<lambda>a. since now (engagement_days * 2) \<le> ac_occurred a \<and>
            ac_occurred a < since now engagement_days) acts,
          af_contacts = length ns, af_deciders = count_where cn_decision ns, af_open = length open_voices,
          af_critical = length critical, af_critical_id = case_option [] v_id (first_of (sort_key v_occurred critical)),
          af_quote = case_option [] qt_id latest, af_quote_name = case_option [] qt_title latest\<rparr>)"

definition account_facts_query :: "instant \<Rightarrow> 'z voice_tables_scheme \<Rightarrow> account_facts list" where
  "account_facts_query now t =
     map (facts_of_account now t) (filter (\<lambda>c. cu_active c \<and> cu_merged c = None \<and> sales_account t c) (customers t))"

text \<open>\<open>opportunityFacts\<close>: a row that does not scan ends the query with an error.\<close>

definition facts_of_deal :: "(rat \<Rightarrow> int option) \<Rightarrow> opportunity_row \<times> stage_row \<Rightarrow> deal_facts option" where
  "facts_of_deal read_int = (\<lambda>(x, s).
     map_option (\<lambda>n. \<lparr>df_id = op_id x, df_name = op_name x, df_account = op_customer x, df_stage = st_name s,
       df_entered = op_stage_entered x, df_probability = n, df_amount = op_base x, df_status = op_status x,
       df_close = op_close x\<rparr>) (read_int (op_probability x)))"

definition deals_query :: "'z voice_tables_scheme \<Rightarrow> (opportunity_row \<times> stage_row) list" where
  "deals_query t = List.map_filter (\<lambda>x. map_option (Pair x) (row_by st_id (op_stage x) (stages t)))
     (filter (\<lambda>x. op_status x = ''OPEN'') (opportunities t))"

definition opportunity_facts :: "(rat \<Rightarrow> int option) \<Rightarrow> ('z voice_tables_scheme, 'e, deal_facts list) go" where
  "opportunity_facts read_int =
     and_then (db_query deals_query) (\<lambda>rows.
     case those (map (facts_of_deal read_int) rows) of None \<Rightarrow> raise Db_failed | Some xs \<Rightarrow> ret xs)"

definition contract_facts_query :: "'z voice_tables_scheme \<Rightarrow> contract_facts list" where
  "contract_facts_query t = List.map_filter (\<lambda>c. map_option
       (\<lambda>d. \<lparr>kf_id = ct_id c, kf_title = ct_title c, kf_account = ct_customer c, kf_end = d, kf_renewal = ct_renewal c,
         kf_auto = ct_auto_renew c\<rparr>) (ct_end c))
     (filter (\<lambda>c. ct_status c = ''ACTIVE'') (contracts t))"

section \<open>Writing observations\<close>

text \<open>A loop of upserts that counts the inserted rows; the first argument issues the statement of an index.\<close>

fun count_inserted :: "(nat \<Rightarrow> 'x \<Rightarrow> ('s, 'e, bool) go) \<Rightarrow> nat \<Rightarrow> 'x list \<Rightarrow> nat \<Rightarrow> ('s, 'e, nat) go" where
  "count_inserted f i [] n = ret n"
| "count_inserted f i (x # xs) n =
     and_then (f i x) (\<lambda>fresh. count_inserted f (Suc i) xs (if fresh then Suc n else n))"

definition stored_source :: "string \<Rightarrow> string" where
  "stored_source s = (if blank s then [] else s)"

text \<open>On a conflict the row keeps its account and, when a person ignored it, its status.\<close>

definition refreshed_signal :: "signal \<Rightarrow> instant \<Rightarrow> signal_row \<Rightarrow> signal_row" where
  "refreshed_signal s now r = r
     \<lparr>sg_sentiment := sg_sentiment s, sg_severity := sg_severity s, sg_subject := sg_subject s, sg_evidence := sg_evidence s,
      sg_source_type := sg_source_type s, sg_source := stored_source (sg_source s),
      sg_status := (if sg_status r = ''IGNORED'' then ''IGNORED'' else ''ACTIVE''),
      sg_resolved := (if sg_status r = ''IGNORED'' then sg_resolved r else None), sg_updated := now\<rparr>"

definition new_signal :: "string \<Rightarrow> signal \<Rightarrow> instant \<Rightarrow> signal_row" where
  "new_signal i s now = signal.extend (s\<lparr>sg_source := stored_source (sg_source s)\<rparr>)
     (signal_row.fields i ''ACTIVE'' None (signal_key s) now)"

definition upsert_signal :: "string \<Rightarrow> signal \<Rightarrow> instant \<Rightarrow> 'z intel_tables_scheme \<Rightarrow> ('z intel_tables_scheme \<times> bool) option" where
  "upsert_signal i s now t =
     (if signal_key s \<in> set (keys sg_key (signals t))
      then Some (t\<lparr>signals := update_where (\<lambda>r. sg_key r = signal_key s) (refreshed_signal s now) (signals t)\<rparr>, False)
      else if i \<in> set (keys sg_id (signals t)) \<or> \<not> refers cu_id (customers t) (Some (sg_account s)) then None
      else Some (t\<lparr>signals := signals t @ [new_signal i s now]\<rparr>, True))"

definition persist_signals :: "(nat \<Rightarrow> string) \<Rightarrow> instant \<Rightarrow> signal list \<Rightarrow> ('z intel_tables_scheme, 'e, nat) go" where
  "persist_signals draw now ss = count_inserted (\<lambda>i s. db_exec (upsert_signal (draw i) s now)) 0 ss 0"

definition resolve_stale_signals :: "string list \<Rightarrow> instant \<Rightarrow> 'z intel_tables_scheme \<Rightarrow> ('z intel_tables_scheme \<times> nat) option" where
  "resolve_stale_signals live now t =
     (let P = (\<lambda>r. sg_status r = ''ACTIVE'' \<and> sg_key r \<notin> set live) in
      Some (t\<lparr>signals := update_where P (\<lambda>r. r\<lparr>sg_status := ''RESOLVED'', sg_resolved := Some now, sg_updated := now\<rparr>)
        (signals t)\<rparr>, count_where P (signals t)))"

definition refreshed_risk :: "risk \<Rightarrow> instant \<Rightarrow> risk_row \<Rightarrow> risk_row" where
  "refreshed_risk k now r = r
     \<lparr>rk_score := rk_score k, rk_severity := rk_severity k, rk_subject := rk_subject k, rk_factors := rk_factors k,
      rk_status := (if rk_status r = ''ACCEPTED'' then ''ACCEPTED'' else ''OPEN''),
      rk_resolved := (if rk_status r = ''ACCEPTED'' then rk_resolved r else None), rk_updated := now\<rparr>"

definition new_risk :: "string \<Rightarrow> risk \<Rightarrow> instant \<Rightarrow> risk_row" where
  "new_risk i k now = risk.extend k (risk_row.fields i ''OPEN'' None None [] (risk_key k) now)"

definition upsert_risk :: "string \<Rightarrow> risk \<Rightarrow> instant \<Rightarrow> 'z intel_tables_scheme \<Rightarrow> ('z intel_tables_scheme \<times> bool) option" where
  "upsert_risk i k now t =
     (if risk_key k \<in> set (keys rk_key (risks t))
      then Some (t\<lparr>risks := update_where (\<lambda>r. rk_key r = risk_key k) (refreshed_risk k now) (risks t)\<rparr>, False)
      else if i \<in> set (keys rk_id (risks t)) \<or> \<not> refers cu_id (customers t) (Some (rk_account k)) \<or>
         rk_score k < 0 \<or> rk_score k > 100 then None
      else Some (t\<lparr>risks := risks t @ [new_risk i k now]\<rparr>, True))"

definition persist_risks :: "(nat \<Rightarrow> string) \<Rightarrow> instant \<Rightarrow> risk list \<Rightarrow> ('z intel_tables_scheme, 'e, nat) go" where
  "persist_risks draw now ks = count_inserted (\<lambda>i k. db_exec (upsert_risk (draw i) k now)) 0 ks 0"

definition resolve_stale_risks :: "string list \<Rightarrow> instant \<Rightarrow> 'z intel_tables_scheme \<Rightarrow> ('z intel_tables_scheme \<times> nat) option" where
  "resolve_stale_risks live now t =
     (let P = (\<lambda>r. rk_status r = ''OPEN'' \<and> rk_key r \<notin> set live) in
      Some (t\<lparr>risks := update_where P (\<lambda>r. r\<lparr>rk_status := ''RESOLVED'', rk_resolved := Some now, rk_updated := now\<rparr>)
        (risks t)\<rparr>, count_where P (risks t)))"

section \<open>Writing conclusions\<close>

definition insight_key :: "string \<Rightarrow> string" where
  "insight_key account = ''ENGAGEMENT_DECLINE|ACCOUNT|'' @ account"

definition new_insight :: "string \<Rightarrow> string \<Rightarrow> insight \<Rightarrow> instant \<Rightarrow> insight_row" where
  "new_insight i key x now =
     insight.extend x (insight_row.fields i now (Some (now + 14 * day_ns)) ''ACTIVE'' key)"

definition refreshed_insight :: "insight \<Rightarrow> instant \<Rightarrow> insight_row \<Rightarrow> insight_row" where
  "refreshed_insight x now r = r
     \<lparr>in_negative := in_negative x, in_worst := in_worst x, in_evidence := in_evidence x, in_confidence := in_confidence x,
      in_generated := now, in_expires := Some (now + 14 * day_ns), in_status := ''ACTIVE''\<rparr>"

definition upsert_insight :: "string \<Rightarrow> string \<Rightarrow> insight \<Rightarrow> instant \<Rightarrow> 'z intel_tables_scheme \<Rightarrow> ('z intel_tables_scheme \<times> bool) option" where
  "upsert_insight i key x now t =
     (if key \<in> set (keys in_key (insights t))
      then Some (t\<lparr>insights := update_where (\<lambda>r. in_key r = key) (refreshed_insight x now) (insights t)\<rparr>, False)
      else if i \<in> set (keys in_id (insights t)) \<or> \<not> refers cu_id (customers t) (Some (in_account x)) \<or>
         in_confidence x < 0 \<or> in_confidence x > 100 then None
      else Some (t\<lparr>insights := insights t @ [new_insight i key x now]\<rparr>, True))"

text \<open>An account that was not among the facts is a nil pointer.\<close>

definition persist_insights :: "string \<Rightarrow> account_facts option \<Rightarrow> string \<Rightarrow> signal list \<Rightarrow> risk list \<Rightarrow> instant
    \<Rightarrow> ('z intel_tables_scheme, 'e, nat) go" where
  "persist_insights i a account ss ks now =
     (case build_insight account ss ks of
        None \<Rightarrow> ret 0
      | Some x \<Rightarrow> (case a of
          None \<Rightarrow> raise Panicked
        | Some f \<Rightarrow> and_then (db_exec (upsert_insight i (insight_key (af_id f)) x now)) (\<lambda>fresh. ret (if fresh then 1 else 0))))"

definition expire_insights :: "instant \<Rightarrow> 'z intel_tables_scheme \<Rightarrow> ('z intel_tables_scheme \<times> unit) option" where
  "expire_insights now t =
     Some (t\<lparr>insights := update_where (\<lambda>r. in_status r = ''ACTIVE'' \<and> (case in_expires r of None \<Rightarrow> False | Some e \<Rightarrow> e < now))
       (\<lambda>r. r\<lparr>in_status := ''EXPIRED''\<rparr>) (insights t)\<rparr>, ())"

definition recommendation_key :: "recommendation \<Rightarrow> string" where
  "recommendation_key x = rc_type x @ ''|ACCOUNT|'' @ rc_account x"

definition due_date :: "recommendation \<Rightarrow> date" where
  "due_date x = date_of_day (rc_due x div day_ns)"

definition new_recommendation :: "string \<Rightarrow> recommendation \<Rightarrow> instant \<Rightarrow> recommendation_row" where
  "new_recommendation i x now =
     \<lparr>ro_id = i, ro_account = rc_account x, ro_opportunity = None, ro_type = rc_type x, ro_priority = rc_priority x,
      ro_subject = rc_subject x, ro_source_type = rc_source_type x, ro_source = stored_source (rc_source x),
      ro_assignee = rc_assignee x, ro_due = Some (due_date x), ro_status = ''OPEN'', ro_task = None, ro_decided_by = None,
      ro_decided = None, ro_reason = [], ro_generated = now, ro_key = recommendation_key x, ro_updated = now\<rparr>"

definition refreshed_recommendation :: "recommendation \<Rightarrow> instant \<Rightarrow> recommendation_row \<Rightarrow> recommendation_row" where
  "refreshed_recommendation x now r = r
     \<lparr>ro_priority := rc_priority x, ro_subject := rc_subject x,
      ro_due := (if ro_status r = ''OPEN'' then Some (due_date x) else ro_due r),
      ro_assignee := (if ro_status r = ''OPEN'' then rc_assignee x else ro_assignee r),
      ro_source_type := rc_source_type x, ro_source := stored_source (rc_source x), ro_generated := now, ro_updated := now\<rparr>"

definition upsert_recommendation :: "string \<Rightarrow> recommendation \<Rightarrow> instant \<Rightarrow> 'z intel_tables_scheme
    \<Rightarrow> ('z intel_tables_scheme \<times> bool) option" where
  "upsert_recommendation i x now t =
     (if recommendation_key x \<in> set (keys ro_key (recommendations t))
      then Some (t\<lparr>recommendations := update_where (\<lambda>r. ro_key r = recommendation_key x) (refreshed_recommendation x now)
        (recommendations t)\<rparr>, False)
      else if i \<in> set (keys ro_id (recommendations t)) \<or> \<not> refers cu_id (customers t) (Some (rc_account x)) \<or>
         \<not> refers u_id (users t) (Some (rc_assignee x)) then None
      else Some (t\<lparr>recommendations := recommendations t @ [new_recommendation i x now]\<rparr>, True))"

definition withdraw_advice :: "string \<Rightarrow> string list \<Rightarrow> 'z intel_tables_scheme \<Rightarrow> ('z intel_tables_scheme \<times> unit) option" where
  "withdraw_advice account live t =
     Some (t\<lparr>recommendations := delete_where (\<lambda>r. ro_account r = account \<and> ro_status r = ''OPEN'' \<and> ro_type r \<notin> set live)
       (recommendations t)\<rparr>, ())"

definition persist_recommendations :: "(nat \<Rightarrow> string) \<Rightarrow> account_facts option \<Rightarrow> signal list \<Rightarrow> risk list \<Rightarrow> instant
    \<Rightarrow> ('z intel_tables_scheme, 'e, nat) go" where
  "persist_recommendations draw a ss ks now =
     (case a of
        None \<Rightarrow> raise Panicked
      | Some f \<Rightarrow>
          and_then (count_inserted (\<lambda>i x. db_exec (upsert_recommendation (draw i) x now)) 0 (recommend f ss ks now) 0) (\<lambda>n.
          and_then (db_exec (withdraw_advice (af_id f) (map rc_type (recommend f ss ks now)))) (\<lambda>_. ret n)))"

section \<open>A pass\<close>

text \<open>The order of a \<open>range\<close> over the map of rows by their keys.\<close>

definition visit :: "(string list \<Rightarrow> string list) \<Rightarrow> ('r \<Rightarrow> string) \<Rightarrow> 'r list \<Rightarrow> 'r list" where
  "visit order key rows = List.map_filter (\<lambda>k. row_by key k rows) (order (map key rows))"

definition by_account :: "signal list \<Rightarrow> string \<Rightarrow> signal list" where
  "by_account ss account = filter (\<lambda>s. sg_account s = account) ss"

definition observed :: "(nat \<Rightarrow> string list \<Rightarrow> string list) \<Rightarrow> account_facts list \<Rightarrow> deal_facts list \<Rightarrow> contract_facts list
    \<Rightarrow> instant \<Rightarrow> date \<Rightarrow> signal list" where
  "observed order accounts deals ks now today =
     concat (map (\<lambda>a. account_signals a now) (visit (order 0) af_id accounts)) @
     concat (map (\<lambda>o'. opportunity_signals o' now today) (visit (order 1) df_id deals)) @
     concat (map (\<lambda>c. contract_signals c now today) ks)"

text \<open>The accounts with observations, in the order of a \<open>range\<close> over \<open>byAccount\<close>.\<close>

definition accounts_of :: "(string list \<Rightarrow> string list) \<Rightarrow> signal list \<Rightarrow> string list" where
  "accounts_of order ss = order (remdups (map sg_account ss))"

text \<open>The loop over the accounts that writes insights and recommendations.\<close>

fun conclude :: "(nat \<Rightarrow> nat \<Rightarrow> string) \<Rightarrow> account_facts list \<Rightarrow> signal list \<Rightarrow> (string \<Rightarrow> risk list) \<Rightarrow> instant \<Rightarrow> nat
    \<Rightarrow> string list \<Rightarrow> nat \<times> nat \<Rightarrow> ('z intel_tables_scheme, intel_error, nat \<times> nat) go" where
  "conclude draw accounts ss ks now i [] n = ret n"
| "conclude draw accounts ss ks now i (account # rest) n =
     and_then (persist_insights (draw 2 i) (row_by af_id account accounts) account (by_account ss account) (ks account) now) (\<lambda>a.
     and_then (persist_recommendations (draw (3 + i)) (row_by af_id account accounts) (by_account ss account) (ks account) now) (\<lambda>b.
     conclude draw accounts ss ks now (Suc i) rest (fst n + a, snd n + b)))"

text \<open>\<open>if err != nil { return summary, err }\<close>; a panic is not an error value.\<close>

definition summed :: "run_row \<Rightarrow> ('s, 'e, 'a) go \<Rightarrow> ('a \<Rightarrow> ('s, 'e, run_row \<times> 'e err option) go)
    \<Rightarrow> ('s, 'e, run_row \<times> 'e err option) go" where
  "summed summary m k =
     and_then (call_result m) (\<lambda>r. case r of
       Inl e \<Rightarrow> (case e of Panicked \<Rightarrow> raise Panicked | _ \<Rightarrow> ret (summary, Some e))
     | Inr x \<Rightarrow> k x)"

definition scan :: "(rat \<Rightarrow> int option) \<Rightarrow> (nat \<Rightarrow> string list \<Rightarrow> string list) \<Rightarrow> (nat \<Rightarrow> nat \<Rightarrow> string) \<Rightarrow> date \<Rightarrow> instant
    \<Rightarrow> run_row \<Rightarrow> ('z intel_tables_scheme, intel_error, run_row \<times> intel_error err option) go" where
  "scan read_int order draw today now s =
     summed s (db_query (account_facts_query now)) (\<lambda>accounts.
     let s = s\<lparr>rn_accounts := length accounts\<rparr> in
     summed s (opportunity_facts read_int) (\<lambda>deals.
     summed s (db_query contract_facts_query) (\<lambda>ks.
     let ss = observed order accounts deals ks now today in
     summed s (persist_signals (draw 0) now (concat (map (by_account ss) (accounts_of (order 2) ss)))) (\<lambda>n.
     let s = s\<lparr>rn_opened := n\<rparr> in
     summed s (db_exec (resolve_stale_signals (map signal_key ss) now)) (\<lambda>n.
     let s = s\<lparr>rn_resolved := n\<rparr>; scored = (\<lambda>account. score_risks account (by_account ss account) deals now);
         judged = filter (\<lambda>account. scored account \<noteq> []) (accounts_of (order 3) ss) in
     summed s (persist_risks (draw 1) now (concat (map scored (order 4 judged)))) (\<lambda>n.
     let s = s\<lparr>rn_risks_opened := n\<rparr> in
     summed s (db_exec (resolve_stale_risks (map risk_key (concat (map scored judged))) now)) (\<lambda>n.
     let s = s\<lparr>rn_risks_resolved := n\<rparr> in
     summed s (conclude draw accounts ss scored now 0 (accounts_of (order 5) ss) (0, 0)) (\<lambda>(n, m).
     let s = s\<lparr>rn_insights := n, rn_recommendations := m\<rparr> in
     summed s (db_exec (expire_insights now)) (\<lambda>_. ret (s, None))))))))))"

section \<open>Runs\<close>

definition new_run :: "string \<Rightarrow> string \<Rightarrow> string \<Rightarrow> instant \<Rightarrow> run_row" where
  "new_run rid trigger actor now =
     \<lparr>rn_id = rid, rn_started = now, rn_finished = None, rn_trigger = trigger,
      rn_by = (if blank actor then None else Some actor), rn_accounts = 0, rn_opened = 0, rn_resolved = 0,
      rn_risks_opened = 0, rn_risks_resolved = 0, rn_insights = 0, rn_recommendations = 0, rn_failed = False\<rparr>"

definition insert_run :: "run_row \<Rightarrow> 'z intel_tables_scheme \<Rightarrow> ('z intel_tables_scheme \<times> unit) option" where
  "insert_run r t =
     (if rn_id r \<in> set (keys rn_id (runs t)) \<or> rn_trigger r \<notin> {''SCHEDULE'', ''MANUAL'', ''STARTUP''} \<or>
         \<not> refers u_id (users t) (rn_by r) then None
      else Some (t\<lparr>runs := runs t @ [r]\<rparr>, ()))"

definition finish_run :: "run_row \<Rightarrow> 'z intel_tables_scheme \<Rightarrow> ('z intel_tables_scheme \<times> unit) option" where
  "finish_run s t =
     Some (t\<lparr>runs := update_where (\<lambda>r. rn_id r = rn_id s) (\<lambda>r. r\<lparr>rn_finished := rn_finished s, rn_accounts := rn_accounts s,
       rn_opened := rn_opened s, rn_resolved := rn_resolved s, rn_risks_opened := rn_risks_opened s,
       rn_risks_resolved := rn_risks_resolved s, rn_insights := rn_insights s, rn_recommendations := rn_recommendations s,
       rn_failed := rn_failed s\<rparr>) (runs t)\<rparr>, ())"

definition run_engine :: "(rat \<Rightarrow> int option) \<Rightarrow> (nat \<Rightarrow> string list \<Rightarrow> string list) \<Rightarrow> (nat \<Rightarrow> nat \<Rightarrow> string) \<Rightarrow> string
    \<Rightarrow> string \<Rightarrow> string \<Rightarrow> date \<Rightarrow> instant \<Rightarrow> ('z intel_tables_scheme, intel_error, run_row) go" where
  "run_engine read_int order draw rid trigger actor today now =
     (let run = new_run rid trigger actor now in
      and_then (db_exec (insert_run run)) (\<lambda>_.
      and_then (scan read_int order draw today now run) (\<lambda>(s, failure).
      let s = s\<lparr>rn_finished := Some now, rn_failed := (failure \<noteq> None)\<rparr> in
      and_then (call_result (db_exec (finish_run s))) (\<lambda>r.
      case failure of
        Some e \<Rightarrow> raise e
      | None \<Rightarrow> (case r of Inl e \<Rightarrow> raise e | Inr _ \<Rightarrow> ret s)))))"

definition run_intelligence :: "(rat \<Rightarrow> int option) \<Rightarrow> (nat \<Rightarrow> string list \<Rightarrow> string list) \<Rightarrow> (nat \<Rightarrow> nat \<Rightarrow> string) \<Rightarrow> principal
    \<Rightarrow> string \<Rightarrow> string \<Rightarrow> date \<Rightarrow> instant \<Rightarrow> ('z intel_tables_scheme, intel_error, run_row) go" where
  "run_intelligence read_int order draw p rid trigger today now =
     and_then (require p ''intelligence:run'') (\<lambda>_. run_engine read_int order draw rid trigger (user_id p) today now)"

definition last_run :: "('z intel_tables_scheme, intel_error, run_row option) go" where
  "last_run = db_query (\<lambda>t. first_of (sort_desc rn_started (runs t)))"

text \<open>The scheduler's entry: not when switched off, and not before the interval since the last finished run.\<close>

definition auto_settings :: "'z intel_tables_scheme \<Rightarrow> (bool \<times> int) option" where
  "auto_settings t =
     (case (case setting ''intelligence'' ''auto_analyze_enabled'' t of None \<Rightarrow> Some True | Some r \<Rightarrow> text_bool r) of
        None \<Rightarrow> None
      | Some enabled \<Rightarrow> map_option (Pair enabled)
          (case setting ''intelligence'' ''auto_analyze_minutes'' t of None \<Rightarrow> Some 15 | Some r \<Rightarrow> text_int r))"

definition run_due :: "int \<Rightarrow> instant \<Rightarrow> 'z intel_tables_scheme \<Rightarrow> bool" where
  "run_due mins now t =
     (\<not> list_ex (\<lambda>r. case rn_finished r of None \<Rightarrow> False | Some f \<Rightarrow> f > now - mins * minute_ns) (runs t))"

definition run_if_due :: "(rat \<Rightarrow> int option) \<Rightarrow> (nat \<Rightarrow> string list \<Rightarrow> string list) \<Rightarrow> (nat \<Rightarrow> nat \<Rightarrow> string) \<Rightarrow> string
    \<Rightarrow> date \<Rightarrow> instant \<Rightarrow> ('z intel_tables_scheme, intel_error, unit) go" where
  "run_if_due read_int order draw rid today now =
     and_then (db_query auto_settings) (\<lambda>r.
     case r of
       None \<Rightarrow> raise Db_failed
     | Some (enabled, mins) \<Rightarrow>
         if \<not> enabled then ret ()
         else
           let mins = (if mins < 1 then 15 else mins) in
           and_then (db_query (run_due mins now)) (\<lambda>due.
           if \<not> due then ret ()
           else and_then (run_engine read_int order draw rid ''SCHEDULE'' [] today now) (\<lambda>_. ret ())))"

end
