(* ===== verification/Decisions.thy ===== *)
theory Decisions
  imports Engine
begin

text \<open>
  Reading intelligence and deciding on it (internal/intelligence/queries.go): lists of signals, risks,
  insights and recommendations in the caller's data scope, one record by its id through the same
  query, and what a person may answer: accept or dismiss a recommendation, accept a risk, ignore a
  signal. Texts of the answers are left out where the rows leave them out.
\<close>

section \<open>Lists\<close>

text \<open>Every query joins the customer under \<open>ScopeSQL\<close>.\<close>

definition sees_account :: "principal \<Rightarrow> 'z crm_tables_scheme \<Rightarrow> string \<Rightarrow> bool" where
  "sees_account p t account =
     (case row_by cu_id account (customers t) of None \<Rightarrow> False | Some c \<Rightarrow> in_scope p t (cu_owner c) (cu_org c))"

definition clamp_limit :: "int \<Rightarrow> int" where
  "clamp_limit n = (if n < 1 \<or> n > 200 then 50 else n)"

definition status_or :: "string \<Rightarrow> string \<Rightarrow> string" where
  "status_or v fallback = (let s = to_upper (trim_space v) in if s = [] then fallback else s)"

text \<open>\<open>\<dots>='' OR column=\<dots>\<close> and the same for a status, where \<open>ALL\<close> does not narrow.\<close>

definition narrows :: "string \<Rightarrow> string \<Rightarrow> bool" where
  "narrows f v \<longleftrightarrow> f = [] \<or> v = f"

definition narrows_status :: "string \<Rightarrow> string \<Rightarrow> bool" where
  "narrows_status f v \<longleftrightarrow> f = ''ALL'' \<or> v = f"

record signal_filter =
  sf_id :: string
  sf_account :: string
  sf_entity_type :: string
  sf_entity :: string
  sf_type :: string
  sf_severity :: string
  sf_sentiment :: string
  sf_status :: string
  sf_limit :: int

definition no_signal_filter :: signal_filter where
  "no_signal_filter = \<lparr>sf_id = [], sf_account = [], sf_entity_type = [], sf_entity = [], sf_type = [], sf_severity = [],
     sf_sentiment = [], sf_status = [], sf_limit = 0\<rparr>"

definition lists_signal :: "principal \<Rightarrow> signal_filter \<Rightarrow> 'z intel_tables_scheme \<Rightarrow> signal_row \<Rightarrow> bool" where
  "lists_signal p f t g \<longleftrightarrow>
     sees_account p t (sg_account g) \<and> narrows (sf_account f) (sg_account g) \<and>
     narrows (to_upper (sf_entity_type f)) (sg_entity_type g) \<and> narrows (sf_entity f) (sg_entity g) \<and>
     narrows (to_upper (sf_type f)) (sg_type g) \<and> narrows (to_upper (sf_severity f)) (sg_severity g) \<and>
     narrows (to_upper (sf_sentiment f)) (sg_sentiment g) \<and> narrows_status (status_or (sf_status f) ''ACTIVE'') (sg_status g) \<and>
     narrows (trim_space (sf_id f)) (sg_id g)"

definition list_signals :: "principal \<Rightarrow> signal_filter \<Rightarrow> ('z intel_tables_scheme, 'e, signal_row list) go" where
  "list_signals p f =
     and_then (require p ''intelligence:read'') (\<lambda>_.
     db_query (\<lambda>t. take (nat (clamp_limit (sf_limit f))) (sort_desc (severity_rank \<circ> sg_severity) (sort_desc sg_detected
       (filter (lists_signal p f t) (signals t))))))"

text \<open>One record is the first row of a list narrowed to its id.\<close>

definition first_or :: "'e \<Rightarrow> 'a list \<Rightarrow> ('s, 'e, 'a) go" where
  "first_or e xs = (case xs of [] \<Rightarrow> raise (App e) | x # _ \<Rightarrow> ret x)"

definition get_signal :: "principal \<Rightarrow> string \<Rightarrow> ('z intel_tables_scheme, intel_error, signal_row) go" where
  "get_signal p i =
     and_then (list_signals p (no_signal_filter\<lparr>sf_id := i, sf_status := ''ALL'', sf_limit := 1\<rparr>)) (first_or Signal_missing)"

record risk_filter =
  kf_risk_id :: string
  kf_risk_account :: string
  kf_entity_type :: string
  kf_entity :: string
  kf_type :: string
  kf_severity :: string
  kf_status :: string
  kf_least :: int
  kf_limit :: int

definition no_risk_filter :: risk_filter where
  "no_risk_filter = \<lparr>kf_risk_id = [], kf_risk_account = [], kf_entity_type = [], kf_entity = [], kf_type = [], kf_severity = [],
     kf_status = [], kf_least = 0, kf_limit = 0\<rparr>"

definition lists_risk :: "principal \<Rightarrow> risk_filter \<Rightarrow> 'z intel_tables_scheme \<Rightarrow> risk_row \<Rightarrow> bool" where
  "lists_risk p f t r \<longleftrightarrow>
     sees_account p t (rk_account r) \<and> narrows (kf_risk_account f) (rk_account r) \<and>
     narrows (to_upper (kf_entity_type f)) (rk_entity_type r) \<and> narrows (kf_entity f) (rk_entity r) \<and>
     narrows (to_upper (kf_type f)) (rk_type r) \<and> narrows (to_upper (kf_severity f)) (rk_severity r) \<and>
     narrows_status (status_or (kf_status f) ''OPEN'') (rk_status r) \<and> rk_score r \<ge> kf_least f \<and>
     narrows (trim_space (kf_risk_id f)) (rk_id r)"

definition list_risks :: "principal \<Rightarrow> risk_filter \<Rightarrow> ('z intel_tables_scheme, 'e, risk_row list) go" where
  "list_risks p f =
     and_then (require p ''intelligence:read'') (\<lambda>_.
     db_query (\<lambda>t. take (nat (clamp_limit (kf_limit f))) (sort_desc rk_score (sort_desc rk_detected
       (filter (lists_risk p f t) (risks t))))))"

definition get_risk :: "principal \<Rightarrow> string \<Rightarrow> ('z intel_tables_scheme, intel_error, risk_row) go" where
  "get_risk p i =
     and_then (list_risks p (no_risk_filter\<lparr>kf_risk_id := i, kf_status := ''ALL'', kf_limit := 1\<rparr>)) (first_or Risk_missing)"

text \<open>The score restated: its factors, and the active signals of those types.\<close>

definition explain_risk :: "principal \<Rightarrow> string
    \<Rightarrow> ('z intel_tables_scheme, intel_error, risk_row \<times> (string \<times> int) list \<times> signal_row list) go" where
  "explain_risk p i =
     and_then (get_risk p i) (\<lambda>r.
     and_then (list_signals p (no_signal_filter\<lparr>sf_account := rk_account r, sf_limit := 50\<rparr>)) (\<lambda>ss.
     ret (r, map (\<lambda>f. (rf_signal f, rf_points f)) (rk_factors r),
       filter (\<lambda>s. sg_type s \<in> set (map rf_signal (rk_factors r))) ss)))"

record insight_filter =
  if_id :: string
  if_account :: string
  if_type :: string
  if_status :: string
  if_limit :: int

definition lists_insight :: "principal \<Rightarrow> insight_filter \<Rightarrow> 'z intel_tables_scheme \<Rightarrow> insight_row \<Rightarrow> bool" where
  "lists_insight p f t i \<longleftrightarrow>
     sees_account p t (in_account i) \<and> narrows (if_account f) (in_account i) \<and> narrows (to_upper (if_type f)) (in_type i) \<and>
     narrows_status (status_or (if_status f) ''ACTIVE'') (in_status i) \<and> narrows (trim_space (if_id f)) (in_id i)"

definition list_insights :: "principal \<Rightarrow> insight_filter \<Rightarrow> ('z intel_tables_scheme, 'e, insight_row list) go" where
  "list_insights p f =
     and_then (require p ''intelligence:read'') (\<lambda>_.
     db_query (\<lambda>t. take (nat (clamp_limit (if_limit f))) (sort_desc in_generated (filter (lists_insight p f t) (insights t)))))"

definition get_insight :: "principal \<Rightarrow> string \<Rightarrow> ('z intel_tables_scheme, intel_error, insight_row) go" where
  "get_insight p i =
     and_then (list_insights p \<lparr>if_id = i, if_account = [], if_type = [], if_status = ''ALL'', if_limit = 1\<rparr>) (first_or Insight_missing)"

record recommendation_filter =
  mf_id :: string
  mf_account :: string
  mf_opportunity :: string
  mf_assignee :: string
  mf_mine :: bool
  mf_priority :: string
  mf_status :: string
  mf_limit :: int

definition no_recommendation_filter :: recommendation_filter where
  "no_recommendation_filter = \<lparr>mf_id = [], mf_account = [], mf_opportunity = [], mf_assignee = [], mf_mine = False,
     mf_priority = [], mf_status = [], mf_limit = 0\<rparr>"

definition lists_recommendation :: "principal \<Rightarrow> recommendation_filter \<Rightarrow> 'z intel_tables_scheme \<Rightarrow> recommendation_row \<Rightarrow> bool" where
  "lists_recommendation p f t n \<longleftrightarrow>
     sees_account p t (ro_account n) \<and> refers u_id (users t) (Some (ro_assignee n)) \<and>
     narrows (mf_account f) (ro_account n) \<and> (mf_opportunity f = [] \<or> ro_opportunity n = Some (mf_opportunity f)) \<and>
     narrows (if mf_mine f then user_id p else mf_assignee f) (ro_assignee n) \<and>
     narrows (to_upper (mf_priority f)) (ro_priority n) \<and> narrows_status (status_or (mf_status f) ''OPEN'') (ro_status n) \<and>
     narrows (trim_space (mf_id f)) (ro_id n)"

definition priority_order :: "recommendation_row \<Rightarrow> int" where
  "priority_order n = (if ro_priority n = ''HIGH'' then 0 else if ro_priority n = ''MEDIUM'' then 1 else 2)"

definition by_due :: "recommendation_row \<Rightarrow> recommendation_row \<Rightarrow> bool" where
  "by_due a b = (case (ro_due a, ro_due b) of (Some x, Some y) \<Rightarrow> x \<le> y | (None, Some _) \<Rightarrow> False | _ \<Rightarrow> True)"

definition list_recommendations :: "principal \<Rightarrow> recommendation_filter \<Rightarrow> ('z intel_tables_scheme, 'e, recommendation_row list) go" where
  "list_recommendations p f =
     and_then (require p ''intelligence:read'') (\<lambda>_.
     db_query (\<lambda>t. take (nat (clamp_limit (mf_limit f))) (sort_key priority_order (sort_by by_due (sort_desc ro_generated
       (filter (lists_recommendation p f t) (recommendations t)))))))"

definition get_recommendation :: "principal \<Rightarrow> string \<Rightarrow> ('z intel_tables_scheme, intel_error, recommendation_row) go" where
  "get_recommendation p i =
     and_then (list_recommendations p (no_recommendation_filter\<lparr>mf_id := i, mf_status := ''ALL'', mf_limit := 1\<rparr>))
       (first_or Recommendation_missing)"

section \<open>Answers\<close>

definition intel_audit :: "principal \<Rightarrow> string \<Rightarrow> client_info \<Rightarrow> string \<Rightarrow> string \<Rightarrow> string \<Rightarrow> ('z intel_tables_scheme, 'e, unit) go" where
  "intel_audit p channel ci action resource rid = crm_audit p channel ci (action @ ''_'' @ to_upper resource) resource rid"

definition insert_task :: "string \<Rightarrow> task_row \<Rightarrow> 'z intel_tables_scheme \<Rightarrow> ('z intel_tables_scheme \<times> unit) option" where
  "insert_task actor k t =
     (if tk_id k \<in> set (keys tk_id (tasks t)) \<or> \<not> refers cu_id (customers t) (tk_customer k) \<or>
         \<not> refers op_id (opportunities t) (tk_opportunity k) \<or> \<not> refers u_id (users t) (Some (tk_assignee k)) \<or>
         \<not> refers u_id (users t) (Some actor) then None
      else Some (t\<lparr>tasks := tasks t @ [k]\<rparr>, ()))"

definition accepted_recommendation :: "string \<Rightarrow> string \<Rightarrow> string \<Rightarrow> string \<Rightarrow> instant option \<Rightarrow> instant \<Rightarrow> 'z intel_tables_scheme
    \<Rightarrow> ('z intel_tables_scheme \<times> unit) option" where
  "accepted_recommendation i kid actor assignee due now t =
     (if list_ex (\<lambda>r. ro_id r = i) (recommendations t) \<and>
         (\<not> refers tk_id (tasks t) (Some kid) \<or> \<not> refers u_id (users t) (Some actor) \<or> \<not> refers u_id (users t) (Some assignee)) then None
      else Some (t\<lparr>recommendations := update_where (\<lambda>r. ro_id r = i) (\<lambda>r. r\<lparr>ro_status := ''ACCEPTED'', ro_task := Some kid,
        ro_decided_by := Some actor, ro_decided := Some now, ro_assignee := assignee,
        ro_due := map_option (\<lambda>d. date_of_day (d div day_ns)) due, ro_updated := now\<rparr>) (recommendations t)\<rparr>, ()))"

text \<open>The task and the answer are written in one transaction; the title of the task is the recommendation's.\<close>

definition accept_recommendation :: "principal \<Rightarrow> string \<Rightarrow> string \<Rightarrow> instant option \<Rightarrow> string \<Rightarrow> client_info \<Rightarrow> string \<Rightarrow> instant
    \<Rightarrow> ('z intel_tables_scheme, intel_error, recommendation_row) go" where
  "accept_recommendation p i assignee given channel ci kid now =
     and_then (require p ''intelligence:write'') (\<lambda>_.
     and_then (get_recommendation p i) (\<lambda>before.
     and_then (check (ro_status before = ''OPEN'') (Already_answered (ro_status before))) (\<lambda>_.
     let assignee = (if blank assignee then ro_assignee before else trim_space assignee);
         due = (case given of Some d \<Rightarrow> Some d | None \<Rightarrow> map_option (\<lambda>d. day_number d * day_ns) (ro_due before)) in
     and_then (in_tx (and_then (tx_exec (insert_task (user_id p)
          \<lparr>tk_id = kid, tk_customer = Some (ro_account before), tk_opportunity = ro_opportunity before, tk_title = ro_type before,
           tk_due = due, tk_status = ''OPEN'', tk_priority = (if ro_priority before = ''HIGH'' then ''HIGH'' else ''NORMAL''),
           tk_assignee = assignee, tk_org = None\<rparr>)) (\<lambda>_.
        tx_exec (accepted_recommendation i kid (user_id p) assignee due now)))) (\<lambda>_.
     and_then (get_recommendation p i) (\<lambda>after.
     and_then (intel_audit p channel ci ''ACCEPT'' ''recommendation'' i) (\<lambda>_. ret after))))))"

definition dismiss_recommendation :: "principal \<Rightarrow> string \<Rightarrow> string \<Rightarrow> string \<Rightarrow> client_info \<Rightarrow> instant
    \<Rightarrow> ('z intel_tables_scheme, intel_error, recommendation_row) go" where
  "dismiss_recommendation p i reason channel ci now =
     and_then (require p ''intelligence:write'') (\<lambda>_.
     and_then (check (\<not> blank reason) Reason_missing) (\<lambda>_.
     and_then (get_recommendation p i) (\<lambda>before.
     and_then (check (ro_status before = ''OPEN'') (Already_answered (ro_status before))) (\<lambda>_.
     and_then (db_exec (writes (\<lambda>t. t\<lparr>recommendations := update_where (\<lambda>r. ro_id r = i) (\<lambda>r. r\<lparr>ro_status := ''DISMISSED'',
        ro_reason := trim_space reason, ro_decided_by := Some (user_id p), ro_decided := Some now, ro_updated := now\<rparr>)
        (recommendations t)\<rparr>))) (\<lambda>_.
     and_then (get_recommendation p i) (\<lambda>after.
     and_then (intel_audit p channel ci ''DISMISS'' ''recommendation'' i) (\<lambda>_. ret after)))))))"

definition accept_risk :: "principal \<Rightarrow> string \<Rightarrow> string \<Rightarrow> string \<Rightarrow> client_info \<Rightarrow> instant
    \<Rightarrow> ('z intel_tables_scheme, intel_error, risk_row) go" where
  "accept_risk p i given channel ci now =
     and_then (require p ''intelligence:write'') (\<lambda>_.
     and_then (check (\<not> blank given) Reason_missing) (\<lambda>_.
     and_then (get_risk p i) (\<lambda>before.
     and_then (db_exec (writes (\<lambda>t. t\<lparr>risks := update_where (\<lambda>r. rk_id r = i) (\<lambda>r. r\<lparr>rk_status := ''ACCEPTED'',
        rk_accepted_by := Some (user_id p), rk_note := trim_space given, rk_updated := now\<rparr>) (risks t)\<rparr>))) (\<lambda>_.
     and_then (get_risk p i) (\<lambda>after.
     and_then (intel_audit p channel ci ''ACCEPT'' ''risk'' i) (\<lambda>_. ret after))))))"

definition ignore_signal :: "principal \<Rightarrow> string \<Rightarrow> string \<Rightarrow> client_info \<Rightarrow> instant
    \<Rightarrow> ('z intel_tables_scheme, intel_error, signal_row) go" where
  "ignore_signal p i channel ci now =
     and_then (require p ''intelligence:write'') (\<lambda>_.
     and_then (get_signal p i) (\<lambda>before.
     and_then (db_exec (writes (\<lambda>t. t\<lparr>signals := update_where (\<lambda>r. sg_id r = i) (\<lambda>r. r\<lparr>sg_status := ''IGNORED'',
        sg_resolved := Some now, sg_updated := now\<rparr>) (signals t)\<rparr>))) (\<lambda>_.
     and_then (get_signal p i) (\<lambda>after.
     and_then (intel_audit p channel ci ''IGNORE'' ''signal'' i) (\<lambda>_. ret after)))))"

section \<open>The panel of an account\<close>

record account_panel =
  ai_account :: string
  ai_score :: int
  ai_severity :: string
  ai_signals :: "signal_row list"
  ai_risks :: "risk_row list"
  ai_insights :: "insight_row list"
  ai_recommendations :: "recommendation_row list"
  ai_analyzed :: "instant option"

text \<open>\<open>filterSignals\<close> and \<open>filterRisks\<close>: what is about another deal is left out.\<close>

definition about_deal :: "string \<Rightarrow> string \<Rightarrow> string \<Rightarrow> bool" where
  "about_deal oid entity_type entity \<longleftrightarrow> oid = [] \<or> entity_type \<noteq> ''OPPORTUNITY'' \<or> entity = oid"

definition account_intelligence :: "principal \<Rightarrow> string \<Rightarrow> string \<Rightarrow> ('z intel_tables_scheme, intel_error, account_panel) go" where
  "account_intelligence p account oid =
     and_then (require p ''intelligence:read'') (\<lambda>_.
     and_then (list_signals p (no_signal_filter\<lparr>sf_account := account, sf_limit := 50\<rparr>)) (\<lambda>ss.
     and_then (list_risks p (no_risk_filter\<lparr>kf_risk_account := account, kf_status := ''ALL'', kf_limit := 50\<rparr>)) (\<lambda>ks.
     and_then (list_insights p \<lparr>if_id = [], if_account = account, if_type = [], if_status = [], if_limit = 20\<rparr>) (\<lambda>is.
     and_then (list_recommendations p (no_recommendation_filter\<lparr>mf_account := account, mf_limit := 20\<rparr>)) (\<lambda>rs.
     let shown = filter (\<lambda>k. rk_status k \<noteq> ''RESOLVED'') (filter (\<lambda>k. about_deal oid (rk_entity_type k) (rk_entity k)) ks);
         score = foldl max 0 (map rk_score shown) in
     and_then (or_default None last_run) (\<lambda>run.
     ret \<lparr>ai_account = account, ai_score = score, ai_severity = severity_for_score score,
       ai_signals = filter (\<lambda>s. about_deal oid (sg_entity_type s) (sg_entity s)) ss, ai_risks = shown, ai_insights = is,
       ai_recommendations = rs, ai_analyzed = Option.bind run rn_finished\<rparr>))))))"

end
