(* ===== verification/Engine_Facts.thy ===== *)
theory Engine_Facts
  imports Decisions
begin

text \<open>
  What the intelligence engine guarantees, with any faults and other sessions at work: what a person
  decided stands.
\<close>

section \<open>Decisions in a table\<close>

text \<open>Every decided row of the earlier table is still there, under its id and key, and still decided.\<close>

definition stands :: "('r \<Rightarrow> string) \<Rightarrow> ('r \<Rightarrow> string) \<Rightarrow> ('r \<Rightarrow> bool) \<Rightarrow> 'r list \<Rightarrow> 'r list \<Rightarrow> bool" where
  "stands ident key decided xs ys \<longleftrightarrow>
     (\<forall>r \<in> set xs. decided r \<longrightarrow> (\<exists>r' \<in> set ys. ident r' = ident r \<and> key r' = key r \<and> decided r'))"

lemma stands_refl [simp]: "stands ident key decided xs xs"
  by (auto simp: stands_def)

lemma stands_trans: "stands ident key decided xs ys \<Longrightarrow> stands ident key decided ys zs \<Longrightarrow> stands ident key decided xs zs"
  unfolding stands_def by metis

lemma stands_append [simp]: "stands ident key decided xs (xs @ ys)"
  by (auto simp: stands_def)

lemma stands_update:
  assumes "\<And>r. r \<in> set xs \<Longrightarrow> P r \<Longrightarrow> decided r \<Longrightarrow> ident (f r) = ident r \<and> key (f r) = key r \<and> decided (f r)"
  shows "stands ident key decided xs (update_where P f xs)"
  unfolding stands_def
proof (intro ballI impI)
  fix r assume r: "r \<in> set xs" "decided r"
  show "\<exists>r' \<in> set (update_where P f xs). ident r' = ident r \<and> key r' = key r \<and> decided r'"
    using r assms [OF r(1)] by (intro bexI [of _ "if P r then f r else r"]) (auto simp: set_update_where)
qed

lemma stands_delete:
  assumes "\<And>r. r \<in> set xs \<Longrightarrow> P r \<Longrightarrow> \<not> decided r"
  shows "stands ident key decided xs (delete_where P xs)"
  using assms by (auto simp: stands_def delete_where_def)

definition ignored :: "signal_row \<Rightarrow> bool" where "ignored r \<longleftrightarrow> sg_status r = ''IGNORED''"
definition accepted :: "risk_row \<Rightarrow> bool" where "accepted r \<longleftrightarrow> rk_status r = ''ACCEPTED''"
definition answered :: "recommendation_row \<Rightarrow> bool" where "answered r \<longleftrightarrow> ro_status r \<noteq> ''OPEN''"

definition decisions_stand :: "'z intel_tables_scheme \<Rightarrow> 'z intel_tables_scheme \<Rightarrow> bool" where
  "decisions_stand t u \<longleftrightarrow>
     stands sg_id sg_key ignored (signals t) (signals u) \<and> stands rk_id rk_key accepted (risks t) (risks u) \<and>
     stands ro_id ro_key answered (recommendations t) (recommendations u)"

lemmas decided_defs = ignored_def accepted_def answered_def

lemma decisions_refl [simp]: "decisions_stand t t"
  by (simp add: decisions_stand_def)

lemma decisions_trans: "decisions_stand t u \<Longrightarrow> decisions_stand u v \<Longrightarrow> decisions_stand t v"
  unfolding decisions_stand_def by (blast intro: stands_trans)

lemma decisions_same:
  "signals u = signals t \<Longrightarrow> risks u = risks t \<Longrightarrow> recommendations u = recommendations t \<Longrightarrow> decisions_stand t u"
  by (simp add: decisions_stand_def)

interpretation dh: shared_history decisions_stand decisions_stand decisions_stand
  by unfold_locales (auto intro: decisions_trans)

section \<open>Every statement keeps decisions\<close>

lemma upsert_signal_stands: "upsert_signal i s now t = Some (u, b) \<Longrightarrow> decisions_stand t u"
  by (auto simp: upsert_signal_def decisions_stand_def refreshed_signal_def decided_defs intro!: stands_update split: if_splits)

lemma upsert_risk_stands: "upsert_risk i k now t = Some (u, b) \<Longrightarrow> decisions_stand t u"
  by (auto simp: upsert_risk_def decisions_stand_def refreshed_risk_def decided_defs intro!: stands_update split: if_splits)

lemma upsert_insight_stands: "upsert_insight i key x now t = Some (u, b) \<Longrightarrow> decisions_stand t u"
  by (auto simp: upsert_insight_def intro!: decisions_same split: if_splits)

lemma upsert_recommendation_stands: "upsert_recommendation i x now t = Some (u, b) \<Longrightarrow> decisions_stand t u"
  by (auto simp: upsert_recommendation_def decisions_stand_def refreshed_recommendation_def decided_defs
      intro!: stands_update split: if_splits)

lemma resolve_signals_stands: "resolve_stale_signals live now t = Some (u, n) \<Longrightarrow> decisions_stand t u"
  by (auto simp: resolve_stale_signals_def Let_def decisions_stand_def decided_defs intro!: stands_update)

lemma resolve_risks_stands: "resolve_stale_risks live now t = Some (u, n) \<Longrightarrow> decisions_stand t u"
  by (auto simp: resolve_stale_risks_def Let_def decisions_stand_def decided_defs intro!: stands_update)

lemma withdraw_stands: "withdraw_advice account live t = Some (u, x) \<Longrightarrow> decisions_stand t u"
  by (auto simp: withdraw_advice_def decisions_stand_def decided_defs intro!: stands_delete)

lemma expire_stands: "expire_insights now t = Some (u, x) \<Longrightarrow> decisions_stand t u"
  by (auto simp: expire_insights_def intro!: decisions_same)

lemma run_rows_stand:
  "insert_run r t = Some (u, x) \<Longrightarrow> decisions_stand t u" "finish_run r t = Some (u, y) \<Longrightarrow> decisions_stand t u"
  by (auto simp: insert_run_def finish_run_def intro!: decisions_same split: if_splits)

lemma accepted_stands: "accepted_recommendation i kid actor assignee due now t = Some (u, x) \<Longrightarrow> decisions_stand t u"
  by (auto simp: accepted_recommendation_def decisions_stand_def decided_defs intro!: stands_update split: if_splits)

lemma insert_task_stands: "insert_task actor k t = Some (u, x) \<Longrightarrow> decisions_stand t u"
  by (auto simp: insert_task_def intro!: decisions_same split: if_splits)

lemmas statement_stands = upsert_signal_stands upsert_risk_stands upsert_insight_stands upsert_recommendation_stands
  resolve_signals_stands resolve_risks_stands withdraw_stands expire_stands run_rows_stand

section \<open>Every operation keeps decisions\<close>

abbreviation decides_only :: "('z intel_tables_scheme, 'e, 'a) go \<Rightarrow> bool" where
  "decides_only \<equiv> keeps decisions_stand decisions_stand"

lemma keeps_count_inserted:
  assumes "\<And>i x. keeps R G (f i x)"
  shows "keeps R G (count_inserted f i xs n)"
  by (induction xs arbitrary: i n) (auto intro!: keeps_then keeps_ret assms)

lemma keeps_summed:
  assumes "keeps R G m" and "\<And>x. keeps R G (k x)"
  shows "keeps R G (summed s m k)"
  unfolding summed_def
  by (rule keeps_then, rule keeps_call_result, rule assms)
    (auto intro!: keeps_ret keeps_raise assms(2) split: sum.splits err.splits)

lemma keeps_audit: "(\<And>t e. G t (t\<lparr>audit_log := audit_log t @ [e]\<rparr>)) \<Longrightarrow> keeps R G (crm_audit p channel ci action resource rid)"
  unfolding crm_audit_def record_audit_def by (intro keeps_or_default keeps_db_exec) (auto simp: writes_def)

lemma decides_conclude: "decides_only (conclude draw accounts ss ks now i xs n)"
  unfolding persist_insights_def persist_recommendations_def
proof (induction xs arbitrary: i n)
  case (Cons x xs)
  show ?case
    unfolding conclude.simps persist_insights_def persist_recommendations_def
    by (intro keeps_then keeps_case_option keeps_ret keeps_raise keeps_count_inserted keeps_db_exec Cons.IH;
        erule statement_stands)
qed (simp add: keeps_ret)

lemma decides_scan: "decides_only (scan read_int order draw today now s)"
  unfolding scan_def opportunity_facts_def persist_signals_def persist_risks_def Let_def case_prod_unfold
  by (intro keeps_summed keeps_then keeps_db_query keeps_case_option keeps_ret keeps_raise keeps_count_inserted
      keeps_db_exec decides_conclude; erule statement_stands)

lemma decides_run_engine: "decides_only (run_engine read_int order draw rid trigger actor today now)"
  unfolding run_engine_def Let_def case_prod_unfold
  by (intro keeps_then decides_scan keeps_call_result keeps_db_exec keeps_case_option)
    (auto intro!: keeps_raise keeps_ret elim: statement_stands split: sum.splits)

lemma decides_reads:
  "decides_only (list_signals p f)" "decides_only (list_risks p g)" "decides_only (list_recommendations p h)"
  "decides_only (get_signal p i)" "decides_only (get_risk p i)" "decides_only (get_recommendation p i)"
  unfolding list_signals_def list_risks_def list_recommendations_def get_signal_def get_risk_def get_recommendation_def
    first_or_def require_def
  by (auto intro!: keeps_then keeps_db_query keeps_ret keeps_raise split: list.splits if_splits)

lemma decides_require: "decides_only (require p x)"
  by (auto simp: require_def intro: keeps_ret keeps_raise)

lemma decides_audit: "decides_only (intel_audit p channel ci action resource rid)"
  unfolding intel_audit_def by (intro keeps_audit decisions_same) simp_all

lemma decides_accept: "decides_only (accept_recommendation p i assignee given channel ci kid now)"
  unfolding accept_recommendation_def Let_def
proof (intro keeps_then decides_require decides_reads keeps_check decides_audit keeps_ret keeps_in_tx)
  fix s :: "'z intel_tables_scheme" and k assignee due and before :: recommendation_row
  show "tx_triple (\<lambda>t. t = s) (and_then (tx_exec (insert_task (user_id p) k))
      (\<lambda>_. tx_exec (accepted_recommendation i kid (user_id p) assignee due now))) (\<lambda>_. decisions_stand s)"
    by (rule tx_then [where M = "\<lambda>_. decisions_stand s"])
      (auto intro!: tx_exec_rule dest: insert_task_stands accepted_stands intro: decisions_trans)
qed

lemma decides_answers:
  "decides_only (dismiss_recommendation p i reason channel ci now)"
  "decides_only (accept_risk p i reason channel ci now)"
  "decides_only (ignore_signal p i channel ci now)"
  unfolding dismiss_recommendation_def accept_risk_def ignore_signal_def
  by (intro keeps_then decides_require decides_reads keeps_check decides_audit keeps_ret keeps_db_exec;
      auto simp: writes_def decisions_stand_def decided_defs intro!: stands_update)+

section \<open>A pass without faults or other sessions\<close>

text \<open>The upserts of a loop as a fold over the tables.\<close>

fun upserts :: "(nat \<Rightarrow> 'x \<Rightarrow> 's \<Rightarrow> ('s \<times> bool) option) \<Rightarrow> nat \<Rightarrow> 'x list \<Rightarrow> nat \<Rightarrow> 's \<Rightarrow> ('s \<times> nat) option" where
  "upserts f i [] n t = Some (t, n)"
| "upserts f i (x # xs) n t =
     (case f i x t of None \<Rightarrow> None | Some (u, b) \<Rightarrow> upserts f (Suc i) xs (if b then Suc n else n) u)"

lemma count_inserted_run:
  "count_inserted (\<lambda>i x. db_exec (f i x)) i xs n (calm t) = (Inr m, v) \<longleftrightarrow> (\<exists>u. upserts f i xs n t = Some (u, m) \<and> v = calm u)"
  by (induction xs arbitrary: i n t) (auto simp: run_simps split: option.splits)

lemma summed_run:
  "summed s m k w = (Inr (s', None), v) \<longleftrightarrow> (\<exists>x u. m w = (Inr x, u) \<and> k x u = (Inr (s', None), v)) \<or>
     (\<exists>e u. m w = (Inl e, u) \<and> False)"
  unfolding summed_def
  by (auto simp: and_then_def call_result_def ret_def raise_def split: prod.splits sum.splits err.splits)

lemmas summed_calm = summed_run [simplified]

lemma calm_inj [simp]: "calm s = calm t \<longleftrightarrow> s = t"
  by (auto simp: calm_def)

lemma summedE:
  assumes "summed s m k w = (Inr (s', None), v)"
  obtains x u where "m w = (Inr x, u)" and "k x u = (Inr (s', None), v)"
  using assms by (auto simp: summed_calm)

lemma and_thenE:
  assumes "and_then m f w = (Inr y, v)"
  obtains x u where "m w = (Inr x, u)" and "f x u = (Inr y, v)"
  using assms by (auto simp: and_then_run)

lemma db_execE:
  assumes "db_exec f (calm t) = (Inr y, v)"
  obtains u where "f t = Some (u, y)" and "v = calm u"
  using assms by (auto simp: db_exec_run)

lemma opportunity_facts_run [run_simps]:
  "opportunity_facts read_int (calm t) = (Inr xs, v) \<longleftrightarrow>
     those (map (facts_of_deal read_int) (deals_query t)) = Some xs \<and> v = calm t"
  by (auto simp: opportunity_facts_def run_simps split: option.splits)

text \<open>What a completed pass did, statement by statement.\<close>

definition passed :: "(nat \<Rightarrow> string list \<Rightarrow> string list) \<Rightarrow> (nat \<Rightarrow> nat \<Rightarrow> string) \<Rightarrow> date \<Rightarrow> instant \<Rightarrow> account_facts list
    \<Rightarrow> deal_facts list \<Rightarrow> signal list \<Rightarrow> run_row \<Rightarrow> 'z intel_tables_scheme \<Rightarrow> 'z intel_tables_scheme \<Rightarrow> bool" where
  "passed order draw today now accounts deals ss s t u \<longleftrightarrow>
     (let scored = (\<lambda>account. score_risks account (by_account ss account) deals now);
          judged = filter (\<lambda>account. scored account \<noteq> []) (accounts_of (order 3) ss) in
      \<exists>t1 t2 t3 t4 t5.
        upserts (\<lambda>i s. upsert_signal (draw 0 i) s now) 0 (concat (map (by_account ss) (accounts_of (order 2) ss))) 0 t = Some (t1, rn_opened s) \<and>
        resolve_stale_signals (map signal_key ss) now t1 = Some (t2, rn_resolved s) \<and>
        upserts (\<lambda>i k. upsert_risk (draw 1 i) k now) 0 (concat (map scored (order 4 judged))) 0 t2 = Some (t3, rn_risks_opened s) \<and>
        resolve_stale_risks (map risk_key (concat (map scored judged))) now t3 = Some (t4, rn_risks_resolved s) \<and>
        conclude draw accounts ss scored now 0 (accounts_of (order 5) ss) (0, 0) (calm t4) =
          (Inr (rn_insights s, rn_recommendations s), calm t5) \<and>
        expire_insights now t5 = Some (u, ()))"

lemma persist_insights_run:
  "persist_insights i a account ss ks now (calm t) = (Inr n, v) \<longleftrightarrow>
     (case build_insight account ss ks of
        None \<Rightarrow> n = 0 \<and> v = calm t
      | Some x \<Rightarrow> (case a of None \<Rightarrow> False
          | Some f \<Rightarrow> \<exists>u b. upsert_insight i (insight_key (af_id f)) x now t = Some (u, b) \<and> v = calm u \<and> n = (if b then 1 else 0)))"
  by (auto simp: persist_insights_def run_simps split: option.splits)

lemma persist_recommendations_run:
  "persist_recommendations draw a ss ks now (calm t) = (Inr n, v) \<longleftrightarrow>
     (case a of
        None \<Rightarrow> False
      | Some f \<Rightarrow> \<exists>u u'. upserts (\<lambda>i x. upsert_recommendation (draw i) x now) 0 (recommend f ss ks now) 0 t = Some (u, n) \<and>
          withdraw_advice (af_id f) (map rc_type (recommend f ss ks now)) u = Some (u', ()) \<and> v = calm u')"
  by (auto simp: persist_recommendations_def run_simps count_inserted_run split: option.splits)

lemma conclude_calm:
  "conclude draw accounts ss ks now i xs n (calm t) = (Inr m, v) \<Longrightarrow> \<exists>u. v = calm u"
proof (induction xs arbitrary: i n t)
  case (Cons x xs)
  then show ?case
    by (fastforce simp: run_simps persist_insights_run persist_recommendations_run split: option.splits)
qed (auto simp: run_simps)

text \<open>A nil account ends the loop in a panic: every account of a completed loop was among the facts.\<close>

lemma conclude_known:
  "conclude draw accounts ss ks now i xs n (calm t) = (Inr m, v) \<Longrightarrow> x \<in> set xs \<Longrightarrow> x \<in> set (keys af_id accounts)"
proof (induction xs arbitrary: i n t)
  case (Cons y ys)
  from Cons.prems(1) obtain u a b n' where "row_by af_id y accounts \<noteq> None"
    and rest: "conclude draw accounts ss ks now (Suc i) ys n' (calm u) = (Inr m, v)"
    by (fastforce simp: run_simps persist_insights_run persist_recommendations_run split: option.splits)
  then show ?case using Cons.IH [OF rest] Cons.prems(2) by (auto simp: row_by_None_iff)
qed simp

lemma scan_run:
  assumes "scan read_int order draw today now s0 (calm t) = (Inr (s, None), v)"
  shows "\<exists>deals u. those (map (facts_of_deal read_int) (deals_query t)) = Some deals \<and> v = calm u \<and>
    passed order draw today now (account_facts_query now t) deals
      (observed order (account_facts_query now t) deals (contract_facts_query t) now today) s t u"
  using assms unfolding scan_def Let_def case_prod_unfold
proof (elim summedE, goal_cases)
  case (1 accounts w0 deals w1 ks w2 n1 w3 n2 w4 n3 w5 n4 w6 nm w7 x w8)
  have "accounts = account_facts_query now t" "those (map (facts_of_deal read_int) (deals_query t)) = Some deals"
    "ks = contract_facts_query t" "w2 = calm t"
    using 1(1-3) by (auto simp: run_simps)
  note read = this
  let ?ss = "observed order accounts deals ks now today"
  obtain t1 where 3: "w3 = calm t1" using 1(4) read by (auto simp: persist_signals_def count_inserted_run)
  obtain t2 where 4: "w4 = calm t2" using 1(5) 3 by (auto simp: run_simps)
  obtain t3 where 5: "w5 = calm t3" using 1(6) 4 by (auto simp: persist_risks_def count_inserted_run)
  obtain t4 where 6: "w6 = calm t4" using 1(7) 5 by (auto simp: run_simps)
  obtain t5 where 7: "w7 = calm t5" using 1(8) 6 by (auto dest: conclude_calm)
  have "conclude draw accounts ?ss (\<lambda>account. score_risks account (by_account ?ss account) deals now) now 0
      (accounts_of (order 5) ?ss) (0, 0) (calm t4) = (Inr (rn_insights s, rn_recommendations s), calm t5)"
    using 1(8,10) 6 7 by (auto simp: run_simps)
  with 1 read 3 4 5 6 7 show ?case
    unfolding passed_def Let_def
    by (auto simp: run_simps persist_signals_def persist_risks_def count_inserted_run)
qed

lemma run_engine_run:
  assumes "run_engine read_int order draw rid trigger actor today now (calm t) = (Inr s, v)"
  shows "\<exists>t0 deals u s1 u'. insert_run (new_run rid trigger actor now) t = Some (t0, ()) \<and>
    those (map (facts_of_deal read_int) (deals_query t0)) = Some deals \<and>
    passed order draw today now (account_facts_query now t0) deals
      (observed order (account_facts_query now t0) deals (contract_facts_query t0) now today) s1 t0 u \<and>
    s = s1\<lparr>rn_finished := Some now, rn_failed := False\<rparr> \<and> finish_run s u = Some (u', ()) \<and> v = calm u'"
  using assms unfolding run_engine_def Let_def case_prod_unfold
proof (elim and_thenE, goal_cases)
  case (1 x w0 sf w1 r w2)
  obtain t0 where t0: "insert_run (new_run rid trigger actor now) t = Some (t0, ())" "w0 = calm t0"
    using 1(1) by (auto simp: run_simps)
  have f: "snd sf = None" using 1(4) by (cases "snd sf") (auto simp: run_simps)
  have "scan read_int order draw today now (new_run rid trigger actor now) (calm t0) = (Inr (fst sf, None), w1)"
    using 1(2) t0(2) f by (cases sf) simp
  from scan_run [OF this] obtain deals u where d: "those (map (facts_of_deal read_int) (deals_query t0)) = Some deals"
    and w1: "w1 = calm u" and p: "passed order draw today now (account_facts_query now t0) deals
      (observed order (account_facts_query now t0) deals (contract_facts_query t0) now today) (fst sf) t0 u" by blast
  have s: "s = (fst sf)\<lparr>rn_finished := Some now, rn_failed := False\<rparr>" and "\<exists>u'. finish_run s u = Some (u', ()) \<and> v = calm u'"
    using 1(3,4) f w1 by (auto simp: run_simps split: sum.splits)
  then show ?case using t0(1) d p by blast
qed

end
