(* ===== verification/Engine_Props.thy ===== *)
theory Engine_Props
  imports Engine_Facts
begin

text \<open>
  What a completed pass of the intelligence engine leaves behind: the observation tables agree with the
  facts of the pass, a second pass finds nothing to do, and the accounts that end it in a panic.
\<close>

section \<open>Tables kept in step with observations\<close>

definition keys_where :: "('r \<Rightarrow> bool) \<Rightarrow> ('r \<Rightarrow> string) \<Rightarrow> 'r list \<Rightarrow> string set" where
  "keys_where P key xs = key ` {r \<in> set xs. P r}"

lemma keys_where_append [simp]: "keys_where P key (xs @ ys) = keys_where P key xs \<union> keys_where P key ys"
  by (auto simp: keys_where_def)

lemma in_keys_where: "k \<in> keys_where P key xs \<longleftrightarrow> (\<exists>r \<in> set xs. P r \<and> key r = k)"
  by (auto simp: keys_where_def)

lemma same_row:
  "distinct (keys key xs) \<Longrightarrow> r \<in> set xs \<Longrightarrow> r' \<in> set xs \<Longrightarrow> key r' = key r \<Longrightarrow> r' = r"
  using row_by_unique [of key xs r] row_by_unique [of key xs r'] by simp

lemma in_keys_unique:
  assumes "distinct (keys key xs)" and "r \<in> set xs"
  shows "key r \<in> keys_where P key xs \<longleftrightarrow> P r"
proof
  assume "key r \<in> keys_where P key xs"
  then obtain r' where "r' \<in> set xs" "P r'" "key r' = key r" by (auto simp: in_keys_where)
  then show "P r" using same_row [OF assms, of r'] by simp
qed (use assms(2) in \<open>auto simp: keys_where_def\<close>)

text \<open>A rewriting that keeps the key of every row.\<close>

lemma keys_where_update:
  assumes "\<And>r. key (f r) = key r" and "\<And>r. r \<in> set xs \<Longrightarrow> Q r \<Longrightarrow> P (f r) = P r"
  shows "keys_where P key (update_where Q f xs) = keys_where P key xs"
  using assms by (induction xs) (auto simp: keys_where_def image_iff, (metis insert_iff)+)?

text \<open>
  The contract between the engine and a table of observations: one row per key, an upsert writes the row
  of its key and revives it unless a person decided on it, and a sweep closes the rows not observed.
\<close>

locale observation_table =
  fixes rows :: "'s \<Rightarrow> 'r list" and key :: "'r \<Rightarrow> string" and live :: "'r \<Rightarrow> bool" and decided :: "'r \<Rightarrow> bool"
    and xkey :: "'x \<Rightarrow> string" and upsert :: "string \<Rightarrow> 'x \<Rightarrow> 's \<Rightarrow> ('s \<times> bool) option"
    and sweep :: "string list \<Rightarrow> 's \<Rightarrow> ('s \<times> nat) option"
  assumes live_undecided: "live r \<Longrightarrow> \<not> decided r"
    and upsert_known: "upsert i x t = Some (u, b) \<Longrightarrow> xkey x \<in> set (keys key (rows t)) \<Longrightarrow>
      \<not> b \<and> (\<exists>f. rows u = update_where (\<lambda>r. key r = xkey x) f (rows t) \<and>
        (\<forall>r. key (f r) = key r \<and> decided (f r) = decided r \<and> live (f r) = (\<not> decided r)))"
    and upsert_new: "upsert i x t = Some (u, b) \<Longrightarrow> xkey x \<notin> set (keys key (rows t)) \<Longrightarrow>
      b \<and> (\<exists>r. rows u = rows t @ [r] \<and> key r = xkey x \<and> live r)"
    and sweep_rows: "sweep ks t = Some (u, n) \<Longrightarrow> n = count_where (\<lambda>r. live r \<and> key r \<notin> set ks) (rows t) \<and>
      (\<exists>f. rows u = update_where (\<lambda>r. live r \<and> key r \<notin> set ks) f (rows t) \<and>
        (\<forall>r. key (f r) = key r \<and> \<not> live (f r) \<and> (live r \<longrightarrow> \<not> decided (f r))))"
begin

lemma live_not_decided:
  assumes "distinct (keys key (rows t))"
  shows "keys_where live key (rows t) \<inter> keys_where decided key (rows t) = {}"
proof -
  have False if "r \<in> set (rows t)" "live r" "key r \<in> keys_where decided key (rows t)" for r
    using that assms by (simp add: in_keys_unique live_undecided)
  then show ?thesis unfolding disjoint_iff by (metis in_keys_where)
qed

lemma upsert_step:
  assumes "upsert i x t = Some (u, b)" and "distinct (keys key (rows t))"
  shows "distinct (keys key (rows u))" and "set (keys key (rows u)) = insert (xkey x) (set (keys key (rows t)))"
    and "keys_where decided key (rows u) = keys_where decided key (rows t)"
    and "keys_where live key (rows u) = keys_where live key (rows t) \<union> ({xkey x} - keys_where decided key (rows t))"
    and "b \<longleftrightarrow> xkey x \<notin> set (keys key (rows t))"
proof -
  have "distinct (keys key (rows u)) \<and> set (keys key (rows u)) = insert (xkey x) (set (keys key (rows t))) \<and>
    keys_where decided key (rows u) = keys_where decided key (rows t) \<and>
    keys_where live key (rows u) = keys_where live key (rows t) \<union> ({xkey x} - keys_where decided key (rows t)) \<and>
    (b \<longleftrightarrow> xkey x \<notin> set (keys key (rows t)))"
  proof (cases "xkey x \<in> set (keys key (rows t))")
    case True
    from upsert_known [OF assms(1) this] obtain f where b: "\<not> b"
      and u: "rows u = update_where (\<lambda>r. key r = xkey x) f (rows t)"
      and f: "\<And>r. key (f r) = key r \<and> decided (f r) = decided r \<and> live (f r) = (\<not> decided r)" by auto
    have k: "keys key (rows u) = keys key (rows t)" using u f by (simp add: keys_update_where)
    have d: "keys_where decided key (rows u) = keys_where decided key (rows t)"
      unfolding u by (rule keys_where_update) (simp_all add: f)
    obtain r0 where r0: "r0 \<in> set (rows t)" "key r0 = xkey x" using True by (auto simp: keys_def)
    have r1: "f r0 \<in> set (rows u)" using r0 by (force simp: u set_update_where)
    have "k \<in> keys_where live key (rows u) \<longleftrightarrow>
        k \<in> keys_where live key (rows t) \<union> ({xkey x} - keys_where decided key (rows t))" for k
    proof (cases "k = xkey x")
      case True
      have "distinct (keys key (rows u))" using k assms(2) by simp
      from in_keys_unique [OF this r1, of live] have "k \<in> keys_where live key (rows u) \<longleftrightarrow> \<not> decided r0"
        using f [of r0] r0(2) True by simp
      then show ?thesis
        using in_keys_unique [OF assms(2) r0(1), of live] in_keys_unique [OF assms(2) r0(1), of decided]
          r0(2) True live_undecided [of r0] by auto
    next
      case False
      have "k \<in> keys_where live key (rows u) \<longleftrightarrow> (\<exists>r \<in> set (rows t). live r \<and> key r = k)"
        unfolding in_keys_where u set_update_where bex_simps by (rule bex_cong) (use f False in auto)
      then show ?thesis using False by (auto simp: in_keys_where)
    qed
    then show ?thesis using k d b True assms(2) by (auto simp: insert_absorb)
  next
    case False
    from upsert_new [OF assms(1) this] obtain r where r: "b" "rows u = rows t @ [r]" "key r = xkey x" "live r" by auto
    moreover have "xkey x \<notin> keys_where decided key (rows t)" using False by (auto simp: keys_where_def keys_def)
    moreover have "keys key (rows u) = keys key (rows t) @ [xkey x]" using r by (simp add: keys_def)
    moreover have "keys_where decided key [r] = {}" "keys_where live key [r] = {xkey x}"
      using r live_undecided [OF r(4)] by (auto simp: keys_where_def)
    ultimately show ?thesis using False assms(2) by auto
  qed
  then show "distinct (keys key (rows u))" "set (keys key (rows u)) = insert (xkey x) (set (keys key (rows t)))"
    "keys_where decided key (rows u) = keys_where decided key (rows t)"
    "keys_where live key (rows u) = keys_where live key (rows t) \<union> ({xkey x} - keys_where decided key (rows t))"
    "b \<longleftrightarrow> xkey x \<notin> set (keys key (rows t))" by blast+
qed

lemma upserts_step:
  assumes "upserts (\<lambda>i x. upsert (draw i) x) i xs n t = Some (u, m)" and "distinct (keys key (rows t))"
  shows "distinct (keys key (rows u)) \<and> set (keys key (rows u)) = set (map xkey xs) \<union> set (keys key (rows t)) \<and>
    keys_where decided key (rows u) = keys_where decided key (rows t) \<and>
    keys_where live key (rows u) = keys_where live key (rows t) \<union> (set (map xkey xs) - keys_where decided key (rows t)) \<and>
    (set (map xkey xs) \<subseteq> set (keys key (rows t)) \<longrightarrow> m = n)"
  using assms
proof (induction xs arbitrary: i n t)
  case (Cons x xs)
  from Cons.prems(1) obtain t' b where s: "upsert (draw i) x t = Some (t', b)"
    and r: "upserts (\<lambda>i x. upsert (draw i) x) (Suc i) xs (if b then Suc n else n) t' = Some (u, m)"
    by (auto split: option.splits)
  note st = upsert_step [OF s Cons.prems(2)]
  show ?case using Cons.IH [OF r st(1)] st(2-5) by auto
qed simp

text \<open>After a pass the live keys are the observed ones that nobody decided on.\<close>

lemma pass_step:
  assumes "upserts (\<lambda>i x. upsert (draw i) x) i xs 0 t = Some (t1, m)" and "distinct (keys key (rows t))"
    and "sweep ks t1 = Some (u, n)" and "set ks = set (map xkey xs)"
  shows "keys_where live key (rows u) = set ks - keys_where decided key (rows t) \<and>
    keys_where decided key (rows u) = keys_where decided key (rows t) \<and> set ks \<subseteq> set (keys key (rows u)) \<and>
    distinct (keys key (rows u)) \<and>
    (set ks \<subseteq> set (keys key (rows t)) \<longrightarrow> m = 0) \<and> (keys_where live key (rows t) \<subseteq> set ks \<longrightarrow> n = 0)"
proof -
  note up = upserts_step [OF assms(1,2)]
  from sweep_rows [OF assms(3)] obtain f where n: "n = count_where (\<lambda>r. live r \<and> key r \<notin> set ks) (rows t1)"
    and u: "rows u = update_where (\<lambda>r. live r \<and> key r \<notin> set ks) f (rows t1)"
    and f: "\<And>r. key (f r) = key r \<and> \<not> live (f r) \<and> (live r \<longrightarrow> \<not> decided (f r))" by auto
  have l: "keys_where live key (rows u) = keys_where live key (rows t1) \<inter> set ks"
    unfolding u keys_where_def set_update_where using f by (auto simp: image_iff)
  have d: "keys_where decided key (rows u) = keys_where decided key (rows t1)"
    unfolding u by (rule keys_where_update) (use f live_undecided in auto)
  have k: "keys key (rows u) = keys key (rows t1)" using u f by (simp add: keys_update_where)
  have "keys_where live key (rows t) \<subseteq> set ks \<Longrightarrow> keys_where live key (rows t1) \<subseteq> set ks"
    using up assms(4) by auto
  then have "keys_where live key (rows t) \<subseteq> set ks \<Longrightarrow> n = 0"
    unfolding n by (auto simp: keys_where_def count_where_def filter_empty_conv)
  moreover have "keys_where live key (rows t) \<inter> keys_where decided key (rows t) = {}"
    by (rule live_not_decided [OF assms(2)])
  ultimately show ?thesis using l d k up assms(4) by auto
qed

end

interpretation sg: observation_table signals sg_key "\<lambda>r. sg_status r = ''ACTIVE''" ignored signal_key
    "\<lambda>i s. upsert_signal i s now" "\<lambda>ks. resolve_stale_signals ks now" for now
  by unfold_locales
    (auto simp: ignored_def upsert_signal_def resolve_stale_signals_def Let_def refreshed_signal_def new_signal_def signal.defs
      signal_row.defs split: if_splits intro!: exI)

interpretation rk: observation_table risks rk_key "\<lambda>r. rk_status r = ''OPEN''" accepted risk_key
    "\<lambda>i k. upsert_risk i k now" "\<lambda>ks. resolve_stale_risks ks now" for now
  by unfold_locales
    (auto simp: accepted_def upsert_risk_def resolve_stale_risks_def Let_def refreshed_risk_def new_risk_def risk.defs
      risk_row.defs split: if_splits intro!: exI)

section \<open>Risks follow from observations\<close>

text \<open>Which risk an observation calls for, whatever its score.\<close>

definition risk_of :: "signal \<Rightarrow> string option" where
  "risk_of s =
     (if sg_type s = ''NO_CONTACT'' \<or> sg_type s = ''DECISION_MAKER_MISSING'' then Some (''RELATIONSHIP_RISK|ACCOUNT|'' @ sg_account s)
      else if sg_type s = ''CRITICAL_VOC'' then Some (''VOC_RISK|ACCOUNT|'' @ sg_account s)
      else if sg_type s = ''CONTRACT_EXPIRING'' then Some (''RENEWAL_RISK|CONTRACT|'' @ sg_entity s)
      else if sg_type s = ''DEAL_STALLED'' \<or> sg_type s = ''CLOSE_DATE_PASSED'' then Some (''DEAL_RISK|OPPORTUNITY|'' @ sg_entity s)
      else None)"

lemma risk_of_iff:
  "risk_of s = Some k \<longleftrightarrow>
     (sg_type s = ''NO_CONTACT'' \<or> sg_type s = ''DECISION_MAKER_MISSING'') \<and> k = ''RELATIONSHIP_RISK|ACCOUNT|'' @ sg_account s \<or>
     sg_type s = ''CRITICAL_VOC'' \<and> k = ''VOC_RISK|ACCOUNT|'' @ sg_account s \<or>
     sg_type s = ''CONTRACT_EXPIRING'' \<and> k = ''RENEWAL_RISK|CONTRACT|'' @ sg_entity s \<or>
     (sg_type s = ''DEAL_STALLED'' \<or> sg_type s = ''CLOSE_DATE_PASSED'') \<and> k = ''DEAL_RISK|OPPORTUNITY|'' @ sg_entity s"
  unfolding risk_of_def by (auto split: if_splits)

lemma of_type_Nil: "of_type ty ss = [] \<longleftrightarrow> (\<forall>s \<in> set ss. sg_type s \<noteq> ty)"
  by (auto simp: of_type_def filter_empty_conv)

lemma set_of_type: "set (of_type ty ss) = {s \<in> set ss. sg_type s = ty}"
  by (auto simp: of_type_def)

lemma add_risk_keys:
  "risk_key ` set (add_risk account now ty ety e subject fs) =
     (if sum_list (map rf_points fs) \<le> 0 then {} else {ty @ ''|'' @ ety @ ''|'' @ e})"
  by (simp add: add_risk_def risk_key_def)

lemma points_pos:
  "(\<And>f. f \<in> set fs \<Longrightarrow> rf_points f \<ge> n) \<Longrightarrow> 0 \<le> n \<Longrightarrow> fs \<noteq> [] \<Longrightarrow> sum_list (map rf_points fs) \<ge> n"
proof (induction fs)
  case (Cons f fs)
  then show ?case using sum_list_nonneg [of "map rf_points fs"] by (fastforce simp: dest: order_trans)
qed simp

lemma factor_points [simp]: "rf_points (factor s n) = n"
  by (simp add: factor_def)

lemma relationship_points:
  "sum_list (map rf_points (relationship_factors ss)) \<le> 0 \<longleftrightarrow> of_type ''NO_CONTACT'' ss = [] \<and> of_type ''DECISION_MAKER_MISSING'' ss = []"
proof -
  let ?fs = "map (\<lambda>s. factor s (if sg_severity s = ''HIGH'' then 50 else 35)) (of_type ''NO_CONTACT'' ss) @
    map (\<lambda>s. factor s (if sg_severity s = ''HIGH'' then 35 else 25)) (of_type ''DECISION_MAKER_MISSING'' ss)"
  have "sum_list (map rf_points ?fs) \<ge> 25" if "?fs \<noteq> []"
    by (rule points_pos) (use that in auto)
  moreover have "?fs = [] \<longleftrightarrow> of_type ''NO_CONTACT'' ss = [] \<and> of_type ''DECISION_MAKER_MISSING'' ss = []" by simp
  moreover have "sum_list (map rf_points (relationship_factors ss)) \<ge> sum_list (map rf_points ?fs) - 20"
    "?fs = [] \<Longrightarrow> relationship_factors ss = []"
    unfolding relationship_factors_def Let_def by (cases "of_type ''ENGAGEMENT_INCREASE'' ss"; auto)+
  ultimately show ?thesis by (cases "?fs = []") (simp, linarith)
qed

lemma voice_points: "sum_list (map rf_points (map (\<lambda>s. factor s 75) ss)) \<le> 0 \<longleftrightarrow> ss = []"
  using points_pos [of "map (\<lambda>s. factor s 75) ss" 75] by fastforce

lemma renewal_points: "\<not> sum_list (map rf_points (renewal_factors s)) \<le> 0"
  by (simp add: renewal_factors_def split: evidence.splits)

lemma deal_points_pos:
  assumes "e \<in> set (map sg_entity (of_type ''DEAL_STALLED'' ss @ of_type ''CLOSE_DATE_PASSED'' ss))"
  shows "\<not> sum_list (map rf_points (deal_factors ss e)) \<le> 0"
proof -
  have "deal_factors ss e \<noteq> []" using assms by (auto simp: deal_factors_def filter_empty_conv)
  then have "sum_list (map rf_points (deal_factors ss e)) \<ge> 40"
    by (intro points_pos) (auto simp: deal_factors_def deal_points_def)
  then show ?thesis by simp
qed

lemma score_risks_keys:
  assumes "\<And>s. s \<in> set ss \<Longrightarrow> sg_account s = account"
  shows "risk_key ` set (score_risks account ss deals now) = {k. \<exists>s \<in> set ss. risk_of s = Some k}"
proof -
  have "risk_key ` set (score_risks account ss deals now) =
    {k. \<exists>s \<in> set ss. (sg_type s = ''NO_CONTACT'' \<or> sg_type s = ''DECISION_MAKER_MISSING'') \<and> k = ''RELATIONSHIP_RISK|ACCOUNT|'' @ account} \<union>
    {k. \<exists>s \<in> set ss. sg_type s = ''CRITICAL_VOC'' \<and> k = ''VOC_RISK|ACCOUNT|'' @ account} \<union>
    {k. \<exists>s \<in> set ss. sg_type s = ''CONTRACT_EXPIRING'' \<and> k = ''RENEWAL_RISK|CONTRACT|'' @ sg_entity s} \<union>
    {k. \<exists>s \<in> set ss. (sg_type s = ''DEAL_STALLED'' \<or> sg_type s = ''CLOSE_DATE_PASSED'') \<and> k = ''DEAL_RISK|OPPORTUNITY|'' @ sg_entity s}"
    (is "_ = ?A \<union> ?B \<union> ?C \<union> ?D")
  proof -
    have a: "risk_key ` set (add_risk account now ''RELATIONSHIP_RISK'' ''ACCOUNT'' account [] (relationship_factors ss)) = ?A"
      by (auto simp: add_risk_keys relationship_points of_type_Nil)
    have b: "risk_key ` set (add_risk account now ''VOC_RISK'' ''ACCOUNT'' account [] (map (\<lambda>s. factor s 75) (of_type ''CRITICAL_VOC'' ss))) = ?B"
      unfolding add_risk_keys voice_points of_type_Nil by auto
    have c: "risk_key ` set (concat (map (\<lambda>s. add_risk account now ''RENEWAL_RISK'' ''CONTRACT'' (sg_entity s) (sg_subject s)
        (renewal_factors s)) (of_type ''CONTRACT_EXPIRING'' ss))) = ?C"
      by (auto simp: image_UN add_risk_keys renewal_points set_of_type)
    have d: "risk_key ` set (concat (map (\<lambda>oid. add_risk account now ''DEAL_RISK'' ''OPPORTUNITY'' oid (name oid) (deal_factors ss oid))
        (sort (remdups (map sg_entity (of_type ''DEAL_STALLED'' ss @ of_type ''CLOSE_DATE_PASSED'' ss)))))) = ?D" for name
    proof -
      have "risk_key ` set (add_risk account now ''DEAL_RISK'' ''OPPORTUNITY'' oid (name oid) (deal_factors ss oid)) =
          {''DEAL_RISK|OPPORTUNITY|'' @ oid}"
        if "oid \<in> sg_entity ` (set (of_type ''DEAL_STALLED'' ss) \<union> set (of_type ''CLOSE_DATE_PASSED'' ss))" for oid
        using deal_points_pos [of oid ss] that by (auto simp: add_risk_keys)
      note each = this
      let ?g = "\<lambda>oid. add_risk account now ''DEAL_RISK'' ''OPPORTUNITY'' oid (name oid) (deal_factors ss oid)"
      let ?es = "sg_entity ` (set (of_type ''DEAL_STALLED'' ss) \<union> set (of_type ''CLOSE_DATE_PASSED'' ss))"
      have "risk_key ` (\<Union>oid \<in> ?es. set (?g oid)) = (\<Union>oid \<in> ?es. {''DEAL_RISK|OPPORTUNITY|'' @ oid})"
        unfolding image_UN by (rule SUP_cong) (simp_all only: each)
      also have "\<dots> = ?D" by (auto simp: set_of_type)
      finally show ?thesis by (simp only: set_concat set_map set_sort set_remdups set_append image_image)
    qed
    show ?thesis unfolding score_risks_def set_append image_Un a b c d by (simp only: Un_assoc)
  qed
  also have "\<dots> = {k. \<exists>s \<in> set ss. risk_of s = Some k}"
    using assms unfolding risk_of_iff by blast
  finally show ?thesis .
qed

section \<open>What a pass leaves alone\<close>

lemma upserts_frame:
  assumes "\<And>i x t u b. f i x t = Some (u, b) \<Longrightarrow> g u = g t"
  shows "upserts f i xs n t = Some (u, m) \<Longrightarrow> g u = g t"
  by (induction xs arbitrary: i n t) (auto split: option.splits dest: assms)

lemma conclude_frame:
  assumes "\<And>i k x now t u b. upsert_insight i k x now t = Some (u, b) \<Longrightarrow> g u = g t"
    and "\<And>i x now t u b. upsert_recommendation i x now t = Some (u, b) \<Longrightarrow> g u = g t"
    and "\<And>a live t u. withdraw_advice a live t = Some (u, ()) \<Longrightarrow> g u = g t"
  shows "conclude draw accounts ss ks now i xs n (calm t) = (Inr m, calm u) \<Longrightarrow> g u = g t"
proof (induction xs arbitrary: i n t)
  case (Cons x xs)
  from Cons.prems obtain w1 a w2 b where
    1: "persist_insights (draw 2 i) (row_by af_id x accounts) x (by_account ss x) (ks x) now (calm t) = (Inr a :: intel_error err + nat, w1)" and
    2: "persist_recommendations (draw (3 + i)) (row_by af_id x accounts) (by_account ss x) (ks x) now w1 = (Inr b :: intel_error err + nat, w2)" and
    3: "conclude draw accounts ss ks now (Suc i) xs (fst n + a, snd n + b) w2 = (Inr m, calm u)"
    unfolding conclude.simps by (elim and_thenE) blast
  from 1 obtain t1 where t1: "w1 = calm t1" "g t1 = g t"
    by (auto simp: persist_insights_run split: option.splits dest: assms(1))
  from 2 obtain t2 where t2: "w2 = calm t2" "g t2 = g t1"
    by (auto simp: t1(1) persist_recommendations_run split: option.splits
        dest!: upserts_frame [where g = g, rotated] assms(3) intro: assms(2))
  show ?case using Cons.IH [OF 3 [unfolded t2(1)]] t1(2) t2(2) by simp
qed (auto simp: run_simps)

lemmas upsert_defs = upsert_signal_def upsert_risk_def upsert_insight_def upsert_recommendation_def
lemmas sweep_defs = resolve_stale_signals_def resolve_stale_risks_def withdraw_advice_def expire_insights_def Let_def

lemma base_frame:
  "upsert_signal i s now t = Some (u, b) \<Longrightarrow> voice_tables.truncate u = voice_tables.truncate t"
  "upsert_risk i k now t = Some (u, b) \<Longrightarrow> voice_tables.truncate u = voice_tables.truncate t"
  "upsert_insight i key x now t = Some (u, b) \<Longrightarrow> voice_tables.truncate u = voice_tables.truncate t"
  "upsert_recommendation i r now t = Some (u, b) \<Longrightarrow> voice_tables.truncate u = voice_tables.truncate t"
  "resolve_stale_signals ks now t = Some (u, n) \<Longrightarrow> voice_tables.truncate u = voice_tables.truncate t"
  "resolve_stale_risks ks now t = Some (u, n) \<Longrightarrow> voice_tables.truncate u = voice_tables.truncate t"
  "withdraw_advice a ks t = Some (u, x') \<Longrightarrow> voice_tables.truncate u = voice_tables.truncate t"
  "expire_insights now t = Some (u, x') \<Longrightarrow> voice_tables.truncate u = voice_tables.truncate t"
  "insert_run rr t = Some (u, x') \<Longrightarrow> voice_tables.truncate u = voice_tables.truncate t"
  "finish_run rr t = Some (u, x') \<Longrightarrow> voice_tables.truncate u = voice_tables.truncate t"
  by (auto simp: upsert_defs sweep_defs insert_run_def finish_run_def voice_tables.defs split: if_splits)

lemma signal_frame:
  "upsert_risk i k now t = Some (u, b) \<Longrightarrow> signals u = signals t"
  "upsert_insight i key x now t = Some (u, b) \<Longrightarrow> signals u = signals t"
  "upsert_recommendation i r now t = Some (u, b) \<Longrightarrow> signals u = signals t"
  "resolve_stale_risks ks now t = Some (u, n) \<Longrightarrow> signals u = signals t"
  "withdraw_advice a ks t = Some (u, x') \<Longrightarrow> signals u = signals t"
  "expire_insights now t = Some (u, x') \<Longrightarrow> signals u = signals t"
  "insert_run rr t = Some (u, x') \<Longrightarrow> signals u = signals t"
  "finish_run rr t = Some (u, x') \<Longrightarrow> signals u = signals t"
  by (auto simp: upsert_defs sweep_defs insert_run_def finish_run_def split: if_splits)

lemma risk_frame:
  "upsert_signal i s now t = Some (u, b) \<Longrightarrow> risks u = risks t"
  "upsert_insight i key x now t = Some (u, b) \<Longrightarrow> risks u = risks t"
  "upsert_recommendation i r now t = Some (u, b) \<Longrightarrow> risks u = risks t"
  "resolve_stale_signals ks now t = Some (u, n) \<Longrightarrow> risks u = risks t"
  "withdraw_advice a ks t = Some (u, x') \<Longrightarrow> risks u = risks t"
  "expire_insights now t = Some (u, x') \<Longrightarrow> risks u = risks t"
  "insert_run rr t = Some (u, x') \<Longrightarrow> risks u = risks t"
  "finish_run rr t = Some (u, x') \<Longrightarrow> risks u = risks t"
  by (auto simp: upsert_defs sweep_defs insert_run_def finish_run_def split: if_splits)

text \<open>The facts are read from the tables of the other components.\<close>

lemma facts_truncate:
  "account_facts_query now t = account_facts_query now (voice_tables.truncate t)"
  "deals_query t = deals_query (voice_tables.truncate t)"
  "contract_facts_query t = contract_facts_query (voice_tables.truncate t)"
  by (simp_all add: voice_tables.defs account_facts_query_def facts_of_account_def deals_query_def
      contract_facts_query_def sales_signal_def sales_account_def Let_def)

lemma facts_same:
  assumes "voice_tables.truncate u = voice_tables.truncate t"
  shows "account_facts_query now u = account_facts_query now t" "deals_query u = deals_query t"
    "contract_facts_query u = contract_facts_query t"
  unfolding facts_truncate(1) [of now u] facts_truncate(2,3) [of u] facts_truncate(1) [of now t] facts_truncate(2,3) [of t]
    assms by (rule refl)+

lemma conclude_leaves:
  assumes "conclude draw accounts ss ks now i xs n (calm t) = (Inr m, calm u)"
  shows "signals u = signals t" "risks u = risks t" "voice_tables.truncate u = voice_tables.truncate t"
proof -
  show "signals u = signals t" by (rule conclude_frame [where g = signals, OF _ _ _ assms]) (erule signal_frame)+
  show "risks u = risks t" by (rule conclude_frame [where g = risks, OF _ _ _ assms]) (erule risk_frame)+
  show "voice_tables.truncate u = voice_tables.truncate t"
    by (rule conclude_frame [where g = voice_tables.truncate, OF _ _ _ assms]) (erule base_frame)+
qed

lemma signal_loop_leaves:
  assumes "upserts (\<lambda>i s. upsert_signal (draw i) s now) i ss n t = Some (u, m)"
  shows "risks u = risks t" "voice_tables.truncate u = voice_tables.truncate t"
  by (rule upserts_frame [where g = risks, OF _ assms]; erule risk_frame)
    (rule upserts_frame [where g = voice_tables.truncate, OF _ assms]; erule base_frame)

lemma risk_loop_leaves:
  assumes "upserts (\<lambda>i k. upsert_risk (draw i) k now) i ks n t = Some (u, m)"
  shows "signals u = signals t" "voice_tables.truncate u = voice_tables.truncate t"
  by (rule upserts_frame [where g = signals, OF _ assms]; erule signal_frame)
    (rule upserts_frame [where g = voice_tables.truncate, OF _ assms]; erule base_frame)

section \<open>A completed pass\<close>

text \<open>The observations of a pass at an instant, visited in the order of the rows.\<close>

definition seen :: "(rat \<Rightarrow> int option) \<Rightarrow> date \<Rightarrow> instant \<Rightarrow> 'z intel_tables_scheme \<Rightarrow> signal list" where
  "seen read_int today now t =
     observed (\<lambda>_ xs. xs) (account_facts_query now t)
       (case those (map (facts_of_deal read_int) (deals_query t)) of None \<Rightarrow> [] | Some deals \<Rightarrow> deals)
       (contract_facts_query t) now today"

text \<open>What Go promises of a \<open>range\<close> over a map: every key is visited.\<close>

definition visits_all :: "(nat \<Rightarrow> string list \<Rightarrow> string list) \<Rightarrow> bool" where
  "visits_all order \<longleftrightarrow> (\<forall>i xs. set (order i xs) = set xs)"

lemma set_visit: "visits_all order \<Longrightarrow> set (visit (order i) key xs) = set (visit (\<lambda>xs. xs) key xs)"
  by (simp add: visit_def set_map_filter visits_all_def)

lemma set_accounts_of: "visits_all order \<Longrightarrow> set (accounts_of (order i) ss) = sg_account ` set ss"
  by (simp add: accounts_of_def visits_all_def)

lemma set_observed:
  "visits_all order \<Longrightarrow> set (observed order as ds ks now today) = set (observed (\<lambda>_ xs. xs) as ds ks now today)"
  by (simp add: observed_def set_visit)

lemma set_by_account [simp]: "set (by_account ss a) = {s \<in> set ss. sg_account s = a}"
  by (auto simp: by_account_def)

text \<open>What a pass leaves in the two tables of observations, from what it observed.\<close>

lemma passed_tables:
  assumes p: "passed order draw today now accounts deals ss s t u" and o: "visits_all order"
    and d: "distinct (keys sg_key (signals t))" "distinct (keys rk_key (risks t))"
  defines "sk \<equiv> signal_key ` set ss" and "kk \<equiv> {k. \<exists>x \<in> set ss. risk_of x = Some k}"
  shows "keys_where (\<lambda>r. sg_status r = ''ACTIVE'') sg_key (signals u) = sk - keys_where ignored sg_key (signals t) \<and>
      keys_where ignored sg_key (signals u) = keys_where ignored sg_key (signals t) \<and>
      sk \<subseteq> set (keys sg_key (signals u)) \<and> distinct (keys sg_key (signals u)) \<and>
      (sk \<subseteq> set (keys sg_key (signals t)) \<longrightarrow> rn_opened s = 0) \<and>
      (keys_where (\<lambda>r. sg_status r = ''ACTIVE'') sg_key (signals t) \<subseteq> sk \<longrightarrow> rn_resolved s = 0)"
    and "keys_where (\<lambda>r. rk_status r = ''OPEN'') rk_key (risks u) = kk - keys_where accepted rk_key (risks t) \<and>
      keys_where accepted rk_key (risks u) = keys_where accepted rk_key (risks t) \<and>
      kk \<subseteq> set (keys rk_key (risks u)) \<and> distinct (keys rk_key (risks u)) \<and>
      (kk \<subseteq> set (keys rk_key (risks t)) \<longrightarrow> rn_risks_opened s = 0) \<and>
      (keys_where (\<lambda>r. rk_status r = ''OPEN'') rk_key (risks t) \<subseteq> kk \<longrightarrow> rn_risks_resolved s = 0)"
    and "voice_tables.truncate u = voice_tables.truncate t"
proof -
  let ?sc = "\<lambda>account. score_risks account (by_account ss account) deals now"
  let ?j = "filter (\<lambda>account. ?sc account \<noteq> []) (accounts_of (order 3) ss)"
  from p obtain t1 t2 t3 t4 t5 where
    1: "upserts (\<lambda>i s. upsert_signal (draw 0 i) s now) 0 (concat (map (by_account ss) (accounts_of (order 2) ss))) 0 t = Some (t1, rn_opened s)" and
    2: "resolve_stale_signals (map signal_key ss) now t1 = Some (t2, rn_resolved s)" and
    3: "upserts (\<lambda>i k. upsert_risk (draw 1 i) k now) 0 (concat (map ?sc (order 4 ?j))) 0 t2 = Some (t3, rn_risks_opened s)" and
    4: "resolve_stale_risks (map risk_key (concat (map ?sc ?j))) now t3 = Some (t4, rn_risks_resolved s)" and
    5: "conclude draw accounts ss ?sc now 0 (accounts_of (order 5) ss) (0, 0) (calm t4) =
      (Inr (rn_insights s, rn_recommendations s), calm t5)" and
    6: "expire_insights now t5 = Some (u, ())"
    unfolding passed_def Let_def by blast
  note s = conclude_leaves [OF 5] and l1 = signal_loop_leaves [OF 1] and l3 = risk_loop_leaves [OF 3]
  have r: "risks t2 = risks t" using l1(1) risk_frame(4) [OF 2] by simp
  have u: "signals u = signals t2" "risks u = risks t4"
    using s signal_frame(6) [OF 6] risk_frame(6) [OF 6] signal_frame(4) [OF 4] l3(1) by simp_all
  show "voice_tables.truncate u = voice_tables.truncate t"
    using s(3) base_frame(8) [OF 6] base_frame(6) [OF 4] base_frame(5) [OF 2] l1(2) l3(2) by simp
  have "set (concat (map (by_account ss) (accounts_of (order 2) ss))) = set ss"
    using set_accounts_of [OF o] by auto
  then have "set (map signal_key ss) = set (map signal_key (concat (map (by_account ss) (accounts_of (order 2) ss))))" by simp
  from sg.pass_step [OF 1 d(1) 2 this]
  show "keys_where (\<lambda>r. sg_status r = ''ACTIVE'') sg_key (signals u) = sk - keys_where ignored sg_key (signals t) \<and>
      keys_where ignored sg_key (signals u) = keys_where ignored sg_key (signals t) \<and>
      sk \<subseteq> set (keys sg_key (signals u)) \<and> distinct (keys sg_key (signals u)) \<and>
      (sk \<subseteq> set (keys sg_key (signals t)) \<longrightarrow> rn_opened s = 0) \<and>
      (keys_where (\<lambda>r. sg_status r = ''ACTIVE'') sg_key (signals t) \<subseteq> sk \<longrightarrow> rn_resolved s = 0)"
    unfolding sk_def u(1) by simp
  have "set (concat (map ?sc (order 4 ?j))) = (\<Union>a \<in> sg_account ` set ss. set (?sc a))"
    "set (concat (map ?sc ?j)) = (\<Union>a \<in> sg_account ` set ss. set (?sc a))"
    using o set_accounts_of [OF o] by (auto simp: visits_all_def)
  note all = this
  have "risk_key ` (\<Union>a \<in> sg_account ` set ss. set (?sc a)) = (\<Union>a \<in> sg_account ` set ss. {k. \<exists>x \<in> set (by_account ss a). risk_of x = Some k})"
    unfolding image_UN by (rule SUP_cong [OF refl], rule score_risks_keys) simp
  also have "\<dots> = kk" unfolding kk_def by auto
  finally have kk: "risk_key ` (\<Union>a \<in> sg_account ` set ss. set (?sc a)) = kk" .
  have "set (map risk_key (concat (map ?sc ?j))) = set (map risk_key (concat (map ?sc (order 4 ?j))))"
    unfolding set_map all by (rule refl)
  moreover have "distinct (keys rk_key (risks t2))" using d(2) r by simp
  ultimately show "keys_where (\<lambda>r. rk_status r = ''OPEN'') rk_key (risks u) = kk - keys_where accepted rk_key (risks t) \<and>
      keys_where accepted rk_key (risks u) = keys_where accepted rk_key (risks t) \<and>
      kk \<subseteq> set (keys rk_key (risks u)) \<and> distinct (keys rk_key (risks u)) \<and>
      (kk \<subseteq> set (keys rk_key (risks t)) \<longrightarrow> rn_risks_opened s = 0) \<and>
      (keys_where (\<lambda>r. rk_status r = ''OPEN'') rk_key (risks t) \<subseteq> kk \<longrightarrow> rn_risks_resolved s = 0)"
    using rk.pass_step [OF 3 _ 4] unfolding u(2) r set_map all kk by blast
qed

text \<open>One row per key, as the unique constraints of the two tables demand.\<close>

definition one_per_key :: "'z intel_tables_scheme \<Rightarrow> bool" where
  "one_per_key t \<longleftrightarrow> distinct (keys sg_key (signals t)) \<and> distinct (keys rk_key (risks t))"

definition active_signals :: "'z intel_tables_scheme \<Rightarrow> string set" where
  "active_signals t = keys_where (\<lambda>r. sg_status r = ''ACTIVE'') sg_key (signals t)"

definition open_risks :: "'z intel_tables_scheme \<Rightarrow> string set" where
  "open_risks t = keys_where (\<lambda>r. rk_status r = ''OPEN'') rk_key (risks t)"

definition observed_keys :: "(rat \<Rightarrow> int option) \<Rightarrow> date \<Rightarrow> instant \<Rightarrow> 'z intel_tables_scheme \<Rightarrow> string set" where
  "observed_keys read_int today now t = signal_key ` set (seen read_int today now t)"

definition called_for :: "(rat \<Rightarrow> int option) \<Rightarrow> date \<Rightarrow> instant \<Rightarrow> 'z intel_tables_scheme \<Rightarrow> string set" where
  "called_for read_int today now t = {k. \<exists>x \<in> set (seen read_int today now t). risk_of x = Some k}"

lemma seen_same:
  assumes "voice_tables.truncate u = voice_tables.truncate t"
  shows "seen read_int today now u = seen read_int today now t"
  unfolding seen_def facts_same [OF assms] by (rule refl)

lemma run_tables:
  assumes r: "run_engine read_int order draw rid trigger actor today now (calm t) = (Inr s, v)"
    and o: "visits_all order" and d: "one_per_key t"
  obtains u where "v = calm u" "voice_tables.truncate u = voice_tables.truncate t" "one_per_key u"
    "active_signals u = observed_keys read_int today now t - keys_where ignored sg_key (signals t)"
    "open_risks u = called_for read_int today now t - keys_where accepted rk_key (risks t)"
    "keys_where ignored sg_key (signals u) = keys_where ignored sg_key (signals t)"
    "keys_where accepted rk_key (risks u) = keys_where accepted rk_key (risks t)"
    "observed_keys read_int today now t \<subseteq> set (keys sg_key (signals u))"
    "called_for read_int today now t \<subseteq> set (keys rk_key (risks u))"
    "observed_keys read_int today now t \<subseteq> set (keys sg_key (signals t)) \<longrightarrow> rn_opened s = 0"
    "active_signals t \<subseteq> observed_keys read_int today now t \<longrightarrow> rn_resolved s = 0"
    "called_for read_int today now t \<subseteq> set (keys rk_key (risks t)) \<longrightarrow> rn_risks_opened s = 0"
    "open_risks t \<subseteq> called_for read_int today now t \<longrightarrow> rn_risks_resolved s = 0"
proof -
  from run_engine_run [OF r] obtain t0 deals u s1 u' where
    0: "insert_run (new_run rid trigger actor now) t = Some (t0, ())" and
    1: "those (map (facts_of_deal read_int) (deals_query t0)) = Some deals" and
    2: "passed order draw today now (account_facts_query now t0) deals
      (observed order (account_facts_query now t0) deals (contract_facts_query t0) now today) s1 t0 u" and
    s: "s = s1\<lparr>rn_finished := Some now, rn_failed := False\<rparr>" and 3: "finish_run s u = Some (u', ())" "v = calm u'" by blast
  have f: "voice_tables.truncate t0 = voice_tables.truncate t" "signals t0 = signals t" "risks t0 = risks t"
    using base_frame(9) [OF 0] signal_frame(7) [OF 0] risk_frame(7) [OF 0] by auto
  have g: "voice_tables.truncate u' = voice_tables.truncate u" "signals u' = signals u" "risks u' = risks u"
    using base_frame(10) [OF 3(1)] signal_frame(8) [OF 3(1)] risk_frame(8) [OF 3(1)] by auto
  have ss: "set (observed order (account_facts_query now t0) deals (contract_facts_query t0) now today) =
      set (seen read_int today now t)"
    using set_observed [OF o] 1 by (simp add: seen_def facts_same [OF f(1), symmetric])
  have "distinct (keys sg_key (signals t0))" "distinct (keys rk_key (risks t0))" using d f by (simp_all add: one_per_key_def)
  note p = passed_tables [OF 2 o this]
  have n: "rn_opened s = rn_opened s1" "rn_resolved s = rn_resolved s1" "rn_risks_opened s = rn_risks_opened s1"
    "rn_risks_resolved s = rn_risks_resolved s1" unfolding s by simp_all
  show thesis
    by (rule that [OF 3(2)]; insert p; unfold ss; unfold f g n one_per_key_def active_signals_def open_risks_def
        observed_keys_def called_for_def; elim conjE; (intro conjI)?; assumption)
qed

end
