(* ===== verification/Intel_Samples.thy ===== *)
theory Intel_Samples
  imports Signals Samples
begin

text \<open>
  The rows the witnesses about sales intelligence share: the tables with a customer nobody was in contact
  with, one of its deals and a stage of the deal's pipeline.
\<close>

definition toy_intel :: intel_tables where
  "toy_intel = voice_tables.extend (crm_tables.extend toy_crm (voice_tables.fields [] [] [] [] []))
     (intel_tables.fields [] [] [] [] [] [] [] [] [] [] [] [] [] [])"

definition toy_deal :: opportunity_row where
  "toy_deal = \<lparr>op_id = ''o1'', op_name = ''Renewal'', op_customer = ''c1'', op_owner = ''u1'', op_org = None,
     op_pipeline = ''p1'', op_stage = ''s1'', op_amount = 100, op_currency = ''KRW'', op_rate = 1, op_probability = 50,
     op_close = None, op_category = ''PIPELINE'', op_competitor = [], op_next_action = [], op_next_date = None,
     op_status = ''OPEN'', op_lost = [], op_win = [], op_custom = [], op_stage_entered = 0, op_last_activity = None,
     op_version = 1, op_updated_by = ''u1'', op_created = 0, op_updated = 0\<rparr>"

definition toy_stage :: "string \<Rightarrow> int \<Rightarrow> stage_row" where
  "toy_stage sid i = \<lparr>st_id = sid, st_pipeline = ''p1'', st_name = sid, st_order = i, st_probability = 10,
     st_category = ''PIPELINE'', st_won = False, st_lost = False, st_active = True, st_color = [], st_min = None, st_max = None\<rparr>"

end
