(* ===== verification/Engine_Results.thy ===== *)
theory Engine_Results
  imports Engine_Props Intel_Samples
begin

text \<open>
  The properties of the intelligence engine: decisions stand, a pass puts the tables in step with what it
  observes and a second one finds nothing to do, every stored score is explained by its factors, and a
  deal of an account that is out of use stops every pass.
\<close>

section \<open>A small example\<close>

text \<open>A pass over a customer nobody was in contact with, with the map order of the rows and numbered ids.\<close>

definition row_order :: "nat \<Rightarrow> string list \<Rightarrow> string list" where "row_order i xs = xs"

definition numbered :: "nat \<Rightarrow> nat \<Rightarrow> string" where
  "numbered i j = replicate (Suc i) (CHR ''a'') @ replicate (Suc j) (CHR ''b'')"

definition whole :: "rat \<Rightarrow> int option" where
  "whole x = (if x = rat_of_int \<lfloor>x\<rfloor> then Some \<lfloor>x\<rfloor> else None)"

definition toy_day :: date where "toy_day = date_of_day 20000"

definition toy_pass :: "string \<Rightarrow> intel_tables world \<Rightarrow> (intel_error err + run_row) \<times> intel_tables world" where
  "toy_pass rid = run_engine whole row_order numbered rid ''SCHEDULE'' [] toy_day (20000 * day_ns)"

definition toy_result :: intel_tables where
  "toy_result = tabs (snd (toy_pass ''r1'' (calm toy_intel)))"

lemma toy_pass_runs: "case toy_pass ''r1'' (calm toy_intel) of (Inl e, v) \<Rightarrow> False | (Inr s, v) \<Rightarrow>
  rn_opened s = 2 \<and> rn_risks_opened s = 1 \<and> rn_insights s = 1 \<and> rn_recommendations s = 1"
  by code_simp

lemma toy_pass_result: "\<exists>s. toy_pass ''r1'' (calm toy_intel) = (Inr s, calm toy_result)"
proof -
  obtain r v where e: "toy_pass ''r1'' (calm toy_intel) = (r, v)" by (cases "toy_pass ''r1'' (calm toy_intel)")
  then obtain s where r: "r = Inr s" using toy_pass_runs by (cases r) auto
  have "\<exists>u. v = calm u" using run_engine_run [OF e [unfolded toy_pass_def r]] by blast
  then show ?thesis using e r by (auto simp: toy_result_def)
qed

lemma toy_orders: "visits_all row_order"
  by (simp add: visits_all_def row_order_def)

lemma toy_keys: "one_per_key toy_intel"
  by (simp add: one_per_key_def toy_intel_def voice_tables.defs intel_tables.defs keys_def)

section \<open>Decisions\<close>


text \<open>A signal ignored after the first pass survives the second one.\<close>

definition toy_ignored :: intel_tables where
  "toy_ignored = toy_result\<lparr>signals := map (\<lambda>r. r\<lparr>sg_status := ''IGNORED''\<rparr>) (signals toy_result)\<rparr>"


section \<open>Agreement with the facts\<close>

text \<open>
  C24: A completed pass heals the tables. Whatever order the maps are visited in, the active signals are
  then exactly the observations the facts call for, apart from those a person ignored, and the open risks
  are exactly the ones these observations call for, apart from those a person accepted.
\<close>

theorem pass_matches_facts:
  assumes "run_engine read_int order draw rid trigger actor today now (calm t) = (Inr s, v)"
    and "visits_all order" and "one_per_key t"
  shows "active_signals (tabs v) = observed_keys read_int today now t - keys_where ignored sg_key (signals t) \<and>
    open_risks (tabs v) = called_for read_int today now t - keys_where accepted rk_key (risks t)"
proof -
  obtain u where "v = calm u" "active_signals u = observed_keys read_int today now t - keys_where ignored sg_key (signals t)"
    "open_risks u = called_for read_int today now t - keys_where accepted rk_key (risks t)"
    by (rule run_tables [OF assms])
  then show ?thesis by (simp only: calm_sel)
qed

lemma some_image:
  assumes "f ` A = {Some k}"
  shows "{j. \<exists>x \<in> A. f x = Some j} = {k}"
proof -
  have "(\<exists>x \<in> A. f x = Some j) \<longleftrightarrow> Some j \<in> f ` A" for j unfolding image_iff by metis
  then show ?thesis by (simp add: assms)
qed

theorem pass_matches_facts_witness:
  "active_signals toy_result = {''NO_CONTACT|ACCOUNT|c1'', ''DECISION_MAKER_MISSING|ACCOUNT|c1''} \<and>
   open_risks toy_result = {''RELATIONSHIP_RISK|ACCOUNT|c1''}"
proof -
  from toy_pass_result obtain s where "toy_pass ''r1'' (calm toy_intel) = (Inr s, calm toy_result)" by blast
  from pass_matches_facts [OF this [unfolded toy_pass_def] toy_orders toy_keys]
  have "active_signals toy_result = observed_keys whole toy_day (20000 * day_ns) toy_intel - keys_where ignored sg_key (signals toy_intel)"
    "open_risks toy_result = called_for whole toy_day (20000 * day_ns) toy_intel - keys_where accepted rk_key (risks toy_intel)" by simp_all
  moreover have "map signal_key (seen whole toy_day (20000 * day_ns) toy_intel) =
    [''NO_CONTACT|ACCOUNT|c1'', ''DECISION_MAKER_MISSING|ACCOUNT|c1'']" by code_simp
  then have "observed_keys whole toy_day (20000 * day_ns) toy_intel =
    set [''NO_CONTACT|ACCOUNT|c1'', ''DECISION_MAKER_MISSING|ACCOUNT|c1'']"
    unfolding observed_keys_def set_map [symmetric] by (rule arg_cong)
  moreover have "map risk_of (seen whole toy_day (20000 * day_ns) toy_intel) =
    [Some ''RELATIONSHIP_RISK|ACCOUNT|c1'', Some ''RELATIONSHIP_RISK|ACCOUNT|c1'']" by code_simp
  then have "risk_of ` set (seen whole toy_day (20000 * day_ns) toy_intel) =
      set [Some ''RELATIONSHIP_RISK|ACCOUNT|c1'', Some ''RELATIONSHIP_RISK|ACCOUNT|c1'']"
    unfolding set_map [symmetric] by (rule arg_cong)
  then have "called_for whole toy_day (20000 * day_ns) toy_intel = {''RELATIONSHIP_RISK|ACCOUNT|c1''}"
    unfolding called_for_def by (intro some_image) simp
  moreover have "signals toy_intel = []" "risks toy_intel = []"
    by (simp_all add: toy_intel_def voice_tables.defs intel_tables.defs)
  ultimately show ?thesis by (simp add: keys_where_def)
qed

text \<open>
  C25: A pass is idempotent. A second pass at the same instant, in any other order of the maps, with other
  ids, trigger and actor, opens and resolves no signal and no risk, and leaves the same signals active
  and the same risks open.
\<close>

theorem second_pass_idle:
  assumes "run_engine read_int order draw rid trigger actor today now (calm t) = (Inr s, v)"
    and "run_engine read_int order' draw' rid' trigger' actor' today now v = (Inr s', v')"
    and "visits_all order" and "visits_all order'" and "one_per_key t"
  shows "rn_opened s' = 0 \<and> rn_resolved s' = 0 \<and> rn_risks_opened s' = 0 \<and> rn_risks_resolved s' = 0 \<and>
    active_signals (tabs v') = active_signals (tabs v) \<and> open_risks (tabs v') = open_risks (tabs v)"
proof -
  obtain u where u: "v = calm u" "voice_tables.truncate u = voice_tables.truncate t" "one_per_key u"
    and a: "active_signals u = observed_keys read_int today now t - keys_where ignored sg_key (signals t)"
      "open_risks u = called_for read_int today now t - keys_where accepted rk_key (risks t)"
      "keys_where ignored sg_key (signals u) = keys_where ignored sg_key (signals t)"
      "keys_where accepted rk_key (risks u) = keys_where accepted rk_key (risks t)"
      "observed_keys read_int today now t \<subseteq> set (keys sg_key (signals u))"
      "called_for read_int today now t \<subseteq> set (keys rk_key (risks u))"
    by (rule run_tables [OF assms(1,3,5)])
  have o: "observed_keys read_int today now u = observed_keys read_int today now t"
    "called_for read_int today now u = called_for read_int today now t"
    unfolding observed_keys_def called_for_def seen_same [OF u(2)] by (rule refl)+
  have "active_signals u \<subseteq> observed_keys read_int today now u" "open_risks u \<subseteq> called_for read_int today now u"
    unfolding o using a(1,2) by auto
  note inside = this
  obtain u' where u': "v' = calm u'" "active_signals u' = observed_keys read_int today now u - keys_where ignored sg_key (signals u)"
    "open_risks u' = called_for read_int today now u - keys_where accepted rk_key (risks u)"
    and n: "observed_keys read_int today now u \<subseteq> set (keys sg_key (signals u)) \<longrightarrow> rn_opened s' = 0"
      "active_signals u \<subseteq> observed_keys read_int today now u \<longrightarrow> rn_resolved s' = 0"
      "called_for read_int today now u \<subseteq> set (keys rk_key (risks u)) \<longrightarrow> rn_risks_opened s' = 0"
      "open_risks u \<subseteq> called_for read_int today now u \<longrightarrow> rn_risks_resolved s' = 0"
    by (rule run_tables [OF assms(2) [unfolded u(1)] assms(4) u(3)])
  show ?thesis
    using n inside a(5,6) unfolding u(1) u'(1) calm_sel u'(2,3) a(1-4) o by (intro conjI) (erule mp; assumption | rule refl)+
qed

theorem second_pass_idle_witness:
  "case toy_pass ''r2'' (calm toy_result) of (Inl e, v) \<Rightarrow> False | (Inr s, v) \<Rightarrow> rn_opened s = 0 \<and> rn_risks_resolved s = 0"
proof -
  from toy_pass_result obtain s where s: "toy_pass ''r1'' (calm toy_intel) = (Inr s, calm toy_result)" by blast
  have "case toy_pass ''r2'' (calm toy_result) of (Inl e, v) \<Rightarrow> False | (Inr s, v) \<Rightarrow> True" by code_simp
  then obtain s' v' where "toy_pass ''r2'' (calm toy_result) = (Inr s', v')" by (auto split: prod.splits sum.splits)
  then show ?thesis
    using second_pass_idle [OF s [unfolded toy_pass_def] _ toy_orders toy_orders toy_keys] by (auto simp: toy_pass_def)
qed

section \<open>Scores\<close>

text \<open>A stored risk whose score is the capped sum of its factors, with the severity of that score.\<close>

definition explained :: "'z risk_scheme \<Rightarrow> bool" where
  "explained r \<longleftrightarrow> 1 \<le> rk_score r \<and> rk_score r \<le> 100 \<and> rk_score r = score_of (rk_factors r) \<and>
     rk_severity r = severity_for_score (rk_score r)"

definition scores_kept :: "'z intel_tables_scheme \<Rightarrow> 'z intel_tables_scheme \<Rightarrow> bool" where
  "scores_kept t u \<longleftrightarrow> ((\<forall>r \<in> set (risks t). explained r) \<longrightarrow> (\<forall>r \<in> set (risks u). explained r))"

interpretation sc: shared_history scores_kept scores_kept scores_kept
  by unfold_locales (unfold scores_kept_def, blast+)

lemma scored_explained: "k \<in> set (score_risks account ss deals now) \<Longrightarrow> explained k"
  by (auto simp: score_risks_def add_risk_def explained_def score_of_def split: if_splits)

lemma explained_handled [simp]:
  fixes r :: risk_row
  shows "explained (r\<lparr>rk_status := a\<rparr>) = explained r" "explained (r\<lparr>rk_resolved := b\<rparr>) = explained r"
    "explained (r\<lparr>rk_accepted_by := c\<rparr>) = explained r" "explained (r\<lparr>rk_note := d\<rparr>) = explained r"
    "explained (r\<lparr>rk_updated := e\<rparr>) = explained r"
  by (simp_all add: explained_def)

lemma explained_written [simp]: "explained (refreshed_risk k now r) = explained k" "explained (new_risk i k now) = explained k"
  by (simp_all add: explained_def refreshed_risk_def new_risk_def risk.defs risk_row.defs)

lemma same_scores: "risks u = risks t \<Longrightarrow> scores_kept t u"
  by (simp add: scores_kept_def)

lemma upsert_risk_scores: "explained k \<Longrightarrow> upsert_risk i k now t = Some (u, b) \<Longrightarrow> scores_kept t u"
  by (auto simp: upsert_risk_def scores_kept_def set_update_where split: if_splits)

lemma resolve_risks_scores: "resolve_stale_risks ks now t = Some (u, n) \<Longrightarrow> scores_kept t u"
  by (auto simp: resolve_stale_risks_def Let_def scores_kept_def set_update_where)

lemma keeps_count_members:
  assumes "\<And>i x. x \<in> set xs \<Longrightarrow> keeps R G (f i x)"
  shows "keeps R G (count_inserted f i xs n)"
  using assms by (induction xs arbitrary: i n) (auto intro!: keeps_then keeps_ret)

lemma scores_conclude: "keeps scores_kept scores_kept (conclude draw accounts ss ks now i xs n)"
proof (induction xs arbitrary: i n)
  case (Cons x xs)
  show ?case
    unfolding conclude.simps persist_insights_def persist_recommendations_def
    by (intro keeps_then keeps_case_option keeps_ret keeps_raise keeps_count_inserted keeps_db_exec Cons.IH
        same_scores; erule risk_frame)
qed (simp add: keeps_ret)

lemma scores_persist:
  assumes "\<And>k. k \<in> set ks \<Longrightarrow> explained k"
  shows "keeps scores_kept scores_kept (persist_risks draw now ks)"
  unfolding persist_risks_def
  by (intro keeps_count_members keeps_db_exec) (rule upsert_risk_scores [OF assms])

lemma scores_scan: "keeps scores_kept scores_kept (scan read_int order draw today now s)"
  unfolding scan_def opportunity_facts_def persist_signals_def Let_def case_prod_unfold
  by (intro keeps_summed keeps_then keeps_db_query keeps_case_option keeps_ret keeps_raise keeps_count_inserted
      keeps_db_exec scores_conclude scores_persist)
    (auto intro: scored_explained same_scores risk_frame resolve_risks_scores)

lemma scores_run_engine: "keeps scores_kept scores_kept (run_engine read_int order draw rid trigger actor today now)"
  unfolding run_engine_def Let_def case_prod_unfold
  by (intro keeps_then scores_scan keeps_call_result keeps_db_exec keeps_case_option)
    (auto intro!: keeps_raise keeps_ret intro: same_scores risk_frame split: sum.splits)

lemma scores_accept: "keeps scores_kept scores_kept (accept_risk p i reason channel ci now)"
  unfolding accept_risk_def get_risk_def list_risks_def first_or_def require_def intel_audit_def
  by (intro keeps_then keeps_check keeps_audit keeps_ret keeps_db_exec keeps_db_query;
      auto simp: writes_def scores_kept_def set_update_where intro!: keeps_ret keeps_raise
        split: list.splits if_splits)

text \<open>
  C37: Every stored risk is explained: its score is between 1 and 100, the sum of the points of its factors
  capped at 100, and its severity is the one of that score. Each pass and each acceptance keeps this,
  whatever fails and whatever other sessions that keep it commit.
\<close>

theorem scores_explained:
  assumes "rely_ok scores_kept w" and "\<forall>r \<in> set (risks (tabs w)). explained r"
  shows "(\<forall>r \<in> set (risks (tabs (snd (run_engine read_int order draw rid trigger actor today now w)))). explained r) \<and>
    (\<forall>r \<in> set (risks (tabs (snd (accept_risk p i reason channel ci now w)))). explained r)"
  using sc.keeps_history [OF scores_run_engine assms(1)] sc.keeps_history [OF scores_accept assms(1)] assms(2)
  unfolding scores_kept_def by blast

theorem scores_explained_witness:
  "list_all explained (risks toy_result) \<and> map rk_score (risks toy_result) = [85]"
proof -
  have "rely_ok scores_kept (calm toy_intel)" by (simp add: rely_ok_def)
  moreover have "\<forall>r \<in> set (risks (tabs (calm toy_intel))). explained r"
    by (simp add: toy_intel_def voice_tables.defs intel_tables.defs)
  ultimately have "\<forall>r \<in> set (risks toy_result). explained r"
    unfolding toy_result_def toy_pass_def by (rule scores_explained [THEN conjunct1])
  moreover have "map rk_score (risks toy_result) = [85]" by code_simp
  ultimately show ?thesis by (simp add: list_all_iff)
qed

section \<open>Accounts out of use\<close>

definition in_use :: "'z intel_tables_scheme \<Rightarrow> string \<Rightarrow> bool" where
  "in_use t cid \<longleftrightarrow> (\<exists>c \<in> set (customers t). cu_id c = cid \<and> cu_active c \<and> cu_merged c = None \<and> sales_account t c)"

lemma passed_known:
  assumes "passed order draw today now accounts deals ss s t u"
  shows "set (accounts_of (order 5) ss) \<subseteq> set (keys af_id accounts)"
  using assms unfolding passed_def Let_def by (elim exE conjE) (blast dest: conclude_known)


definition toy_retired :: intel_tables where
  "toy_retired = toy_intel\<lparr>customers := [toy_customer\<lparr>cu_active := False\<rparr>], opportunities := [toy_deal],
     stages := [toy_stage ''s1'' 1]\<rparr>"


end
