(* ===== verification/Playbook.thy ===== *)
theory Playbook
  imports Decisions
begin

text \<open>
  Sales execution (internal/intelligence/playbook.go): the playbook of a stage and a deal's progress in
  it, the exit criteria of a stage and the gate they form for a deal that is to leave it, and the
  administrator's form that replaces both. The texts the gate shows are kept, in the bytes of their
  encoding.
\<close>

section \<open>Playbooks\<close>

record item_view = playbook_item +
  iv_completed :: bool
  iv_notes :: string
  iv_by :: string
  iv_at :: "instant option"

record playbook_view =
  pv_stage :: string
  pv_id :: string
  pv_name :: string
  pv_guidance :: string
  pv_active :: bool
  pv_items :: "item_view list"
  pv_completed :: nat
  pv_required :: nat
  pv_required_done :: nat

definition no_playbook :: "string \<Rightarrow> playbook_view" where
  "no_playbook sid = \<lparr>pv_stage = sid, pv_id = [], pv_name = [], pv_guidance = [], pv_active = False, pv_items = [],
     pv_completed = 0, pv_required = 0, pv_required_done = 0\<rparr>"

definition view_of :: "string \<Rightarrow> playbook_row \<Rightarrow> item_view list \<Rightarrow> playbook_view" where
  "view_of sid b items =
     \<lparr>pv_stage = sid, pv_id = pb_id b, pv_name = pb_name b, pv_guidance = pb_guidance b, pv_active = pb_active b,
      pv_items = items, pv_completed = count_where iv_completed items, pv_required = count_where pt_required items,
      pv_required_done = count_where (\<lambda>i. pt_required i \<and> iv_completed i) items\<rparr>"

text \<open>The items of a playbook in their order, joined with the deal's progress.\<close>

definition items_of :: "string \<Rightarrow> 'z intel_tables_scheme \<Rightarrow> playbook_item list" where
  "items_of pid t = sort_key pt_order (sort_key pt_id (filter (\<lambda>i. pt_playbook i = pid) (playbook_items t)))"

definition with_progress :: "string \<Rightarrow> 'z intel_tables_scheme \<Rightarrow> playbook_item \<Rightarrow> item_view" where
  "with_progress oid t i =
     playbook_item.extend i
       (case List.find (\<lambda>g. pp_item g = pt_id i \<and> pp_opportunity g = oid) (progress t) of
          None \<Rightarrow> item_view.fields False [] [] None
        | Some g \<Rightarrow> item_view.fields (pp_completed g) (pp_notes g)
            (case_option [] u_display_name (row_by u_id (pp_by g) (users t))) (pp_at g))"

definition playbook_of :: "principal \<Rightarrow> string \<Rightarrow> ('z intel_tables_scheme, 'e, playbook_view) go" where
  "playbook_of p oid =
     and_then (get_opportunity p oid) (\<lambda>opp.
     and_then (db_query (\<lambda>t. List.find (\<lambda>b. pb_stage b = op_stage opp \<and> pb_active b) (playbooks t))) (\<lambda>r.
     case r of
       None \<Rightarrow> ret (no_playbook (op_stage opp))
     | Some b \<Rightarrow>
         and_then (db_query (\<lambda>t. map (with_progress oid t) (items_of (pb_id b) t))) (\<lambda>items.
         ret (view_of (op_stage opp) b items))))"

definition upsert_progress :: "progress_row \<Rightarrow> 'z intel_tables_scheme \<Rightarrow> ('z intel_tables_scheme \<times> unit) option" where
  "upsert_progress g t =
     (if \<not> refers op_id (opportunities t) (Some (pp_opportunity g)) \<or> \<not> refers pt_id (playbook_items t) (Some (pp_item g)) \<or>
         \<not> refers u_id (users t) (Some (pp_by g)) then None
      else
        let P = (\<lambda>x. pp_opportunity x = pp_opportunity g \<and> pp_item x = pp_item g) in
        Some (t\<lparr>progress := (if list_ex P (progress t) then update_where P (\<lambda>_. g) (progress t) else progress t @ [g])\<rparr>, ()))"

definition set_playbook_progress :: "principal \<Rightarrow> string \<Rightarrow> string \<Rightarrow> bool \<Rightarrow> string \<Rightarrow> string \<Rightarrow> client_info \<Rightarrow> instant
    \<Rightarrow> ('z intel_tables_scheme, intel_error, playbook_view) go" where
  "set_playbook_progress p oid iid completed notes channel ci now =
     and_then (require p ''opportunity:write'') (\<lambda>_.
     and_then (playbook_of p oid) (\<lambda>b.
     and_then (check (list_ex (\<lambda>i. pt_id i = iid) (pv_items b)) Item_not_in_stage) (\<lambda>_.
     and_then (db_exec (upsert_progress \<lparr>pp_opportunity = oid, pp_item = iid, pp_completed = completed,
        pp_notes = trim_space notes, pp_by = user_id p, pp_at = (if completed then Some now else None)\<rparr>)) (\<lambda>_.
     and_then (crm_audit p channel ci ''PLAYBOOK_PROGRESS'' ''opportunity'' oid) (\<lambda>_.
     playbook_of p oid)))))"

section \<open>Exit criteria\<close>

text \<open>
  The values \<open>opportunityField\<close> returns as \<open>any\<close>: what JSON decodes to, or a \<open>*time.Time\<close>, which as an
  interface value is not nil even when the pointer is.
\<close>

datatype any_value = Plain json | Time_pointer "date option"

fun present :: "any_value \<Rightarrow> bool" where
  "present (Time_pointer d) = True"
| "present (Plain JNull) = False"
| "present (Plain (JStr s)) = (\<not> blank s)"
| "present (Plain (JNum n)) = (n \<noteq> 0)"
| "present (Plain (JBool b)) = b"
| "present (Plain (JArr xs)) = True"
| "present (Plain (JObj kvs)) = True"

definition custom_value :: "opportunity_row \<Rightarrow> string \<Rightarrow> json" where
  "custom_value opp key = case_option JNull id (json_field key (op_custom opp))"

definition opportunity_field :: "opportunity_row \<Rightarrow> string \<Rightarrow> any_value" where
  "opportunity_field opp key =
     (if key = ''name'' then Plain (JStr (op_name opp))
      else if key = ''customerId'' \<or> key = ''customer_id'' then Plain (JStr (op_customer opp))
      else if key = ''expectedAmount'' \<or> key = ''expected_amount'' then Plain (JNum (op_base opp))
      else if key = ''expectedCloseDate'' \<or> key = ''expected_close_date'' then Time_pointer (op_close opp)
      else if key = ''nextAction'' \<or> key = ''next_action'' then Plain (JStr (op_next_action opp))
      else if key = ''nextActionDate'' \<or> key = ''next_action_date'' then Time_pointer (op_next_date opp)
      else if key = ''competitor'' then Plain (JStr (op_competitor opp))
      else if key = ''forecastCategory'' \<or> key = ''forecast_category'' then Plain (JStr (op_category opp))
      else Plain (custom_value opp key))"

text \<open>\<open>thresholdNumber\<close> on decoded JSON.\<close>

definition threshold_number :: "(string \<times> json) list \<Rightarrow> string \<Rightarrow> rat \<Rightarrow> rat" where
  "threshold_number kvs key fallback = (case json_field key kvs of Some (JNum n) \<Rightarrow> n | _ \<Rightarrow> fallback)"

text \<open>\<open>time.Duration(days*24) * time.Hour\<close>: truncated to whole hours, and the product wraps.\<close>

definition whole_hours :: "rat \<Rightarrow> int" where
  "whole_hours days = wrap64 (to_int64 (toward_zero (days * 24)) * hour_ns)"

definition recent_activity :: "opportunity_row \<Rightarrow> json \<Rightarrow> instant \<Rightarrow> bool" where
  "recent_activity opp expected now =
     (case op_last_activity opp of
        None \<Rightarrow> False
      | Some a \<Rightarrow> now - a \<le> whole_hours (case expected of JObj kvs \<Rightarrow> threshold_number kvs ''days'' 30 | _ \<Rightarrow> 30))"

definition criterion_met :: "principal \<Rightarrow> opportunity_row \<Rightarrow> string \<Rightarrow> criterion_row \<Rightarrow> instant
    \<Rightarrow> ('z intel_tables_scheme, 'e, bool) go" where
  "criterion_met p opp oid c now =
     (if ec_type c = ''FIELD_PRESENT'' then ret (present (opportunity_field opp (ec_field c)))
      else if ec_type c = ''CUSTOM_FIELD'' then ret (present (Plain (custom_value opp (ec_field c))))
      else if ec_type c = ''DECISION_MAKER'' then
        and_then (or_default 0 (db_query (\<lambda>t. count_where (\<lambda>n. cn_customer n = op_customer opp \<and> cn_decision n) (contacts t)))) (\<lambda>n.
        ret (n > 0))
      else if ec_type c = ''RECENT_ACTIVITY'' then ret (recent_activity opp (ec_expected c) now)
      else if ec_type c = ''PLAYBOOK_COMPLETE'' then
        and_then (playbook_of p oid) (\<lambda>b. ret (pv_required b = pv_required_done b))
      else ret False)"

definition unmet_text :: string where
  "unmet_text =
    [CHR 0x20, CHR 0xEC, CHR 0xA1, CHR 0xB0, CHR 0xEA, CHR 0xB1, CHR 0xB4, CHR 0xEC, CHR 0x9D, CHR 0xB4, CHR 0x20,
     CHR 0xEC, CHR 0xB6, CHR 0xA9, CHR 0xEC, CHR 0xA1, CHR 0xB1, CHR 0xEB, CHR 0x90, CHR 0x98, CHR 0xEC, CHR 0xA7,
     CHR 0x80, CHR 0x20, CHR 0xEC, CHR 0x95, CHR 0x8A, CHR 0xEC, CHR 0x95, CHR 0x98, CHR 0xEC, CHR 0x8A, CHR 0xB5,
     CHR 0xEB, CHR 0x8B, CHR 0x88, CHR 0xEB, CHR 0x8B, CHR 0xA4, CHR 0x2E]"

definition issue_of :: "criterion_row \<Rightarrow> gate_issue" where
  "issue_of c = \<lparr>gi_id = ec_id c, gi_name = ec_name c, gi_enforcement = ec_enforcement c,
     gi_message = (if ec_message c = [] then ec_name c @ unmet_text else ec_message c)\<rparr>"

definition with_issue :: "criterion_row \<Rightarrow> gate_result \<Rightarrow> gate_result" where
  "with_issue c r =
     (if ec_enforcement c = ''BLOCK'' then r\<lparr>gr_blocked := gr_blocked r @ [issue_of c], gr_allowed := False\<rparr>
      else r\<lparr>gr_warnings := gr_warnings r @ [issue_of c]\<rparr>)"

fun apply_criteria :: "principal \<Rightarrow> opportunity_row \<Rightarrow> string \<Rightarrow> instant \<Rightarrow> criterion_row list \<Rightarrow> gate_result
    \<Rightarrow> ('z intel_tables_scheme, 'e, gate_result) go" where
  "apply_criteria p opp oid now [] r = ret r"
| "apply_criteria p opp oid now (c # cs) r =
     and_then (criterion_met p opp oid c now) (\<lambda>met.
     apply_criteria p opp oid now cs (if (if ec_operator c = ''NOT_PRESENT'' then \<not> met else met) then r else with_issue c r))"

definition gate_criteria :: "string \<Rightarrow> 'z intel_tables_scheme \<Rightarrow> criterion_row list" where
  "gate_criteria sid t = sort_key ec_order (sort_key ec_id
     (filter (\<lambda>c. ec_stage c = sid \<and> ec_active c \<and> ec_enforcement c \<noteq> ''OFF'') (criteria t)))"

definition validate_stage_transition :: "instant \<Rightarrow> principal \<Rightarrow> string \<Rightarrow> string
    \<Rightarrow> ('z intel_tables_scheme, crm_error, gate_result) go" where
  "validate_stage_transition now p oid target =
     and_then (get_opportunity p oid) (\<lambda>opp.
     and_then (if target = [] then ret False
        else db_query (\<lambda>t. list_ex (\<lambda>s. st_id s = target \<and> st_pipeline s = op_pipeline opp \<and> st_active s) (stages t))) (\<lambda>valid.
     and_then (check (target \<noteq> [] \<and> valid) Stage_inactive) (\<lambda>_.
     and_then (db_query (gate_criteria (op_stage opp))) (\<lambda>cs.
     apply_criteria p opp oid now cs \<lparr>gr_allowed = True, gr_blocked = [], gr_warnings = []\<rparr>))))"

section \<open>The administrator's form\<close>

definition stage_playbook :: "string \<Rightarrow> ('z intel_tables_scheme, 'e, playbook_view) go" where
  "stage_playbook sid =
     and_then (db_query (\<lambda>t. List.find (\<lambda>b. pb_stage b = sid) (playbooks t))) (\<lambda>r.
     case r of
       None \<Rightarrow> ret (no_playbook sid)
     | Some b \<Rightarrow>
         and_then (db_query (items_of (pb_id b))) (\<lambda>items.
         ret ((no_playbook sid)\<lparr>pv_id := pb_id b, pv_name := pb_name b, pv_guidance := pb_guidance b, pv_active := pb_active b,
           pv_items := map (\<lambda>i. playbook_item.extend i (item_view.fields False [] [] None)) items\<rparr>)))"

definition stage_criteria :: "string \<Rightarrow> ('z intel_tables_scheme, 'e, criterion_row list) go" where
  "stage_criteria sid =
     db_query (\<lambda>t. sort_key ec_order (sort_key ec_id (filter (\<lambda>c. ec_stage c = sid) (criteria t))))"

record stage_execution =
  se_pipeline :: string
  se_pipeline_name :: string
  se_stage :: string
  se_stage_name :: string
  se_order :: int
  se_playbook :: playbook_view
  se_criteria :: "criterion_row list"

definition execution_of :: "pipeline_row \<Rightarrow> stage_row \<Rightarrow> playbook_view \<Rightarrow> criterion_row list \<Rightarrow> stage_execution" where
  "execution_of q s b cs = \<lparr>se_pipeline = pl_id q, se_pipeline_name = pl_name q, se_stage = st_id s, se_stage_name = st_name s,
     se_order = st_order s, se_playbook = b, se_criteria = cs\<rparr>"

definition pipeline_stages :: "'z intel_tables_scheme \<Rightarrow> (pipeline_row \<times> stage_row) list" where
  "pipeline_stages t =
     concat (map (\<lambda>q. map (Pair q) (sort_key st_order (filter (\<lambda>s. st_pipeline s = pl_id q) (stages t))))
       (sort_key (\<lambda>q. if pl_default q then 0 else (1 :: int)) (sort_key pl_name (pipelines t))))"

definition admin_stage_executions :: "principal \<Rightarrow> ('z intel_tables_scheme, intel_error, stage_execution list) go" where
  "admin_stage_executions p =
     and_then (require p ''admin:read'') (\<lambda>_.
     and_then (db_query pipeline_stages) (\<lambda>rows.
     collect (\<lambda>(q, s).
       and_then (stage_playbook (st_id s)) (\<lambda>b.
       and_then (stage_criteria (st_id s)) (\<lambda>cs. ret (execution_of q s b cs)))) rows))"

record item_input =
  ti_id :: string
  ti_title :: string
  ti_text :: string
  ti_type :: string
  ti_field :: string
  ti_required :: bool
  ti_order :: int

record criterion_input =
  xi_id :: string
  xi_name :: string
  xi_type :: string
  xi_field :: string
  xi_operator :: string
  xi_expected :: json
  xi_enforcement :: string
  xi_message :: string
  xi_active :: bool
  xi_order :: int

record execution_input =
  ei_name :: string
  ei_guidance :: string
  ei_active :: bool
  ei_items :: "item_input list"
  ei_criteria :: "criterion_input list"

definition small_int :: "int \<Rightarrow> bool" where
  "small_int n \<longleftrightarrow> - (2 ^ 31) \<le> n \<and> n < 2 ^ 31"

definition or_else_text :: "string \<Rightarrow> string \<Rightarrow> string" where
  "or_else_text v fallback = (if v = [] then fallback else v)"

definition or_place :: "int \<Rightarrow> nat \<Rightarrow> int" where
  "or_place n i = (if n = 0 then (int i + 1) * 10 else n)"

definition stored_item :: "string \<Rightarrow> string \<Rightarrow> item_input \<Rightarrow> nat \<Rightarrow> playbook_item" where
  "stored_item iid pid x i =
     \<lparr>pt_id = iid, pt_playbook = pid, pt_title = trim_space (ti_title x), pt_text = trim_space (ti_text x),
      pt_type = or_else_text (ti_type x) ''CHECKLIST'', pt_field = ti_field x, pt_required = ti_required x,
      pt_order = or_place (ti_order x) i\<rparr>"

definition item_refused :: "playbook_item \<Rightarrow> bool" where
  "item_refused i \<longleftrightarrow> pt_type i \<notin> {''CHECKLIST'', ''ACTION'', ''FIELD''} \<or> \<not> small_int (pt_order i)"

definition insert_item :: "playbook_item \<Rightarrow> 'z intel_tables_scheme \<Rightarrow> ('z intel_tables_scheme \<times> unit) option" where
  "insert_item i t =
     (if pt_id i \<in> set (keys pt_id (playbook_items t)) \<or> \<not> refers pb_id (playbooks t) (Some (pt_playbook i)) \<or> item_refused i
      then None else Some (t\<lparr>playbook_items := playbook_items t @ [i]\<rparr>, ()))"

definition update_item :: "playbook_item \<Rightarrow> 'z intel_tables_scheme \<Rightarrow> ('z intel_tables_scheme \<times> unit) option" where
  "update_item i t =
     (let P = (\<lambda>x. pt_id x = pt_id i \<and> pt_playbook x = pt_playbook i) in
      if list_ex P (playbook_items t) \<and> item_refused i then None
      else Some (t\<lparr>playbook_items := update_where P (\<lambda>_. i) (playbook_items t)\<rparr>, ()))"

text \<open>A deleted item takes the progress recorded for it along.\<close>

definition delete_item :: "string \<Rightarrow> string \<Rightarrow> 'z intel_tables_scheme \<Rightarrow> ('z intel_tables_scheme \<times> unit) option" where
  "delete_item pid iid t =
     (let gone = (\<lambda>x. pt_id x = iid \<and> pt_playbook x = pid) in
      Some (t\<lparr>progress := delete_where (\<lambda>g. list_ex (\<lambda>x. gone x \<and> pt_id x = pp_item g) (playbook_items t)) (progress t),
        playbook_items := delete_where gone (playbook_items t)\<rparr>, ()))"

text \<open>The loop over the items: a new one is inserted, one of this playbook updated and struck off the list.\<close>

fun save_items :: "(nat \<Rightarrow> string) \<Rightarrow> string \<Rightarrow> nat \<Rightarrow> string list \<Rightarrow> item_input list
    \<Rightarrow> ('z intel_tables_scheme, intel_error, string list) go" where
  "save_items draw pid i existing [] = ret existing"
| "save_items draw pid i existing (x # xs) =
     and_then (check (\<not> blank (ti_title x)) Item_title_missing) (\<lambda>_.
     if ti_id x = [] then
       and_then (tx_exec (insert_item (stored_item (draw i) pid x i))) (\<lambda>_. save_items draw pid (Suc i) existing xs)
     else if ti_id x \<in> set existing then
       and_then (tx_exec (update_item (stored_item (ti_id x) pid x i))) (\<lambda>_.
       save_items draw pid (Suc i) (removeAll (ti_id x) existing) xs)
     else raise (App Item_elsewhere))"

definition stored_criterion :: "string \<Rightarrow> string \<Rightarrow> criterion_input \<Rightarrow> nat \<Rightarrow> criterion_row" where
  "stored_criterion cid sid x i =
     \<lparr>ec_id = cid, ec_stage = sid, ec_name = trim_space (xi_name x), ec_type = or_else_text (xi_type x) ''FIELD_PRESENT'',
      ec_field = xi_field x, ec_operator = or_else_text (xi_operator x) ''PRESENT'', ec_expected = xi_expected x,
      ec_enforcement = or_else_text (xi_enforcement x) ''WARNING'', ec_message = xi_message x, ec_active = xi_active x,
      ec_order = or_place (xi_order x) i\<rparr>"

definition criterion_refused :: "criterion_row \<Rightarrow> bool" where
  "criterion_refused c \<longleftrightarrow>
     ec_type c \<notin> {''FIELD_PRESENT'', ''DECISION_MAKER'', ''RECENT_ACTIVITY'', ''PLAYBOOK_COMPLETE'', ''CUSTOM_FIELD''} \<or>
     ec_enforcement c \<notin> {''OFF'', ''WARNING'', ''BLOCK''} \<or> \<not> small_int (ec_order c)"

definition insert_criterion :: "criterion_row \<Rightarrow> 'z intel_tables_scheme \<Rightarrow> ('z intel_tables_scheme \<times> unit) option" where
  "insert_criterion c t =
     (if ec_id c \<in> set (keys ec_id (criteria t)) \<or> \<not> refers st_id (stages t) (Some (ec_stage c)) \<or> criterion_refused c
      then None else Some (t\<lparr>criteria := criteria t @ [c]\<rparr>, ()))"

definition update_criterion :: "criterion_row \<Rightarrow> 'z intel_tables_scheme \<Rightarrow> ('z intel_tables_scheme \<times> unit) option" where
  "update_criterion c t =
     (let P = (\<lambda>x. ec_id x = ec_id c \<and> ec_stage x = ec_stage c) in
      if list_ex P (criteria t) \<and> criterion_refused c then None
      else Some (t\<lparr>criteria := update_where P (\<lambda>_. c) (criteria t)\<rparr>, ()))"

definition delete_criterion :: "string \<Rightarrow> string \<Rightarrow> 'z intel_tables_scheme \<Rightarrow> ('z intel_tables_scheme \<times> unit) option" where
  "delete_criterion sid cid t =
     Some (t\<lparr>criteria := delete_where (\<lambda>c. ec_id c = cid \<and> ec_stage c = sid) (criteria t)\<rparr>, ())"

fun save_criteria :: "(nat \<Rightarrow> string) \<Rightarrow> string \<Rightarrow> nat \<Rightarrow> string list \<Rightarrow> criterion_input list
    \<Rightarrow> ('z intel_tables_scheme, intel_error, string list) go" where
  "save_criteria draw sid i existing [] = ret existing"
| "save_criteria draw sid i existing (x # xs) =
     and_then (check (\<not> blank (xi_name x)) Criterion_name_missing) (\<lambda>_.
     if xi_id x = [] then
       and_then (tx_exec (insert_criterion (stored_criterion (draw i) sid x i))) (\<lambda>_. save_criteria draw sid (Suc i) existing xs)
     else if xi_id x \<in> set existing then
       and_then (tx_exec (update_criterion (stored_criterion (xi_id x) sid x i))) (\<lambda>_.
       save_criteria draw sid (Suc i) (removeAll (xi_id x) existing) xs)
     else raise (App Criterion_elsewhere))"

definition insert_playbook :: "playbook_row \<Rightarrow> string \<Rightarrow> 'z intel_tables_scheme \<Rightarrow> ('z intel_tables_scheme \<times> unit) option" where
  "insert_playbook b actor t =
     (if pb_id b \<in> set (keys pb_id (playbooks t)) \<or> pb_stage b \<in> set (keys pb_stage (playbooks t)) \<or>
         \<not> refers st_id (stages t) (Some (pb_stage b)) \<or> \<not> refers u_id (users t) (Some actor) then None
      else Some (t\<lparr>playbooks := playbooks t @ [b]\<rparr>, ()))"

definition save_playbook :: "execution_input \<Rightarrow> string \<Rightarrow> string \<Rightarrow> string \<Rightarrow> ('z intel_tables_scheme, intel_error, string) go" where
  "save_playbook x sid pid actor =
     and_then (tx_query (\<lambda>t. List.find (\<lambda>b. pb_stage b = sid) (playbooks t))) (\<lambda>r.
     case r of
       None \<Rightarrow> and_then (tx_exec (insert_playbook \<lparr>pb_id = pid, pb_stage = sid, pb_name = trim_space (ei_name x),
           pb_guidance = trim_space (ei_guidance x), pb_active = ei_active x\<rparr> actor)) (\<lambda>_. ret pid)
     | Some b \<Rightarrow> and_then (tx_exec (writes (\<lambda>t. t\<lparr>playbooks := update_where (\<lambda>y. pb_id y = pb_id b) (\<lambda>y. y
           \<lparr>pb_name := trim_space (ei_name x), pb_guidance := trim_space (ei_guidance x), pb_active := ei_active x\<rparr>)
           (playbooks t)\<rparr>))) (\<lambda>_. ret (pb_id b)))"

text \<open>
  The rows that are left over are deleted in the order of the table here, in the order of a map in Go;
  the deletions commute, and one that fails rolls all of it back.
\<close>

definition save_stage_execution :: "principal \<Rightarrow> string \<Rightarrow> execution_input \<Rightarrow> client_info \<Rightarrow> string \<Rightarrow> (nat \<Rightarrow> nat \<Rightarrow> string)
    \<Rightarrow> ('z intel_tables_scheme, intel_error, stage_execution) go" where
  "save_stage_execution p sid x ci pid draw =
     and_then (require p ''admin:write'') (\<lambda>_.
     and_then (with_err Stage_missing (db_row (\<lambda>t. List.find (\<lambda>(q, s). st_id s = sid) (pipeline_stages t)))) (\<lambda>(q, s).
     and_then (in_tx (
       and_then (save_playbook x sid pid (user_id p)) (\<lambda>pid.
       and_then (tx_query (\<lambda>t. keys pt_id (filter (\<lambda>i. pt_playbook i = pid) (playbook_items t)))) (\<lambda>existing.
       and_then (save_items (draw 0) pid 0 existing (ei_items x)) (\<lambda>left.
       and_then (for_each (\<lambda>iid. tx_exec (delete_item pid iid)) left) (\<lambda>_.
       and_then (tx_query (\<lambda>t. keys ec_id (filter (\<lambda>c. ec_stage c = sid) (criteria t)))) (\<lambda>existing.
       and_then (save_criteria (draw 1) sid 0 existing (ei_criteria x)) (\<lambda>left.
       for_each (\<lambda>cid. tx_exec (delete_criterion sid cid)) left)))))))) (\<lambda>_.
     and_then (crm_audit p ''ADMIN'' ci ''UPDATE_SALES_EXECUTION'' ''pipeline_stage'' sid) (\<lambda>_.
     and_then (stage_playbook sid) (\<lambda>b.
     and_then (stage_criteria sid) (\<lambda>cs. ret (execution_of q s b cs)))))))"

end
