(* ===== verification/Stage_Gate.thy ===== *)
theory Stage_Gate
  imports Playbook Intel_Samples
begin

text \<open>
  The gate of a stage (Playbook) at work in the update of a deal (Crm_Deals): the interface the CRM asks of
  a stage guard, what a deal's update guarantees of any guard that keeps it, and the guard the program
  installs. The exit criteria are restated as predicates of the tables.
\<close>

section \<open>Methods that only read\<close>

definition reads_only :: "('s, 'e, 'a) go \<Rightarrow> bool" where
  "reads_only m \<longleftrightarrow> (\<forall>t. snd (m (calm t)) = calm t)"

named_theorems reading "methods that leave the tables as they are"

lemma reads_ret [reading]: "reads_only (ret x)" and reads_raise [reading]: "reads_only (raise e)"
  and reads_check [reading]: "reads_only (check b e')" and reads_lift [reading]: "reads_only (lift r)"
  by (simp_all add: reads_only_def ret_def raise_def check_def lift_def split: sum.split)

lemma reads_query [reading]: "reads_only (db_query q)"
  by (simp add: reads_only_def db_query_calm)

lemma reads_then [reading]: "reads_only m \<Longrightarrow> (\<And>x. reads_only (f x)) \<Longrightarrow> reads_only (and_then m f)"
  by (auto simp: reads_only_def and_then_def split: prod.split sum.split) (metis snd_conv)+

lemma reads_row [reading]: "reads_only (db_row q)"
  by (simp add: reads_only_def db_row_calm split: option.split)

lemma reads_or_default [reading]: "reads_only m \<Longrightarrow> reads_only (or_default d m)"
  by (auto simp: reads_only_def or_default_def split: prod.split sum.split) (metis snd_conv)+

lemma reads_with_err [reading]: "reads_only m \<Longrightarrow> reads_only (with_err e m)"
  by (auto simp: reads_only_def with_err_def split: prod.split sum.split) (metis snd_conv)+

lemma reads_require [reading]: "reads_only (require p x)"
  by (simp add: require_def reading)

lemma reads_get_opportunity [reading]: "reads_only (get_opportunity p oid)"
  by (simp add: get_opportunity_def reading)

text \<open>The deal a caller gets, whatever the errors of the method that asks.\<close>

definition gets_deal :: "principal \<Rightarrow> string \<Rightarrow> 'z crm_tables_scheme \<Rightarrow> opportunity_row \<Rightarrow> bool" where
  "gets_deal p oid t b \<longleftrightarrow> has p ''opportunity:read'' \<and>
     List.find (\<lambda>x. op_id x = oid \<and> in_scope p t (op_owner x) (op_org x)) (opportunities t) = Some b"

lemma get_opportunity_run: "get_opportunity p oid (calm t) = (Inr b, v) \<longleftrightarrow> gets_deal p oid t b \<and> v = calm t"
  by (auto simp: get_opportunity_def require_def run_simps gets_deal_def split: if_splits)

lemma gets_deal_mem: "gets_deal p oid t b \<Longrightarrow> b \<in> set (opportunities t) \<and> op_id b = oid"
  by (auto simp: gets_deal_def find_Some_iff)

lemma reading_step:
  assumes "and_then m f (calm t) = (r, v)" and "reads_only m"
  obtains (stop) e where "m (calm t) = (Inl e, calm t)" and "r = Inl e" and "v = calm t"
    | (on) x where "m (calm t) = (Inr x, calm t)" and "f x (calm t) = (r, v)"
proof (cases "m (calm t)")
  case (Pair a w)
  then have w: "w = calm t" using assms(2) unfolding reads_only_def by (metis snd_conv)
  show ?thesis
  proof (cases a)
    case (Inl e)
    with Pair w assms(1) show ?thesis by (intro stop [of e]) (simp_all add: and_then_def)
  next
    case (Inr x)
    with Pair w assms(1) show ?thesis by (intro on [of x]) (simp_all add: and_then_def)
  qed
qed

lemma reading_run: "reads_only m \<Longrightarrow> m (calm t) = (r, v) \<Longrightarrow> v = calm t"
  by (metis reads_only_def snd_conv)

section \<open>A deal's update behind a guard\<close>

lemma update_deal_row:
  assumes "update_opportunity_row oid version f t = Some (u, n)" and "\<And>t x. op_id (f t x) = op_id x"
    and "row_by op_id k (opportunities t) = Some b" and "row_by op_id k (opportunities u) = Some a"
  shows "a = b \<or> k = oid \<and> a = stored_opportunity (f t b)"
proof -
  have s: "op_id (stored_opportunity (f t x)) = op_id x" for x by (simp add: stored_opportunity_def assms(2))
  have "opportunities u = update_where (\<lambda>x. op_id x = oid \<and> op_version x = version) (\<lambda>x. stored_opportunity (f t x)) (opportunities t)"
    using assms(1) by (auto simp: update_opportunity_row_def Let_def split: if_splits)
  then have "row_by op_id k (opportunities u) =
      map_option (\<lambda>x. if op_id x = oid \<and> op_version x = version then stored_opportunity (f t x) else x) (row_by op_id k (opportunities t))"
    by (simp add: row_by_update_where s)
  then show ?thesis using assms(3,4) row_by_Some_key [OF assms(3)] by (auto split: if_splits)
qed

lemma other_deals_kept:
  "log_change p oid before out hid now (calm t) = (r, v) \<Longrightarrow> opportunities (tabs v) = opportunities t \<and> v = calm (tabs v)"
  "crm_audit p channel ci action resource rid (calm t) = (q, v) \<Longrightarrow> opportunities (tabs v) = opportunities t \<and> v = calm (tabs v)"
  by (auto simp: log_change_def crm_audit_def record_audit_def or_default_exec_calm split: if_splits)

lemma tail_keeps_deals:
  assumes "and_then (check (n \<noteq> 0) Opportunity_changed) (\<lambda>_.
      and_then (get_opportunity p oid) (\<lambda>out.
      and_then (log_change p oid before out hid now) (\<lambda>_.
      and_then (crm_audit p channel ci action resource rid) (\<lambda>_. ret out)))) (calm u) = (r, v)"
  shows "opportunities (tabs v) = opportunities u"
  using assms
proof (cases rule: reading_step [OF assms reads_check])
  case (2 x)
  from this(2) show ?thesis
  proof (cases rule: reading_step [OF 2(2) reads_get_opportunity])
    case (2 out)
    show ?thesis
    proof (cases "log_change p oid before out hid now (calm u)")
      case logged: (Pair a w)
      note k = other_deals_kept(1) [OF logged]
      show ?thesis
      proof (cases "crm_audit p channel ci action resource rid w :: (crm_error err + unit) \<times> _ world")
        case audited: (Pair c y)
        have "opportunities (tabs y) = opportunities (tabs w)"
          using other_deals_kept(2) [of p channel ci action resource rid "tabs w" c y] audited k by simp
        then show ?thesis using 2(2) logged audited k by (auto simp: and_then_def ret_def split: sum.splits)
      qed
    qed
  qed simp
qed simp

lemma deal_written:
  assumes "and_then (db_exec (update_opportunity_row oid version (changed_opportunity p before x owner s currency rate close next_day now)))
      (\<lambda>n. and_then (check (n \<noteq> 0) Opportunity_changed) (\<lambda>_.
      and_then (get_opportunity p oid) (\<lambda>out.
      and_then (log_change p oid before out hid now) (\<lambda>_.
      and_then (crm_audit p channel ci action resource rid) (\<lambda>_. ret out))))) (calm t) = (r, v)"
    and "row_by op_id k (opportunities t) = Some b" and "row_by op_id k (opportunities (tabs v)) = Some a" and "op_stage a \<noteq> op_stage b"
  shows "k = oid \<and> op_stage a = st_id s"
proof (cases "update_opportunity_row oid version (changed_opportunity p before x owner s currency rate close next_day now) t")
  case None
  then show ?thesis using assms by (simp add: and_then_calm db_exec_calm) (metis calm_sel(1) option.inject)
next
  case (Some un)
  then obtain u n where un: "update_opportunity_row oid version (changed_opportunity p before x owner s currency rate close next_day now) t = Some (u, n)"
    by (cases un) simp
  have "opportunities (tabs v) = opportunities u"
    using assms(1) un by (intro tail_keeps_deals) (simp add: and_then_def [of "db_exec _"] db_exec_calm)
  then have "a = b \<or> k = oid \<and> a = stored_opportunity (changed_opportunity p before x owner s currency rate close next_day now t b)"
    using update_deal_row [OF un _ assms(2)] assms(3) by (simp add: changed_opportunity_def)
  then show ?thesis using assms(4) by (auto simp: stored_opportunity_def changed_opportunity_def)
qed

text \<open>
  What the CRM asks of a guard: a guard that answers has changed nothing, and what it allows is open to
  the deal it looked at.
\<close>

locale transition_guard =
  fixes guard :: "principal \<Rightarrow> string \<Rightarrow> string \<Rightarrow> ('z crm_tables_scheme, crm_error, gate_result) go"
    and open_to :: "'z crm_tables_scheme \<Rightarrow> opportunity_row \<Rightarrow> string \<Rightarrow> bool"
  assumes guard_reads: "reads_only (guard p oid sid)"
    and guard_sound: "guard p oid sid (calm t) = (Inr r, v) \<Longrightarrow> gr_allowed r \<Longrightarrow>
      \<exists>b \<in> set (opportunities t). op_id b = oid \<and> open_to t b sid"
begin

lemma guard_stage_open:
  assumes "guard_stage (Some guard) p before oid sid (calm t) = (Inr (), v)" and "sid \<noteq> op_stage before"
  shows "\<exists>b \<in> set (opportunities t). op_id b = oid \<and> open_to t b sid"
  using assms guard_sound by (auto simp: guard_stage_def run_simps split: if_splits)

lemma reads_guard_stage: "reads_only (guard_stage (Some guard) p before oid sid)"
  by (simp add: guard_stage_def reading guard_reads)

text \<open>However the update ends, a deal whose stage it changed was open to the new stage.\<close>

lemma update_respects_guard:
  assumes "update_opportunity (Some guard) p oid x channel ci hid now (calm t) = (r, v)" and "distinct (keys op_id (opportunities t))"
    and "row_by op_id k (opportunities t) = Some b" and "row_by op_id k (opportunities (tabs v)) = Some a"
    and "op_stage a \<noteq> op_stage b"
  shows "open_to t b (op_stage a)"
proof -
  have changed: "\<not> (v = calm t)" using assms(3-5) by auto
  show ?thesis
    using assms(1) unfolding update_opportunity_def Let_def case_prod_unfold
  apply (elim reading_step [OF _ reads_require] reading_step [OF _ reads_get_opportunity] reading_step [OF _ reads_lift]
      reading_step [OF _ reads_check] reading_step [OF _ reads_with_err [OF reads_row]] reading_step [OF _ reads_guard_stage])
  proof (use changed in simp_all)
    fix before c s close next_day
    let ?y = "completed_input before x"
    let ?sid = "if oi_stage ?y = [] then op_stage before else oi_stage ?y"
    assume found: "get_opportunity p oid (calm t) = (Inr before, calm t)"
      and stage: "with_err Bad_stage (db_row (\<lambda>t. row_by st_id ?sid (stages t))) (calm t) = (Inr s, calm t)"
      and gate: "guard_stage (Some guard) p before oid ?sid (calm t) = (Inr (), calm t)"
      and written: "and_then (db_exec (update_opportunity_row oid (if oi_version ?y = 0 then op_version before else oi_version ?y)
          (changed_opportunity p before ?y (if oi_owner ?y = [] then op_owner before else oi_owner ?y) s (fst c) (snd c)
            (if oi_close ?y = None then op_close before else close) (if oi_next_date ?y = None then op_next_date before else next_day) now)))
        (\<lambda>n. and_then (check (n \<noteq> 0) Opportunity_changed) (\<lambda>_.
          and_then (get_opportunity p oid) (\<lambda>out.
          and_then (log_change p oid before out hid now) (\<lambda>_.
          and_then (crm_audit p channel ci ''UPDATE'' ''opportunity'' oid) (\<lambda>_. ret out))))) (calm t) = (r, v)"
    have k: "k = oid" and a: "op_stage a = st_id s"
      using deal_written [OF written assms(3,4,5)] by simp_all
    have same: "b' = b" if "b' \<in> set (opportunities t)" and "op_id b' = oid" for b'
      using row_by_unique [OF assms(2) that(1)] that(2) assms(3) k by simp
    have "before \<in> set (opportunities t)" and "op_id before = oid"
      using found gets_deal_mem unfolding get_opportunity_run by blast+
    then have "before = b" by (rule same)
    moreover have "st_id s = ?sid" using stage by (auto simp: with_err_calm db_row_calm dest: row_by_Some_key split: option.splits)
    ultimately have "\<exists>b \<in> set (opportunities t). op_id b = oid \<and> open_to t b (op_stage a)"
      using guard_stage_open [OF gate] assms(5) a by simp
    then show "open_to t b (op_stage a)" using same by blast
  qed
qed

end

section \<open>Exit criteria as predicates\<close>

definition item_done :: "'z intel_tables_scheme \<Rightarrow> string \<Rightarrow> playbook_item \<Rightarrow> bool" where
  "item_done t oid i \<longleftrightarrow>
     (\<exists>g. List.find (\<lambda>g. pp_item g = pt_id i \<and> pp_opportunity g = oid) (progress t) = Some g \<and> pp_completed g)"

definition playbook_done :: "'z intel_tables_scheme \<Rightarrow> opportunity_row \<Rightarrow> bool" where
  "playbook_done t b \<longleftrightarrow>
     (\<forall>pb. List.find (\<lambda>x. pb_stage x = op_stage b \<and> pb_active x) (playbooks t) = Some pb \<longrightarrow>
       (\<forall>i \<in> set (playbook_items t). pt_playbook i = pb_id pb \<and> pt_required i \<longrightarrow> item_done t (op_id b) i))"

definition satisfies :: "instant \<Rightarrow> 'z intel_tables_scheme \<Rightarrow> opportunity_row \<Rightarrow> criterion_row \<Rightarrow> bool" where
  "satisfies now t b c \<longleftrightarrow>
     (ec_type c = ''FIELD_PRESENT'' \<and> present (opportunity_field b (ec_field c)) \<or>
      ec_type c = ''CUSTOM_FIELD'' \<and> present (Plain (custom_value b (ec_field c))) \<or>
      ec_type c = ''DECISION_MAKER'' \<and> (\<exists>n \<in> set (contacts t). cn_customer n = op_customer b \<and> cn_decision n) \<or>
      ec_type c = ''RECENT_ACTIVITY'' \<and> recent_activity b (ec_expected c) now \<or>
      ec_type c = ''PLAYBOOK_COMPLETE'' \<and> playbook_done t b)"

definition exit_allowed :: "instant \<Rightarrow> 'z intel_tables_scheme \<Rightarrow> opportunity_row \<Rightarrow> criterion_row \<Rightarrow> bool" where
  "exit_allowed now t b c \<longleftrightarrow> (if ec_operator c = ''NOT_PRESENT'' then \<not> satisfies now t b c else satisfies now t b c)"

definition gate_open :: "instant \<Rightarrow> 'z intel_tables_scheme \<Rightarrow> opportunity_row \<Rightarrow> string \<Rightarrow> bool" where
  "gate_open now t b target \<longleftrightarrow>
     (\<exists>s \<in> set (stages t). st_id s = target \<and> st_pipeline s = op_pipeline b \<and> st_active s) \<and>
     (\<forall>c \<in> set (criteria t). ec_stage c = op_stage b \<and> ec_active c \<and> ec_enforcement c = ''BLOCK'' \<longrightarrow> exit_allowed now t b c)"

lemma count_where_le: "count_where (\<lambda>x. P x \<and> Q x) xs \<le> count_where P xs"
  by (induction xs) (simp_all add: count_where_def)

lemma count_where_all: "count_where P xs = count_where (\<lambda>x. P x \<and> Q x) xs \<longleftrightarrow> (\<forall>x \<in> set xs. P x \<longrightarrow> Q x)"
proof (induction xs)
  case (Cons x xs)
  then show ?case using count_where_le [of P Q xs] by (auto simp: count_where_def)
qed (simp add: count_where_def)

lemma count_where_pos: "0 < count_where P xs \<longleftrightarrow> (\<exists>x \<in> set xs. P x)"
  by (induction xs) (simp_all add: count_where_def)

lemma progress_item [simp]:
  "pt_required (with_progress oid t i) = pt_required i" "iv_completed (with_progress oid t i) = item_done t oid i"
  by (simp_all add: with_progress_def item_done_def playbook_item.defs item_view.defs split: option.split)

lemma playbook_run:
  assumes "gets_deal p oid t b" and "playbook_of p oid (calm t) = (Inr v, w)"
  shows "pv_required v = pv_required_done v \<longleftrightarrow> playbook_done t b"
  using assms gets_deal_mem [OF assms(1)]
  by (auto simp: playbook_of_def run_simps get_opportunity_run gets_deal_def playbook_done_def view_of_def no_playbook_def items_of_def
      count_where_all [where P = pt_required and Q = iv_completed] split: option.splits)

lemma reads_playbook [reading]: "reads_only (playbook_of p oid)"
  by (auto simp: playbook_of_def intro!: reading split: option.split)

lemma criterion_run:
  assumes "gets_deal p oid t b" and "criterion_met p b oid c now (calm t) = (Inr met, w)"
  shows "met \<longleftrightarrow> satisfies now t b c"
  using assms(2) playbook_run [OF assms(1)]
  by (auto simp: criterion_met_def satisfies_def run_simps count_where_pos split: if_splits)

lemma reads_criterion [reading]: "reads_only (criterion_met p b oid c now)"
  by (simp add: criterion_met_def reading)

lemma criteria_run:
  assumes "gets_deal p oid t b"
  shows "apply_criteria p b oid now cs r (calm t) = (Inr r' :: 'e err + gate_result, w) \<Longrightarrow>
    gr_allowed r' \<longleftrightarrow> gr_allowed r \<and> (\<forall>c \<in> set cs. ec_enforcement c = ''BLOCK'' \<longrightarrow> exit_allowed now t b c)"
proof (induction cs arbitrary: r)
  case (Cons c cs)
  obtain met where met: "criterion_met p b oid c now (calm t) = (Inr met :: 'e err + bool, calm t)"
    and rest: "apply_criteria p b oid now cs (if (if ec_operator c = ''NOT_PRESENT'' then \<not> met else met) then r else with_issue c r) (calm t) = (Inr r' :: 'e err + gate_result, w)"
    by (rule reading_step [OF Cons.prems [unfolded apply_criteria.simps] reads_criterion]) auto
  show ?case
    using Cons.IH [OF rest] criterion_run [OF assms met] by (auto simp: exit_allowed_def with_issue_def)
qed (simp add: run_simps)

lemma reads_criteria [reading]: "reads_only (apply_criteria p b oid now cs r)"
  by (induction cs arbitrary: r) (simp_all add: reading)

interpretation sg: transition_guard "validate_stage_transition now" "gate_open now"
proof unfold_locales
  fix p oid sid and t :: "'z intel_tables_scheme" and r v
  show "reads_only (validate_stage_transition now p oid sid :: ('z intel_tables_scheme, crm_error, gate_result) go)"
    by (simp add: validate_stage_transition_def reading)
  assume run: "validate_stage_transition now p oid sid (calm t) = (Inr r, v)" and ok: "gr_allowed r"
  from run obtain b where b: "gets_deal p oid t b"
    and s: "list_ex (\<lambda>s. st_id s = sid \<and> st_pipeline s = op_pipeline b \<and> st_active s) (stages t)"
    and c: "apply_criteria p b oid now (gate_criteria (op_stage b) t) \<lparr>gr_allowed = True, gr_blocked = [], gr_warnings = []\<rparr> (calm t) = (Inr r :: crm_error err + gate_result, v)"
    by (auto simp: validate_stage_transition_def get_opportunity_run run_simps split: if_splits)
  have "gate_open now t b sid"
    using criteria_run [OF b c] ok s by (auto simp: gate_open_def gate_criteria_def list_ex_iff)
  then show "\<exists>b \<in> set (opportunities t). op_id b = oid \<and> gate_open now t b sid" using gets_deal_mem [OF b] by blast
qed


text \<open>
  A deal that is to leave its first stage needs a decision maker: with one among the customer's contacts
  the update takes it to the second stage, without one it stays.
\<close>

definition toy_criterion :: criterion_row where
  "toy_criterion = \<lparr>ec_id = ''e1'', ec_stage = ''s1'', ec_name = ''Decider'', ec_type = ''DECISION_MAKER'', ec_field = [],
     ec_operator = ''PRESENT'', ec_expected = JNull, ec_enforcement = ''BLOCK'', ec_message = ''No decider'', ec_active = True,
     ec_order = 10\<rparr>"

definition toy_contact :: contact_row where
  "toy_contact = \<lparr>cn_id = ''n1'', cn_customer = ''c1'', cn_name = ''Lee'', cn_title = [], cn_department = [], cn_email = [],
     cn_phone = [], cn_mobile = [], cn_decision = True, cn_primary = False, cn_role = ''DECISION_MAKER'', cn_influence = ''HIGH'',
     cn_sentiment = ''NEUTRAL'', cn_strength = 3, cn_power = 3, cn_last = None, cn_owner = ''u1'', cn_updated_by = ''u1'',
     cn_created = 0, cn_updated = 0\<rparr>"

definition toy_gated :: "contact_row list \<Rightarrow> intel_tables" where
  "toy_gated ns = toy_intel\<lparr>contacts := ns, opportunities := [toy_deal], stages := [toy_stage ''s1'' 1, toy_stage ''s2'' 2],
     pipelines := [\<lparr>pl_id = ''p1'', pl_name = ''Sales'', pl_active = True, pl_default = True\<rparr>], criteria := [toy_criterion]\<rparr>"

definition toy_update :: "contact_row list \<Rightarrow> (crm_error err + opportunity_row) \<times> intel_tables world" where
  "toy_update ns = update_opportunity (Some (validate_stage_transition 7)) (acting [''opportunity:read'', ''opportunity:write''])
     ''o1'' (stage_input toy_deal ''s2'' 1) ''WEB'' toy_ci ''h1'' 7 (calm (toy_gated ns))"


end
