(* ===== verification/Deal_Health.thy ===== *)
theory Deal_Health
  imports Playbook
begin

text \<open>
  The health of deals (internal/intelligence/health.go): the administrator's rules, the pure judgement of
  one rule and the score of a deal, the batched reading of what the rules need, the snapshots of the
  verdicts, and the inspection of a deal's recent changes. A logged change holds the deal before and
  after, from which the fields the rules read are taken.
\<close>

section \<open>Rules\<close>

definition active_rules :: "'z intel_tables_scheme \<Rightarrow> health_rule list" where
  "active_rules t = sort_key hr_priority (sort_key hr_code (filter hr_active (health_rules t)))"

definition admin_health_rules :: "principal \<Rightarrow> ('z intel_tables_scheme, 'e, health_rule list) go" where
  "admin_health_rules p =
     and_then (require p ''admin:read'') (\<lambda>_.
     db_query (\<lambda>t. sort_key hr_priority (sort_key hr_code (health_rules t))))"

record rule_input =
  ri_name :: string
  ri_text :: string
  ri_threshold :: "(string \<times> json) list"
  ri_score :: int
  ri_action :: string
  ri_active :: bool
  ri_priority :: int
  ri_version :: int

definition changed_rule :: "rule_input \<Rightarrow> health_rule \<Rightarrow> health_rule" where
  "changed_rule x r = r
     \<lparr>hr_name := trim_space (ri_name x), hr_text := trim_space (ri_text x), hr_threshold := ri_threshold x,
      hr_score := ri_score x, hr_action := trim_space (ri_action x), hr_active := ri_active x, hr_priority := ri_priority x\<rparr>"

text \<open>\<open>UPDATE \<dots> WHERE id=\<dots> AND version=\<dots> RETURNING version\<close>.\<close>

definition update_rule :: "string \<Rightarrow> rule_input \<Rightarrow> 'z intel_tables_scheme \<Rightarrow> ('z intel_tables_scheme \<times> int option) option" where
  "update_rule rid x t =
     (let P = (\<lambda>r. hr_id r = rid \<and> hr_version r = ri_version x) in
      case List.find P (health_rules t) of
        None \<Rightarrow> Some (t, None)
      | Some r \<Rightarrow> if \<not> small_int (ri_priority x) then None
          else Some (t\<lparr>health_rules := update_where P (\<lambda>r. (changed_rule x r)\<lparr>hr_version := hr_version r + 1\<rparr>) (health_rules t)\<rparr>,
            Some (hr_version r + 1)))"

definition save_health_rule :: "principal \<Rightarrow> string \<Rightarrow> rule_input \<Rightarrow> client_info \<Rightarrow> ('z intel_tables_scheme, intel_error, health_rule) go" where
  "save_health_rule p rid x ci =
     and_then (require p ''admin:write'') (\<lambda>_.
     and_then (check (\<not> (blank (ri_name x) \<or> blank (ri_action x))) Rule_incomplete) (\<lambda>_.
     and_then (check (0 \<le> ri_score x \<and> ri_score x \<le> 100) Rule_score) (\<lambda>_.
     let x = x\<lparr>ri_priority := (if ri_priority x = 0 then 100 else ri_priority x)\<rparr> in
     and_then (admin_health_rules p) (\<lambda>rules.
     case row_by hr_id rid rules of
       None \<Rightarrow> raise (App Rule_missing)
     | Some before \<Rightarrow>
         and_then (db_exec (update_rule rid x)) (\<lambda>r.
         case r of
           None \<Rightarrow> raise (App Rule_changed)
         | Some version \<Rightarrow>
             and_then (crm_audit p ''ADMIN'' ci ''UPDATE_DEAL_HEALTH_RULE'' ''deal_health_rule'' rid) (\<lambda>_.
             ret ((changed_rule x before)\<lparr>hr_version := version\<rparr>)))))))"

section \<open>One rule\<close>

definition slippage_window :: rat where "slippage_window = 180"
definition drop_window :: rat where "drop_window = 90"
definition history_window :: rat where "history_window = 365"

definition window_days :: "(string \<times> json) list \<Rightarrow> rat \<Rightarrow> rat" where
  "window_days kvs fallback =
     (let days = threshold_number kvs ''days'' fallback in if days > 0 then days else fallback)"

text \<open>\<open>time.Duration(days * float64(24*time.Hour))\<close>.\<close>

definition day_span :: "rat \<Rightarrow> int" where
  "day_span days = to_int64 (toward_zero (days * of_int day_ns))"

record health_facts =
  xf_deal :: opportunity_row
  xf_history :: "opportunity_change list"
  xf_deciders :: nat
  xf_champions :: nat
  xf_limit :: "int option"
  xf_now :: instant
  xf_today :: date

datatype health_evidence =
    Inactive "int option" rat "instant option"
  | Close_date "date option"
  | Next_step string "date option"
  | In_stage int int
  | Slips int int rat
  | Largest_drop rat rat rat
  | Head_count nat
  | No_evidence

definition within_window :: "health_facts \<Rightarrow> rat \<Rightarrow> opportunity_change list" where
  "within_window f days = filter (\<lambda>c. xf_now f - oh_at c \<le> day_span days) (xf_history f)"

definition slipped :: "opportunity_change \<Rightarrow> bool" where
  "slipped c = (case (op_close (oh_before c), op_close (oh_after c)) of (Some a, Some b) \<Rightarrow> a < b | _ \<Rightarrow> False)"

definition amount_drop :: "opportunity_change \<Rightarrow> rat" where
  "amount_drop c =
     (let a = op_amount (oh_before c); b = op_amount (oh_after c) in
      if a > 0 \<and> b < a then (a - b) / a * 100 else 0)"

definition largest :: "rat list \<Rightarrow> rat" where
  "largest xs = foldl max 0 xs"

definition deal_age :: "instant \<Rightarrow> instant \<Rightarrow> rat" where
  "deal_age now a = of_int (now - a) / of_int day_ns"

definition evaluate_health_rule :: "health_rule \<Rightarrow> health_facts \<Rightarrow> bool \<times> health_evidence" where
  "evaluate_health_rule r f =
     (let opp = xf_deal f; kvs = hr_threshold r; ty = hr_type r in
      if ty = ''NO_ACTIVITY'' then
        let days = threshold_number kvs ''days'' 14 in
        case op_last_activity opp of
          None \<Rightarrow> (True, Inactive None days None)
        | Some a \<Rightarrow> (deal_age (xf_now f) a \<ge> days, Inactive (Some (toward_zero (deal_age (xf_now f) a))) days (Some a))
      else if ty = ''CLOSE_DATE_PASSED'' then
        (case op_close opp of None \<Rightarrow> False | Some d \<Rightarrow> d < xf_today f, Close_date (op_close opp))
      else if ty = ''NO_NEXT_ACTION'' then
        (blank (op_next_action opp) \<or> op_next_date opp = None, Next_step (op_next_action opp) (op_next_date opp))
      else if ty = ''STAGE_STALLED'' then
        let threshold = (case xf_limit f of
              Some n \<Rightarrow> if n > 0 then n else to_int64 (toward_zero (threshold_number kvs ''defaultDays'' 30))
            | None \<Rightarrow> to_int64 (toward_zero (threshold_number kvs ''defaultDays'' 30)));
            age = toward_zero (deal_age (xf_now f) (op_stage_entered opp)) in
        (age > threshold, In_stage age threshold)
      else if ty = ''CLOSE_DATE_SLIPPAGE'' then
        let limit = to_int64 (toward_zero (threshold_number kvs ''count'' 3)); days = window_days kvs slippage_window;
            n = int (count_where slipped (within_window f days)) in
        (n \<ge> limit, Slips n limit days)
      else if ty = ''AMOUNT_DROP'' then
        let limit = threshold_number kvs ''percent'' 30; days = window_days kvs drop_window;
            drop = largest (map amount_drop (within_window f days)) in
        (drop \<ge> limit, Largest_drop (of_int (round_away (drop * 10)) / 10) limit days)
      else if ty = ''PROBABILITY_DROP'' then
        let limit = threshold_number kvs ''points'' 20; days = window_days kvs drop_window;
            drop = largest (map (\<lambda>c. op_probability (oh_before c) - op_probability (oh_after c)) (within_window f days)) in
        (drop \<ge> limit, Largest_drop drop limit days)
      else if ty = ''NO_DECISION_MAKER'' then (xf_deciders f = 0, Head_count (xf_deciders f))
      else if ty = ''NO_CHAMPION'' then (xf_champions f = 0, Head_count (xf_champions f))
      else (False, No_evidence))"

text \<open>How far back the history is read: the widest window of a rule, at least a year.\<close>

definition rule_window :: "health_rule \<Rightarrow> rat" where
  "rule_window r =
     (if hr_type r = ''CLOSE_DATE_SLIPPAGE'' then window_days (hr_threshold r) slippage_window
      else if hr_type r = ''AMOUNT_DROP'' \<or> hr_type r = ''PROBABILITY_DROP'' then window_days (hr_threshold r) drop_window
      else 0)"

definition history_since :: "health_rule list \<Rightarrow> instant \<Rightarrow> instant" where
  "history_since rules now = now + wrap64 (- day_span (foldl max history_window (map rule_window rules)))"

section \<open>A deal's score\<close>

record health_factor =
  hf_code :: string
  hf_name :: string
  hf_text :: string
  hf_score :: int
  hf_evidence :: health_evidence
  hf_action :: string

record deal_health =
  dh_deal :: string
  dh_name :: string
  dh_customer :: string
  dh_owner :: string
  dh_risk :: int
  dh_health :: int
  dh_level :: string
  dh_factors :: "health_factor list"
  dh_actions :: "string list"
  dh_at :: instant

definition factor_of :: "health_facts \<Rightarrow> health_rule \<Rightarrow> health_factor option" where
  "factor_of f r = (case evaluate_health_rule r f of (fired, e) \<Rightarrow>
     if fired then Some \<lparr>hf_code = hr_code r, hf_name = hr_name r, hf_text = hr_text r, hf_score = hr_score r, hf_evidence = e,
       hf_action = hr_action r\<rparr> else None)"

definition risk_level :: "int \<Rightarrow> string" where
  "risk_level n = (if n \<ge> 70 then ''CRITICAL'' else if n \<ge> 40 then ''RISK'' else if n \<ge> 20 then ''WATCH'' else ''HEALTHY'')"

text \<open>Each text once, where it first occurs.\<close>

definition first_once :: "string list \<Rightarrow> string list" where
  "first_once xs = rev (remdups (rev xs))"

definition score_deal_health :: "health_rule list \<Rightarrow> health_facts \<Rightarrow> deal_health" where
  "score_deal_health rules f =
     (let opp = xf_deal f;
          blank_health = \<lparr>dh_deal = op_id opp, dh_name = op_name opp, dh_customer = op_customer opp, dh_owner = op_owner opp,
            dh_risk = 0, dh_health = 100, dh_level = ''HEALTHY'', dh_factors = [], dh_actions = [], dh_at = xf_now f\<rparr> in
      if op_status opp \<noteq> ''OPEN'' then blank_health
      else
        let fs = List.map_filter (factor_of f) rules; score = sum_list (map hf_score fs);
            score = (if score > 100 then 100 else score) in
        blank_health\<lparr>dh_risk := score, dh_health := 100 - score, dh_level := risk_level score, dh_factors := fs,
          dh_actions := first_once (map hf_action fs)\<rparr>)"

section \<open>Reading for a set of deals\<close>

definition role_counts :: "string list \<Rightarrow> 'z intel_tables_scheme \<Rightarrow> (string \<times> nat \<times> nat) list" where
  "role_counts cids t = map (\<lambda>cid. let ns = filter (\<lambda>n. cn_customer n = cid) (contacts t) in
     (cid, count_where cn_decision ns, count_where (\<lambda>n. cn_role n = ''CHAMPION'') ns)) cids"

definition stage_limits :: "string list \<Rightarrow> 'z intel_tables_scheme \<Rightarrow> (string \<times> int option) list" where
  "stage_limits sids t = map (\<lambda>s. (st_id s, st_max s)) (filter (\<lambda>s. st_id s \<in> set sids) (stages t))"

text \<open>The logged changes of some deals since an instant, latest first, each with the name of who made it.\<close>

definition changes_for :: "string list \<Rightarrow> instant \<Rightarrow> 'z intel_tables_scheme \<Rightarrow> (opportunity_change \<times> string) list" where
  "changes_for oids earliest t =
     map (\<lambda>c. (c, case_option [] u_display_name (row_by u_id (oh_by c) (users t))))
       (sort_desc oh_at (filter (\<lambda>c. oh_opportunity c \<in> set oids \<and> oh_at c \<ge> earliest) (opportunity_log t)))"

definition unless_empty :: "'x list \<Rightarrow> ('x list \<Rightarrow> 's \<Rightarrow> 'a list) \<Rightarrow> ('s, 'e, 'a list) go" where
  "unless_empty xs q = (if xs = [] then ret [] else db_query (q xs))"

text \<open>The batch of snapshots: a score recorded in the last six hours is not recorded again.\<close>

fun add_snapshots :: "instant \<Rightarrow> deal_health list \<Rightarrow> 'z intel_tables_scheme \<Rightarrow> ('z intel_tables_scheme \<times> unit) option" where
  "add_snapshots now [] t = Some (t, ())"
| "add_snapshots now (h # hs) t =
     (if list_ex (\<lambda>x. hs_opportunity x = dh_deal h \<and> hs_risk x = dh_risk h \<and> hs_at x > now - 6 * hour_ns) (health_snapshots t)
      then add_snapshots now hs t
      else if \<not> refers op_id (opportunities t) (Some (dh_deal h)) then None
      else add_snapshots now hs (t\<lparr>health_snapshots := health_snapshots t @ [\<lparr>hs_opportunity = dh_deal h, hs_risk = dh_risk h,
        hs_health = dh_health h, hs_level = dh_level h, hs_at = now\<rparr>]\<rparr>))"

definition save_health_snapshots :: "instant \<Rightarrow> deal_health list \<Rightarrow> ('z intel_tables_scheme, 'e, unit) go" where
  "save_health_snapshots now hs = (if hs = [] then ret () else or_default () (db_exec (add_snapshots now hs)))"

definition facts_for :: "instant \<Rightarrow> date \<Rightarrow> (string \<times> nat \<times> nat) list \<Rightarrow> (string \<times> int option) list
    \<Rightarrow> (opportunity_change \<times> string) list \<Rightarrow> opportunity_row \<Rightarrow> health_facts" where
  "facts_for now today counts limits history opp =
     \<lparr>xf_deal = opp, xf_history = map fst (filter (\<lambda>(c, _). oh_opportunity c = op_id opp) history),
      xf_deciders = case_option 0 fst (map_of counts (op_customer opp)),
      xf_champions = case_option 0 snd (map_of counts (op_customer opp)),
      xf_limit = case_option None id (map_of limits (op_stage opp)), xf_now = now, xf_today = today\<rparr>"

definition health_of :: "opportunity_row list \<Rightarrow> date \<Rightarrow> instant \<Rightarrow> ('z intel_tables_scheme, 'e, deal_health list) go" where
  "health_of deals today now =
     (let open_ones = filter (\<lambda>x. op_status x = ''OPEN'') deals in
      if open_ones = [] then ret (map (\<lambda>x. score_deal_health [] (facts_for now today [] [] [] x)) deals)
      else
        and_then (db_query active_rules) (\<lambda>rules.
        and_then (unless_empty (first_once (filter (\<lambda>i. i \<noteq> []) (map op_customer open_ones))) role_counts) (\<lambda>counts.
        and_then (unless_empty (first_once (filter (\<lambda>i. i \<noteq> []) (map op_stage open_ones))) stage_limits) (\<lambda>limits.
        and_then (unless_empty (filter (\<lambda>i. i \<noteq> []) (map op_id open_ones)) (\<lambda>oids. changes_for oids (history_since rules now))) (\<lambda>history.
        let judge = (\<lambda>x. score_deal_health rules (facts_for now today counts limits history x)) in
        and_then (save_health_snapshots now (map judge open_ones)) (\<lambda>_. ret (map judge deals)))))))"

definition deal_health_of :: "principal \<Rightarrow> string \<Rightarrow> date \<Rightarrow> instant \<Rightarrow> ('z intel_tables_scheme, 'e, deal_health) go" where
  "deal_health_of p oid today now =
     and_then (get_opportunity p oid) (\<lambda>opp.
     and_then (health_of [opp] today now) (\<lambda>hs. ret (hs ! 0)))"

section \<open>Inspection\<close>

datatype deal_value = Date_value "date option" | Number_value rat | Text_value string

record deal_change =
  dc_field :: string
  dc_before :: deal_value
  dc_after :: deal_value
  dc_at :: instant
  dc_by :: string

record deal_inspection =
  di_health :: deal_health
  di_days :: int
  di_changes :: "deal_change list"

definition inspected_fields :: "opportunity_change \<Rightarrow> (string \<times> deal_value \<times> deal_value) list" where
  "inspected_fields c =
     (let a = oh_before c; b = oh_after c in
      [(''expectedCloseDate'', Date_value (op_close a), Date_value (op_close b)),
       (''expectedAmount'', Number_value (op_amount a), Number_value (op_amount b)),
       (''probability'', Number_value (op_probability a), Number_value (op_probability b)),
       (''stageName'', Text_value (fst (oh_stages c)), Text_value (snd (oh_stages c))),
       (''forecastCategory'', Text_value (op_category a), Text_value (op_category b)),
       (''nextAction'', Text_value (op_next_action a), Text_value (op_next_action b)),
       (''status'', Text_value (op_status a), Text_value (op_status b))])"

definition field_changes :: "opportunity_change \<times> string \<Rightarrow> deal_change list" where
  "field_changes = (\<lambda>(c, actor).
     List.map_filter (\<lambda>(field, a, b). if a = b then None
       else Some \<lparr>dc_field = field, dc_before = a, dc_after = b, dc_at = oh_at c, dc_by = actor\<rparr>) (inspected_fields c))"

text \<open>The changes of one entry keep their order here; Go's sort promises none among equal times.\<close>

definition deal_inspection_of :: "principal \<Rightarrow> string \<Rightarrow> int \<Rightarrow> date \<Rightarrow> instant \<Rightarrow> ('z intel_tables_scheme, 'e, deal_inspection) go" where
  "deal_inspection_of p oid days today now =
     (let days = (if days < 1 \<or> days > 365 then 7 else days) in
      and_then (deal_health_of p oid today now) (\<lambda>h.
      and_then (unless_empty [oid] (\<lambda>oids. changes_for oids (now - days * day_ns))) (\<lambda>history.
      ret \<lparr>di_health = h, di_days = days, di_changes = sort_desc dc_at (concat (map field_changes history))\<rparr>)))"

text \<open>The open deals of the first page whose score reaches the minimum, worst first, then by name.\<close>

definition open_filter :: opportunity_filter where
  "open_filter = \<lparr>of_text = [], of_customer = [], of_status = ''OPEN'', of_stage = [], of_category = [], of_cursor = [],
     of_sort = [], of_limit = 200, of_stale = False\<rparr>"

definition deals_at_risk :: "principal \<Rightarrow> int \<Rightarrow> int \<Rightarrow> date \<Rightarrow> instant \<Rightarrow> ('z intel_tables_scheme, crm_error, deal_health list) go" where
  "deals_at_risk p minimum limit today now =
     (let minimum = (if minimum < 1 then 40 else minimum); limit = (if limit < 1 \<or> limit > 100 then 25 else limit) in
      and_then (list_opportunities p open_filter now today) (\<lambda>page.
      and_then (health_of (map fst (pg_items page)) today now) (\<lambda>hs.
      ret (take (nat limit) (sort_desc dh_risk (sort_key dh_name (filter (\<lambda>h. dh_risk h \<ge> minimum) hs)))))))"

end
