(* ===== verification/Deal_Scores.thy ===== *)
theory Deal_Scores
  imports Deal_Health Intel_Samples
begin

text \<open>
  The scoring of many deals at once (Deal_Health) against the judgement of one deal by everything that is
  stored about it: reading the contacts, stages and changes in one query each, and only so much of the
  history as the rules look back, makes no difference.
\<close>

section \<open>One deal\<close>

definition facts_at :: "instant \<Rightarrow> date \<Rightarrow> 'z intel_tables_scheme \<Rightarrow> opportunity_row \<Rightarrow> health_facts" where
  "facts_at now today t x =
     \<lparr>xf_deal = x, xf_history = sort_desc oh_at (filter (\<lambda>c. oh_opportunity c = op_id x) (opportunity_log t)),
      xf_deciders = count_where cn_decision (filter (\<lambda>n. cn_customer n = op_customer x) (contacts t)),
      xf_champions = count_where (\<lambda>n. cn_role n = ''CHAMPION'') (filter (\<lambda>n. cn_customer n = op_customer x) (contacts t)),
      xf_limit = Option.bind (row_by st_id (op_stage x) (stages t)) st_max, xf_now = now, xf_today = today\<rparr>"

definition judged :: "instant \<Rightarrow> date \<Rightarrow> 'z intel_tables_scheme \<Rightarrow> opportunity_row \<Rightarrow> deal_health" where
  "judged now today t x = score_deal_health (active_rules t) (facts_at now today t x)"

section \<open>How far back the rules look\<close>

lemma toward_zero_mono: "0 \<le> x \<Longrightarrow> x \<le> y \<Longrightarrow> toward_zero x \<le> toward_zero y"
  by (simp add: toward_zero_def floor_mono)

lemma toward_zero_nonneg: "0 \<le> x \<Longrightarrow> 0 \<le> toward_zero x"
  by (simp add: toward_zero_def)

text \<open>
  What lies in a window lies behind the start of the widest one, also when a window does not fit the
  64 bits of a duration.
\<close>

lemma window_covered:
  assumes "0 \<le> days" and "days \<le> widest" and "now - a \<le> day_span days"
  shows "now + wrap64 (- day_span widest) \<le> a"
proof -
  let ?n = "toward_zero (days * of_int day_ns)" and ?m = "toward_zero (widest * of_int day_ns)"
  have le: "?n \<le> ?m" using assms(1,2) by (intro toward_zero_mono mult_right_mono mult_nonneg_nonneg) (simp_all add: day_ns_def)
  have pos: "0 \<le> ?n" using assms(1) by (intro toward_zero_nonneg mult_nonneg_nonneg) (simp_all add: day_ns_def)
  show ?thesis
  proof (cases "?m < 2 ^ 63")
    case True
    then have "day_span widest = ?m" "day_span days = ?n" using le pos by (simp_all add: day_span_def to_int64_def)
    moreover have "wrap64 (- ?m) = - ?m" using True le pos by (intro wrap64_id) simp_all
    ultimately show ?thesis using assms(3) le by simp
  next
    case False
    then have "day_span widest = - (2 ^ 63)" using le pos by (simp add: day_span_def to_int64_def)
    then have "wrap64 (- day_span widest) = - (2 ^ 63)" by (simp add: wrap64_def)
    moreover have "day_span days < 2 ^ 63" by (simp add: day_span_def to_int64_def)
    ultimately show ?thesis using assms(3) by linarith
  qed
qed

lemma foldl_max_start: "a \<le> foldl max a xs" for a :: "'a :: linorder"
proof (induction xs arbitrary: a)
  case (Cons x xs)
  show ?case using Cons [of "max a x"] by simp
qed simp

lemma foldl_max_le: "x \<in> set xs \<Longrightarrow> x \<le> foldl max a xs" for a :: "'a :: linorder"
proof (induction xs arbitrary: a)
  case (Cons y xs)
  then show ?case using foldl_max_start [of "max a y" xs] by auto
qed simp

lemma rule_window_nonneg: "0 \<le> rule_window r"
  by (simp add: rule_window_def window_days_def Let_def slippage_window_def drop_window_def)

lemma history_reaches:
  assumes "r \<in> set rules" and "now - oh_at c \<le> day_span (rule_window r)"
  shows "history_since rules now \<le> oh_at c"
  unfolding history_since_def
  by (rule window_covered [OF rule_window_nonneg _ assms(2)]) (use assms(1) in \<open>simp add: foldl_max_le\<close>)

section \<open>The facts a rule uses\<close>

lemma rule_uses_window:
  assumes "within_window (f\<lparr>xf_history := h\<rparr>) (rule_window r) = within_window f (rule_window r)"
  shows "evaluate_health_rule r (f\<lparr>xf_history := h\<rparr>) = evaluate_health_rule r f"
  using assms unfolding evaluate_health_rule_def rule_window_def Let_def
  by (auto split: if_splits option.split)

lemma score_uses_windows:
  assumes "\<And>r. r \<in> set rules \<Longrightarrow> within_window (f\<lparr>xf_history := h\<rparr>) (rule_window r) = within_window f (rule_window r)"
  shows "score_deal_health rules (f\<lparr>xf_history := h\<rparr>) = score_deal_health rules f"
proof -
  have "List.map_filter (factor_of (f\<lparr>xf_history := h\<rparr>)) rules = List.map_filter (factor_of f) rules"
    by (simp add: map_filter_def factor_of_def rule_uses_window [OF assms] cong: map_cong filter_cong)
  then show ?thesis unfolding score_deal_health_def Let_def by (simp cong: if_cong)
qed

lemma closed_score: "op_status (xf_deal f) \<noteq> ''OPEN'' \<Longrightarrow> xf_deal g = xf_deal f \<Longrightarrow> xf_now g = xf_now f \<Longrightarrow>
    score_deal_health rules f = score_deal_health rules' g"
  by (simp add: score_deal_health_def Let_def)

section \<open>The batch\<close>

lemma set_first_once [simp]: "set (first_once xs) = set xs"
  by (simp add: first_once_def)

lemma first_once_empty [simp]: "first_once xs = [] \<longleftrightarrow> xs = []"
  by (simp add: first_once_def)

lemma save_returns: "\<exists>v. save_health_snapshots now hs (calm t) = (Inr (), v)"
  by (simp add: save_health_snapshots_def ret_def or_default_exec_calm split: option.split)

lemma role_counts_of: "cid \<in> set cids \<Longrightarrow> map_of (role_counts cids t) cid =
    (let ns = filter (\<lambda>n. cn_customer n = cid) (contacts t) in Some (count_where cn_decision ns, count_where (\<lambda>n. cn_role n = ''CHAMPION'') ns))"
  by (induction cids) (auto simp: role_counts_def Let_def)

lemma stage_limits_of: "sid \<in> set sids \<Longrightarrow> map_of (stage_limits sids t) sid = map_option st_max (row_by st_id sid (stages t))"
proof -
  assume "sid \<in> set sids"
  then have "map_of (map (\<lambda>s. (st_id s, st_max s)) (filter (\<lambda>s. st_id s \<in> set sids) xs)) sid = map_option st_max (row_by st_id sid xs)" for xs
    by (induction xs) auto
  then show ?thesis by (simp add: stage_limits_def)
qed

lemma batch_history:
  assumes "oid \<in> set oids"
  shows "map fst (filter (\<lambda>(c, _). oh_opportunity c = oid) (changes_for oids earliest t)) =
    sort_desc oh_at (filter (\<lambda>c. oh_opportunity c = oid \<and> earliest \<le> oh_at c) (opportunity_log t))"
  using assms
  by (auto simp: changes_for_def sort_desc_def filter_map o_def filter_sort intro!: arg_cong [where f = "sort_key _"] filter_cong)

lemma batch_score:
  assumes "x \<in> set deals" and "op_status x = ''OPEN''" and "op_id x \<noteq> []" and "op_customer x \<noteq> []" and "op_stage x \<noteq> []"
  defines "ids \<equiv> \<lambda>f. filter (\<lambda>i. i \<noteq> []) (map f (filter (\<lambda>x. op_status x = ''OPEN'') deals))"
  shows "score_deal_health (active_rules t) (facts_for now today (role_counts (first_once (ids op_customer)) t)
    (stage_limits (first_once (ids op_stage)) t) (changes_for (ids op_id) (history_since (active_rules t) now) t) x) = judged now today t x"
proof -
  let ?earliest = "history_since (active_rules t) now"
  let ?h = "sort_desc oh_at (filter (\<lambda>c. oh_opportunity c = op_id x \<and> ?earliest \<le> oh_at c) (opportunity_log t))"
  have i: "op_customer x \<in> set (first_once (ids op_customer))" "op_stage x \<in> set (first_once (ids op_stage))" "op_id x \<in> set (ids op_id)"
    using assms(1-5) by (auto simp: ids_def)
  have f: "facts_for now today (role_counts (first_once (ids op_customer)) t) (stage_limits (first_once (ids op_stage)) t)
      (changes_for (ids op_id) ?earliest t) x = (facts_at now today t x)\<lparr>xf_history := ?h\<rparr>"
    unfolding facts_for_def facts_at_def role_counts_of [OF i(1)] stage_limits_of [OF i(2)] batch_history [OF i(3)]
    by (simp add: Let_def split: option.split)
  show ?thesis
    unfolding f judged_def
  proof (rule score_uses_windows)
    fix r assume "r \<in> set (active_rules t)"
    then have "now - oh_at c \<le> day_span (rule_window r) \<Longrightarrow> ?earliest \<le> oh_at c" for c by (rule history_reaches)
    then show "within_window ((facts_at now today t x)\<lparr>xf_history := ?h\<rparr>) (rule_window r) = within_window (facts_at now today t x) (rule_window r)"
      by (auto simp: within_window_def facts_at_def sort_desc_def filter_sort intro!: arg_cong [where f = "sort_key _"] filter_cong)
  qed
qed

lemma unless_empty_calm: "unless_empty xs q (calm t) = (Inr (if xs = [] then [] else q xs t), calm t)"
  by (simp add: unless_empty_def ret_def db_query_calm)

text \<open>
  C20: Scoring deals in bulk refines the judgement of each deal by itself: whatever deals are asked for, with
  whatever rules, the result is the verdict on each from the whole of what is stored about it. No change a
  rule counts is lost by reading the history only as far back as the widest window, also when a window
  overflows a duration.
\<close>

theorem bulk_scores_refine_judgement:
  assumes "\<forall>x \<in> set deals. op_id x \<noteq> [] \<and> op_customer x \<noteq> [] \<and> op_stage x \<noteq> []"
  shows "\<exists>v. health_of deals today now (calm t) = (Inr (map (judged now today t) deals) :: 'e err + deal_health list, v)"
proof -
  let ?open = "filter (\<lambda>x. op_status x = ''OPEN'') deals"
  show ?thesis
  proof (cases "?open = []")
    case True
    then have "score_deal_health [] (facts_for now today [] [] [] x) = judged now today t x" if "x \<in> set deals" for x
      unfolding judged_def using that by (intro closed_score) (auto simp: facts_for_def facts_at_def filter_empty_conv)
    then show ?thesis using True by (simp add: health_of_def ret_def cong: map_cong)
  next
    case False
    define ids where "ids f = filter (\<lambda>i. i \<noteq> []) (map f ?open)" for f :: "opportunity_row \<Rightarrow> string"
    have some: "ids op_customer \<noteq> []" "ids op_stage \<noteq> []" "ids op_id \<noteq> []"
      using False assms by (auto simp: ids_def filter_empty_conv)
    let ?judge = "\<lambda>x. score_deal_health (active_rules t) (facts_for now today (role_counts (first_once (ids op_customer)) t)
        (stage_limits (first_once (ids op_stage)) t) (changes_for (ids op_id) (history_since (active_rules t) now) t) x)"
    have j: "?judge x = judged now today t x" if "x \<in> set deals" for x
    proof (cases "op_status x = ''OPEN''")
      case True
      then show ?thesis using batch_score [OF that True] assms that by (simp add: ids_def)
    next
      case False
      then show ?thesis unfolding judged_def by (intro closed_score) (simp_all add: facts_for_def facts_at_def)
    qed
    have "map ?judge deals = map (judged now today t) deals" using j by simp
    moreover obtain v where "save_health_snapshots now (map ?judge ?open) (calm t) = (Inr () :: 'e err + unit, v)"
      using save_returns by blast
    ultimately have "health_of deals today now (calm t) = (Inr (map (judged now today t) deals) :: 'e err + deal_health list, v)" using False some
      by (simp add: ret_def health_of_def Let_def ids_def [symmetric] and_then_calm db_query_calm unless_empty_calm)
    then show ?thesis by blast
  qed
qed

text \<open>A rule that looks back two years counts a slip the default year of history would not show.\<close>

definition toy_rule :: health_rule where
  "toy_rule = \<lparr>hr_id = ''q1'', hr_code = ''SLIP'', hr_name = ''Slips'', hr_text = [], hr_type = ''CLOSE_DATE_SLIPPAGE'',
     hr_threshold = [(''days'', JNum 730), (''count'', JNum 1)], hr_score = 45, hr_action = ''Review'', hr_active = True,
     hr_priority = 1, hr_version = 1\<rparr>"

definition toy_slip :: opportunity_change where
  "toy_slip = \<lparr>oh_id = ''h1'', oh_opportunity = ''o1'', oh_type = ''UPDATE'', oh_before = toy_deal\<lparr>op_close := Some (date_of_day 19000)\<rparr>,
     oh_after = toy_deal\<lparr>op_close := Some (date_of_day 19100)\<rparr>, oh_stages = ([], []), oh_by = ''u1'', oh_at = 19500 * day_ns\<rparr>"

definition toy_scored :: intel_tables where
  "toy_scored = toy_intel\<lparr>opportunities := [toy_deal], stages := [toy_stage ''s1'' 1], health_rules := [toy_rule],
     opportunity_log := [toy_slip]\<rparr>"

theorem bulk_scores_refine_judgement_witness:
  "(\<exists>v. health_of [toy_deal] (date_of_day 20000) (20000 * day_ns) (calm toy_scored) =
      (Inr [judged (20000 * day_ns) (date_of_day 20000) toy_scored toy_deal], v)) \<and>
   dh_risk (judged (20000 * day_ns) (date_of_day 20000) toy_scored toy_deal) = 45"
proof
  show "\<exists>v. health_of [toy_deal] (date_of_day 20000) (20000 * day_ns) (calm toy_scored) =
      (Inr [judged (20000 * day_ns) (date_of_day 20000) toy_scored toy_deal], v)"
    using bulk_scores_refine_judgement [of "[toy_deal]" "date_of_day 20000" "20000 * day_ns" toy_scored]
    by (simp add: toy_deal_def)
  show "dh_risk (judged (20000 * day_ns) (date_of_day 20000) toy_scored toy_deal) = 45" by code_simp
qed

end
