(* ===== verification/Forecast.thy ===== *)
theory Forecast
  imports Deal_Health
begin

text \<open>
  Forecast snapshots, movements and overrides, and the coaching dashboard
  (internal/intelligence/forecast.go). A capture takes every active user's deals under the date of the
  day; a report compares the latest date with one a number of days before. Arguments are the drawn ids, the
  order in which Go visits its maps, and the names a listing joins. The organization stored with a
  snapshot is read nowhere and left out.
\<close>

section \<open>Capture\<close>

definition upsert_forecast :: "forecast_snapshot \<Rightarrow> 'z intel_tables_scheme \<Rightarrow> ('z intel_tables_scheme \<times> string) option" where
  "upsert_forecast f t =
     (let P = (\<lambda>x. fs_date x = fs_date f \<and> fs_owner x = fs_owner f) in
      case List.find P (forecasts t) of
        Some x \<Rightarrow> Some (t\<lparr>forecasts := update_where P (\<lambda>x. f\<lparr>fs_id := fs_id x\<rparr>) (forecasts t)\<rparr>, fs_id x)
      | None \<Rightarrow>
          if fs_id f \<in> set (keys fs_id (forecasts t)) \<or> \<not> refers u_id (users t) (Some (fs_owner f)) then None
          else Some (t\<lparr>forecasts := forecasts t @ [f]\<rparr>, fs_id f))"

definition owner_forecast :: "string \<Rightarrow> date \<Rightarrow> string \<Rightarrow> 'z intel_tables_scheme \<Rightarrow> forecast_snapshot" where
  "owner_forecast fid day owner t =
     (let xs = filter (\<lambda>x. op_owner x = owner \<and> op_status x = ''OPEN'') (opportunities t) in
      \<lparr>fs_id = fid, fs_date = day, fs_owner = owner, fs_pipeline = total op_base xs, fs_weighted = total op_weighted xs,
       fs_commit = total op_base (filter (\<lambda>x. op_category x = ''COMMIT'') xs),
       fs_best = total op_base (filter (\<lambda>x. op_category x = ''BEST_CASE'') xs), fs_open = length xs\<rparr>)"

definition snapshot_item_of :: "string \<Rightarrow> opportunity_row \<times> stage_row \<Rightarrow> snapshot_item" where
  "snapshot_item_of fid = (\<lambda>(x, s).
     \<lparr>fi_snapshot = fid, fi_opportunity = op_id x, fi_owner = op_owner x, fi_category = op_category x, fi_status = op_status x,
      fi_stage = op_stage x, fi_stage_name = st_name s, fi_amount = op_base x, fi_weighted = op_weighted x,
      fi_probability = op_probability x, fi_close = op_close x\<rparr>)"

definition insert_items :: "string \<Rightarrow> string \<Rightarrow> 'z intel_tables_scheme \<Rightarrow> ('z intel_tables_scheme \<times> unit) option" where
  "insert_items fid owner t =
     (let items = map (snapshot_item_of fid) (List.map_filter (\<lambda>x. map_option (Pair x) (row_by st_id (op_stage x) (stages t)))
        (filter (\<lambda>x. op_owner x = owner) (opportunities t))) in
      if list_ex (\<lambda>i. \<not> fits 18 (fi_amount i) \<or> \<not> fits 18 (fi_weighted i) \<or>
          list_ex (\<lambda>j. fi_snapshot j = fid \<and> fi_opportunity j = fi_opportunity i) (forecast_items t)) items then None
      else Some (t\<lparr>forecast_items := forecast_items t @ items\<rparr>, ()))"

fun capture_owners :: "(nat \<Rightarrow> string) \<Rightarrow> date \<Rightarrow> nat \<Rightarrow> string list \<Rightarrow> ('z intel_tables_scheme, 'e, unit) go" where
  "capture_owners draw day i [] = ret ()"
| "capture_owners draw day i (owner # rest) =
     and_then (db_query (owner_forecast (draw i) day owner)) (\<lambda>f.
     and_then (db_exec (upsert_forecast f)) (\<lambda>fid.
     and_then (db_exec (writes (\<lambda>t. t\<lparr>forecast_items := delete_where (\<lambda>x. fi_snapshot x = fid) (forecast_items t)\<rparr>))) (\<lambda>_.
     and_then (db_exec (insert_items fid owner)) (\<lambda>_.
     capture_owners draw day (Suc i) rest))))"

definition capture_forecast_snapshots :: "(nat \<Rightarrow> string) \<Rightarrow> date \<Rightarrow> ('z intel_tables_scheme, 'e, unit) go" where
  "capture_forecast_snapshots draw day =
     and_then (db_query (\<lambda>t. case setting ''sales_intelligence'' ''snapshot_enabled'' t of
        None \<Rightarrow> Some True | Some r \<Rightarrow> text_bool r)) (\<lambda>r.
     case r of
       None \<Rightarrow> raise Db_failed
     | Some enabled \<Rightarrow>
         if \<not> enabled then ret ()
         else and_then (db_query (\<lambda>t. keys u_id (filter u_active (users t)))) (\<lambda>owners. capture_owners draw day 0 owners))"

section \<open>Reading snapshots\<close>

text \<open>The latest date, and the latest one up to a day or else the earliest; a null does not scan.\<close>

definition latest_date :: "forecast_snapshot list \<Rightarrow> date option" where
  "latest_date fs = (case map fs_date fs of [] \<Rightarrow> None | d # ds \<Rightarrow> Some (foldl (\<lambda>a b. if a < b then b else a) d ds))"

definition earliest_date :: "forecast_snapshot list \<Rightarrow> date option" where
  "earliest_date fs = (case map fs_date fs of [] \<Rightarrow> None | d # ds \<Rightarrow> Some (foldl (\<lambda>a b. if b < a then b else a) d ds))"

definition date_up_to :: "date option \<Rightarrow> 'z intel_tables_scheme \<Rightarrow> date option" where
  "date_up_to before t =
     (case before of
        None \<Rightarrow> latest_date (forecasts t)
      | Some d \<Rightarrow> (case latest_date (filter (\<lambda>f. fs_date f \<le> d) (forecasts t)) of
          Some x \<Rightarrow> Some x | None \<Rightarrow> earliest_date (forecasts t)))"

definition snapshot_date :: "date option \<Rightarrow> ('z intel_tables_scheme, 'e, date) go" where
  "snapshot_date before =
     and_then (db_query (date_up_to before)) (\<lambda>r. case r of None \<Rightarrow> raise Db_failed | Some d \<Rightarrow> ret d)"

record named_item = snapshot_item +
  fi_name :: string

text \<open>The items of a date whose deal the caller sees now, one for each deal, the last row read.\<close>

definition items_on :: "principal \<Rightarrow> date \<Rightarrow> 'z intel_tables_scheme \<Rightarrow> named_item list" where
  "items_on p day t =
     List.map_filter (\<lambda>i. Option.bind (row_by op_id (fi_opportunity i) (opportunities t)) (\<lambda>x.
         if list_ex (\<lambda>f. fs_id f = fi_snapshot i \<and> fs_date f = day) (forecasts t) \<and> in_scope p t (op_owner x) (op_org x)
         then Some (snapshot_item.extend i (named_item.fields (op_name x))) else None))
       (forecast_items t)"

definition by_deal :: "named_item list \<Rightarrow> named_item list" where
  "by_deal rows = List.map_filter (\<lambda>k. row_by fi_opportunity k (rev rows)) (remdups (map fi_opportunity rows))"

definition load_snapshot :: "principal \<Rightarrow> date \<Rightarrow> ('z intel_tables_scheme, 'e, named_item list) go" where
  "load_snapshot p day = and_then (db_query (items_on p day)) (\<lambda>rows. ret (by_deal rows))"

section \<open>Movements\<close>

record movement =
  mv_type :: string
  mv_amount :: rat
  mv_deal :: string
  mv_name :: string

definition moved :: "string \<Rightarrow> rat \<Rightarrow> named_item \<Rightarrow> movement" where
  "moved kind amount i = \<lparr>mv_type = kind, mv_amount = amount, mv_deal = fi_opportunity i, mv_name = fi_name i\<rparr>"

definition item_movements :: "named_item list \<Rightarrow> named_item \<Rightarrow> movement list" where
  "item_movements previous i =
     (case row_by fi_opportunity (fi_opportunity i) previous of
        None \<Rightarrow> if fi_status i = ''OPEN'' then [moved ''NEW_PIPELINE'' (fi_amount i) i] else []
      | Some b \<Rightarrow>
          if fi_status b = ''OPEN'' \<and> fi_status i = ''LOST'' then [moved ''LOST'' (- fi_amount b) i]
          else if fi_status b = ''OPEN'' \<and> fi_status i = ''WON'' then [moved ''WON'' (- fi_amount b) i]
          else
            (if fi_amount i > fi_amount b then [moved ''AMOUNT_INCREASE'' (fi_amount i - fi_amount b) i]
             else if fi_amount i < fi_amount b then [moved ''AMOUNT_DECREASE'' (fi_amount i - fi_amount b) i] else []) @
            (case (fi_close b, fi_close i) of
               (Some x, Some y) \<Rightarrow> if x < y then [moved ''SLIPPAGE'' (- fi_amount i) i] else []
             | _ \<Rightarrow> []))"

definition removed_movement :: "named_item list \<Rightarrow> named_item \<Rightarrow> movement list" where
  "removed_movement current i =
     (if fi_opportunity i \<notin> set (keys fi_opportunity current) \<and> fi_status i = ''OPEN''
      then [moved ''REMOVED'' (- fi_amount i) i] else [])"

definition open_amount :: "named_item list \<Rightarrow> rat" where
  "open_amount is = total fi_amount (filter (\<lambda>i. fi_status i = ''OPEN'') is)"

record forecast_report =
  fx_from :: date
  fx_to :: date
  fx_previous :: rat
  fx_current :: rat
  fx_change :: rat
  fx_rep_commit :: rat
  fx_manager_commit :: rat
  fx_weighted :: rat
  fx_movements :: "movement list"

text \<open>The deals are visited in the orders of two maps; movements are sorted by type and name.\<close>

definition forecast_report_of :: "(nat \<Rightarrow> string list \<Rightarrow> string list) \<Rightarrow> date \<Rightarrow> date \<Rightarrow> named_item list \<Rightarrow> named_item list
    \<Rightarrow> forecast_report" where
  "forecast_report_of order from to previous current =
     (let open_ones = filter (\<lambda>i. fi_status i = ''OPEN'') current in
      \<lparr>fx_from = from, fx_to = to, fx_previous = open_amount previous, fx_current = open_amount current,
       fx_change = open_amount current - open_amount previous,
       fx_rep_commit = total fi_amount (filter (\<lambda>i. fi_category i = ''COMMIT'') open_ones), fx_manager_commit = 0,
       fx_weighted = total fi_weighted open_ones,
       fx_movements = sort_key mv_type (sort_key mv_name
         (concat (map (item_movements previous) (visit (order 0) fi_opportunity current)) @
          concat (map (removed_movement current) (visit (order 1) fi_opportunity previous))))\<rparr>)"

text \<open>The amount managers commit: the latest active override of a deal stands before the deal's own values.\<close>

definition latest_override :: "string \<Rightarrow> 'z intel_tables_scheme \<Rightarrow> override_row option" where
  "latest_override oid t = first_of (sort_desc fo_updated (filter (\<lambda>f. fo_opportunity f = oid \<and> fo_active f) (overrides t)))"

definition committed :: "'z intel_tables_scheme \<Rightarrow> opportunity_row \<Rightarrow> rat" where
  "committed t x =
     (let ov = latest_override (op_id x) t;
          category = case_option (op_category x) id (Option.bind ov fo_category);
          amount = case_option (op_base x) id (Option.bind ov fo_amount) in
      if category = ''COMMIT'' then amount else 0)"

definition manager_commit :: "principal \<Rightarrow> 'z intel_tables_scheme \<Rightarrow> rat" where
  "manager_commit p t = total (committed t) (open_deals p t)"

definition forecast_intelligence :: "principal \<Rightarrow> int \<Rightarrow> (nat \<Rightarrow> string list \<Rightarrow> string list) \<Rightarrow> (nat \<Rightarrow> string) \<Rightarrow> date
    \<Rightarrow> ('z intel_tables_scheme, 'e, forecast_report) go" where
  "forecast_intelligence p days order draw day =
     and_then (require p ''forecast:read'') (\<lambda>_.
     let days = (if days < 1 \<or> days > 365 then 7 else days) in
     and_then (capture_forecast_snapshots draw day) (\<lambda>_.
     and_then (snapshot_date None) (\<lambda>to.
     and_then (snapshot_date (Some (date_of_day (day_number to - days)))) (\<lambda>from.
     and_then (load_snapshot p from) (\<lambda>previous.
     and_then (load_snapshot p to) (\<lambda>current.
     and_then (db_query (manager_commit p)) (\<lambda>commit.
     ret ((forecast_report_of order from to previous current)\<lparr>fx_manager_commit := commit\<rparr>))))))))"

section \<open>Overrides\<close>

record override_input =
  vi_category :: string
  vi_probability :: "rat option"
  vi_amount :: "rat option"
  vi_reason :: string
  vi_version :: int

text \<open>\<open>INSERT \<dots> ON CONFLICT \<dots> DO UPDATE \<dots> WHERE version=\<dots> RETURNING id,version\<close>.\<close>

definition upsert_override :: "override_row \<Rightarrow> int \<Rightarrow> 'z intel_tables_scheme \<Rightarrow> ('z intel_tables_scheme \<times> (string \<times> int) option) option" where
  "upsert_override f version t =
     (let P = (\<lambda>x. fo_opportunity x = fo_opportunity f \<and> fo_manager x = fo_manager f) in
      if \<not> refers op_id (opportunities t) (Some (fo_opportunity f)) \<or> \<not> refers u_id (users t) (Some (fo_manager f)) \<or>
         \<not> case_option True (fits 3) (fo_probability f) \<or> \<not> case_option True (fits 18) (fo_amount f) then None
      else case List.find P (overrides t) of
        Some x \<Rightarrow>
          if fo_version x \<noteq> version then Some (t, None)
          else Some (t\<lparr>overrides := update_where P (\<lambda>x. f\<lparr>fo_id := fo_id x, fo_version := fo_version x + 1\<rparr>) (overrides t)\<rparr>,
            Some (fo_id x, fo_version x + 1))
      | None \<Rightarrow> if fo_id f \<in> set (keys fo_id (overrides t)) then None
          else Some (t\<lparr>overrides := overrides t @ [f]\<rparr>, Some (fo_id f, 1)))"

definition forecast_categories :: "string list" where
  "forecast_categories = [[], ''COMMIT'', ''BEST_CASE'', ''PIPELINE'', ''CLOSED'']"

definition save_forecast_override :: "principal \<Rightarrow> string \<Rightarrow> override_input \<Rightarrow> string \<Rightarrow> client_info \<Rightarrow> string \<Rightarrow> instant
    \<Rightarrow> ('z intel_tables_scheme, intel_error, string \<times> int) go" where
  "save_forecast_override p oid x channel ci fid now =
     and_then (check (has p ''forecast:write'' \<or> has p ''admin:write'') Override_denied) (\<lambda>_.
     and_then (get_opportunity p oid) (\<lambda>opp.
     and_then (check (\<not> blank (vi_reason x)) Override_reason_missing) (\<lambda>_.
     and_then (check (vi_category x \<in> set forecast_categories) Bad_forecast_category) (\<lambda>_.
     and_then (if is_bootstrap p \<or> has p ''admin:write'' then ret ()
        else and_then (db_row (\<lambda>t. map_option u_manager (row_by u_id (op_owner opp) (users t)))) (\<lambda>m.
          check (m = Some (user_id p)) Not_the_manager)) (\<lambda>_.
     and_then (check (case vi_probability x of None \<Rightarrow> True | Some n \<Rightarrow> 0 \<le> n \<and> n \<le> 100) Bad_probability) (\<lambda>_.
     and_then (check (case vi_amount x of None \<Rightarrow> True | Some n \<Rightarrow> 0 \<le> n) Negative_override) (\<lambda>_.
     and_then (db_exec (upsert_override \<lparr>fo_id = fid, fo_opportunity = oid, fo_manager = user_id p,
        fo_category = (if vi_category x = [] then None else Some (vi_category x)),
        fo_probability = map_option (numeric 2) (vi_probability x), fo_amount = map_option (numeric 2) (vi_amount x),
        fo_reason = trim_space (vi_reason x), fo_active = True, fo_version = 1, fo_updated = now\<rparr> (vi_version x))) (\<lambda>r.
     case r of
       None \<Rightarrow> raise (App Override_changed)
     | Some out \<Rightarrow> and_then (crm_audit p channel ci ''FORECAST_OVERRIDE'' ''opportunity'' oid) (\<lambda>_. ret out)))))))))"

section \<open>Coaching\<close>

record coaching_owner =
  co_owner :: string
  co_name :: string
  co_open :: nat
  co_at_risk :: nat
  co_no_next :: nat
  co_stalled :: nat
  co_pipeline :: rat
  co_weighted :: rat
  co_health :: rat

record coaching_board =
  cb_threshold :: int
  cb_attention :: "deal_health list"
  cb_owners :: "coaching_owner list"

definition owner_summary :: "(string \<Rightarrow> string) \<Rightarrow> int \<Rightarrow> (opportunity_row \<times> deal_health) list \<Rightarrow> string \<Rightarrow> coaching_owner" where
  "owner_summary names threshold xs owner =
     (let mine = filter (\<lambda>(x, h). op_owner x = owner) xs;
          codes = concat (map (\<lambda>(x, h). map hf_code (dh_factors h)) mine) in
      \<lparr>co_owner = owner, co_name = names owner, co_open = length mine,
       co_at_risk = count_where (\<lambda>(x, h). dh_risk h \<ge> threshold) mine, co_no_next = count_where (\<lambda>c. c = ''NO_NEXT_ACTION'') codes,
       co_stalled = count_where (\<lambda>c. c = ''STAGE_STALLED'') codes, co_pipeline = total (\<lambda>(x, h). op_base x) mine,
       co_weighted = total (\<lambda>(x, h). op_weighted x) mine,
       co_health = (if mine = [] then 0 else of_int (sum_list (map (\<lambda>(x, h). dh_health h) mine)) / of_nat (length mine))\<rparr>)"

definition coaching :: "principal \<Rightarrow> (string \<Rightarrow> string) \<Rightarrow> (string list \<Rightarrow> string list) \<Rightarrow> date \<Rightarrow> instant
    \<Rightarrow> ('z intel_tables_scheme, crm_error, coaching_board) go" where
  "coaching p names order today now =
     and_then (require p ''opportunity:read'') (\<lambda>_.
     and_then (number_setting ''sales_intelligence'' ''risk_threshold'' 40) (\<lambda>threshold.
     and_then (list_opportunities p open_filter now today) (\<lambda>page.
     and_then (health_of (map fst (pg_items page)) today now) (\<lambda>hs.
     let xs = zip (map fst (pg_items page)) hs in
     ret \<lparr>cb_threshold = threshold,
       cb_attention = take 25 (sort_desc dh_risk (filter (\<lambda>h. dh_risk h \<ge> threshold) hs)),
       cb_owners = sort_desc (\<lambda>c. int (co_at_risk c)) (sort_key co_name
         (map (owner_summary names threshold xs) (order (remdups (map (op_owner \<circ> fst) xs)))))\<rparr>))))"

end
