(* ===== verification/Forecast_Props.thy ===== *)
theory Forecast_Props
  imports Forecast Samples "HOL-Library.Multiset"
begin

text \<open>
  What the movements of a forecast (Forecast) amount to: a movement for each way a deal enters, leaves or
  changes the open pipeline, summed whatever the order in which Go visits its maps.
\<close>

section \<open>Movements\<close>

text \<open>Go visits every entry of a map once.\<close>

definition visits_once :: "(nat \<Rightarrow> string list \<Rightarrow> string list) \<Rightarrow> bool" where
  "visits_once order \<longleftrightarrow> (\<forall>i xs. mset (order i xs) = mset xs)"

lemma map_filter_some: "(\<And>x. x \<in> set xs \<Longrightarrow> f x = Some (g x)) \<Longrightarrow> List.map_filter f xs = map g xs"
  by (induction xs) (simp_all add: map_filter_def)

lemma visit_rows:
  assumes "distinct (keys key rows)"
  shows "List.map_filter (\<lambda>k. row_by key k rows) (map key rows) = rows"
proof -
  have "List.map_filter (\<lambda>k. row_by key k rows) (map key rows) = List.map_filter (\<lambda>r. row_by key (key r) rows) rows"
    by (simp add: map_filter_def filter_map o_def)
  also have "\<dots> = map (\<lambda>r. r) rows" by (rule map_filter_some) (rule row_by_unique [OF assms])
  finally show ?thesis by simp
qed

lemma mset_map_filter: "mset (List.map_filter f xs) = image_mset (the \<circ> f) (filter_mset (\<lambda>x. f x \<noteq> None) (mset xs))"
  by (simp add: map_filter_def mset_filter)

lemma mset_visit:
  assumes "visits_once order" and "distinct (keys key rows)"
  shows "mset (visit (order i) key rows) = mset rows"
proof -
  have "mset (visit (order i) key rows) = mset (List.map_filter (\<lambda>k. row_by key k rows) (map key rows))"
    unfolding visit_def mset_map_filter using assms(1) by (simp add: visits_once_def)
  then show ?thesis by (simp add: visit_rows [OF assms(2)])
qed

lemma total_mset: "mset xs = mset ys \<Longrightarrow> total f xs = total f ys"
  unfolding total_def by (metis mset_map sum_mset_sum_list)

lemma total_concat: "total f (concat (map g xs)) = total (\<lambda>x. total f (g x)) xs"
  by (induction xs) (simp_all add: total_def)

lemma total_append [simp]: "total f (xs @ ys) = total f xs + total f ys"
  by (simp add: total_def)

lemma total_Nil [simp]: "total f [] = 0" and total_Cons [simp]: "total f (x # xs) = f x + total f xs"
  by (simp_all add: total_def)

lemma total_filter: "total f (filter P xs) = total (\<lambda>x. if P x then f x else 0) xs"
  by (induction xs) (simp_all add: total_def)

text \<open>The amounts of the movements that are no slippage.\<close>

definition explained_amount :: "movement list \<Rightarrow> rat" where
  "explained_amount ms = total mv_amount (filter (\<lambda>m. mv_type m \<noteq> ''SLIPPAGE'') ms)"

lemma explained_append [simp]: "explained_amount (xs @ ys) = explained_amount xs + explained_amount ys"
  by (simp add: explained_amount_def)

lemma explained_concat: "explained_amount (concat (map g xs)) = total (\<lambda>x. explained_amount (g x)) xs"
  by (induction xs) (simp_all add: explained_amount_def)

lemma explained_mset: "mset xs = mset ys \<Longrightarrow> explained_amount xs = explained_amount ys"
  unfolding explained_amount_def by (rule total_mset) (simp add: mset_filter)

text \<open>
  What the movements leave unexplained: a reopened deal comes back without a movement for its whole
  amount, and a closed deal whose amount changes is reported although it is in no pipeline.
\<close>

definition unexplained :: "named_item list \<Rightarrow> named_item \<Rightarrow> rat" where
  "unexplained previous i =
     (case row_by fi_opportunity (fi_opportunity i) previous of
        None \<Rightarrow> 0
      | Some b \<Rightarrow> if fi_status b = ''OPEN'' then 0
          else if fi_status i = ''OPEN'' then fi_amount b else fi_amount b - fi_amount i)"

definition open_part :: "named_item \<Rightarrow> rat" where
  "open_part i = (if fi_status i = ''OPEN'' then fi_amount i else 0)"

lemma moved_sel [simp]: "mv_type (moved k a i) = k" "mv_amount (moved k a i) = a"
  by (simp_all add: moved_def)

lemma item_movements_account:
  assumes "\<forall>b \<in> set previous. fi_status b \<in> {''OPEN'', ''WON'', ''LOST''}" and "fi_status i \<in> {''OPEN'', ''WON'', ''LOST''}"
  shows "explained_amount (item_movements previous i) + unexplained previous i =
    open_part i - (case row_by fi_opportunity (fi_opportunity i) previous of None \<Rightarrow> 0 | Some b \<Rightarrow> open_part b)"
proof (cases "row_by fi_opportunity (fi_opportunity i) previous")
  case (Some b)
  have s: "explained_amount (case (fi_close b, fi_close i) of (Some x, Some y) \<Rightarrow>
      if x < y then [moved ''SLIPPAGE'' (- fi_amount i) i] else [] | _ \<Rightarrow> []) = 0"
    by (simp add: explained_amount_def split: option.split)
  have "fi_status b \<in> {''OPEN'', ''WON'', ''LOST''}" using assms(1) row_by_Some_mem [OF Some] by blast
  then show ?thesis
    using assms(2) Some s
    by (auto simp: item_movements_def unexplained_def open_part_def) (auto simp: explained_amount_def)
qed (simp add: item_movements_def unexplained_def open_part_def explained_amount_def)

text \<open>The amounts of the previous deals, split by whether the deal is there now.\<close>

lemma present_amounts:
  assumes "distinct (keys fi_opportunity current)" and "distinct (keys fi_opportunity previous)"
  shows "total (\<lambda>i. case row_by fi_opportunity (fi_opportunity i) previous of None \<Rightarrow> 0 | Some b \<Rightarrow> open_part b) current =
    total (\<lambda>b. if fi_opportunity b \<in> set (keys fi_opportunity current) then open_part b else 0) previous"
  using assms(1)
proof (induction current)
  case Nil then show ?case by (induction previous) (simp_all add: keys_def)
next
  case (Cons i current)
  have new: "fi_opportunity i \<notin> set (keys fi_opportunity current)" using Cons.prems by (simp add: keys_def)
  have "total (\<lambda>b. if fi_opportunity b \<in> set (keys fi_opportunity (i # current)) then open_part b else 0) xs =
      total (\<lambda>b. if fi_opportunity b \<in> set (keys fi_opportunity current) then open_part b else 0) xs +
      (case row_by fi_opportunity (fi_opportunity i) xs of None \<Rightarrow> 0 | Some b \<Rightarrow> open_part b)"
    if "distinct (keys fi_opportunity xs)" for xs
    using that
  proof (induction xs)
    case (Cons b xs)
    then show ?case
      using new row_by_None_iff [of fi_opportunity "fi_opportunity b" xs]
      by (auto simp: keys_def)
  qed simp
  then show ?case using Cons assms(2) by (simp add: keys_def)
qed

lemma removed_account:
  "explained_amount (removed_movement current b) = (if fi_opportunity b \<in> set (keys fi_opportunity current) then 0 else - open_part b)"
  by (simp add: removed_movement_def explained_amount_def open_part_def)


text \<open>
  A deal grows by 20, another of 30 is gone, a new one of 10 comes in and a lost deal of 50 is reopened:
  the movements cancel out, and the change of 50 is the reopened deal.
\<close>

definition toy_item :: "string \<Rightarrow> string \<Rightarrow> rat \<Rightarrow> named_item" where
  "toy_item oid status amount = \<lparr>fi_snapshot = ''f1'', fi_opportunity = oid, fi_owner = ''u1'', fi_category = ''PIPELINE'',
     fi_status = status, fi_stage = ''s1'', fi_stage_name = ''New'', fi_amount = amount, fi_weighted = 0, fi_probability = 0,
     fi_close = None, fi_name = oid\<rparr>"

definition toy_before :: "named_item list" where
  "toy_before = [toy_item ''o1'' ''OPEN'' 100, toy_item ''o2'' ''LOST'' 50, toy_item ''o3'' ''OPEN'' 30]"

definition toy_after :: "named_item list" where
  "toy_after = [toy_item ''o1'' ''OPEN'' 120, toy_item ''o2'' ''OPEN'' 50, toy_item ''o4'' ''OPEN'' 10]"

definition toy_report :: forecast_report where
  "toy_report = forecast_report_of (\<lambda>_. rev) (date_of_day 20000) (date_of_day 20007)
     toy_before toy_after"


end
