(* ===== verification/Spec2Isabelle.thy ===== *)
theory Spec2Isabelle
  imports Auth_Facts Apikey_Life Job Approval_Facts Revenue_Facts Crm_Facts Crm_Accounts Voice_Props Voice_Admin Gate_Facts Engine_Results Stage_Gate Deal_Scores Forecast_Props
begin

text \<open>Skeleton of the Relio verification development.\<close>

end
